(* ===== verification/Prelude.thy ===== *)
theory Prelude
  imports Main "HOL-Library.Word"
begin

unbundle bit_operations_syntax

text \<open>
  Shared vocabulary of the development.

  \<^item> Machine integers: \<open>u8\<close>, \<open>u16\<close>, \<open>u32\<close>, \<open>u64\<close> are words of HOL-Library.Word; the ESP32 is
    little-endian, so an integer in memory is the list of its bytes, lowest first.
  \<^item> C faults: a failed \<^verbatim>\<open>assert\<close>, a dereference of NULL, an access outside an object, a division
    by zero, \<^verbatim>\<open>__unreachable()\<close> and a loop that never ends are values of \<open>fault\<close>.
  \<^item> Commands: stateful C functions are functions from a state to either a fault or a result and
    the new state. \<open>ret\<close>, \<open>bind_c\<close>, \<open>throw\<close>, \<open>assert_c\<close>, \<open>gets_c\<close>, \<open>modify_c\<close> and \<open>lift_c\<close> are the
    primitives from which every operation is composed.
  \<^item> Hoare triples over commands (\<open>hoare\<close>, partial in the faults) and freedom from faults
    (\<open>runs\<close>), with their composition rules collected in \<open>hoare_rules\<close>, \<open>preserves_rules\<close> and \<open>runs_rules\<close>.
  \<^item> Byte regions: reading and writing a slice of a memory object with its bound written out.
\<close>

named_theorems hoare_rules "composition rules for Hoare triples"
named_theorems byte_simps "equations between integers and their bytes"
named_theorems cmd_simps "unfolding of the command primitives"

section \<open>Machine integers and their bytes\<close>

type_synonym u8 = "8 word"
type_synonym u16 = "16 word"
type_synonym u32 = "32 word"
type_synonym u64 = "64 word"
type_synonym bytes = "u8 list"

definition le16 :: "u16 \<Rightarrow> bytes" where
  "le16 w = [ucast w, ucast (drop_bit 8 w)]"

definition of_le16 :: "bytes \<Rightarrow> u16" where
  "of_le16 bs = ucast (bs ! 0) OR push_bit 8 (ucast (bs ! 1))"

definition le32 :: "u32 \<Rightarrow> bytes" where
  "le32 w = [ucast w, ucast (drop_bit 8 w), ucast (drop_bit 16 w), ucast (drop_bit 24 w)]"

definition of_le32 :: "bytes \<Rightarrow> u32" where
  "of_le32 bs = ucast (bs ! 0) OR push_bit 8 (ucast (bs ! 1)) OR
     push_bit 16 (ucast (bs ! 2)) OR push_bit 24 (ucast (bs ! 3))"

text \<open>The byte-swapping built-ins behind \<^verbatim>\<open>bswap16\<close> and \<^verbatim>\<open>bswap32\<close>.\<close>

definition bswap16 :: "u16 \<Rightarrow> u16" where
  "bswap16 w = of_le16 (rev (le16 w))"

definition bswap32 :: "u32 \<Rightarrow> u32" where
  "bswap32 w = of_le32 (rev (le32 w))"

section \<open>Faults and commands\<close>

datatype fault =
    Assert_Failed
  | Null_Deref
  | Out_Of_Bounds
  | Div_By_Zero
  | Unreachable
  | Loops_Forever

type_synonym 'a res = "fault + 'a"
type_synonym ('s, 'a) cmd = "'s \<Rightarrow> fault + ('a \<times> 's)"

definition bind_r :: "'a res \<Rightarrow> ('a \<Rightarrow> 'b res) \<Rightarrow> 'b res" where
  "bind_r m f = (case m of Inl e \<Rightarrow> Inl e | Inr a \<Rightarrow> f a)"

definition ret :: "'a \<Rightarrow> ('s, 'a) cmd" where
  "ret a = (\<lambda>s. Inr (a, s))"

definition throw :: "fault \<Rightarrow> ('s, 'a) cmd" where
  "throw e = (\<lambda>s. Inl e)"

definition bind_c :: "('s, 'a) cmd \<Rightarrow> ('a \<Rightarrow> ('s, 'b) cmd) \<Rightarrow> ('s, 'b) cmd" where
  "bind_c m f = (\<lambda>s. case m s of Inl e \<Rightarrow> Inl e | Inr (a, s') \<Rightarrow> f a s')"

definition then_c :: "('s, 'a) cmd \<Rightarrow> ('s, 'b) cmd \<Rightarrow> ('s, 'b) cmd" where
  "then_c m n = bind_c m (\<lambda>_. n)"

definition assert_c :: "bool \<Rightarrow> ('s, unit) cmd" where
  "assert_c b = (if b then ret () else throw Assert_Failed)"

definition gets_c :: "('s \<Rightarrow> 'a) \<Rightarrow> ('s, 'a) cmd" where
  "gets_c f = (\<lambda>s. Inr (f s, s))"

definition modify_c :: "('s \<Rightarrow> 's) \<Rightarrow> ('s, unit) cmd" where
  "modify_c f = (\<lambda>s. Inr ((), f s))"

definition lift_c :: "'a res \<Rightarrow> ('s, 'a) cmd" where
  "lift_c r = (\<lambda>s. case r of Inl e \<Rightarrow> Inl e | Inr a \<Rightarrow> Inr (a, s))"

text \<open>A pointer that the code follows: NULL is a fault.\<close>

definition deref_c :: "'a option \<Rightarrow> ('s, 'a) cmd" where
  "deref_c p = (case p of None \<Rightarrow> throw Null_Deref | Some a \<Rightarrow> ret a)"

text \<open>A query computes a value from the state and leaves the state as it is.\<close>

definition query :: "('s \<Rightarrow> 'a res) \<Rightarrow> ('s, 'a) cmd" where
  "query q = (\<lambda>s. case q s of Inl e \<Rightarrow> Inl e | Inr a \<Rightarrow> Inr (a, s))"

text \<open>A loop that runs a command for every element of a list.\<close>

fun for_c :: "'a list \<Rightarrow> ('a \<Rightarrow> ('s, unit) cmd) \<Rightarrow> ('s, unit) cmd" where
  "for_c [] f = ret ()"
| "for_c (x # xs) f = then_c (f x) (for_c xs f)"

text \<open>The position of the first element with a property.\<close>

fun find_index :: "('a \<Rightarrow> bool) \<Rightarrow> 'a list \<Rightarrow> nat option" where
  "find_index P [] = None"
| "find_index P (x # xs) = (if P x then Some 0 else map_option Suc (find_index P xs))"

section \<open>Hoare triples\<close>

definition hoare :: "('s \<Rightarrow> bool) \<Rightarrow> ('s, 'a) cmd \<Rightarrow> ('a \<Rightarrow> 's \<Rightarrow> bool) \<Rightarrow> bool" where
  "hoare P m Q \<longleftrightarrow> (\<forall>s a s'. P s \<longrightarrow> m s = Inr (a, s') \<longrightarrow> Q a s')"

section \<open>Byte regions\<close>

text \<open>
  An object in memory is the list of its bytes. \<open>load\<close> reads \<open>n\<close> bytes at offset \<open>off\<close>, \<open>store\<close>
  overwrites them; both fault when the access leaves the object.
\<close>

definition slice :: "nat \<Rightarrow> nat \<Rightarrow> 'a list \<Rightarrow> 'a list" where
  "slice off n xs = take n (drop off xs)"

definition splice :: "nat \<Rightarrow> 'a list \<Rightarrow> 'a list \<Rightarrow> 'a list" where
  "splice off ys xs = take off xs @ ys @ drop (off + length ys) xs"

definition load :: "nat \<Rightarrow> nat \<Rightarrow> 'a list \<Rightarrow> 'a list res" where
  "load off n xs = (if off + n \<le> length xs then Inr (slice off n xs) else Inl Out_Of_Bounds)"

definition store :: "nat \<Rightarrow> 'a list \<Rightarrow> 'a list \<Rightarrow> 'a list res" where
  "store off ys xs =
     (if off + length ys \<le> length xs then Inr (splice off ys xs) else Inl Out_Of_Bounds)"

text \<open>
  \<^verbatim>\<open>strnlen\<close>: the number of bytes before the first NUL, at most \<open>n\<close>; it faults when it runs off the
  object before it finds a NUL or has counted to \<open>n\<close>.
\<close>

fun strnlen :: "bytes \<Rightarrow> nat \<Rightarrow> nat res" where
  "strnlen bs 0 = Inr 0"
| "strnlen [] (Suc n) = Inl Out_Of_Bounds"
| "strnlen (b # bs) (Suc n) = (if b = 0 then Inr 0 else bind_r (strnlen bs n) (\<lambda>k. Inr (Suc k)))"

section \<open>Lemmas: integers and bytes\<close>

lemma length_le16 [simp]: "length (le16 w) = 2"
  by (simp add: le16_def)

lemma length_le32 [simp]: "length (le32 w) = 4"
  by (simp add: le32_def)

lemma of_le16_le16 [simp]: "of_le16 (le16 w) = w"
  unfolding of_le16_def le16_def by (rule bit_word_eqI) (auto simp: bit_simps)

lemma bit_above_byte: "8 \<le> n \<Longrightarrow> \<not> bit (b :: u8) n"
  using bit_imp_le_length [of b n] by auto

lemma of_le32_le32 [simp]: "of_le32 (le32 w) = w"
proof (rule bit_word_eqI)
  fix n assume "n < LENGTH(32)"
  then consider "n < 8" | "8 \<le> n" "n < 16" | "16 \<le> n" "n < 24" | "24 \<le> n" "n < 32"
    by fastforce
  then show "bit (of_le32 (le32 w)) n = bit w n"
    by cases (auto simp: of_le32_def le32_def bit_simps bit_above_byte)
qed

lemma of_le16_bytes: "le16 (of_le16 [a, b]) = [a, b]"
  unfolding of_le16_def le16_def
  by (auto simp: bit_simps bit_above_byte intro!: bit_word_eqI)

lemma of_le32_bytes: "le32 (of_le32 [a, b, c, d]) = [a, b, c, d]"
  unfolding of_le32_def le32_def
  by (auto simp: bit_simps bit_above_byte intro!: bit_word_eqI)

lemma le16_inject [simp]: "le16 a = le16 b \<longleftrightarrow> a = b"
  by (metis of_le16_le16)

lemma le32_inject [simp]: "le32 a = le32 b \<longleftrightarrow> a = b"
  by (metis of_le32_le32)

lemma le16_of_le16_length: "length bs = 2 \<Longrightarrow> le16 (of_le16 bs) = bs"
  by (auto simp: numeral_eq_Suc length_Suc_conv of_le16_bytes)

lemma le32_of_le32_length: "length bs = 4 \<Longrightarrow> le32 (of_le32 bs) = bs"
  by (auto simp: numeral_eq_Suc length_Suc_conv of_le32_bytes)

lemma of_nat_u32_eq_0_iff: "n < 2 ^ 32 \<Longrightarrow> (of_nat n :: u32) = 0 \<longleftrightarrow> n = 0"
  using nat_dvd_not_less [of n "2 ^ 32"] by (auto simp: word_of_nat_eq_0_iff)

lemma bswap16_bytes: "le16 (bswap16 w) = rev (le16 w)"
  by (simp add: bswap16_def le16_of_le16_length)

lemma bswap32_bytes: "le32 (bswap32 w) = rev (le32 w)"
  by (simp add: bswap32_def le32_of_le32_length)

lemma bswap16_bswap16 [simp]: "bswap16 (bswap16 w) = w"
  by (metis bswap16_bytes le16_inject rev_rev_ident)

lemma bswap32_bswap32 [simp]: "bswap32 (bswap32 w) = w"
  by (metis bswap32_bytes le32_inject rev_rev_ident)

section \<open>Lemmas: commands\<close>

lemma bind_r_simps [simp]:
  "bind_r (Inl e) f = Inl e"
  "bind_r (Inr a) f = f a"
  by (simp_all add: bind_r_def)

lemma bind_r_Inr_iff: "bind_r m f = Inr b \<longleftrightarrow> (\<exists>a. m = Inr a \<and> f a = Inr b)"
  by (cases m) auto

lemma bind_r_Inl_iff: "bind_r m f = Inl e \<longleftrightarrow> m = Inl e \<or> (\<exists>a. m = Inr a \<and> f a = Inl e)"
  by (cases m) auto

lemma ret_apply [simp, cmd_simps]: "ret a s = Inr (a, s)"
  by (simp add: ret_def)

lemma throw_apply [simp, cmd_simps]: "throw e s = Inl e"
  by (simp add: throw_def)

lemma gets_c_apply [simp, cmd_simps]: "gets_c f s = Inr (f s, s)"
  by (simp add: gets_c_def)

lemma modify_c_apply [simp, cmd_simps]: "modify_c f s = Inr ((), f s)"
  by (simp add: modify_c_def)

lemma assert_c_apply [simp, cmd_simps]:
  "assert_c b s = (if b then Inr ((), s) else Inl Assert_Failed)"
  by (simp add: assert_c_def)

lemma lift_c_apply [simp, cmd_simps]:
  "lift_c (Inl e) s = Inl e"
  "lift_c (Inr a) s = Inr (a, s)"
  by (simp_all add: lift_c_def)

lemma deref_c_apply [simp, cmd_simps]:
  "deref_c None s = Inl Null_Deref"
  "deref_c (Some a) s = Inr (a, s)"
  by (simp_all add: deref_c_def)

lemma query_apply [simp, cmd_simps]:
  "q s = Inl e \<Longrightarrow> query q s = Inl e"
  "q s = Inr a \<Longrightarrow> query q s = Inr (a, s)"
  by (simp_all add: query_def)

lemma query_Inr_iff: "query q s = Inr (a, t) \<longleftrightarrow> q s = Inr a \<and> t = s"
  by (auto simp: query_def split: sum.splits)

lemma find_index_Some_iff:
  "find_index P xs = Some i \<longleftrightarrow> i < length xs \<and> P (xs ! i) \<and> (\<forall>j < i. \<not> P (xs ! j))"
proof (induction xs arbitrary: i)
  case (Cons x xs)
  then show ?case
    by (cases i) (auto simp: less_Suc_eq_0_disj)
qed simp

lemma find_index_None_iff: "find_index P xs = None \<longleftrightarrow> (\<forall>x \<in> set xs. \<not> P x)"
  by (induction xs) auto

lemma bind_c_Inl [simp]: "m s = Inl e \<Longrightarrow> bind_c m f s = Inl e"
  by (simp add: bind_c_def)

lemma bind_c_Inr [simp]: "m s = Inr (a, s') \<Longrightarrow> bind_c m f s = f a s'"
  by (simp add: bind_c_def)

lemma then_c_Inl [simp]: "m s = Inl e \<Longrightarrow> then_c m n s = Inl e"
  by (simp add: then_c_def)

lemma then_c_Inr [simp]: "m s = Inr (a, s') \<Longrightarrow> then_c m n s = n s'"
  by (simp add: then_c_def)

lemma bind_c_Inr_iff:
  "bind_c m f s = Inr (b, t) \<longleftrightarrow> (\<exists>a s'. m s = Inr (a, s') \<and> f a s' = Inr (b, t))"
  by (auto simp: bind_c_def split: sum.splits)

lemma then_c_Inr_iff:
  "then_c m n s = Inr (b, t) \<longleftrightarrow> (\<exists>a s'. m s = Inr (a, s') \<and> n s' = Inr (b, t))"
  by (simp add: then_c_def bind_c_Inr_iff)

lemma lift_c_Inr_iff: "lift_c r s = Inr (a, t) \<longleftrightarrow> r = Inr a \<and> t = s"
  by (auto simp: lift_c_def split: sum.splits)

lemmas cmd_Inr_iff = bind_c_Inr_iff then_c_Inr_iff lift_c_Inr_iff query_Inr_iff bind_r_Inr_iff

section \<open>Lemmas: Hoare triples\<close>

lemma hoareI: "(\<And>s a s'. P s \<Longrightarrow> m s = Inr (a, s') \<Longrightarrow> Q a s') \<Longrightarrow> hoare P m Q"
  by (simp add: hoare_def)

lemma hoareD: "hoare P m Q \<Longrightarrow> P s \<Longrightarrow> m s = Inr (a, s') \<Longrightarrow> Q a s'"
  by (simp add: hoare_def)

lemma hoare_pre: "hoare P' m Q \<Longrightarrow> (\<And>s. P s \<Longrightarrow> P' s) \<Longrightarrow> hoare P m Q"
  by (auto simp: hoare_def)

lemma hoare_post: "hoare P m Q' \<Longrightarrow> (\<And>a s. Q' a s \<Longrightarrow> Q a s) \<Longrightarrow> hoare P m Q"
  by (auto simp: hoare_def)

lemma hoare_ret [hoare_rules]: "(\<And>s. P s \<Longrightarrow> Q a s) \<Longrightarrow> hoare P (ret a) Q"
  by (simp add: hoare_def)

lemma hoare_throw [hoare_rules]: "hoare P (throw e) Q"
  by (simp add: hoare_def)

lemma hoare_assert [hoare_rules]:
  "(\<And>s. P s \<Longrightarrow> b \<Longrightarrow> Q () s) \<Longrightarrow> hoare P (assert_c b) Q"
  by (simp add: hoare_def)

lemma hoare_gets [hoare_rules]:
  "(\<And>s. P s \<Longrightarrow> Q (f s) s) \<Longrightarrow> hoare P (gets_c f) Q"
  by (auto simp: hoare_def)

lemma hoare_modify [hoare_rules]:
  "(\<And>s. P s \<Longrightarrow> Q () (f s)) \<Longrightarrow> hoare P (modify_c f) Q"
  by (auto simp: hoare_def)

lemma hoare_lift [hoare_rules]:
  "(\<And>s a. P s \<Longrightarrow> r = Inr a \<Longrightarrow> Q a s) \<Longrightarrow> hoare P (lift_c r) Q"
  by (auto simp: hoare_def lift_c_Inr_iff)

lemma hoare_deref [hoare_rules]:
  "(\<And>s a. P s \<Longrightarrow> p = Some a \<Longrightarrow> Q a s) \<Longrightarrow> hoare P (deref_c p) Q"
  by (cases p) (auto simp: hoare_def)

lemma hoare_if [hoare_rules]:
  "(b \<Longrightarrow> hoare P m Q) \<Longrightarrow> (\<not> b \<Longrightarrow> hoare P n Q) \<Longrightarrow> hoare P (if b then m else n) Q"
  by simp

lemma hoare_bind:
  "hoare P m R \<Longrightarrow> (\<And>a. hoare (R a) (f a) Q) \<Longrightarrow> hoare P (bind_c m f) Q"
  by (fastforce simp: hoare_def bind_c_Inr_iff)

text \<open>
  Most preservation proofs use one invariant throughout: then every intermediate assertion is the
  invariant itself and the rules below compose without any instantiation.
\<close>

definition preserves :: "('s \<Rightarrow> bool) \<Rightarrow> ('s, 'a) cmd \<Rightarrow> bool" where
  "preserves I m \<longleftrightarrow> hoare I m (\<lambda>_. I)"

lemma preservesI: "(\<And>s a s'. I s \<Longrightarrow> m s = Inr (a, s') \<Longrightarrow> I s') \<Longrightarrow> preserves I m"
  by (simp add: preserves_def hoare_def)

lemma preservesD: "preserves I m \<Longrightarrow> I s \<Longrightarrow> m s = Inr (a, s') \<Longrightarrow> I s'"
  by (simp add: preserves_def hoare_def)

named_theorems preserves_rules "composition rules for invariants kept by commands"

lemma preserves_pure [preserves_rules]:
  "preserves I (ret a)" "preserves I (throw e)" "preserves I (assert_c b)"
  "preserves I (gets_c f)" "preserves I (lift_c r)" "preserves I (deref_c p)"
  by (auto simp: preserves_def intro!: hoare_rules)

lemma preserves_query [preserves_rules]: "preserves I (query q)"
  by (rule preservesI) (simp add: query_Inr_iff)

lemma preserves_modify: "(\<And>s. I s \<Longrightarrow> I (f s)) \<Longrightarrow> preserves I (modify_c f)"
  by (auto simp: preserves_def intro!: hoare_rules)

lemma preserves_bind [preserves_rules]:
  "preserves I m \<Longrightarrow> (\<And>a. preserves I (f a)) \<Longrightarrow> preserves I (bind_c m f)"
  unfolding preserves_def by (rule hoare_bind)

lemma preserves_then [preserves_rules]:
  "preserves I m \<Longrightarrow> preserves I n \<Longrightarrow> preserves I (then_c m n)"
  unfolding then_c_def by (rule preserves_bind)

lemma preserves_if [preserves_rules]:
  "preserves I m \<Longrightarrow> preserves I n \<Longrightarrow> preserves I (if b then m else n)"
  by simp

lemma preserves_option [preserves_rules]:
  "preserves I m \<Longrightarrow> (\<And>x. preserves I (f x)) \<Longrightarrow>
     preserves I (case p of None \<Rightarrow> m | Some x \<Rightarrow> f x)"
  by (cases p) simp_all

lemma preserves_prod [preserves_rules]:
  "(\<And>x y. preserves I (f x y)) \<Longrightarrow> preserves I (case p of (x, y) \<Rightarrow> f x y)"
  by (cases p) simp

lemma preserves_for [preserves_rules]:
  "(\<And>x. preserves I (f x)) \<Longrightarrow> preserves I (for_c xs f)"
  by (induction xs) (auto intro: preserves_rules)

lemma preserves_let [preserves_rules]:
  "(\<And>x. preserves I (f x)) \<Longrightarrow> preserves I (let x = a in f x)"
  by simp

text \<open>A command runs under an invariant when it returns, without a fault, and keeps the invariant.\<close>

definition runs :: "('s \<Rightarrow> bool) \<Rightarrow> ('s, 'a) cmd \<Rightarrow> bool" where
  "runs I m \<longleftrightarrow> (\<forall>s. I s \<longrightarrow> (\<exists>a s'. m s = Inr (a, s') \<and> I s'))"

named_theorems runs_rules "composition rules for commands that run under an invariant"

lemma runsI: "(\<And>s. I s \<Longrightarrow> \<exists>a s'. m s = Inr (a, s') \<and> I s') \<Longrightarrow> runs I m"
  by (simp add: runs_def)

lemma runsD: "runs I m \<Longrightarrow> I s \<Longrightarrow> \<exists>a s'. m s = Inr (a, s') \<and> I s'"
  by (simp add: runs_def)

lemma runsE:
  assumes "runs I m" "I s"
  obtains a s' where "m s = Inr (a, s')" "I s'"
  using assms by (auto simp: runs_def)

lemma runs_pure [runs_rules]:
  "runs I (ret a)" "runs I (gets_c f)" "b \<Longrightarrow> runs I (assert_c b)" "runs I (lift_c (Inr x))"
  by (simp_all add: runs_def)

lemma runs_modify: "(\<And>s. I s \<Longrightarrow> I (f s)) \<Longrightarrow> runs I (modify_c f)"
  by (simp add: runs_def)

lemma runs_bind [runs_rules]:
  "runs I m \<Longrightarrow> (\<And>a. runs I (f a)) \<Longrightarrow> runs I (bind_c m f)"
  unfolding runs_def by (metis bind_c_Inr)

lemma runs_then [runs_rules]: "runs I m \<Longrightarrow> runs I n \<Longrightarrow> runs I (then_c m n)"
  unfolding then_c_def by (rule runs_bind)

lemma runs_if [runs_rules]: "(b \<Longrightarrow> runs I m) \<Longrightarrow> (\<not> b \<Longrightarrow> runs I n) \<Longrightarrow> runs I (if b then m else n)"
  by simp

lemma runs_for [runs_rules]: "(\<And>x. runs I (f x)) \<Longrightarrow> runs I (for_c xs f)"
  by (induction xs) (auto intro: runs_rules)

section \<open>Lemmas: byte regions\<close>

lemma length_slice [simp]: "off + n \<le> length xs \<Longrightarrow> length (slice off n xs) = n"
  by (simp add: slice_def)

lemma slice_0 [simp]: "slice off 0 xs = []"
  by (simp add: slice_def)

lemma slice_full: "slice 0 (length xs) xs = xs"
  by (simp add: slice_def)

lemma nth_slice: "i < n \<Longrightarrow> off + n \<le> length xs \<Longrightarrow> slice off n xs ! i = xs ! (off + i)"
  by (simp add: slice_def)

lemma length_splice [simp]:
  "off + length ys \<le> length xs \<Longrightarrow> length (splice off ys xs) = length xs"
  by (simp add: splice_def)

lemma nth_splice:
  "off + length ys \<le> length xs \<Longrightarrow> i < length xs \<Longrightarrow>
   splice off ys xs ! i =
     (if off \<le> i \<and> i < off + length ys then ys ! (i - off) else xs ! i)"
  by (auto simp: splice_def nth_append min_def intro!: arg_cong [where f = "\<lambda>k. xs ! k"])

lemma slice_splice_same [simp]:
  "off + length ys \<le> length xs \<Longrightarrow> n = length ys \<Longrightarrow> slice off n (splice off ys xs) = ys"
  by (simp add: slice_def splice_def)

lemma slice_splice_other:
  assumes "off + length ys \<le> length xs" "i + n \<le> off \<or> off + length ys \<le> i"
    and "i + n \<le> length xs"
  shows "slice i n (splice off ys xs) = slice i n xs"
  using assms by (intro nth_equalityI) (auto simp: nth_slice nth_splice)

lemma splice_append:
  "off + length ys + length zs \<le> length xs \<Longrightarrow>
   splice (off + length ys) zs (splice off ys xs) = splice off (ys @ zs) xs"
  by (intro nth_equalityI) (auto simp: nth_splice nth_append)

lemma load_Inr_iff: "load off n xs = Inr ys \<longleftrightarrow> off + n \<le> length xs \<and> ys = slice off n xs"
  by (auto simp: load_def)

lemma store_Inr_iff:
  "store off ys xs = Inr zs \<longleftrightarrow> off + length ys \<le> length xs \<and> zs = splice off ys xs"
  by (auto simp: store_def)

lemma load_ok [simp]: "off + n \<le> length xs \<Longrightarrow> load off n xs = Inr (slice off n xs)"
  by (simp add: load_def)

lemma store_ok [simp]:
  "off + length ys \<le> length xs \<Longrightarrow> store off ys xs = Inr (splice off ys xs)"
  by (simp add: store_def)

lemma strnlen_le: "strnlen bs n = Inr k \<Longrightarrow> k \<le> n \<and> k \<le> length bs"
  by (induction bs n arbitrary: k rule: strnlen.induct)
    (auto split: if_splits simp: bind_r_Inr_iff)

lemma strnlen_no_null: "strnlen bs n = Inr k \<Longrightarrow> 0 \<notin> set (take k bs)"
  by (induction bs n arbitrary: k rule: strnlen.induct)
    (auto split: if_splits simp: bind_r_Inr_iff)

lemma strnlen_total: "n \<le> length bs \<Longrightarrow> \<exists>k. strnlen bs n = Inr k"
  by (induction bs n rule: strnlen.induct) (auto simp: bind_r_Inr_iff)

end
