(* ===== verification/Rdm_Types.thy ===== *)
theory Rdm_Types
  imports Prelude
begin

text \<open>
  The constants and packed structs of \<^verbatim>\<open>rdm/include/types.h\<close> and \<^verbatim>\<open>dmx/include/types.h\<close>, the UID
  comparisons of \<^verbatim>\<open>rdm/include/uid.h\<close>, and the layout in memory of every struct that is handed to the
  serialiser as raw bytes. UIDs are a linear order: \<^verbatim>\<open>rdm_uid_is_lt\<close> and \<^verbatim>\<open>rdm_uid_is_le\<close> are its \<open><\<close>
  and \<open>\<le>\<close>, so that interval reasoning about discovery branches uses the library.
\<close>

section \<open>Constants\<close>

definition DMX_NUM_MAX :: nat where [simp]: "DMX_NUM_MAX = 3"
definition DMX_PACKET_SIZE_MAX :: nat where [simp]: "DMX_PACKET_SIZE_MAX = 513"
definition DMX_BAUD_RATE :: u32 where [simp]: "DMX_BAUD_RATE = 250000"
definition DMX_BAUD_RATE_MIN :: u32 where [simp]: "DMX_BAUD_RATE_MIN = 245000"
definition DMX_BAUD_RATE_MAX :: u32 where [simp]: "DMX_BAUD_RATE_MAX = 255000"
definition DMX_BREAK_LEN_MIN_US :: u32 where [simp]: "DMX_BREAK_LEN_MIN_US = 92"
definition DMX_BREAK_LEN_MAX_US :: u32 where [simp]: "DMX_BREAK_LEN_MAX_US = 1000000"
definition DMX_MAB_LEN_MIN_US :: u32 where [simp]: "DMX_MAB_LEN_MIN_US = 12"
definition DMX_MAB_LEN_MAX_US :: u32 where [simp]: "DMX_MAB_LEN_MAX_US = 999999"
definition RDM_BREAK_LEN_US :: u32 where [simp]: "RDM_BREAK_LEN_US = 176"
definition RDM_MAB_LEN_US :: u32 where [simp]: "RDM_MAB_LEN_US = 12"

definition DMX_SC :: u8 where [simp]: "DMX_SC = 0x00"
definition RDM_SC :: u8 where [simp]: "RDM_SC = 0xcc"
definition RDM_SUB_SC :: u8 where [simp]: "RDM_SUB_SC = 0x01"
definition RDM_PREAMBLE :: u8 where [simp]: "RDM_PREAMBLE = 0xfe"
definition RDM_DELIMITER :: u8 where [simp]: "RDM_DELIMITER = 0xaa"
definition DMX_START_ADDRESS_NONE :: u16 where [simp]: "DMX_START_ADDRESS_NONE = 0xffff"

definition RDM_ASCII_SIZE_MAX :: nat where [simp]: "RDM_ASCII_SIZE_MAX = 33"
definition RDM_PD_SIZE_MAX :: nat where [simp]: "RDM_PD_SIZE_MAX = 232"
definition RDM_SENSOR_NUM_MAX :: u8 where [simp]: "RDM_SENSOR_NUM_MAX = 0xff"
definition RDM_SUB_DEVICE_ROOT :: u16 where [simp]: "RDM_SUB_DEVICE_ROOT = 0"
definition RDM_SUB_DEVICE_MAX :: u16 where [simp]: "RDM_SUB_DEVICE_MAX = 513"
definition RDM_SUB_DEVICE_ALL :: u16 where [simp]: "RDM_SUB_DEVICE_ALL = 0xffff"

definition RDM_CC_DISC_COMMAND :: u8 where [simp]: "RDM_CC_DISC_COMMAND = 0x10"
definition RDM_CC_DISC_COMMAND_RESPONSE :: u8 where [simp]: "RDM_CC_DISC_COMMAND_RESPONSE = 0x11"
definition RDM_CC_GET_COMMAND :: u8 where [simp]: "RDM_CC_GET_COMMAND = 0x20"
definition RDM_CC_GET_COMMAND_RESPONSE :: u8 where [simp]: "RDM_CC_GET_COMMAND_RESPONSE = 0x21"
definition RDM_CC_SET_COMMAND :: u8 where [simp]: "RDM_CC_SET_COMMAND = 0x30"
definition RDM_CC_SET_COMMAND_RESPONSE :: u8 where [simp]: "RDM_CC_SET_COMMAND_RESPONSE = 0x31"

definition RDM_PID_DISC_UNIQUE_BRANCH :: u16 where [simp]: "RDM_PID_DISC_UNIQUE_BRANCH = 0x0001"
definition RDM_PID_DISC_MUTE :: u16 where [simp]: "RDM_PID_DISC_MUTE = 0x0002"
definition RDM_PID_DISC_UN_MUTE :: u16 where [simp]: "RDM_PID_DISC_UN_MUTE = 0x0003"
definition RDM_PID_QUEUED_MESSAGE :: u16 where [simp]: "RDM_PID_QUEUED_MESSAGE = 0x0020"
definition RDM_PID_STATUS_MESSAGE :: u16 where [simp]: "RDM_PID_STATUS_MESSAGE = 0x0030"
definition RDM_PID_SUPPORTED_PARAMETERS :: u16 where [simp]: "RDM_PID_SUPPORTED_PARAMETERS = 0x0050"
definition RDM_PID_PARAMETER_DESCRIPTION :: u16 where [simp]: "RDM_PID_PARAMETER_DESCRIPTION = 0x0051"
definition RDM_PID_DEVICE_INFO :: u16 where [simp]: "RDM_PID_DEVICE_INFO = 0x0060"
definition RDM_PID_DEVICE_MODEL_DESCRIPTION :: u16 where [simp]: "RDM_PID_DEVICE_MODEL_DESCRIPTION = 0x0080"
definition RDM_PID_MANUFACTURER_LABEL :: u16 where [simp]: "RDM_PID_MANUFACTURER_LABEL = 0x0081"
definition RDM_PID_DEVICE_LABEL :: u16 where [simp]: "RDM_PID_DEVICE_LABEL = 0x0082"
definition RDM_PID_LANGUAGE :: u16 where [simp]: "RDM_PID_LANGUAGE = 0x00b0"
definition RDM_PID_SOFTWARE_VERSION_LABEL :: u16 where [simp]: "RDM_PID_SOFTWARE_VERSION_LABEL = 0x00c0"
definition RDM_PID_DMX_PERSONALITY :: u16 where [simp]: "RDM_PID_DMX_PERSONALITY = 0x00e0"
definition RDM_PID_DMX_PERSONALITY_DESCRIPTION :: u16 where [simp]: "RDM_PID_DMX_PERSONALITY_DESCRIPTION = 0x00e1"
definition RDM_PID_DMX_START_ADDRESS :: u16 where [simp]: "RDM_PID_DMX_START_ADDRESS = 0x00f0"
definition RDM_PID_SENSOR_DEFINITION :: u16 where [simp]: "RDM_PID_SENSOR_DEFINITION = 0x0200"
definition RDM_PID_SENSOR_VALUE :: u16 where [simp]: "RDM_PID_SENSOR_VALUE = 0x0201"
definition RDM_PID_RECORD_SENSORS :: u16 where [simp]: "RDM_PID_RECORD_SENSORS = 0x0202"
definition RDM_PID_DEVICE_HOURS :: u16 where [simp]: "RDM_PID_DEVICE_HOURS = 0x0400"
definition RDM_PID_LAMP_HOURS :: u16 where [simp]: "RDM_PID_LAMP_HOURS = 0x0401"
definition RDM_PID_IDENTIFY_DEVICE :: u16 where [simp]: "RDM_PID_IDENTIFY_DEVICE = 0x1000"
definition RDM_PID_RESET_DEVICE :: u16 where [simp]: "RDM_PID_RESET_DEVICE = 0x1001"
definition RDM_PID_MANUFACTURER_SPECIFIC_BEGIN :: u16 where [simp]: "RDM_PID_MANUFACTURER_SPECIFIC_BEGIN = 0x8000"
definition RDM_PID_MANUFACTURER_SPECIFIC_END :: u16 where [simp]: "RDM_PID_MANUFACTURER_SPECIFIC_END = 0xffdf"

definition RDM_RESPONSE_TYPE_INVALID :: u8 where [simp]: "RDM_RESPONSE_TYPE_INVALID = 0xfe"
definition RDM_RESPONSE_TYPE_NONE :: u8 where [simp]: "RDM_RESPONSE_TYPE_NONE = 0xff"
definition RDM_RESPONSE_TYPE_ACK :: u8 where [simp]: "RDM_RESPONSE_TYPE_ACK = 0x00"
definition RDM_RESPONSE_TYPE_ACK_TIMER :: u8 where [simp]: "RDM_RESPONSE_TYPE_ACK_TIMER = 0x01"
definition RDM_RESPONSE_TYPE_NACK_REASON :: u8 where [simp]: "RDM_RESPONSE_TYPE_NACK_REASON = 0x02"
definition RDM_RESPONSE_TYPE_ACK_OVERFLOW :: u8 where [simp]: "RDM_RESPONSE_TYPE_ACK_OVERFLOW = 0x03"

definition RDM_NR_UNKNOWN_PID :: u16 where [simp]: "RDM_NR_UNKNOWN_PID = 0x0000"
definition RDM_NR_FORMAT_ERROR :: u16 where [simp]: "RDM_NR_FORMAT_ERROR = 0x0001"
definition RDM_NR_HARDWARE_FAULT :: u16 where [simp]: "RDM_NR_HARDWARE_FAULT = 0x0002"
definition RDM_NR_PROXY_REJECT :: u16 where [simp]: "RDM_NR_PROXY_REJECT = 0x0003"
definition RDM_NR_WRITE_PROTECT :: u16 where [simp]: "RDM_NR_WRITE_PROTECT = 0x0004"
definition RDM_NR_UNSUPPORTED_COMMAND_CLASS :: u16 where [simp]: "RDM_NR_UNSUPPORTED_COMMAND_CLASS = 0x0005"
definition RDM_NR_DATA_OUT_OF_RANGE :: u16 where [simp]: "RDM_NR_DATA_OUT_OF_RANGE = 0x0006"
definition RDM_NR_BUFFER_FULL :: u16 where [simp]: "RDM_NR_BUFFER_FULL = 0x0007"
definition RDM_NR_PACKET_SIZE_UNSUPPORTED :: u16 where [simp]: "RDM_NR_PACKET_SIZE_UNSUPPORTED = 0x0008"
definition RDM_NR_SUB_DEVICE_OUT_OF_RANGE :: u16 where [simp]: "RDM_NR_SUB_DEVICE_OUT_OF_RANGE = 0x0009"
definition RDM_NR_PROXY_BUFFER_FULL :: u16 where [simp]: "RDM_NR_PROXY_BUFFER_FULL = 0x000a"

definition RDM_STATUS_GET_LAST_MESSAGE :: u8 where [simp]: "RDM_STATUS_GET_LAST_MESSAGE = 0x01"
definition RDM_STATUS_ERROR :: u8 where [simp]: "RDM_STATUS_ERROR = 0x04"
definition RDM_RESET_TYPE_NONE :: u8 where [simp]: "RDM_RESET_TYPE_NONE = 0x00"
definition RDM_RESET_TYPE_WARM :: u8 where [simp]: "RDM_RESET_TYPE_WARM = 0x01"
definition RDM_RESET_TYPE_COLD :: u8 where [simp]: "RDM_RESET_TYPE_COLD = 0xff"
definition RDM_CC_DISC :: u8 where [simp]: "RDM_CC_DISC = 0x00"
definition RDM_CC_GET :: u8 where [simp]: "RDM_CC_GET = 0x01"
definition RDM_CC_SET :: u8 where [simp]: "RDM_CC_SET = 0x02"
definition RDM_CC_GET_SET :: u8 where [simp]: "RDM_CC_GET_SET = 0x03"
definition RDM_DS_NOT_DEFINED :: u8 where [simp]: "RDM_DS_NOT_DEFINED = 0x00"
definition RDM_DS_ASCII :: u8 where [simp]: "RDM_DS_ASCII = 0x02"
definition RDM_DS_UNSIGNED_BYTE :: u8 where [simp]: "RDM_DS_UNSIGNED_BYTE = 0x03"
definition RDM_DS_UNSIGNED_WORD :: u8 where [simp]: "RDM_DS_UNSIGNED_WORD = 0x05"
definition RDM_DS_UNSIGNED_DWORD :: u8 where [simp]: "RDM_DS_UNSIGNED_DWORD = 0x07"
definition RDM_DS_SIGNED_DWORD :: u8 where [simp]: "RDM_DS_SIGNED_DWORD = 0x08"
definition RDM_UNITS_NONE :: u8 where [simp]: "RDM_UNITS_NONE = 0x00"
definition RDM_UNITS_BYTE :: u8 where [simp]: "RDM_UNITS_BYTE = 0x1c"
definition RDM_PREFIX_NONE :: u8 where [simp]: "RDM_PREFIX_NONE = 0x00"
definition RDM_PREFIX_YOCTO :: u8 where [simp]: "RDM_PREFIX_YOCTO = 0x0a"
definition RDM_PREFIX_DECA :: u8 where [simp]: "RDM_PREFIX_DECA = 0x11"
definition RDM_PREFIX_YOTTA :: u8 where [simp]: "RDM_PREFIX_YOTTA = 0x1a"

section \<open>Macros on bytes\<close>

text \<open>
  \<^verbatim>\<open>rdm_cc_is_valid\<close> shifts the command class, a \<^verbatim>\<open>uint8_t\<close> promoted to \<^verbatim>\<open>int\<close>, right by eight: the
  first conjunct is true of every byte.
\<close>

definition rdm_cc_is_valid :: "u8 \<Rightarrow> bool" where
  "rdm_cc_is_valid cc \<longleftrightarrow> drop_bit 8 (ucast cc :: u32) < 0x4 \<and> (cc AND 0xf) < 0x2"

definition rdm_cc_is_request :: "u8 \<Rightarrow> bool" where
  "rdm_cc_is_request cc \<longleftrightarrow> (cc AND 0x1) = 0"

definition rdm_response_type_is_valid :: "u8 \<Rightarrow> bool" where
  "rdm_response_type_is_valid t \<longleftrightarrow>
     t \<ge> RDM_RESPONSE_TYPE_ACK \<and> t \<le> RDM_RESPONSE_TYPE_ACK_OVERFLOW"

definition dmx_start_code_is_valid :: "u8 \<Rightarrow> bool" where
  "dmx_start_code_is_valid sc \<longleftrightarrow>
     \<not> ((sc \<ge> 0x92 \<and> sc \<le> 0xa9) \<or> (sc \<ge> 0xab \<and> sc \<le> 0xcb) \<or> sc = 0xcd \<or>
        (sc \<ge> 0xf0 \<and> sc \<le> 0xf7))"

definition dmx_start_code_is_rdm :: "u8 \<Rightarrow> bool" where
  "dmx_start_code_is_rdm sc \<longleftrightarrow> sc = RDM_SC \<or> sc = RDM_PREAMBLE \<or> sc = RDM_DELIMITER"

definition dmx_baud_rate_is_valid :: "u32 \<Rightarrow> bool" where
  "dmx_baud_rate_is_valid baud \<longleftrightarrow> baud \<ge> DMX_BAUD_RATE_MIN \<and> baud \<le> DMX_BAUD_RATE_MAX"

definition dmx_break_len_is_valid :: "u32 \<Rightarrow> bool" where
  "dmx_break_len_is_valid brk \<longleftrightarrow> brk \<ge> DMX_BREAK_LEN_MIN_US \<and> brk \<le> DMX_BREAK_LEN_MAX_US"

definition dmx_mab_len_is_valid :: "u32 \<Rightarrow> bool" where
  "dmx_mab_len_is_valid mab \<longleftrightarrow> mab \<ge> DMX_MAB_LEN_MIN_US \<and> mab \<le> DMX_MAB_LEN_MAX_US"

section \<open>Unique IDs\<close>

datatype rdm_uid_t = Rdm_Uid (man_id: u16) (dev_id: u32)

definition rdm_uid_is_eq :: "rdm_uid_t \<Rightarrow> rdm_uid_t \<Rightarrow> bool" where
  "rdm_uid_is_eq a b \<longleftrightarrow> man_id a = man_id b \<and> dev_id a = dev_id b"

definition rdm_uid_is_lt :: "rdm_uid_t \<Rightarrow> rdm_uid_t \<Rightarrow> bool" where
  "rdm_uid_is_lt a b \<longleftrightarrow>
     man_id a < man_id b \<or> (man_id a = man_id b \<and> dev_id a < dev_id b)"

definition rdm_uid_is_gt :: "rdm_uid_t \<Rightarrow> rdm_uid_t \<Rightarrow> bool" where
  "rdm_uid_is_gt a b \<longleftrightarrow>
     man_id a > man_id b \<or> (man_id a = man_id b \<and> dev_id a > dev_id b)"

definition rdm_uid_is_le :: "rdm_uid_t \<Rightarrow> rdm_uid_t \<Rightarrow> bool" where
  "rdm_uid_is_le a b \<longleftrightarrow> \<not> rdm_uid_is_gt a b"

definition rdm_uid_is_ge :: "rdm_uid_t \<Rightarrow> rdm_uid_t \<Rightarrow> bool" where
  "rdm_uid_is_ge a b \<longleftrightarrow> \<not> rdm_uid_is_lt a b"

definition rdm_uid_is_broadcast :: "rdm_uid_t \<Rightarrow> bool" where
  "rdm_uid_is_broadcast uid \<longleftrightarrow> dev_id uid = 0xffffffff"

definition rdm_uid_is_null :: "rdm_uid_t \<Rightarrow> bool" where
  "rdm_uid_is_null uid \<longleftrightarrow> man_id uid = 0 \<and> dev_id uid = 0"

definition rdm_uid_is_target :: "rdm_uid_t \<Rightarrow> rdm_uid_t \<Rightarrow> bool" where
  "rdm_uid_is_target uid alias \<longleftrightarrow>
     ((man_id alias = 0xffff \<or> man_id alias = man_id uid) \<and> dev_id alias = 0xffffffff) \<or>
     rdm_uid_is_eq uid alias"

definition RDM_UID_BROADCAST_ALL :: rdm_uid_t where
  "RDM_UID_BROADCAST_ALL = Rdm_Uid 0xffff 0xffffffff"

definition RDM_UID_MAX :: rdm_uid_t where
  "RDM_UID_MAX = Rdm_Uid 0xffff 0xfffffffe"

instantiation rdm_uid_t :: linorder
begin

definition less_eq_rdm_uid_t :: "rdm_uid_t \<Rightarrow> rdm_uid_t \<Rightarrow> bool" where
  "less_eq_rdm_uid_t = rdm_uid_is_le"

definition less_rdm_uid_t :: "rdm_uid_t \<Rightarrow> rdm_uid_t \<Rightarrow> bool" where
  "less_rdm_uid_t = rdm_uid_is_lt"

instance
  by standard
    (auto simp: less_eq_rdm_uid_t_def less_rdm_uid_t_def rdm_uid_is_le_def rdm_uid_is_lt_def
      rdm_uid_is_gt_def intro: rdm_uid_t.expand)

end

section \<open>Packed structs\<close>

text \<open>
  \<open>h_port_id\<close> is the union of \<^verbatim>\<open>port_id\<close> and \<^verbatim>\<open>response_type\<close>. The two unnamed leading bit-fields (start
  code and sub-start code) cannot be read or written by name and are zero in the memory image.
\<close>

record rdm_header_t =
  h_message_len :: u8
  h_dest_uid :: rdm_uid_t
  h_src_uid :: rdm_uid_t
  h_tn :: u8
  h_port_id :: u8
  h_message_count :: u8
  h_sub_device :: u16
  h_cc :: u8
  h_pid :: u16
  h_pdl :: u8

abbreviation h_response_type :: "rdm_header_t \<Rightarrow> u8" where
  "h_response_type \<equiv> h_port_id"

record rdm_disc_unique_branch_t =
  lower_bound :: rdm_uid_t
  upper_bound :: rdm_uid_t

record rdm_disc_mute_t =
  control_field :: u16
  binding_uid :: rdm_uid_t

record rdm_dmx_personality_t =
  current :: u8
  count :: u8

record rdm_device_info_t =
  di_model_id :: u16
  di_product_category :: u16
  di_software_version_id :: u32
  di_footprint :: u16
  di_personality :: rdm_dmx_personality_t
  di_dmx_start_address :: u16
  di_sub_device_count :: u16
  di_sensor_count :: u8

subsection \<open>Memory images\<close>

definition uid_bytes :: "rdm_uid_t \<Rightarrow> bytes" where
  "uid_bytes u = le16 (man_id u) @ le32 (dev_id u)"

definition uid_of_bytes :: "bytes \<Rightarrow> rdm_uid_t" where
  "uid_of_bytes bs = Rdm_Uid (of_le16 (take 2 bs)) (of_le32 (take 4 (drop 2 bs)))"

definition header_bytes :: "rdm_header_t \<Rightarrow> bytes" where
  "header_bytes h =
     [0, 0, h_message_len h] @ uid_bytes (h_dest_uid h) @ uid_bytes (h_src_uid h) @
     [h_tn h, h_port_id h, h_message_count h] @ le16 (h_sub_device h) @ [h_cc h] @
     le16 (h_pid h) @ [h_pdl h]"

definition header_of_bytes :: "bytes \<Rightarrow> rdm_header_t" where
  "header_of_bytes bs = \<lparr>
     h_message_len = bs ! 2,
     h_dest_uid = uid_of_bytes (slice 3 6 bs),
     h_src_uid = uid_of_bytes (slice 9 6 bs),
     h_tn = bs ! 15,
     h_port_id = bs ! 16,
     h_message_count = bs ! 17,
     h_sub_device = of_le16 (slice 18 2 bs),
     h_cc = bs ! 20,
     h_pid = of_le16 (slice 21 2 bs),
     h_pdl = bs ! 23 \<rparr>"

definition disc_unique_branch_bytes :: "rdm_disc_unique_branch_t \<Rightarrow> bytes" where
  "disc_unique_branch_bytes b = uid_bytes (lower_bound b) @ uid_bytes (upper_bound b)"

definition disc_unique_branch_of_bytes :: "bytes \<Rightarrow> rdm_disc_unique_branch_t" where
  "disc_unique_branch_of_bytes bs =
     \<lparr> lower_bound = uid_of_bytes (take 6 bs), upper_bound = uid_of_bytes (slice 6 6 bs) \<rparr>"

definition disc_mute_bytes :: "rdm_disc_mute_t \<Rightarrow> bytes" where
  "disc_mute_bytes m = le16 (control_field m) @ uid_bytes (binding_uid m)"

definition personality_bytes :: "rdm_dmx_personality_t \<Rightarrow> bytes" where
  "personality_bytes p = [current p, count p]"

definition personality_of_bytes :: "bytes \<Rightarrow> rdm_dmx_personality_t" where
  "personality_of_bytes bs = \<lparr> current = bs ! 0, count = bs ! 1 \<rparr>"

definition device_info_bytes :: "rdm_device_info_t \<Rightarrow> bytes" where
  "device_info_bytes d =
     [0, 0] @ le16 (di_model_id d) @ le16 (di_product_category d) @
     le32 (di_software_version_id d) @ le16 (di_footprint d) @
     personality_bytes (di_personality d) @ le16 (di_dmx_start_address d) @
     le16 (di_sub_device_count d) @ [di_sensor_count d]"

section \<open>Lemmas: UIDs\<close>

lemma uid_eq_iff: "rdm_uid_is_eq a b \<longleftrightarrow> a = b"
  by (auto simp: rdm_uid_is_eq_def intro: rdm_uid_t.expand)

lemma uid_lt_iff: "rdm_uid_is_lt a b \<longleftrightarrow> a < b"
  by (simp add: less_rdm_uid_t_def)

lemma uid_gt_iff: "rdm_uid_is_gt a b \<longleftrightarrow> b < a"
  by (auto simp: less_rdm_uid_t_def rdm_uid_is_lt_def rdm_uid_is_gt_def)

lemma uid_le_iff: "rdm_uid_is_le a b \<longleftrightarrow> a \<le> b"
  by (simp add: less_eq_rdm_uid_t_def)

lemma uid_ge_iff: "rdm_uid_is_ge a b \<longleftrightarrow> b \<le> a"
  by (auto simp: rdm_uid_is_ge_def uid_lt_iff)

lemmas uid_order_iffs = uid_eq_iff uid_lt_iff uid_gt_iff uid_le_iff uid_ge_iff

section \<open>Lemmas: memory images\<close>

lemma length_uid_bytes [simp]: "length (uid_bytes u) = 6"
  by (simp add: uid_bytes_def)

lemma uid_of_bytes_uid_bytes [simp]: "uid_of_bytes (uid_bytes u) = u"
  by (cases u) (simp add: uid_of_bytes_def uid_bytes_def)

lemma uid_bytes_of_bytes: "length bs = 6 \<Longrightarrow> uid_bytes (uid_of_bytes bs) = bs"
  by (simp add: uid_of_bytes_def uid_bytes_def le16_of_le16_length le32_of_le32_length)

lemma uid_bytes_inject [simp]: "uid_bytes a = uid_bytes b \<longleftrightarrow> a = b"
  by (metis uid_of_bytes_uid_bytes)

lemma length_header_bytes [simp]: "length (header_bytes h) = 24"
  by (simp add: header_bytes_def)

lemma length_disc_unique_branch_bytes [simp]: "length (disc_unique_branch_bytes b) = 12"
  by (simp add: disc_unique_branch_bytes_def)

lemma length_disc_mute_bytes [simp]: "length (disc_mute_bytes m) = 8"
  by (simp add: disc_mute_bytes_def)

lemma length_device_info_bytes [simp]: "length (device_info_bytes d) = 19"
  by (simp add: device_info_bytes_def personality_bytes_def)

lemma header_of_bytes_header_bytes: "header_of_bytes (header_bytes h) = h"
  by (simp add: header_of_bytes_def header_bytes_def slice_def nth_append nth_Cons' drop_Cons')

lemma branch_of_bytes_branch_bytes [simp]:
  "disc_unique_branch_of_bytes (disc_unique_branch_bytes b) = b"
  by (simp add: disc_unique_branch_of_bytes_def disc_unique_branch_bytes_def slice_def)

lemma personality_of_bytes_personality_bytes [simp]:
  "personality_of_bytes (personality_bytes p) = p"
  by (simp add: personality_of_bytes_def personality_bytes_def)

section \<open>UIDs as numbers\<close>

text \<open>The number whose six bytes, the most significant one first, are the UID on the wire.\<close>

definition uid_number :: "rdm_uid_t \<Rightarrow> nat" where
  "uid_number u = unat (man_id u) * 2 ^ 32 + unat (dev_id u)"

lemma pair_less_number:
  fixes a b c d :: nat
  assumes "c < k" "d < k"
  shows "a * k + c < b * k + d \<longleftrightarrow> a < b \<or> (a = b \<and> c < d)"
proof (cases a b rule: linorder_cases)
  case less
  then have "Suc a * k \<le> b * k" by (intro mult_le_mono1) simp
  then show ?thesis using less assms by simp
next
  case greater
  then have "Suc b * k \<le> a * k" by (intro mult_le_mono1) simp
  then show ?thesis using greater assms by simp
qed simp

lemma uid_number_less: "uid_number a < uid_number b \<longleftrightarrow> a < b"
proof -
  have dev: "unat (dev_id u) < 2 ^ 32" for u using unsigned_less [of "dev_id u"] by simp
  have "uid_number a < uid_number b \<longleftrightarrow>
     unat (man_id a) < unat (man_id b) \<or> (unat (man_id a) = unat (man_id b) \<and> unat (dev_id a) < unat (dev_id b))"
    unfolding uid_number_def by (rule pair_less_number [OF dev dev])
  then show ?thesis
    by (auto simp: less_rdm_uid_t_def rdm_uid_is_lt_def word_less_nat_alt word_unat_eq_iff)
qed

lemma uid_number_eq: "uid_number a = uid_number b \<longleftrightarrow> a = b"
  using uid_number_less [of a b] uid_number_less [of b a] by (metis nat_neq_iff neq_iff)

text \<open>
  C29. The five comparisons of \<^verbatim>\<open>uid.h\<close>, which compare the two fields one after the other, agree with the
  comparison of the UIDs as 48-bit numbers.
\<close>

theorem uid_order_numeric:
  "rdm_uid_is_lt a b = (uid_number a < uid_number b) \<and> rdm_uid_is_gt a b = (uid_number a > uid_number b) \<and>
   rdm_uid_is_le a b = (uid_number a \<le> uid_number b) \<and> rdm_uid_is_ge a b = (uid_number a \<ge> uid_number b) \<and>
   rdm_uid_is_eq a b = (uid_number a = uid_number b) \<and> uid_number a < 2 ^ 48"
proof -
  have "unat (man_id a) < 2 ^ 16" "unat (dev_id a) < 2 ^ 32"
    using unsigned_less [of "man_id a"] unsigned_less [of "dev_id a"] by simp_all
  then have "uid_number a < 2 ^ 48" by (simp add: uid_number_def)
  then show ?thesis
    by (simp add: uid_order_iffs uid_number_less uid_number_eq not_less [symmetric])
qed

end
