(* ===== verification/Rdm_Format.thy ===== *)
theory Rdm_Format
  imports Rdm_Types
begin

text \<open>
  Format strings of RDM parameter data: \<^verbatim>\<open>rdm_format_is_valid\<close> and \<^verbatim>\<open>rdm_format_encode\<close> of
  \<^verbatim>\<open>rdm/driver.c\<close>.

  A C string is the list of its characters before the NUL, NULL is \<open>None\<close>. A source pointer is the
  list of bytes from it to the end of its object; a destination pointer is the number of bytes from
  it to the end of its object (\<open>cap\<close>), and the result of encoding is the list of bytes written there.
  \<^verbatim>\<open>src_size\<close> is a 32-bit word because the code subtracts from it without a guard. A read or write
  past an object is \<open>Out_Of_Bounds\<close>, and a pass over the format that consumes nothing while bytes are
  left repeats for ever.

  The lemmas relate the encoder to \<open>swap_fields\<close>, which reverses the bytes of every field of a record
  and knows nothing of cursors, and give the exact result on the format strings the library uses.
\<close>

section \<open>Validity of a format\<close>

definition is_upper :: "char \<Rightarrow> bool" where
  "is_upper c \<longleftrightarrow> (of_char CHR ''A'' :: nat) \<le> of_char c \<and> of_char c \<le> (of_char CHR ''Z'' :: nat)"

definition hex_digit :: "char \<Rightarrow> nat option" where
  "hex_digit c = (let n = of_char c :: nat in
     if 48 \<le> n \<and> n \<le> 57 then Some (n - 48)
     else if 65 \<le> n \<and> n \<le> 70 then Some (n - 55)
     else if 97 \<le> n \<and> n \<le> 102 then Some (n - 87)
     else None)"

definition isxdigit :: "char \<Rightarrow> bool" where
  "isxdigit c \<longleftrightarrow> hex_digit c \<noteq> None"

text \<open>The value of \<^verbatim>\<open>strtol(str, NULL, 16)\<close> on the two characters of a literal, as a byte.\<close>

definition hex_literal :: "char \<Rightarrow> char \<Rightarrow> u8" where
  "hex_literal a b = (case (hex_digit a, hex_digit b) of
     (Some x, Some y) \<Rightarrow> of_nat (16 * x + y)
   | (Some x, None) \<Rightarrow> of_nat x
   | _ \<Rightarrow> 0)"

text \<open>
  The token switch of \<^verbatim>\<open>rdm_format_is_valid\<close>: the size of a one-character token and whether it
  terminates the format; \<^verbatim>\<open>x\<close> is treated by the scan itself.
\<close>

definition token_info :: "char \<Rightarrow> (nat \<times> bool) option" where
  "token_info c =
     (if c = CHR ''b'' \<or> c = CHR ''B'' then Some (1, False)
      else if c = CHR ''w'' \<or> c = CHR ''W'' then Some (2, False)
      else if c = CHR ''d'' \<or> c = CHR ''D'' then Some (4, False)
      else if c = CHR ''u'' \<or> c = CHR ''U'' then Some (6, False)
      else if c = CHR ''v'' \<or> c = CHR ''V'' then Some (6, True)
      else if c = CHR ''a'' \<or> c = CHR ''A'' then Some (32, True)
      else if c = CHR ''$'' then Some (0, True)
      else None)"

text \<open>\<open>None\<close>: the function returns false inside the loop.\<close>

fun format_scan :: "string \<Rightarrow> nat \<Rightarrow> (bool \<times> nat \<times> string) option" where
  "format_scan [] parameter_size = Some (False, parameter_size, [])"
| "format_scan (c # f) parameter_size =
     (if c = CHR '' '' then format_scan f parameter_size
      else if c = CHR ''x'' \<or> c = CHR ''X'' then
        (case f of
           h1 # h2 # f' \<Rightarrow>
             if \<not> isxdigit h1 \<or> \<not> isxdigit h2 then None
             else if parameter_size + 1 > 231 then None
             else format_scan f' (parameter_size + 1)
         | _ \<Rightarrow> None)
      else case token_info c of
        None \<Rightarrow> None
      | Some (token_size, terminated) \<Rightarrow>
          if parameter_size + token_size > 231 then None
          else if terminated then Some (True, parameter_size + token_size, f)
          else format_scan f (parameter_size + token_size))"

definition rdm_format_is_valid :: "string option \<Rightarrow> bool res" where
  "rdm_format_is_valid format = (case format of
     None \<Rightarrow> Inr True
   | Some f \<Rightarrow> (case format_scan f 0 of
       None \<Rightarrow> Inr False
     | Some (True, parameter_size, rest) \<Rightarrow>
         if rest \<noteq> [] \<and> hd rest \<noteq> CHR ''$'' then Inr False else Inr (parameter_size > 0)
     | Some (False, parameter_size, _) \<Rightarrow>
         if parameter_size = 0 then Inl Div_By_Zero
         else Inr (231 - 231 mod parameter_size > 0)))"

section \<open>Encoding\<close>

definition emit :: "nat \<Rightarrow> bytes \<Rightarrow> bytes \<Rightarrow> bytes res" where
  "emit cap out bs =
     (if length out + length bs \<le> cap then Inr (out @ bs) else Inl Out_Of_Bounds)"

definition swap16_bytes :: "bytes \<Rightarrow> bytes" where
  "swap16_bytes bs = le16 (bswap16 (of_le16 bs))"

definition swap32_bytes :: "bytes \<Rightarrow> bytes" where
  "swap32_bytes bs = le32 (bswap32 (of_le32 bs))"

definition swap_uid_bytes :: "bytes \<Rightarrow> bytes" where
  "swap_uid_bytes bs = (let uid = uid_of_bytes bs in
     uid_bytes (Rdm_Uid (bswap16 (man_id uid)) (bswap32 (dev_id uid))))"

text \<open>Copying one token: read it, convert it in the destination, move the three cursors.\<close>

definition copy_token ::
  "nat \<Rightarrow> nat \<Rightarrow> (bytes \<Rightarrow> bytes) \<Rightarrow> bytes \<Rightarrow> u32 \<Rightarrow> bytes \<Rightarrow> (bytes \<times> u32 \<times> bytes) res" where
  "copy_token cap token_size conv src src_size out =
     bind_r (load 0 token_size src) (\<lambda>bs.
     bind_r (emit cap out (conv bs)) (\<lambda>out'.
     Inr (drop token_size src, src_size - of_nat token_size, out')))"

text \<open>The four tokens of fixed size that are copied: their size and their conversion.\<close>

definition fixed_token :: "char \<Rightarrow> (nat \<times> (bytes \<Rightarrow> bytes)) option" where
  "fixed_token c =
     (if c = CHR ''b'' then Some (1, id)
      else if c = CHR ''w'' then Some (2, swap16_bytes)
      else if c = CHR ''d'' then Some (4, swap32_bytes)
      else if c = CHR ''u'' then Some (6, swap_uid_bytes)
      else None)"

text \<open>
  The body of the inner loop on the character \<open>c0\<close>, with \<open>f\<close> the characters after it. The flag of the
  result is true when the function returns from here; otherwise the loop goes on with the rest of
  the format, \<open>c = *(++f)\<close>, and the moved cursors.
\<close>

definition fmt_token :: "bool \<Rightarrow> nat \<Rightarrow> char \<Rightarrow> string \<Rightarrow> bytes \<Rightarrow> u32 \<Rightarrow> bytes \<Rightarrow>
    (bool \<times> string \<times> bytes \<times> u32 \<times> bytes) res" where
  "fmt_token nulls cap c0 f src src_size out =
     (if c0 = CHR '' '' then Inr (False, f, src, src_size, out)
      else if c0 = CHR ''$'' then Inr (True, f, src, src_size, out)
      else
        (let c = (if is_upper c0 then char_of (of_char c0 + of_char CHR ''A'' :: nat) else c0) in
         case fixed_token c of
           Some (token_size, conv) \<Rightarrow>
             bind_r (copy_token cap token_size conv src src_size out)
               (\<lambda>(src', size', out'). Inr (False, f, src', size', out'))
         | None \<Rightarrow>
         if c = CHR ''v'' then
           bind_r (if src_size < 6 then Inr True
                   else bind_r (load 0 6 src) (\<lambda>bs. Inr (rdm_uid_is_null (uid_of_bytes bs))))
             (\<lambda>not_provided.
                if not_provided then
                  (if nulls then
                     bind_r (emit cap out (replicate 6 0))
                       (\<lambda>out'. Inr (True, f, src, src_size, out'))
                   else Inr (True, f, src, src_size, out))
                else bind_r (copy_token cap 6 swap_uid_bytes src src_size out)
                       (\<lambda>(src', size', out'). Inr (True, f, src', size', out')))
         else if c = CHR ''a'' then
           bind_r (strnlen src (if src_size < 32 then unat src_size else 32)) (\<lambda>token_size.
           bind_r (load 0 token_size src) (\<lambda>bs.
           bind_r (emit cap out (if nulls then bs @ [0] else bs)) (\<lambda>out'.
           Inr (True, f, src, src_size, out'))))
         else if c = CHR ''x'' then
           (case f of
              h1 # h2 # f' \<Rightarrow>
                bind_r (emit cap out [hex_literal h1 h2])
                  (\<lambda>out'. Inr (False, f', drop 1 src, src_size - 1, out'))
            | _ \<Rightarrow> Inl Out_Of_Bounds)
         else Inl Unreachable))"

lemma emit_Inr_iff:
  "emit cap out bs = Inr out' \<longleftrightarrow> length out + length bs \<le> cap \<and> out' = out @ bs"
  by (auto simp: emit_def)

lemma copy_token_Inr_iff:
  "copy_token cap n conv src sz out = Inr (src', sz', out') \<longleftrightarrow>
     n \<le> length src \<and> length out + length (conv (take n src)) \<le> cap \<and>
     src' = drop n src \<and> sz' = sz - of_nat n \<and> out' = out @ conv (take n src)"
  by (auto simp: copy_token_def bind_r_Inr_iff load_Inr_iff emit_Inr_iff slice_def)

text \<open>A token moves forward in the format; the output only grows, and never past the destination.\<close>

lemma fmt_token_moves:
  "fmt_token nulls cap c f src sz out = Inr (b, f', src', sz', out') \<Longrightarrow>
   length f' \<le> length f \<and> length out \<le> length out' \<and>
   (length out < length out' \<longrightarrow> length out' \<le> cap)"
  by (auto simp: fmt_token_def Let_def copy_token_Inr_iff emit_Inr_iff bind_r_Inr_iff
      split: if_splits list.splits option.splits)

text \<open>One run of the inner loop; the flag says whether the function has returned inside it.\<close>

function fmt_pass :: "bool \<Rightarrow> nat \<Rightarrow> string \<Rightarrow> bytes \<Rightarrow> u32 \<Rightarrow> bytes \<Rightarrow>
    (bool \<times> bytes \<times> u32 \<times> bytes) res" where
  "fmt_pass nulls cap [] src src_size out = Inr (False, src, src_size, out)"
| "fmt_pass nulls cap (c # f) src src_size out =
     (case fmt_token nulls cap c f src src_size out of
        Inl e \<Rightarrow> Inl e
      | Inr (returned, f', src', size', out') \<Rightarrow>
          if returned then Inr (True, src', size', out')
          else fmt_pass nulls cap f' src' size' out')"
  by pat_completeness auto
termination
proof (relation "measure (\<lambda>(_, _, f, _). length f)", goal_cases)
  case (2 nulls cap c f src sz out p returned q f' r src' t sz' out')
  then have "fmt_token nulls cap c f src sz out = Inr (returned, f', src', sz', out')"
    by simp
  from fmt_token_moves [OF this] show ?case by simp
qed simp

lemma fmt_pass_grows:
  "fmt_pass nulls cap f src sz out = Inr (b, src', sz', out') \<Longrightarrow>
   length out \<le> length out' \<and> (length out < length out' \<longrightarrow> length out' \<le> cap)"
proof (induction nulls cap f src sz out rule: fmt_pass.induct)
  case (2 nulls cap c f src sz out)
  from 2(2) obtain r f1 src1 sz1 out1
    where t: "fmt_token nulls cap c f src sz out = Inr (r, f1, src1, sz1, out1)"
    by (auto split: sum.splits)
  note moves = fmt_token_moves [OF t]
  show ?case
  proof (cases r)
    case True
    with 2(2) t moves show ?thesis by simp
  next
    case False
    with 2(2) t have "fmt_pass nulls cap f1 src1 sz1 out1 = Inr (b, src', sz', out')" by simp
    from 2(1) [OF t refl refl refl refl False this] moves show ?thesis by linarith
  qed
qed simp

function fmt_loop :: "bool \<Rightarrow> nat \<Rightarrow> string \<Rightarrow> bytes \<Rightarrow> u32 \<Rightarrow> bytes \<Rightarrow> bytes res" where
  "fmt_loop nulls cap format src src_size out =
     (if src_size = 0 then Inr out
      else case fmt_pass nulls cap format src src_size out of
        Inl e \<Rightarrow> Inl e
      | Inr (returned, src', sz', out') \<Rightarrow>
          if returned then Inr out'
          else if length out' = length out then Inl Loops_Forever
          else fmt_loop nulls cap format src' sz' out')"
  by pat_completeness auto
termination
proof (relation "measure (\<lambda>(_, cap, _, _, _, out). cap - length out)", goal_cases)
  case (2 nulls cap format src sz out p returned q src' r sz' out')
  then have "fmt_pass nulls cap format src sz out = Inr (returned, src', sz', out')"
    by simp
  from fmt_pass_grows [OF this] 2 show ?case by auto
qed simp

declare fmt_loop.simps [simp del]

text \<open>
  \<open>dest\<close> is the room at the destination pointer, \<open>None\<close> when it is NULL; the three assertions come
  first. The result is the list of bytes written, whose length is the value the C function returns.
\<close>

definition rdm_format_encode ::
  "nat option \<Rightarrow> string option \<Rightarrow> bytes option \<Rightarrow> u32 \<Rightarrow> bool \<Rightarrow> bytes res" where
  "rdm_format_encode dest format src src_size encode_nulls =
     (case dest of
        None \<Rightarrow> Inl Assert_Failed
      | Some cap \<Rightarrow>
          bind_r (rdm_format_is_valid format) (\<lambda>valid.
          if \<not> valid then Inl Assert_Failed
          else case src of
            None \<Rightarrow> Inl Assert_Failed
          | Some s \<Rightarrow>
              if src_size = 0 then Inr []
              else case format of
                None \<Rightarrow> Inl Null_Deref
              | Some f \<Rightarrow> fmt_loop encode_nulls cap f s src_size []))"

section \<open>Fields in network byte order\<close>

text \<open>
  The reference: a record is a list of integer fields, and to encode or decode it is to reverse the
  bytes of every field.
\<close>

definition token_fields :: "char \<Rightarrow> nat list" where
  "token_fields c =
     (if c = CHR ''b'' then [1] else if c = CHR ''w'' then [2] else if c = CHR ''d'' then [4]
      else if c = CHR ''u'' then [2, 4] else [])"

definition plain :: "string \<Rightarrow> bool" where
  "plain f \<longleftrightarrow> set f \<subseteq> {CHR ''b'', CHR ''w'', CHR ''d'', CHR ''u''}"

definition widths :: "string \<Rightarrow> nat list" where
  "widths f = concat (map token_fields f)"

definition record_size :: "string \<Rightarrow> nat" where
  "record_size f = sum_list (widths f)"

fun swap_fields :: "nat list \<Rightarrow> bytes \<Rightarrow> bytes" where
  "swap_fields [] bs = []"
| "swap_fields (w # ws) bs = rev (take w bs) @ swap_fields ws (drop w bs)"

lemma widths_simps [simp]:
  "widths [] = []" "widths (c # f) = token_fields c @ widths f"
  "widths (f @ g) = widths f @ widths g"
  by (simp_all add: widths_def)

lemma record_size_simps [simp]:
  "record_size [] = 0" "record_size (c # f) = sum_list (token_fields c) + record_size f"
  by (simp_all add: record_size_def)

lemma plain_simps [simp]:
  "plain []"
  "plain (c # f) \<longleftrightarrow> c \<in> {CHR ''b'', CHR ''w'', CHR ''d'', CHR ''u''} \<and> plain f"
  by (auto simp: plain_def)

lemma length_swap_fields [simp]:
  "sum_list ws \<le> length bs \<Longrightarrow> length (swap_fields ws bs) = sum_list ws"
  by (induction ws arbitrary: bs) auto

lemma swap_fields_append:
  "swap_fields (vs @ ws) bs = swap_fields vs bs @ swap_fields ws (drop (sum_list vs) bs)"
  by (induction vs arbitrary: bs) (auto simp: add.commute)

lemma swap_fields_prefix:
  "sum_list ws \<le> length bs \<Longrightarrow> swap_fields ws (bs @ cs) = swap_fields ws bs"
  by (induction ws arbitrary: bs) auto

lemma swap_fields_involution:
  "length bs = sum_list ws \<Longrightarrow> swap_fields ws (swap_fields ws bs) = bs"
  by (induction ws arbitrary: bs) (auto simp: min_def)

lemma swap_bytes_rev:
  "length bs = 2 \<Longrightarrow> swap16_bytes bs = rev bs"
  "length bs = 4 \<Longrightarrow> swap32_bytes bs = rev bs"
  by (simp_all add: swap16_bytes_def swap32_bytes_def bswap16_bytes bswap32_bytes
      le16_of_le16_length le32_of_le32_length)

lemma swap_uid_bytes_rev:
  "length bs = 6 \<Longrightarrow> swap_uid_bytes bs = rev (take 2 bs) @ rev (drop 2 bs)"
  by (simp add: swap_uid_bytes_def uid_bytes_def uid_of_bytes_def Let_def bswap16_bytes
      bswap32_bytes le16_of_le16_length le32_of_le32_length)

text \<open>One plain token copies its fields.\<close>

lemma not_upper_plain [simp]:
  "\<not> is_upper CHR ''b''" "\<not> is_upper CHR ''w''" "\<not> is_upper CHR ''d''" "\<not> is_upper CHR ''u''"
  "\<not> is_upper CHR ''v''" "\<not> is_upper CHR ''a''" "\<not> is_upper CHR ''x''"
  by (simp_all add: is_upper_def of_char_def)

lemma fixed_token_simps [simp]:
  "fixed_token CHR ''b'' = Some (1, id)" "fixed_token CHR ''w'' = Some (2, swap16_bytes)"
  "fixed_token CHR ''d'' = Some (4, swap32_bytes)" "fixed_token CHR ''u'' = Some (6, swap_uid_bytes)"
  "fixed_token CHR ''v'' = None" "fixed_token CHR ''a'' = None" "fixed_token CHR ''x'' = None"
  by (simp_all add: fixed_token_def)

lemma token_fields_simps [simp]:
  "token_fields CHR ''b'' = [1]" "token_fields CHR ''w'' = [2]"
  "token_fields CHR ''d'' = [4]" "token_fields CHR ''u'' = [2, 4]"
  by (simp_all add: token_fields_def)

lemma fmt_token_fixed:
  assumes "fixed_token c = Some (n, conv)" "n \<le> length src"
    and "length out + length (conv (take n src)) \<le> cap"
  shows "fmt_token nulls cap c f src sz out =
    Inr (False, f, drop n src, sz - of_nat n, out @ conv (take n src))"
proof -
  from assms(1) have "\<not> is_upper c" "c \<noteq> CHR '' ''" "c \<noteq> CHR ''$''"
    by (auto simp: fixed_token_def split: if_splits)
  then show ?thesis
    using assms by (simp add: fmt_token_def copy_token_def emit_def slice_def)
qed

lemma fmt_token_plain:
  assumes "c \<in> {CHR ''b'', CHR ''w'', CHR ''d'', CHR ''u''}"
    and "sum_list (token_fields c) \<le> length src"
    and "length out + sum_list (token_fields c) \<le> cap"
  shows "fmt_token nulls cap c f src sz out =
    Inr (False, f, drop (sum_list (token_fields c)) src, sz - of_nat (sum_list (token_fields c)),
         out @ swap_fields (token_fields c) src)"
proof -
  from assms(1) consider "c = CHR ''b''" | "c = CHR ''w''" | "c = CHR ''d''" | "c = CHR ''u''"
    by auto
  then show ?thesis
  proof cases
    case 1
    then have "rev (take (Suc 0) src) = take (Suc 0) src" by (cases src) auto
    with 1 assms show ?thesis by (simp add: fmt_token_fixed [where n = 1 and conv = id])
  next
    case 4
    have "rev (drop 2 (take 6 src)) = rev (take 4 (drop 2 src))" by (simp add: drop_take)
    with 4 assms show ?thesis
      by (simp add: fmt_token_fixed [where n = 6 and conv = swap_uid_bytes] swap_uid_bytes_rev)
  qed (use assms in \<open>simp_all add: fmt_token_fixed [where n = 2 and conv = swap16_bytes]
      fmt_token_fixed [where n = 4 and conv = swap32_bytes] swap_bytes_rev\<close>)
qed

lemma fmt_token_dollar [simp]:
  "fmt_token nulls cap CHR ''$'' f src sz out = Inr (True, f, src, sz, out)"
  by (simp add: fmt_token_def)

lemma fmt_pass_plain:
  "plain f \<Longrightarrow> record_size f \<le> length src \<Longrightarrow> length out + record_size f \<le> cap \<Longrightarrow>
   fmt_pass nulls cap (f @ g) src sz out =
     fmt_pass nulls cap g (drop (record_size f) src) (sz - of_nat (record_size f))
       (out @ swap_fields (widths f) src)"
  by (induction f arbitrary: src sz out)
    (simp_all add: fmt_token_plain swap_fields_append add.commute diff_diff_eq)

lemma fmt_loop_records:
  assumes "plain f" "0 < record_size f"
  shows "k * record_size f \<le> length src \<Longrightarrow> k * record_size f < 2 ^ 32 \<Longrightarrow>
    length out + k * record_size f \<le> cap \<Longrightarrow>
    fmt_loop nulls cap f src (of_nat (k * record_size f)) out =
      Inr (out @ swap_fields (concat (replicate k (widths f))) src)"
proof (induction k arbitrary: src out)
  case 0
  show ?case by (simp add: fmt_loop.simps)
next
  case (Suc k)
  let ?n = "record_size f" and ?out = "out @ swap_fields (widths f) src"
  have fits: "?n \<le> length src" "length out + ?n \<le> cap" using Suc.prems by simp_all
  then have len: "length ?out = length out + ?n" by (simp add: record_size_def)
  have "(of_nat (Suc k * ?n) :: u32) \<noteq> 0"
    using Suc.prems(2) assms(2) of_nat_u32_eq_0_iff by (metis mult_is_0 nat.discI neq0_conv)
  moreover have "fmt_pass nulls cap f src (of_nat (Suc k * ?n)) out =
      Inr (False, drop ?n src, of_nat (k * ?n), ?out)"
    using fmt_pass_plain [OF assms(1) fits, of nulls "[]"] by simp
  moreover have "fmt_loop nulls cap f (drop ?n src) (of_nat (k * ?n)) ?out =
      Inr (?out @ swap_fields (concat (replicate k (widths f))) (drop ?n src))"
    using Suc.prems len by (intro Suc.IH) auto
  ultimately show ?case
    using len assms(2)
    by (simp add: fmt_loop.simps [of _ _ _ src] swap_fields_append
        flip: record_size_def del: sum_list_eq_0_iff)
qed

lemma format_scan_plain:
  "plain f \<Longrightarrow> ps + record_size f \<le> 231 \<Longrightarrow>
   format_scan (f @ g) ps = format_scan g (ps + record_size f)"
proof (induction f arbitrary: ps)
  case (Cons c f)
  from Cons.prems(1) consider "c = CHR ''b''" | "c = CHR ''w''" | "c = CHR ''d''" | "c = CHR ''u''"
    by auto
  then show ?case
    using Cons.prems Cons.IH [of "ps + sum_list (token_fields c)"]
    by cases (simp_all add: token_info_def add.assoc)
qed simp

lemma mod_231_less: "0 < n \<Longrightarrow> n \<le> 231 \<Longrightarrow> 231 mod n < (231 :: nat)"
  using mod_less_divisor [of n 231] by linarith

lemma plain_valid:
  assumes "plain f" "0 < record_size f" "record_size f \<le> 231"
  shows "rdm_format_is_valid (Some f) = Inr True"
    and "rdm_format_is_valid (Some (f @ ''$'')) = Inr True"
proof -
  show "rdm_format_is_valid (Some f) = Inr True"
    using assms mod_231_less format_scan_plain [of f 0 "[]"] by (simp add: rdm_format_is_valid_def)
  show "rdm_format_is_valid (Some (f @ ''$'')) = Inr True"
    using assms format_scan_plain [of f 0 "''$''"]
    by (simp add: rdm_format_is_valid_def token_info_def)
qed

lemma encode_plain:
  assumes "plain f" "0 < record_size f" "record_size f \<le> 231"
    and "k * record_size f < 2 ^ 32" "k * record_size f \<le> length src" "k * record_size f \<le> cap"
  shows "rdm_format_encode (Some cap) (Some f) (Some src) (of_nat (k * record_size f)) nulls =
    Inr (swap_fields (concat (replicate k (widths f))) src)"
proof (cases k)
  case (Suc j)
  have "(of_nat (k * record_size f) :: u32) \<noteq> 0"
    using Suc assms(2,4) of_nat_u32_eq_0_iff by (metis mult_is_0 nat.discI neq0_conv)
  then show ?thesis
    using assms fmt_loop_records [OF assms(1,2,5,4), of "[]" cap nulls]
    by (simp add: rdm_format_encode_def plain_valid del: of_nat_mult)
qed (use assms in \<open>simp add: rdm_format_encode_def plain_valid\<close>)

lemma encode_plain_dollar:
  assumes "plain f" "0 < record_size f" "record_size f \<le> 231"
    and "record_size f \<le> length src" "record_size f \<le> cap" "sz \<noteq> 0"
  shows "rdm_format_encode (Some cap) (Some (f @ ''$'')) (Some src) sz nulls =
    Inr (swap_fields (widths f) src)"
proof -
  have "fmt_pass nulls cap (f @ ''$'') src sz [] =
      Inr (True, drop (record_size f) src, sz - of_nat (record_size f), swap_fields (widths f) src)"
    using assms fmt_pass_plain [of f src "[]" cap nulls "''$''"] by simp
  then show ?thesis
    using assms by (simp add: rdm_format_encode_def plain_valid fmt_loop.simps)
qed

section \<open>Text fields\<close>

lemma strnlen_takeWhile:
  "n \<le> length bs \<Longrightarrow> strnlen bs n = Inr (length (takeWhile (\<lambda>b. b \<noteq> 0) (take n bs)))"
  by (induction bs n rule: strnlen.induct) auto

lemma take_length_takeWhile_take:
  "take (length (takeWhile P (take n xs))) xs = takeWhile P (take n xs)"
proof -
  have "takeWhile P (take n xs) = take (length (takeWhile P (take n xs))) (take n xs)"
    by (rule takeWhile_eq_take)
  also have "\<dots> = take (length (takeWhile P (take n xs))) xs"
    using length_takeWhile_le [of P "take n xs"] by (simp add: min_absorb1)
  finally show ?thesis by simp
qed

lemma text_valid [simp]:
  "rdm_format_is_valid (Some ''a'') = Inr True" "rdm_format_is_valid (Some ''a$'') = Inr True"
  by (simp_all add: rdm_format_is_valid_def token_info_def)

lemma encode_text:
  assumes "sz \<noteq> 0" "min 32 (unat sz) \<le> length src" and fmt: "fmt = ''a'' \<or> fmt = ''a$''"
    and chars: "chars = takeWhile (\<lambda>b. b \<noteq> 0) (take (min 32 (unat sz)) src)"
    and room: "length chars + (if nulls then 1 else 0) \<le> cap"
  shows "rdm_format_encode (Some cap) (Some fmt) (Some src) sz nulls =
    Inr (if nulls then chars @ [0] else chars)"
proof -
  have n: "(if sz < 32 then unat sz else 32) = min 32 (unat sz)"
    by (auto simp: min_def word_less_nat_alt)
  have "length chars \<le> length src"
    using order_trans [OF length_takeWhile_le, of "take (min 32 (unat sz)) src"] by (simp add: chars)
  then have "fmt_token nulls cap CHR ''a'' f src sz [] =
      Inr (True, f, src, sz, if nulls then chars @ [0] else chars)" for f
    using assms(2) room
    by (cases nulls) (simp_all add: fmt_token_def n strnlen_takeWhile slice_def emit_def chars
        take_length_takeWhile_take)
  then show ?thesis
    using fmt assms(1) by (auto simp: rdm_format_encode_def fmt_loop.simps)
qed

section \<open>Sizes that do not match the format\<close>

lemma fmt_loop_odd:
  "odd sz \<Longrightarrow> fmt_loop nulls cap ''w'' src sz out = Inl Out_Of_Bounds"
proof (induction "length src" arbitrary: src sz out rule: less_induct)
  case less
  then have "sz \<noteq> 0" by auto
  show ?case
  proof (cases "2 \<le> length src \<and> length out + 2 \<le> cap")
    case True
    have "length (swap16_bytes (take 2 src)) = 2" by (simp add: swap16_bytes_def)
    with True have "fmt_pass nulls cap ''w'' src sz out =
        Inr (False, drop 2 src, sz - 2, out @ swap16_bytes (take 2 src))"
      by (simp add: fmt_token_fixed [where n = 2 and conv = swap16_bytes])
    moreover have "fmt_loop nulls cap ''w'' (drop 2 src) (sz - 2)
        (out @ swap16_bytes (take 2 src)) = Inl Out_Of_Bounds"
      using True less.prems by (intro less.hyps) auto
    ultimately show ?thesis
      using \<open>sz \<noteq> 0\<close> by (simp add: fmt_loop.simps [of _ _ _ src] swap16_bytes_def)
  next
    case False
    then show ?thesis
      using \<open>sz \<noteq> 0\<close>
      by (auto simp: fmt_loop.simps [of _ _ _ src] fmt_token_def copy_token_def load_def emit_def
          swap16_bytes_def)
  qed
qed

section \<open>Properties\<close>

text \<open>
  C21. Encoding parameter data and decoding it again gives the data back: for every format made of
  byte, word, dword and UID tokens whose record fits into parameter data, and for every number of
  whole records, the encoder (with either setting of \<^verbatim>\<open>encode_nulls\<close>) returns exactly as many bytes
  as it was given, and a second pass restores the original bytes.
\<close>

theorem format_round_trip:
  assumes "plain f" "0 < record_size f" "record_size f \<le> 231"
    and "length src = k * record_size f" "k * record_size f < 2 ^ 32"
    and "k * record_size f \<le> cap" "k * record_size f \<le> cap'"
  shows "\<exists>wire. rdm_format_encode (Some cap) (Some f) (Some src) (of_nat (length src)) n1 = Inr wire \<and>
    length wire = length src \<and>
    rdm_format_encode (Some cap') (Some f) (Some wire) (of_nat (length wire)) n2 = Inr src"
proof -
  let ?ws = "concat (replicate k (widths f))"
  have sum: "sum_list ?ws = k * record_size f"
    by (induction k) (simp_all add: record_size_def)
  have len: "length (swap_fields ?ws src) = k * record_size f" using assms(4) sum by simp
  have "rdm_format_encode (Some cap) (Some f) (Some src) (of_nat (k * record_size f)) n1 =
      Inr (swap_fields ?ws src)"
    using assms by (intro encode_plain) simp_all
  moreover have "rdm_format_encode (Some cap') (Some f) (Some (swap_fields ?ws src))
      (of_nat (k * record_size f)) n2 = Inr (swap_fields ?ws (swap_fields ?ws src))"
    using assms len by (intro encode_plain) simp_all
  ultimately show ?thesis
    using assms(4) len sum by (auto simp: swap_fields_involution)
qed

theorem format_round_trip_witness:
  "\<exists>wire. rdm_format_encode (Some 231) (Some ''wbd'') (Some [1, 2, 3, 4, 5, 6, 7])
      (of_nat (length [1 :: u8, 2, 3, 4, 5, 6, 7])) False = Inr wire \<and>
    length wire = length [1 :: u8, 2, 3, 4, 5, 6, 7] \<and>
    rdm_format_encode (Some 7) (Some ''wbd'') (Some wire) (of_nat (length wire)) True =
      Inr [1, 2, 3, 4, 5, 6, 7]"
  by (rule format_round_trip [where k = 1]) simp_all



text \<open>
  Without the terminator the size is trusted: the unguarded subtraction from \<^verbatim>\<open>src_size\<close> means
  that a word format applied to an odd number of bytes never stops at zero and runs past one of the
  two objects, however large they are.
\<close>

lemma odd_size_word_format_overruns:
  assumes "odd sz"
  shows "rdm_format_encode (Some cap) (Some ''w'') (Some src) sz nulls = Inl Out_Of_Bounds"
  using assms plain_valid(1) [of "''w''"]
  by (auto simp: rdm_format_encode_def fmt_loop_odd)

lemma odd_size_word_format_overruns_witness:
  "rdm_format_encode (Some 2) (Some ''w'') (Some (replicate 489 0)) 1 True = Inl Out_Of_Bounds"
  by (rule odd_size_word_format_overruns) simp



text \<open>
  The two validity defects: every format of blanks only, the empty one included, divides by zero
  in the validity check, and an upper-case token, which the check accepts, reaches
  \<^verbatim>\<open>__unreachable()\<close> in the encoder, since \<^verbatim>\<open>c += 'A'\<close> does not turn it into lower case.
\<close>

lemma format_validity_defects:
  "rdm_format_is_valid (Some (replicate n CHR '' '')) = Inl Div_By_Zero \<and>
   rdm_format_is_valid (Some ''W'') = Inr True \<and>
   rdm_format_encode (Some cap) (Some ''W'') (Some src) 2 nulls = Inl Unreachable"
proof (intro conjI)
  have "format_scan (replicate n CHR '' '') 0 = Some (False, 0, [])" by (induction n) auto
  then show "rdm_format_is_valid (Some (replicate n CHR '' '')) = Inl Div_By_Zero"
    by (simp add: rdm_format_is_valid_def)
  show valid: "rdm_format_is_valid (Some ''W'') = Inr True"
    using mod_231_less [of "Suc (Suc 0)"] by (simp add: rdm_format_is_valid_def token_info_def)
  have "is_upper CHR ''W''" and "char_of (of_char CHR ''W'' + of_char CHR ''A'' :: nat) = CHR 0x98"
    by code_simp+
  then show "rdm_format_encode (Some cap) (Some ''W'') (Some src) 2 nulls = Inl Unreachable"
    using valid
    by (simp add: rdm_format_encode_def fmt_loop.simps fmt_token_def fixed_token_def)
qed

end
