(* ===== verification/Dmx_Service.thy ===== *)
theory Dmx_Service
  imports Rdm_Format
begin

text \<open>
  The state of the library and the service layer, \<^verbatim>\<open>dmx/include/service.h\<close> and \<^verbatim>\<open>dmx/service.c\<close>.

  \<^item> A \<open>dmx_driver_t\<close> is the record of one installed port. The linked list of devices is a list that
    starts with the root device; the flexible array of parameters of a device is a list.
  \<^item> \<open>world\<close> holds the table of drivers, the heap blocks that parameter data points to, the file-scope
    state of the timer and GPIO layers, the history of the calls made to code outside the library
    (allocator, FreeRTOS, NVS, UART, timer and GPIO hardware) and the environment that answers them.
    \<open>isr_in_iram\<close> is the build option \<^verbatim>\<open>DMX_ISR_IN_IRAM\<close>, \<open>tick_rate\<close> the configured
    \<^verbatim>\<open>configTICK_RATE_HZ\<close> of the operating system.
    Each answer may depend on the whole history, so the environment is arbitrary; what a property
    needs of it is a hypothesis of that property. \<open>uninit\<close> gives the bytes of local objects that the
    code does not initialise, by the length of the history and the position in the object.
  \<^item> A pointer to a parameter is the pair of the positions of its device and of its entry. Parameter
    data is the address of a heap block, so that two parameters may share one block.
\<close>

section \<open>Calls to code outside the library\<close>

datatype intr_flag =
    DMX_INTR_RX_FIFO_OVERFLOW | DMX_INTR_RX_FRAMING_ERR | DMX_INTR_RX_BREAK | DMX_INTR_RX_DATA
  | DMX_INTR_TX_DATA | DMX_INTR_TX_DONE

type_synonym intr_mask = "intr_flag list"

definition DMX_INTR_RX_ERR :: intr_mask where
  "DMX_INTR_RX_ERR = [DMX_INTR_RX_FIFO_OVERFLOW, DMX_INTR_RX_FRAMING_ERR]"

definition DMX_INTR_RX_ALL :: intr_mask where
  "DMX_INTR_RX_ALL = [DMX_INTR_RX_DATA, DMX_INTR_RX_BREAK] @ DMX_INTR_RX_ERR"

definition DMX_INTR_TX_ALL :: intr_mask where
  "DMX_INTR_TX_ALL = [DMX_INTR_TX_DATA, DMX_INTR_TX_DONE]"

datatype mem_call = Malloc nat | Free nat | Driver_Malloc nat | Driver_Free | Device_Free u16

datatype rtos_call =
    Mutex_Create | Mutex_Delete nat | Mutex_Take nat nat | Mutex_Give nat
  | Set_Timeout | Check_Timeout nat
  | Notify_State_Clear | Notify_Wait nat | Notify_From_Isr nat int | Notify_From_Isr_No_Action nat
  | Mac_Get_Default | Log_Identify bool | Get_Time

datatype nvs_call =
    Nvs_Init | Nvs_Open bool | Nvs_Get_Int string nat | Nvs_Get_Blob string nat
  | Nvs_Set_Int string bytes | Nvs_Set_Blob string bytes | Nvs_Commit | Nvs_Close

text \<open>The line settings that \<^verbatim>\<open>dmx_uart_init\<close> writes.\<close>

datatype uart_setting =
    Sclk_Apb | Baudrate u32 | Mode_Uart | Parity_Disable | Data_8_Bits | Stop_Bits_2
  | Tx_Break nat | Tx_Idle_Num nat | Hw_Flowctrl_Disable | Txfifo_Empty_Thr nat | Rxfifo_Full_Thr nat

datatype uart_line_call =
    Uart_Periph_Enable | Uart_Periph_Reset | Uart_Periph_Disable | Uart_Ll_Set uart_setting
  | Uart_Intr_Alloc int | Uart_Set_Pin int int int | Uart_Get_Baud | Uart_Set_Baud u32
  | Uart_Invert_Tx bool | Uart_Get_Rts | Uart_Set_Rts bool

datatype uart_fifo_call =
    Uart_Enable_Interrupt intr_mask | Uart_Disable_Interrupt intr_mask
  | Uart_Clear_Interrupt intr_mask
  | Uart_Rxfifo_Len | Uart_Read_Rxfifo nat | Uart_Rxfifo_Reset
  | Uart_Txfifo_Len | Uart_Write_Txfifo bytes | Uart_Txfifo_Reset

datatype timer_call =
    Timer_Init | Timer_Isr_Add int | Timer_Isr_Remove | Timer_Deinit | Timer_Set_Count int | Timer_Set_Alarm int bool | Timer_Start | Timer_Stop

datatype gpio_call =
    Gpio_Intr_Any_Edge int | Gpio_Intr_Disable int | Gpio_Isr_Add int | Gpio_Isr_Remove int | Gpio_Read int

datatype ext_call =
    Mem mem_call | Rtos rtos_call | Nvs nvs_call
  | Uart nat uart_line_call | Fifo nat uart_fifo_call | Timer nat timer_call | Gpio nat gpio_call

text \<open>
  The reply of \<open>Notify_Wait\<close> has the notification value as its code, and a negative code when the wait
  timed out; the reply of \<open>Check_Timeout\<close> has the ticks that are left, and a negative code after the
  timeout. The reply of \<open>Mutex_Take\<close> is zero when the mutex was not taken. Every other status code is
  zero for success, as in the vendor's API.

  Interrupts that the environment delivers while a task is blocked. A UART interrupt carries the
  successive values of the interrupt status register that its handler reads before it reads zero.
\<close>

datatype hw_event = Uart_Irq nat "intr_mask list" | Timer_Irq nat | Gpio_Irq nat

datatype ext_reply = Reply (r_code: int) (r_bytes: bytes) (r_events: "hw_event list")

section \<open>Parameters, devices and drivers\<close>

datatype dmx_parameter_type_t =
    DMX_PARAMETER_TYPE_NULL | DMX_PARAMETER_TYPE_DYNAMIC | DMX_PARAMETER_TYPE_NON_VOLATILE
  | DMX_PARAMETER_TYPE_STATIC | DMX_PARAMETER_TYPE_NON_VOLATILE_STAGED

datatype dmx_progress_t =
    DMX_PROGRESS_STALE | DMX_PROGRESS_IN_BREAK | DMX_PROGRESS_IN_MAB | DMX_PROGRESS_IN_DATA
  | DMX_PROGRESS_COMPLETE

datatype dmx_status_t = DMX_STATUS_IDLE | DMX_STATUS_RECEIVING | DMX_STATUS_SENDING

definition DMX_HEAD_WAITING_FOR_BREAK :: int where [simp]: "DMX_HEAD_WAITING_FOR_BREAK = -1"

text \<open>Function pointers of the library are the names of the functions they point to.\<close>

datatype rdm_handler_t =
    Rhd_Discovery | Rhd_Simple | Rhd_Get_Device_Info | Rhd_Get_Set_Language
  | Rhd_Get_Queued_Message | Rhd_Get_Supported_Parameters | Rhd_Get_Parameter_Description
  | Rhd_Set_Dmx_Personality | Rhd_Get_Dmx_Personality_Description | Rhd_Set_Reset_Device
  | Rhd_Get_Set_Sensor_Value | Rhd_Set_Record_Sensors | Rhd_Get_Sensor_Definition

datatype rdm_callback_t = Default_Identify_Cb | User_Cb nat

record rdm_command_t =
  request_format :: "string option"
  response_format :: "string option"
  handler :: "rdm_handler_t option"

record rdm_parameter_definition_t =
  def_pid_cc :: u8
  def_ds :: u8
  def_get :: rdm_command_t
  def_set :: rdm_command_t
  def_pdl_size :: u8
  def_max_value :: u32
  def_min_value :: u32
  def_default_value :: u32
  def_units :: u8
  def_prefix :: u8
  def_description :: "string option"

record dmx_parameter_t =
  p_pid :: u16
  p_size :: nat
  p_data :: "nat option"
  p_type :: dmx_parameter_type_t
  p_definition :: "rdm_parameter_definition_t option"
  p_callback :: "rdm_callback_t option"
  p_context :: "nat option"

record dmx_device_t =
  dev_num :: u16
  dev_parameters :: "dmx_parameter_t list"

record dmx_metadata_t =
  md_break_len :: u32
  md_mab_len :: u32

text \<open>
  \<open>d_last_request_pid\<close> shares its low byte with \<^verbatim>\<open>last_request_was_broadcast\<close>, and \<open>d_tn\<close> is the same
  byte as \<^verbatim>\<open>boot_loader\<close>: both are unions in the source. \<open>d_task_waiting\<close> says whether the task handle
  is set.
\<close>

record dmx_driver_t =
  d_dmx_num :: nat
  d_uid :: rdm_uid_t
  d_break_len :: u32
  d_mab_len :: u32
  d_is_enabled :: bool
  d_is_controller :: bool
  d_task_waiting :: bool
  d_head :: int
  d_data :: bytes
  d_size :: int
  d_status :: dmx_status_t
  d_progress :: dmx_progress_t
  d_last_controller_pid :: u16
  d_controller_eop_timestamp :: int
  d_last_responder_pid :: u16
  d_responder_sent_last :: bool
  d_last_request_pid :: u16
  d_last_request_pid_repeats :: u8
  d_tn :: u8
  d_sniffer_enabled :: bool
  d_sniffer_index :: nat
  d_sniffer_metadata :: "dmx_metadata_t list"
  d_last_pos_edge_ts :: int
  d_last_neg_edge_ts :: int
  d_count_root :: nat
  d_count_sub_devices :: nat
  d_count_staged :: nat
  d_devices :: "dmx_device_t list"

definition last_request_was_broadcast :: "dmx_driver_t \<Rightarrow> bool" where
  "last_request_was_broadcast d \<longleftrightarrow> (ucast (d_last_request_pid d) :: u8) \<noteq> 0"

definition set_last_request_was_broadcast :: "bool \<Rightarrow> dmx_driver_t \<Rightarrow> dmx_driver_t" where
  "set_last_request_was_broadcast b d =
     d\<lparr>d_last_request_pid := (d_last_request_pid d AND 0xff00) OR (if b then 1 else 0)\<rparr>"

definition boot_loader :: "dmx_driver_t \<Rightarrow> bool" where
  "boot_loader d \<longleftrightarrow> d_tn d \<noteq> 0"

definition set_boot_loader :: "dmx_driver_t \<Rightarrow> dmx_driver_t" where
  "set_boot_loader d = d\<lparr>d_tn := 1\<rparr>"

record world =
  drv :: "nat \<Rightarrow> dmx_driver_t option"
  heap :: "nat \<Rightarrow> bytes option"
  next_addr :: nat
  timer_running :: "nat \<Rightarrow> bool"
  sniffer_pin :: "nat \<Rightarrow> int"
  isr_in_iram :: bool
  tick_rate :: nat
  calls :: "ext_call list"
  env :: "ext_call list \<Rightarrow> ext_call \<Rightarrow> ext_reply"
  uninit :: "nat \<Rightarrow> nat \<Rightarrow> u8"

section \<open>Access to the state\<close>

definition ext :: "ext_call \<Rightarrow> (world, ext_reply) cmd" where
  "ext c = (\<lambda>w. Inr (env w (calls w) c, w\<lparr>calls := calls w @ [c]\<rparr>))"

definition ext_u :: "ext_call \<Rightarrow> (world, unit) cmd" where
  "ext_u c = bind_c (ext c) (\<lambda>_. ret ())"

definition get_drv :: "nat \<Rightarrow> world \<Rightarrow> dmx_driver_t res" where
  "get_drv n w = (case drv w n of None \<Rightarrow> Inl Null_Deref | Some d \<Rightarrow> Inr d)"

definition upd_drv :: "nat \<Rightarrow> (dmx_driver_t \<Rightarrow> dmx_driver_t) \<Rightarrow> (world, unit) cmd" where
  "upd_drv n f = (\<lambda>w. case drv w n of
     None \<Rightarrow> Inl Null_Deref
   | Some d \<Rightarrow> Inr ((), w\<lparr>drv := (drv w)(n \<mapsto> f d)\<rparr>))"

definition get_block :: "nat \<Rightarrow> world \<Rightarrow> bytes res" where
  "get_block a w = (case heap w a of None \<Rightarrow> Inl Out_Of_Bounds | Some bs \<Rightarrow> Inr bs)"

definition heap_load :: "nat \<Rightarrow> nat \<Rightarrow> nat \<Rightarrow> world \<Rightarrow> bytes res" where
  "heap_load a off n w = bind_r (get_block a w) (load off n)"

definition heap_store :: "nat \<Rightarrow> nat \<Rightarrow> bytes \<Rightarrow> (world, unit) cmd" where
  "heap_store a off bs = (\<lambda>w.
     case bind_r (get_block a w) (store off bs) of
       Inl e \<Rightarrow> Inl e
     | Inr blk \<Rightarrow> Inr ((), w\<lparr>heap := (heap w)(a \<mapsto> blk)\<rparr>))"

text \<open>
  \<^verbatim>\<open>malloc\<close>: the environment decides whether it fails; otherwise the block is fresh and its contents
  are those the environment gives.
\<close>

definition malloc :: "nat \<Rightarrow> (world, nat option) cmd" where
  "malloc n = bind_c (ext (Mem (Malloc n))) (\<lambda>r.
     if r_code r = 0 then ret None
     else (\<lambda>w. Inr (Some (next_addr w),
       w\<lparr>heap := (heap w)(next_addr w \<mapsto> take n (r_bytes r @ replicate n 0)),
         next_addr := next_addr w + 1\<rparr>)))"

definition free :: "nat option \<Rightarrow> (world, unit) cmd" where
  "free p = (case p of
     None \<Rightarrow> ret ()
   | Some a \<Rightarrow> then_c (ext_u (Mem (Free a))) (modify_c (\<lambda>w. w\<lparr>heap := (heap w)(a := None)\<rparr>)))"

text \<open>A local object of \<open>n\<close> bytes that the code does not initialise.\<close>

definition uninit_bytes :: "nat \<Rightarrow> world \<Rightarrow> bytes" where
  "uninit_bytes n w = map (uninit w (length (calls w))) [0..<n]"

text \<open>
  A pointer that is passed on: the bytes of the object from the pointer on, with no bytes at all
  behind a dangling pointer, so that a later access faults.
\<close>

definition bytes_at :: "nat option \<Rightarrow> world \<Rightarrow> bytes option" where
  "bytes_at p w = map_option (\<lambda>a. case heap w a of Some bs \<Rightarrow> bs | None \<Rightarrow> []) p"

definition dmx_driver_is_installed :: "nat \<Rightarrow> world \<Rightarrow> bool" where
  "dmx_driver_is_installed n w \<longleftrightarrow> n < DMX_NUM_MAX \<and> drv w n \<noteq> None"

definition assert_r :: "bool \<Rightarrow> 'a res \<Rightarrow> 'a res" where
  "assert_r b r = (if b then r else Inl Assert_Failed)"

section \<open>The service layer\<close>

text \<open>The position of a device in the list, \<open>None\<close> when the sub-device does not exist.\<close>

definition dmx_device_get :: "nat \<Rightarrow> u16 \<Rightarrow> world \<Rightarrow> nat option res" where
  "dmx_device_get dmx_num device_num w =
     assert_r (dmx_num < DMX_NUM_MAX)
    (assert_r (device_num < RDM_SUB_DEVICE_MAX)
    (assert_r (dmx_driver_is_installed dmx_num w)
    (bind_r (get_drv dmx_num w) (\<lambda>d.
     Inr (find_index (\<lambda>dev. dev_num dev = device_num) (d_devices d))))))"

definition param_count :: "dmx_driver_t \<Rightarrow> u16 \<Rightarrow> nat" where
  "param_count d device_num =
     (if device_num = RDM_SUB_DEVICE_ROOT then d_count_root d else d_count_sub_devices d)"

datatype slot = Slot_Exists | Slot_Empty nat | Slot_None

text \<open>
  The loop of \<^verbatim>\<open>dmx_parameter_add\<close> over the first \<open>k\<close> entries: it stops at the PID or at the first
  entry whose PID is zero.
\<close>

fun scan_slot :: "u16 \<Rightarrow> nat \<Rightarrow> nat \<Rightarrow> dmx_parameter_t list \<Rightarrow> slot res" where
  "scan_slot pid i 0 ps = Inr Slot_None"
| "scan_slot pid i (Suc k) [] = Inl Out_Of_Bounds"
| "scan_slot pid i (Suc k) (p # ps) =
     (if p_pid p = pid then Inr Slot_Exists
      else if p_pid p = 0 then Inr (Slot_Empty i)
      else scan_slot pid (Suc i) k ps)"

text \<open>Writing through a pointer to an entry.\<close>

definition put_entry ::
  "nat \<Rightarrow> nat \<Rightarrow> (dmx_parameter_t \<Rightarrow> dmx_parameter_t) \<Rightarrow> dmx_driver_t \<Rightarrow> dmx_driver_t" where
  "put_entry j i f d =
     d\<lparr>d_devices := (d_devices d)[j := (d_devices d ! j)\<lparr>dev_parameters :=
       (dev_parameters (d_devices d ! j))[i := f (dev_parameters (d_devices d ! j) ! i)]\<rparr>]\<rparr>"

definition set_entry ::
  "nat \<Rightarrow> nat \<Rightarrow> nat \<Rightarrow> (dmx_parameter_t \<Rightarrow> dmx_parameter_t) \<Rightarrow> (world, unit) cmd" where
  "set_entry dmx_num j i f = upd_drv dmx_num (put_entry j i f)"

text \<open>
  The initial value of a parameter: \<open>Init_Null\<close> is a NULL pointer, \<open>Init_Bytes\<close> a pointer to an object
  that is copied (for a static parameter: an object of static storage, such as a string literal),
  \<open>Init_Static\<close> a pointer to an existing block.
\<close>

datatype init_data = Init_Null | Init_Bytes bytes | Init_Static nat

definition init_bytes :: "init_data \<Rightarrow> nat \<Rightarrow> world \<Rightarrow> bytes res" where
  "init_bytes data n w = (case data of
     Init_Null \<Rightarrow> Inr (replicate n 0)
   | Init_Bytes bs \<Rightarrow> load 0 n bs
   | Init_Static a \<Rightarrow> heap_load a 0 n w)"

definition fill_entry ::
  "nat \<Rightarrow> nat \<Rightarrow> nat \<Rightarrow> u16 \<Rightarrow> dmx_parameter_type_t \<Rightarrow> nat \<Rightarrow> nat option \<Rightarrow> (world, bool) cmd" where
  "fill_entry dmx_num j i pid type sz addr =
     then_c (set_entry dmx_num j i (\<lambda>p. p\<lparr>p_pid := pid, p_size := sz, p_data := addr,
       p_type := type, p_definition := None, p_callback := None\<rparr>)) (ret True)"

definition dmx_parameter_add :: "nat \<Rightarrow> u16 \<Rightarrow> u16 \<Rightarrow> dmx_parameter_type_t \<Rightarrow> init_data \<Rightarrow> nat \<Rightarrow>
    (world, bool) cmd" where
  "dmx_parameter_add dmx_num device_num pid type data sz =
     then_c (assert_c (dmx_num < DMX_NUM_MAX))
    (then_c (assert_c (device_num < RDM_SUB_DEVICE_MAX))
    (then_c (assert_c (pid > 0))
    (bind_c (gets_c (dmx_driver_is_installed dmx_num)) (\<lambda>installed.
     then_c (assert_c installed)
    (bind_c (query (dmx_device_get dmx_num device_num)) (\<lambda>device.
     case device of
       None \<Rightarrow> ret False
     | Some j \<Rightarrow>
         bind_c (query (get_drv dmx_num)) (\<lambda>d.
         bind_c (lift_c (scan_slot pid 0 (param_count d device_num)
                   (dev_parameters (d_devices d ! j)))) (\<lambda>slot.
         case slot of
           Slot_Exists \<Rightarrow> ret True
         | Slot_None \<Rightarrow> ret False
         | Slot_Empty i \<Rightarrow>
             (case type of
                DMX_PARAMETER_TYPE_STATIC \<Rightarrow>
                  (case data of
                     Init_Static a \<Rightarrow> fill_entry dmx_num j i pid type sz (Some a)
                   | Init_Null \<Rightarrow> fill_entry dmx_num j i pid type sz None
                   | Init_Bytes bs \<Rightarrow>
                       (\<lambda>w. fill_entry dmx_num j i pid type sz (Some (next_addr w))
                         (w\<lparr>heap := (heap w)(next_addr w \<mapsto> bs), next_addr := next_addr w + 1\<rparr>)))
              | DMX_PARAMETER_TYPE_NULL \<Rightarrow> fill_entry dmx_num j i pid type sz None
              | DMX_PARAMETER_TYPE_NON_VOLATILE_STAGED \<Rightarrow> ret False
              | _ \<Rightarrow>
                  bind_c (malloc sz) (\<lambda>p.
                  case p of
                    None \<Rightarrow> then_c (set_entry dmx_num j i (\<lambda>q. q\<lparr>p_data := None\<rparr>)) (ret False)
                  | Some a \<Rightarrow>
                      bind_c (query (init_bytes data sz)) (\<lambda>bs.
                      then_c (heap_store a 0 bs)
                        (fill_entry dmx_num j i pid type sz (Some a)))))))))))))"

fun scan_pid :: "u16 \<Rightarrow> nat \<Rightarrow> dmx_parameter_t list \<Rightarrow> nat option res" where
  "scan_pid pid 0 ps = Inr None"
| "scan_pid pid (Suc k) [] = Inl Out_Of_Bounds"
| "scan_pid pid (Suc k) (p # ps) =
     (if p_pid p = pid then Inr (Some 0)
      else bind_r (scan_pid pid k ps) (\<lambda>r. Inr (map_option Suc r)))"

definition dmx_parameter_get_entry :: "nat \<Rightarrow> u16 \<Rightarrow> u16 \<Rightarrow> world \<Rightarrow> (nat \<times> nat) option res" where
  "dmx_parameter_get_entry dmx_num device_num pid w =
     assert_r (dmx_num < DMX_NUM_MAX)
    (assert_r (device_num < RDM_SUB_DEVICE_MAX)
    (assert_r (pid > 0)
    (assert_r (dmx_driver_is_installed dmx_num w)
    (bind_r (dmx_device_get dmx_num device_num w) (\<lambda>device.
     case device of
       None \<Rightarrow> Inr None
     | Some j \<Rightarrow>
         bind_r (get_drv dmx_num w) (\<lambda>d.
         bind_r (scan_pid pid (param_count d device_num) (dev_parameters (d_devices d ! j)))
           (\<lambda>r. Inr (map_option (Pair j) r))))))))"

text \<open>The entry behind a pointer that \<^verbatim>\<open>dmx_parameter_get_entry\<close> has returned.\<close>

definition entry_at :: "nat \<Rightarrow> nat \<times> nat \<Rightarrow> world \<Rightarrow> dmx_parameter_t res" where
  "entry_at dmx_num ptr w = bind_r (get_drv dmx_num w)
     (\<lambda>d. Inr (dev_parameters (d_devices d ! fst ptr) ! snd ptr))"

section \<open>Initial states\<close>

text \<open>
  The values that \<^verbatim>\<open>dmx_driver_install\<close> gives the fields of a new driver. \<open>params\<close> is the allocated array
  of parameters, in which the PIDs of the first \<open>count_root\<close> entries are zero and nothing else is
  initialised; \<open>metadata\<close> is the uninitialised sniffer data.
\<close>

definition initial_driver :: "nat \<Rightarrow> rdm_uid_t \<Rightarrow> nat \<Rightarrow> nat \<Rightarrow> dmx_parameter_t list \<Rightarrow>
    dmx_metadata_t list \<Rightarrow> dmx_driver_t" where
  "initial_driver dmx_num uid count_root count_sub params metadata = \<lparr>
     d_dmx_num = dmx_num, d_uid = uid, d_break_len = RDM_BREAK_LEN_US, d_mab_len = RDM_MAB_LEN_US,
     d_is_enabled = True, d_is_controller = False, d_task_waiting = False,
     d_head = DMX_HEAD_WAITING_FOR_BREAK, d_data = replicate DMX_PACKET_SIZE_MAX 0,
     d_size = int DMX_PACKET_SIZE_MAX, d_status = DMX_STATUS_IDLE, d_progress = DMX_PROGRESS_STALE,
     d_last_controller_pid = 0, d_controller_eop_timestamp = 0, d_last_responder_pid = 0,
     d_responder_sent_last = False, d_last_request_pid = 0, d_last_request_pid_repeats = 0,
     d_tn = 0, d_sniffer_enabled = False, d_sniffer_index = 0, d_sniffer_metadata = metadata,
     d_last_pos_edge_ts = -1, d_last_neg_edge_ts = -1,
     d_count_root = count_root, d_count_sub_devices = count_sub, d_count_staged = 0,
     d_devices = [\<lparr>dev_num = RDM_SUB_DEVICE_ROOT,
       dev_parameters = map (\<lambda>p. p\<lparr>p_pid := 0\<rparr>) (take count_root params) @ drop count_root params\<rparr>]\<rparr>"

text \<open>The state before any driver is installed: the static initialisers of the library.\<close>

definition boot_world :: "bool \<Rightarrow> (ext_call list \<Rightarrow> ext_call \<Rightarrow> ext_reply) \<Rightarrow> world" where
  "boot_world iram e = \<lparr>drv = (\<lambda>_. None), heap = (\<lambda>_. None), next_addr = 0,
     timer_running = (\<lambda>_. False), sniffer_pin = (\<lambda>_. -1), isr_in_iram = iram, tick_rate = 1000, calls = [], env = e,
     uninit = (\<lambda>_ _. 0xcd)\<rparr>"

text \<open>
  A concrete environment for examples: allocation and locking succeed, NVS is empty, every register
  reads zero.
\<close>

definition demo_env :: "ext_call list \<Rightarrow> ext_call \<Rightarrow> ext_reply" where
  "demo_env cs c = (case c of
     Mem _ \<Rightarrow> Reply 1 [] []
   | Rtos r \<Rightarrow> (case r of
       Mutex_Create \<Rightarrow> Reply 1 [] [] | Mutex_Take _ _ \<Rightarrow> Reply 1 [] []
     | _ \<Rightarrow> Reply 0 [] [])
   | Nvs r \<Rightarrow> (case r of Nvs_Get_Int _ _ \<Rightarrow> Reply 1 [] [] | Nvs_Get_Blob _ _ \<Rightarrow> Reply 1 [] [] | _ \<Rightarrow> Reply 0 [] [])
   | _ \<Rightarrow> Reply 0 [] [])"

definition blank_parameter :: dmx_parameter_t where
  "blank_parameter = \<lparr>p_pid = 0, p_size = 0, p_data = None, p_type = DMX_PARAMETER_TYPE_NULL,
     p_definition = None, p_callback = None, p_context = None\<rparr>"

definition demo_driver :: "nat \<Rightarrow> dmx_driver_t" where
  "demo_driver k = initial_driver 0 (Rdm_Uid 0x05e0 0x12345678) k 0 (replicate k blank_parameter)
     [\<lparr>md_break_len = 0, md_mab_len = 0\<rparr>, \<lparr>md_break_len = 0, md_mab_len = 0\<rparr>]"

definition demo_world :: "nat \<Rightarrow> world" where
  "demo_world k = (boot_world True demo_env)\<lparr>drv := (\<lambda>_. None)(0 \<mapsto> demo_driver k)\<rparr>"

end
