(* ===== verification/Dmx_Hal.thy ===== *)
theory Dmx_Hal
  imports Dmx_Service
begin

text \<open>
  The hardware abstraction layer: the wrappers of \<^verbatim>\<open>dmx/hal/uart.c\<close>, \<^verbatim>\<open>timer.c\<close>, \<^verbatim>\<open>gpio.c\<close> and \<^verbatim>\<open>nvs.c\<close>
  around the vendor's drivers, and the functions of \<^verbatim>\<open>dmx/driver.c\<close> that switch a port on and off,
  which \<^verbatim>\<open>nvs.c\<close> calls. Every call of the vendor's code is an external call. The build modelled is the
  one of the repository's \<^verbatim>\<open>platformio.ini\<close>: an ESP32 with three UARTs and the timer API of ESP-IDF 4.
\<close>

section \<open>Critical sections\<close>

text \<open>
  \<^verbatim>\<open>taskENTER_CRITICAL(DMX_SPINLOCK(n))\<close> takes the address of a field of the driver object: without a
  driver it is a dereference of NULL.
\<close>

definition critical :: "nat \<Rightarrow> (world, 'a) cmd \<Rightarrow> (world, 'a) cmd" where
  "critical n m = bind_c (query (get_drv n)) (\<lambda>_. m)"

section \<open>UART\<close>

definition dmx_uart_set_pin :: "nat \<Rightarrow> int \<Rightarrow> int \<Rightarrow> int \<Rightarrow> (world, bool) cmd" where
  "dmx_uart_set_pin dmx_num tx rx rts =
     bind_c (ext (Uart dmx_num (Uart_Set_Pin tx rx rts))) (\<lambda>r. ret (r_code r = 0))"

definition dmx_uart_get_baud_rate :: "nat \<Rightarrow> (world, u32) cmd" where
  "dmx_uart_get_baud_rate dmx_num =
     bind_c (ext (Uart dmx_num Uart_Get_Baud)) (\<lambda>r. ret (of_int (r_code r)))"

definition dmx_uart_set_baud_rate :: "nat \<Rightarrow> u32 \<Rightarrow> (world, unit) cmd" where
  "dmx_uart_set_baud_rate dmx_num baud_rate = ext_u (Uart dmx_num (Uart_Set_Baud baud_rate))"

definition dmx_uart_invert_tx :: "nat \<Rightarrow> bool \<Rightarrow> (world, unit) cmd" where
  "dmx_uart_invert_tx dmx_num invert = ext_u (Uart dmx_num (Uart_Invert_Tx invert))"

definition dmx_uart_get_rts :: "nat \<Rightarrow> (world, int) cmd" where
  "dmx_uart_get_rts dmx_num = bind_c (ext (Uart dmx_num Uart_Get_Rts)) (\<lambda>r. ret (r_code r))"

definition dmx_uart_set_rts :: "nat \<Rightarrow> bool \<Rightarrow> (world, unit) cmd" where
  "dmx_uart_set_rts dmx_num level = ext_u (Uart dmx_num (Uart_Set_Rts level))"

definition dmx_uart_enable_interrupt :: "nat \<Rightarrow> intr_mask \<Rightarrow> (world, unit) cmd" where
  "dmx_uart_enable_interrupt dmx_num flags = ext_u (Fifo dmx_num (Uart_Enable_Interrupt flags))"

definition dmx_uart_disable_interrupt :: "nat \<Rightarrow> intr_mask \<Rightarrow> (world, unit) cmd" where
  "dmx_uart_disable_interrupt dmx_num flags = ext_u (Fifo dmx_num (Uart_Disable_Interrupt flags))"

definition dmx_uart_clear_interrupt :: "nat \<Rightarrow> intr_mask \<Rightarrow> (world, unit) cmd" where
  "dmx_uart_clear_interrupt dmx_num flags = ext_u (Fifo dmx_num (Uart_Clear_Interrupt flags))"

definition dmx_uart_get_rxfifo_len :: "nat \<Rightarrow> (world, int) cmd" where
  "dmx_uart_get_rxfifo_len dmx_num =
     bind_c (ext (Fifo dmx_num Uart_Rxfifo_Len)) (\<lambda>r. ret (r_code r))"

text \<open>
  The bytes read are the result; the FIFO delivers as many as it is asked for. A negative length is
  not passed on: the FIFO length register is not negative.
\<close>

definition dmx_uart_read_rxfifo :: "nat \<Rightarrow> int \<Rightarrow> (world, bytes) cmd" where
  "dmx_uart_read_rxfifo dmx_num sz =
     bind_c (dmx_uart_get_rxfifo_len dmx_num) (\<lambda>rxfifo_len.
     (let n = nat (if sz > rxfifo_len then rxfifo_len else sz) in
      bind_c (ext (Fifo dmx_num (Uart_Read_Rxfifo n)))
        (\<lambda>r. ret (take n (r_bytes r @ replicate n 0)))))"

definition dmx_uart_rxfifo_reset :: "nat \<Rightarrow> (world, unit) cmd" where
  "dmx_uart_rxfifo_reset dmx_num = ext_u (Fifo dmx_num Uart_Rxfifo_Reset)"

definition dmx_uart_get_txfifo_len :: "nat \<Rightarrow> (world, int) cmd" where
  "dmx_uart_get_txfifo_len dmx_num =
     bind_c (ext (Fifo dmx_num Uart_Txfifo_Len)) (\<lambda>r. ret (r_code r))"

text \<open>
  \<open>buf\<close> is the memory from the pointer to the end of its object; the result is the number written. A
  negative size is converted to a huge unsigned length by the vendor's function.
\<close>

definition dmx_uart_write_txfifo :: "nat \<Rightarrow> bytes \<Rightarrow> int \<Rightarrow> (world, int) cmd" where
  "dmx_uart_write_txfifo dmx_num buf sz =
     bind_c (dmx_uart_get_txfifo_len dmx_num) (\<lambda>txfifo_len.
     (let n = (if sz > txfifo_len then txfifo_len else sz) in
      if n < 0 then throw Out_Of_Bounds
      else bind_c (lift_c (load 0 (nat n) buf)) (\<lambda>bs.
        then_c (ext_u (Fifo dmx_num (Uart_Write_Txfifo bs))) (ret n))))"

definition dmx_uart_txfifo_reset :: "nat \<Rightarrow> (world, unit) cmd" where
  "dmx_uart_txfifo_reset dmx_num = ext_u (Fifo dmx_num Uart_Txfifo_Reset)"

definition UART_LL_INTR_MASK :: intr_mask where
  "UART_LL_INTR_MASK = DMX_INTR_RX_ALL @ DMX_INTR_TX_ALL"

definition DMX_UART_FULL_DEFAULT :: nat where "DMX_UART_FULL_DEFAULT = 1"

definition DMX_UART_EMPTY_DEFAULT :: nat where "DMX_UART_EMPTY_DEFAULT = 8"

text \<open>
  \<^verbatim>\<open>UART_LL_INTR_MASK\<close> stands for all interrupts of the UART, of which the six above are the ones the
  library uses. The port with number 0 is the console and is not reset.
\<close>

definition dmx_uart_init :: "nat \<Rightarrow> int \<Rightarrow> (world, bool) cmd" where
  "dmx_uart_init dmx_num isr_flags =
     then_c (ext_u (Uart dmx_num Uart_Periph_Enable))
    (then_c (if dmx_num \<noteq> 0 then ext_u (Uart dmx_num Uart_Periph_Reset) else ret ())
    (then_c (for_c [Sclk_Apb, Baudrate DMX_BAUD_RATE, Mode_Uart, Parity_Disable, Data_8_Bits, Stop_Bits_2,
               Tx_Break 0, Tx_Idle_Num 0, Hw_Flowctrl_Disable, Txfifo_Empty_Thr DMX_UART_EMPTY_DEFAULT,
               Rxfifo_Full_Thr DMX_UART_FULL_DEFAULT]
         (\<lambda>s. ext_u (Uart dmx_num (Uart_Ll_Set s))))
    (then_c (dmx_uart_rxfifo_reset dmx_num)
    (then_c (dmx_uart_txfifo_reset dmx_num)
    (then_c (dmx_uart_disable_interrupt dmx_num UART_LL_INTR_MASK)
    (then_c (dmx_uart_clear_interrupt dmx_num UART_LL_INTR_MASK)
    (then_c (ext_u (Uart dmx_num (Uart_Intr_Alloc isr_flags))) (ret True))))))))"

definition dmx_uart_deinit :: "nat \<Rightarrow> (world, unit) cmd" where
  "dmx_uart_deinit dmx_num =
     (if dmx_num \<noteq> 0 then ext_u (Uart dmx_num Uart_Periph_Disable) else ret ())"

section \<open>Timer\<close>

text \<open>\<open>Timer n\<close> is the hardware timer with group \<open>n div 2\<close> and index \<open>n mod 2\<close>.\<close>

definition dmx_timer_init :: "nat \<Rightarrow> int \<Rightarrow> (world, bool) cmd" where
  "dmx_timer_init dmx_num isr_flags =
     bind_c (ext (Timer dmx_num Timer_Init)) (\<lambda>r.
     if r_code r \<noteq> 0 then ret False
     else then_c (ext_u (Timer dmx_num (Timer_Isr_Add isr_flags)))
      (then_c (modify_c (\<lambda>w. w\<lparr>timer_running := (timer_running w)(dmx_num := False)\<rparr>))
        (ret True)))"

definition dmx_timer_deinit :: "nat \<Rightarrow> (world, unit) cmd" where
  "dmx_timer_deinit dmx_num =
     then_c (ext_u (Timer dmx_num Timer_Isr_Remove))
    (then_c (ext_u (Timer dmx_num Timer_Deinit))
       (modify_c (\<lambda>w. w\<lparr>timer_running := (timer_running w)(dmx_num := False)\<rparr>)))"

definition dmx_timer_stop :: "nat \<Rightarrow> (world, unit) cmd" where
  "dmx_timer_stop dmx_num =
     bind_c (gets_c (\<lambda>w. timer_running w dmx_num)) (\<lambda>is_running.
     if is_running then
       then_c (ext_u (Timer dmx_num Timer_Stop))
         (modify_c (\<lambda>w. w\<lparr>timer_running := (timer_running w)(dmx_num := False)\<rparr>))
     else ret ())"

definition dmx_timer_set_counter :: "nat \<Rightarrow> int \<Rightarrow> (world, unit) cmd" where
  "dmx_timer_set_counter dmx_num counter = ext_u (Timer dmx_num (Timer_Set_Count counter))"

definition dmx_timer_set_alarm :: "nat \<Rightarrow> int \<Rightarrow> bool \<Rightarrow> (world, unit) cmd" where
  "dmx_timer_set_alarm dmx_num alarm auto_reload =
     ext_u (Timer dmx_num (Timer_Set_Alarm alarm auto_reload))"

definition dmx_timer_start :: "nat \<Rightarrow> (world, unit) cmd" where
  "dmx_timer_start dmx_num =
     bind_c (gets_c (\<lambda>w. timer_running w dmx_num)) (\<lambda>is_running.
     if \<not> is_running then
       then_c (ext_u (Timer dmx_num Timer_Start))
         (modify_c (\<lambda>w. w\<lparr>timer_running := (timer_running w)(dmx_num := True)\<rparr>))
     else ret ())"

definition dmx_timer_get_micros_since_boot :: "(world, int) cmd" where
  "dmx_timer_get_micros_since_boot = bind_c (ext (Rtos Get_Time)) (\<lambda>r. ret (r_code r))"

section \<open>GPIO\<close>

definition dmx_gpio_init :: "nat \<Rightarrow> int \<Rightarrow> (world, bool) cmd" where
  "dmx_gpio_init dmx_num pin =
     then_c (ext_u (Gpio dmx_num (Gpio_Intr_Any_Edge pin)))
    (then_c (ext_u (Gpio dmx_num (Gpio_Isr_Add pin)))
    (then_c (modify_c (\<lambda>w. w\<lparr>sniffer_pin := (sniffer_pin w)(dmx_num := pin)\<rparr>)) (ret True)))"

definition dmx_gpio_deinit :: "nat \<Rightarrow> (world, unit) cmd" where
  "dmx_gpio_deinit dmx_num =
     bind_c (gets_c (\<lambda>w. sniffer_pin w dmx_num)) (\<lambda>pin.
     then_c (ext_u (Gpio dmx_num (Gpio_Intr_Disable pin)))
    (then_c (ext_u (Gpio dmx_num (Gpio_Isr_Remove pin)))
       (modify_c (\<lambda>w. w\<lparr>sniffer_pin := (sniffer_pin w)(dmx_num := -1)\<rparr>))))"

definition dmx_gpio_read :: "nat \<Rightarrow> (world, int) cmd" where
  "dmx_gpio_read dmx_num =
     bind_c (gets_c (\<lambda>w. sniffer_pin w dmx_num)) (\<lambda>pin.
     bind_c (ext (Gpio dmx_num (Gpio_Read pin))) (\<lambda>r. ret (r_code r)))"

section \<open>Switching a port on and off\<close>

definition dmx_driver_is_enabled :: "nat \<Rightarrow> world \<Rightarrow> bool" where
  "dmx_driver_is_enabled dmx_num w =
     (dmx_driver_is_installed dmx_num w \<and>
      (case drv w dmx_num of None \<Rightarrow> False | Some d \<Rightarrow> d_is_enabled d))"

definition dmx_driver_disable :: "nat \<Rightarrow> (world, bool) cmd" where
  "dmx_driver_disable dmx_num = (\<lambda>w.
     if \<not> dmx_num < DMX_NUM_MAX then ret False w
     else if \<not> dmx_driver_is_installed dmx_num w then ret False w
     else if \<not> dmx_driver_is_enabled dmx_num w then ret False w
     else critical dmx_num
       (bind_c (query (get_drv dmx_num)) (\<lambda>d.
        if d_status d \<noteq> DMX_STATUS_SENDING then
          then_c (dmx_uart_disable_interrupt dmx_num DMX_INTR_RX_ALL)
         (then_c (dmx_uart_clear_interrupt dmx_num DMX_INTR_RX_ALL)
         (then_c (upd_drv dmx_num (\<lambda>d. d\<lparr>d_is_enabled := False\<rparr>)) (ret True)))
        else ret False)) w)"

definition dmx_driver_enable :: "nat \<Rightarrow> (world, bool) cmd" where
  "dmx_driver_enable dmx_num = (\<lambda>w.
     if \<not> dmx_num < DMX_NUM_MAX then ret False w
     else if \<not> dmx_driver_is_installed dmx_num w then ret False w
     else if dmx_driver_is_enabled dmx_num w then ret False w
     else critical dmx_num
       (then_c (upd_drv dmx_num (\<lambda>d. d\<lparr>d_head := -1, d_is_enabled := True\<rparr>))
       (then_c (dmx_uart_rxfifo_reset dmx_num)
       (then_c (dmx_uart_txfifo_reset dmx_num)
       (then_c (dmx_uart_enable_interrupt dmx_num DMX_INTR_RX_ALL)
       (then_c (dmx_uart_clear_interrupt dmx_num DMX_INTR_RX_ALL)
       (ret True)))))) w)"

section \<open>Non-volatile storage\<close>

fun hex :: "nat \<Rightarrow> string" where
  "hex n = (if n < 16 then [''0123456789abcdef'' ! n]
            else hex (n div 16) @ [''0123456789abcdef'' ! (n mod 16)])"

declare hex.simps [simp del]

definition ESP_DMX_VERSION_MAJOR :: nat where "ESP_DMX_VERSION_MAJOR = 4"

definition ESP_DMX_VERSION_MINOR :: nat where "ESP_DMX_VERSION_MINOR = 1"

definition DMX_NVS_KEY_SIZE_MAX :: nat where "DMX_NVS_KEY_SIZE_MAX = 16"

text \<open>The five numbers are printed in hexadecimal without padding or separators.\<close>

definition nvs_key :: "nat \<Rightarrow> u16 \<Rightarrow> u16 \<Rightarrow> string" where
  "nvs_key dmx_num sub_device pid =
     hex ESP_DMX_VERSION_MAJOR @ hex ESP_DMX_VERSION_MINOR @ hex dmx_num @
     hex (unat sub_device) @ hex (unat pid)"

definition dmx_nvs_get_key :: "nat \<Rightarrow> u16 \<Rightarrow> u16 \<Rightarrow> string res" where
  "dmx_nvs_get_key dmx_num sub_device pid =
     assert_r (length (nvs_key dmx_num sub_device pid) < DMX_NVS_KEY_SIZE_MAX)
       (Inr (nvs_key dmx_num sub_device pid))"

definition dmx_nvs_init :: "(world, unit) cmd" where
  "dmx_nvs_init = ext_u (Nvs Nvs_Init)"

text \<open>
  Unless the interrupt handlers are in IRAM, every port is disabled while the flash is accessed, and
  the ports that were enabled before are enabled again.
\<close>

fun disable_drivers :: "nat list \<Rightarrow> (world, nat list) cmd" where
  "disable_drivers [] = ret []"
| "disable_drivers (i # is) =
     bind_c (gets_c (dmx_driver_is_enabled i)) (\<lambda>enabled.
     bind_c (gets_c (dmx_driver_is_installed i)) (\<lambda>installed.
     then_c (if installed then then_c (dmx_driver_disable i) (ret ()) else ret ())
    (bind_c (disable_drivers is) (\<lambda>rest. ret (if enabled then i # rest else rest)))))"

definition with_drivers_disabled :: "(world, 'a) cmd \<Rightarrow> (world, 'a) cmd" where
  "with_drivers_disabled m =
     bind_c (gets_c isr_in_iram) (\<lambda>iram.
     if iram then m
     else bind_c (disable_drivers [0..<DMX_NUM_MAX]) (\<lambda>enabled.
          bind_c m (\<lambda>a.
          then_c (for_c enabled (\<lambda>i. then_c (dmx_driver_enable i) (ret ()))) (ret a))))"

definition is_int_size :: "nat \<Rightarrow> bool" where
  "is_int_size sz \<longleftrightarrow> sz = 1 \<or> sz = 2 \<or> sz = 4"

text \<open>The result is the bytes written to \<^verbatim>\<open>param\<close>; the C function returns their number.\<close>

definition dmx_nvs_get :: "nat \<Rightarrow> u16 \<Rightarrow> u16 \<Rightarrow> nat \<Rightarrow> (world, bytes) cmd" where
  "dmx_nvs_get dmx_num sub_device pid sz =
     then_c (assert_c (dmx_num < DMX_NUM_MAX))
    (then_c (assert_c (pid > 0))
    (then_c (assert_c (sub_device < RDM_SUB_DEVICE_MAX))
    (if sz = 0 then ret []
     else bind_c (lift_c (dmx_nvs_get_key dmx_num sub_device pid)) (\<lambda>key.
          bind_c (ext (Nvs (Nvs_Open False))) (\<lambda>opened.
          if r_code opened \<noteq> 0 then ret []
          else
            bind_c (with_drivers_disabled
              (ext (Nvs (if is_int_size sz then Nvs_Get_Int key sz else Nvs_Get_Blob key sz)))) (\<lambda>r.
            then_c (ext_u (Nvs Nvs_Close))
           (ret (if r_code r \<noteq> 0 then []
                 else if is_int_size sz then take sz (r_bytes r @ replicate sz 0)
                 else take sz (r_bytes r)))))))))"

definition dmx_nvs_set :: "nat \<Rightarrow> u16 \<Rightarrow> u16 \<Rightarrow> bytes option \<Rightarrow> nat \<Rightarrow> (world, bool) cmd" where
  "dmx_nvs_set dmx_num sub_device pid param sz =
     then_c (assert_c (dmx_num < DMX_NUM_MAX))
    (then_c (assert_c (pid > 0))
    (then_c (assert_c (sub_device < 513))
    (then_c (assert_c (param \<noteq> None))
    (if sz = 0 then ret True
     else bind_c (lift_c (dmx_nvs_get_key dmx_num sub_device pid)) (\<lambda>key.
          bind_c (ext (Nvs (Nvs_Open True))) (\<lambda>opened.
          if r_code opened \<noteq> 0 then ret False
          else
            bind_c (lift_c (load 0 sz (the param))) (\<lambda>bs.
            bind_c (with_drivers_disabled
              (bind_c (ext (Nvs (if is_int_size sz then Nvs_Set_Int key bs else Nvs_Set_Blob key bs)))
                (\<lambda>r. if r_code r \<noteq> 0 then ret r else ext (Nvs Nvs_Commit)))) (\<lambda>r.
            then_c (ext_u (Nvs Nvs_Close)) (ret (r_code r = 0))))))))))"

section \<open>What the hardware layer leaves alone\<close>

text \<open>
  Two states agree on everything but the hardware: heap, environment, and of every driver the
  packet buffer, the UID and the parameters with their counters.
\<close>

definition same_params :: "dmx_driver_t \<Rightarrow> dmx_driver_t \<Rightarrow> bool" where
  "same_params d d' \<longleftrightarrow>
     d_devices d' = d_devices d \<and> d_count_root d' = d_count_root d \<and>
     d_count_sub_devices d' = d_count_sub_devices d \<and> d_count_staged d' = d_count_staged d \<and>
     d_data d' = d_data d \<and> d_uid d' = d_uid d"

definition hw_eq :: "world \<Rightarrow> world \<Rightarrow> bool" where
  "hw_eq w w' \<longleftrightarrow>
     heap w' = heap w \<and> next_addr w' = next_addr w \<and> env w' = env w \<and>
     (\<forall>n. rel_option same_params (drv w n) (drv w' n))"

lemma hw_eq_refl [simp]: "hw_eq w w"
  by (simp add: hw_eq_def same_params_def option.rel_refl)

lemma hw_eq_upd_drv:
  assumes "hw_eq w0 w" "drv w n = Some d" "same_params d (f d)"
  shows "hw_eq w0 (w\<lparr>drv := (drv w)(n \<mapsto> f d)\<rparr>)"
proof -
  have "rel_option same_params (drv w0 k) (((drv w)(n \<mapsto> f d)) k)" for k
  proof -
    have "rel_option same_params (drv w0 k) (drv w k)" using assms(1) by (simp add: hw_eq_def)
    with assms(2,3) show ?thesis
      by (cases "drv w0 k") (auto simp: same_params_def)
  qed
  with assms(1) show ?thesis by (simp add: hw_eq_def)
qed

lemma hw_eq_drv: "hw_eq w w' \<Longrightarrow> drv w n = Some d \<Longrightarrow> \<exists>d'. drv w' n = Some d' \<and> same_params d d'"
  by (metis hw_eq_def option_rel_Some1)

lemma runs_ext [runs_rules]: "runs (hw_eq w0) (ext c)" "runs (hw_eq w0) (ext_u c)"
  by (auto simp: runs_def ext_def ext_u_def hw_eq_def)

lemma runs_driver_disable [runs_rules]: "runs (hw_eq w0) (dmx_driver_disable n)"
proof (rule runsI)
  fix w assume w: "hw_eq w0 w"
  show "\<exists>a w'. dmx_driver_disable n w = Inr (a, w') \<and> hw_eq w0 w'"
  proof (cases "dmx_driver_is_enabled n w \<and> d_status (the (drv w n)) \<noteq> DMX_STATUS_SENDING")
    case True
    then obtain d where d: "drv w n = Some d" by (auto simp: dmx_driver_is_enabled_def split: option.splits)
    let ?w = "w\<lparr>calls := calls w @ [Fifo n (Uart_Disable_Interrupt DMX_INTR_RX_ALL)] @
      [Fifo n (Uart_Clear_Interrupt DMX_INTR_RX_ALL)]\<rparr>"
    have "hw_eq w0 ?w" using w by (simp add: hw_eq_def)
    from hw_eq_upd_drv [OF this, of n d "\<lambda>d. d\<lparr>d_is_enabled := False\<rparr>"] d True show ?thesis
      by (auto simp: dmx_driver_disable_def dmx_driver_is_enabled_def dmx_driver_is_installed_def
          critical_def get_drv_def dmx_uart_disable_interrupt_def dmx_uart_clear_interrupt_def
          ext_u_def ext_def upd_drv_def same_params_def)
  next
    case False
    then have "dmx_driver_disable n w = Inr (False, w)"
      by (auto simp: dmx_driver_disable_def dmx_driver_is_enabled_def critical_def get_drv_def
          split: option.splits)
    then show ?thesis using w by blast
  qed
qed

lemma runs_driver_enable [runs_rules]: "runs (hw_eq w0) (dmx_driver_enable n)"
proof (rule runsI)
  fix w assume w: "hw_eq w0 w"
  show "\<exists>a w'. dmx_driver_enable n w = Inr (a, w') \<and> hw_eq w0 w'"
  proof (cases "dmx_driver_is_installed n w \<and> \<not> dmx_driver_is_enabled n w")
    case True
    then obtain d where d: "drv w n = Some d" by (auto simp: dmx_driver_is_installed_def)
    have "hw_eq w0 (w\<lparr>drv := (drv w)(n \<mapsto> d\<lparr>d_head := -1, d_is_enabled := True\<rparr>)\<rparr>)"
      by (rule hw_eq_upd_drv [OF w d]) (simp add: same_params_def)
    then show ?thesis
      using True d
      by (auto simp: dmx_driver_enable_def dmx_driver_is_installed_def critical_def get_drv_def
          dmx_uart_rxfifo_reset_def dmx_uart_txfifo_reset_def dmx_uart_enable_interrupt_def
          dmx_uart_clear_interrupt_def ext_u_def ext_def upd_drv_def hw_eq_def)
  next
    case False
    then have "dmx_driver_enable n w = Inr (False, w)"
      by (auto simp: dmx_driver_enable_def)
    then show ?thesis using w by blast
  qed
qed

lemma runs_disable_drivers [runs_rules]: "runs (hw_eq w0) (disable_drivers ns)"
proof (induction ns)
  case (Cons i ns)
  then show ?case unfolding disable_drivers.simps by (intro runs_rules)
qed (unfold disable_drivers.simps, intro runs_rules)

lemma runs_with_drivers_disabled [runs_rules]:
  "runs (hw_eq w0) m \<Longrightarrow> runs (hw_eq w0) (with_drivers_disabled m)"
  unfolding with_drivers_disabled_def by (intro runs_rules)

section \<open>NVS keys\<close>

lemma hex_length: "n < 16 ^ k \<Longrightarrow> 0 < k \<Longrightarrow> length (hex n) \<le> k"
proof (induction n arbitrary: k rule: hex.induct)
  case (1 n)
  show ?case
  proof (cases "n < 16")
    case False
    with 1(2,3) obtain j where k: "k = Suc j" "0 < j"
      by (cases k; cases "k = 1") auto
    have "length (hex (n div 16)) \<le> j"
      using 1(2) k by (intro 1(1) [OF False]) (auto simp: less_mult_imp_div_less mult.commute)
    with False k show ?thesis by (subst hex.simps) simp
  qed (use 1 in \<open>simp add: hex.simps\<close>)
qed

lemma hex_digit_inj: "a < 16 \<Longrightarrow> b < 16 \<Longrightarrow> ''0123456789abcdef'' ! a = ''0123456789abcdef'' ! b \<Longrightarrow> a = b"
  by (subst (asm) nth_eq_iff_index_eq) simp_all

lemma hex_nonempty [simp]: "hex n \<noteq> []" "[] \<noteq> hex n"
  by (subst hex.simps, simp)+

lemma hex_inj: "hex a = hex b \<Longrightarrow> a = b"
proof (induction a arbitrary: b rule: hex.induct)
  case (1 a)
  consider "a < 16" "b < 16" | "a < 16" "\<not> b < 16" | "\<not> a < 16" "b < 16" | "\<not> a < 16" "\<not> b < 16"
    by blast
  then show ?case
  proof cases
    case 1
    with \<open>hex a = hex b\<close> show ?thesis by (auto simp: hex.simps intro: hex_digit_inj)
  next
    case 4
    then have "hex (a div 16) = hex (b div 16)" and "a mod 16 = b mod 16"
      using 1(2) hex_digit_inj [of "a mod 16" "b mod 16"] by (auto simp: hex.simps [of a] hex.simps [of b])
    with 1(1) [OF 4(1)] have "a div 16 = b div 16" "a mod 16 = b mod 16" by auto
    then show ?thesis by (metis div_mult_mod_eq)
  qed (use 1(2) in \<open>auto simp: hex.simps [of a] hex.simps [of b]\<close>)
qed

lemma nvs_key_short:
  assumes "n < DMX_NUM_MAX"
  shows "length (nvs_key n sub_device pid) < DMX_NVS_KEY_SIZE_MAX"
proof -
  have "length (hex (unat sub_device)) \<le> 4" "length (hex (unat pid)) \<le> 4"
    using unsigned_less [of sub_device] unsigned_less [of pid] by (auto intro!: hex_length)
  moreover have "length (hex 4) \<le> 1" "length (hex 1) \<le> 1" "length (hex n) \<le> 1"
    using assms by (auto intro!: hex_length)
  ultimately show ?thesis
    by (simp add: nvs_key_def ESP_DMX_VERSION_MAJOR_def ESP_DMX_VERSION_MINOR_def
        DMX_NVS_KEY_SIZE_MAX_def)
qed

lemma dmx_nvs_get_key_eq:
  "n < DMX_NUM_MAX \<Longrightarrow> dmx_nvs_get_key n sub_device pid = Inr (nvs_key n sub_device pid)"
  using nvs_key_short [of n sub_device pid] by (simp add: dmx_nvs_get_key_def assert_r_def)

lemma runs_nvs_set:
  assumes "n < DMX_NUM_MAX" "pid \<noteq> 0" "sub_device < 513" "sz \<le> length bs"
  shows "runs (hw_eq w0) (dmx_nvs_set n sub_device pid (Some bs) sz)"
  unfolding dmx_nvs_set_def
  using assms
  by (auto intro!: runs_rules simp: word_gt_0 dmx_nvs_get_key_eq [OF assms(1), simplified])

lemma runs_nvs_get:
  assumes "n < DMX_NUM_MAX" "pid \<noteq> 0" "sub_device < RDM_SUB_DEVICE_MAX"
  shows "runs (hw_eq w0) (dmx_nvs_get n sub_device pid sz)"
  unfolding dmx_nvs_get_def
  using assms
  by (auto intro!: runs_rules simp: word_gt_0 dmx_nvs_get_key_eq [OF assms(1), simplified])

section \<open>Properties\<close>

text \<open>
  NVS keys. Every key fits the vendor's limit of fifteen characters, and for the parameters of
  root devices different ports and PIDs have different keys. Across sub-devices keys are not unique:
  the hexadecimal numbers are printed without separators, so PID 0x23 of sub-device 1 and PID 0x3 of
  sub-device 0x12 share one key.
\<close>

lemma nvs_keys:
  assumes "n < DMX_NUM_MAX" "n' < DMX_NUM_MAX"
  shows "length (nvs_key n sub_device pid) < DMX_NVS_KEY_SIZE_MAX \<and>
    (nvs_key n RDM_SUB_DEVICE_ROOT pid = nvs_key n' RDM_SUB_DEVICE_ROOT pid' \<longleftrightarrow> n = n' \<and> pid = pid') \<and>
    nvs_key n 0x1 0x23 = nvs_key n 0x12 0x3"
proof (intro conjI iffI)
  show "length (nvs_key n sub_device pid) < DMX_NVS_KEY_SIZE_MAX" using assms(1) by (rule nvs_key_short)
next
  assume "nvs_key n RDM_SUB_DEVICE_ROOT pid = nvs_key n' RDM_SUB_DEVICE_ROOT pid'"
  with assms have "hex n @ hex 0 @ hex (unat pid) = hex n' @ hex 0 @ hex (unat pid')" "n < 16" "n' < 16"
    by (simp_all add: nvs_key_def)
  then have "hex n = hex n'" "hex (unat pid) = hex (unat pid')" by (simp_all add: hex.simps)
  then show "n = n'" "pid = pid'" by (auto dest: hex_inj simp: word_unat_eq_iff)
next
  show "nvs_key n 0x1 0x23 = nvs_key n 0x12 0x3" by (simp add: nvs_key_def hex.simps)
qed simp

lemma nvs_keys_witness:
  "length (nvs_key 0 0x200 0xffff) < DMX_NVS_KEY_SIZE_MAX \<and>
   (nvs_key 0 RDM_SUB_DEVICE_ROOT 0xffff = nvs_key 2 RDM_SUB_DEVICE_ROOT 0xf0 \<longleftrightarrow>
      (0 :: nat) = 2 \<and> (0xffff :: u16) = 0xf0) \<and>
   nvs_key 0 0x1 0x23 = nvs_key 0 0x12 0x3"
  by (rule nvs_keys) simp_all

text \<open>
  Switching a port off and on again: disabling an enabled port that is not sending always
  succeeds and leaves it disabled, a port that is sending stays enabled, and enabling a disabled port
  succeeds and makes it wait for the next break before it stores data.
\<close>

lemma enable_disable:
  assumes "n < DMX_NUM_MAX" "drv w n = Some d"
  shows "(d_is_enabled d \<longrightarrow> (\<exists>r w'. dmx_driver_disable n w = Inr (r, w') \<and>
      r = (d_status d \<noteq> DMX_STATUS_SENDING) \<and> dmx_driver_is_enabled n w' = (\<not> r))) \<and>
    (\<not> d_is_enabled d \<longrightarrow> (\<exists>w' d'. dmx_driver_enable n w = Inr (True, w') \<and>
      drv w' n = Some d' \<and> d_is_enabled d' \<and> d_head d' = DMX_HEAD_WAITING_FOR_BREAK))"
  using assms
  by (auto simp: dmx_driver_disable_def dmx_driver_enable_def dmx_driver_is_enabled_def
      dmx_driver_is_installed_def critical_def get_drv_def dmx_uart_disable_interrupt_def
      dmx_uart_clear_interrupt_def dmx_uart_rxfifo_reset_def dmx_uart_txfifo_reset_def
      dmx_uart_enable_interrupt_def ext_u_def ext_def upd_drv_def)

lemma enable_disable_witness:
  "\<exists>r w'. dmx_driver_disable 0 (demo_world 0) = Inr (r, w') \<and>
      r = (d_status (demo_driver 0) \<noteq> DMX_STATUS_SENDING) \<and> dmx_driver_is_enabled 0 w' = (\<not> r)"
  using enable_disable [of 0 "demo_world 0" "demo_driver 0"]
  by (simp add: demo_world_def demo_driver_def initial_driver_def)

end
