(* ===== verification/Dmx_Parameter.thy ===== *)
theory Dmx_Parameter
  imports Dmx_Hal
begin

text \<open>
  Access to the parameters of a device, \<^verbatim>\<open>dmx/parameter.c\<close>: existence, size, data, copying out,
  setting, and committing staged non-volatile parameters to NVS one at a time.

  The lemmas show that lookups are total on well-formed states and agree with a plain search
  (\<open>entry_lookup\<close>), that adding and setting parameters preserves well-formedness (the counter of
  staged parameters included), and that a value that was set is what is copied out afterwards, also
  through every other parameter that shares the same block.
\<close>

section \<open>Operations\<close>

definition dmx_sub_device_get_count :: "nat \<Rightarrow> world \<Rightarrow> nat res" where
  "dmx_sub_device_get_count dmx_num w =
     assert_r (dmx_num < DMX_NUM_MAX)
    (assert_r (dmx_driver_is_installed dmx_num w)
    (bind_r (get_drv dmx_num w) (\<lambda>d. Inr (length (d_devices d) - 1))))"

definition dmx_sub_device_exists :: "nat \<Rightarrow> u16 \<Rightarrow> world \<Rightarrow> bool res" where
  "dmx_sub_device_exists dmx_num device_num w =
     assert_r (dmx_num < DMX_NUM_MAX)
    (assert_r (device_num < RDM_SUB_DEVICE_MAX)
    (assert_r (dmx_driver_is_installed dmx_num w)
    (bind_r (dmx_device_get dmx_num device_num w) (\<lambda>device. Inr (device \<noteq> None)))))"

definition dmx_parameter_exists :: "nat \<Rightarrow> u16 \<Rightarrow> u16 \<Rightarrow> world \<Rightarrow> bool res" where
  "dmx_parameter_exists dmx_num sub_device pid w =
     assert_r (dmx_num < DMX_NUM_MAX)
    (assert_r (sub_device < RDM_SUB_DEVICE_MAX)
    (assert_r (pid > 0)
    (assert_r (dmx_driver_is_installed dmx_num w)
    (bind_r (dmx_parameter_get_entry dmx_num sub_device pid w) (\<lambda>entry. Inr (entry \<noteq> None))))))"

text \<open>The PID at an index; the guard lets the index that equals the count through.\<close>

definition dmx_parameter_at :: "nat \<Rightarrow> u16 \<Rightarrow> nat \<Rightarrow> world \<Rightarrow> u16 res" where
  "dmx_parameter_at dmx_num sub_device index w =
     assert_r (dmx_num < DMX_NUM_MAX)
    (assert_r (sub_device < RDM_SUB_DEVICE_MAX)
    (assert_r (dmx_driver_is_installed dmx_num w)
    (bind_r (get_drv dmx_num w) (\<lambda>d.
     if (sub_device = RDM_SUB_DEVICE_ROOT \<and> index > d_count_root d) \<or>
        (sub_device > RDM_SUB_DEVICE_ROOT \<and> index > d_count_sub_devices d) then Inr 0
     else case find_index (\<lambda>dev. dev_num dev = sub_device) (d_devices d) of
       None \<Rightarrow> Inr 0
     | Some j \<Rightarrow>
         (if index < length (dev_parameters (d_devices d ! j))
          then Inr (p_pid (dev_parameters (d_devices d ! j) ! index))
          else Inl Out_Of_Bounds)))))"

definition dmx_parameter_size :: "nat \<Rightarrow> u16 \<Rightarrow> u16 \<Rightarrow> world \<Rightarrow> nat res" where
  "dmx_parameter_size dmx_num sub_device pid w =
     assert_r (dmx_num < DMX_NUM_MAX)
    (assert_r (sub_device < RDM_SUB_DEVICE_MAX)
    (assert_r (pid > 0)
    (assert_r (dmx_driver_is_installed dmx_num w)
    (bind_r (dmx_parameter_get_entry dmx_num sub_device pid w) (\<lambda>entry.
     case entry of
       None \<Rightarrow> Inr 0
     | Some ptr \<Rightarrow> bind_r (entry_at dmx_num ptr w) (\<lambda>p. Inr (p_size p)))))))"

definition dmx_parameter_get_data :: "nat \<Rightarrow> u16 \<Rightarrow> u16 \<Rightarrow> world \<Rightarrow> nat option res" where
  "dmx_parameter_get_data dmx_num sub_device pid w =
     assert_r (dmx_num < DMX_NUM_MAX)
    (assert_r (sub_device < RDM_SUB_DEVICE_MAX)
    (assert_r (pid > 0)
    (assert_r (dmx_driver_is_installed dmx_num w)
    (bind_r (dmx_parameter_get_entry dmx_num sub_device pid w) (\<lambda>entry.
     case entry of
       None \<Rightarrow> Inr None
     | Some ptr \<Rightarrow> bind_r (entry_at dmx_num ptr w) (\<lambda>p. Inr (p_data p)))))))"

text \<open>\<^verbatim>\<open>memcpy\<close> of \<open>n\<close> bytes from a data pointer; nothing is read when \<open>n\<close> is zero.\<close>

definition copy_from :: "nat option \<Rightarrow> nat \<Rightarrow> world \<Rightarrow> bytes res" where
  "copy_from p n w =
     (if n = 0 then Inr [] else case p of None \<Rightarrow> Inl Null_Deref | Some a \<Rightarrow> heap_load a 0 n w)"

text \<open>The result is the bytes written to \<^verbatim>\<open>destination\<close>; the C function returns their number.\<close>

definition dmx_parameter_copy :: "nat \<Rightarrow> u16 \<Rightarrow> u16 \<Rightarrow> nat \<Rightarrow> world \<Rightarrow> bytes res" where
  "dmx_parameter_copy dmx_num sub_device pid sz w =
     assert_r (dmx_num < DMX_NUM_MAX)
    (assert_r (sub_device < RDM_SUB_DEVICE_MAX)
    (assert_r (pid > 0)
    (assert_r (dmx_driver_is_installed dmx_num w)
    (bind_r (dmx_parameter_get_entry dmx_num sub_device pid w) (\<lambda>entry.
     case entry of
       None \<Rightarrow> Inr []
     | Some ptr \<Rightarrow>
         bind_r (entry_at dmx_num ptr w) (\<lambda>p.
         copy_from (p_data p) (if sz > p_size p then p_size p else sz) w))))))"

definition dmx_parameter_set :: "nat \<Rightarrow> u16 \<Rightarrow> u16 \<Rightarrow> bytes option \<Rightarrow> nat \<Rightarrow> (world, nat) cmd" where
  "dmx_parameter_set dmx_num sub_device pid source sz =
     then_c (assert_c (dmx_num < DMX_NUM_MAX))
    (then_c (assert_c (sub_device < RDM_SUB_DEVICE_MAX))
    (then_c (assert_c (pid > 0))
    (bind_c (gets_c (dmx_driver_is_installed dmx_num)) (\<lambda>installed.
     then_c (assert_c installed)
    (if source = None \<or> sz = 0 then ret 0
     else bind_c (query (dmx_parameter_get_entry dmx_num sub_device pid)) (\<lambda>entry.
     case entry of
       None \<Rightarrow> ret 0
     | Some ptr \<Rightarrow>
         bind_c (query (entry_at dmx_num ptr)) (\<lambda>p.
         case p_data p of
           None \<Rightarrow> throw Assert_Failed
         | Some a \<Rightarrow>
             (let n = (if sz > p_size p then p_size p else sz) in
              critical dmx_num
             (bind_c (lift_c (load 0 n (the source))) (\<lambda>bs.
              then_c (heap_store a 0 bs)
             (then_c (if p_type p = DMX_PARAMETER_TYPE_NON_VOLATILE then
                        then_c (set_entry dmx_num (fst ptr) (snd ptr)
                          (\<lambda>q. q\<lparr>p_type := DMX_PARAMETER_TYPE_NON_VOLATILE_STAGED\<rparr>))
                          (upd_drv dmx_num (\<lambda>d. d\<lparr>d_count_staged := d_count_staged d + 1\<rparr>))
                      else ret ())
             (ret n))))))))))))"

text \<open>
  The search of \<^verbatim>\<open>dmx_parameter_commit\<close>: the first staged entry, device by device. Every device is
  scanned up to the root device's parameter count.
\<close>

fun find_staged :: "nat \<Rightarrow> nat \<Rightarrow> dmx_parameter_t list \<Rightarrow> nat option res" where
  "find_staged i 0 ps = Inr None"
| "find_staged i (Suc k) [] = Inl Out_Of_Bounds"
| "find_staged i (Suc k) (p # ps) =
     (if p_type p = DMX_PARAMETER_TYPE_NON_VOLATILE_STAGED then Inr (Some i)
      else find_staged (Suc i) k ps)"

text \<open>
  The loop runs on while the PID it has found is zero. The result is the device number, the PID and
  the data pointer of the last entry taken, \<open>None\<close> when none was staged.
\<close>

fun commit_loop :: "nat \<Rightarrow> nat \<Rightarrow> dmx_device_t list \<Rightarrow> (u16 \<times> u16 \<times> nat option) option \<Rightarrow>
    (world, (u16 \<times> u16 \<times> nat option) option) cmd" where
  "commit_loop dmx_num j [] found = ret found"
| "commit_loop dmx_num j (dev # devs) found =
     (if (case found of None \<Rightarrow> False | Some (_, pid, _) \<Rightarrow> pid \<noteq> 0) then ret found
      else critical dmx_num
       (bind_c (query (get_drv dmx_num)) (\<lambda>d.
        bind_c (lift_c (find_staged 0 (d_count_root d) (dev_parameters dev))) (\<lambda>r.
        case r of
          None \<Rightarrow> commit_loop dmx_num (Suc j) devs found
        | Some i \<Rightarrow>
            then_c (set_entry dmx_num j i (\<lambda>q. q\<lparr>p_type := DMX_PARAMETER_TYPE_NON_VOLATILE\<rparr>))
           (then_c (upd_drv dmx_num (\<lambda>d. d\<lparr>d_count_staged := d_count_staged d - 1\<rparr>))
             (commit_loop dmx_num (Suc j) devs
               (Some (dev_num dev, p_pid (dev_parameters dev ! i),
                      p_data (dev_parameters dev ! i)))))))))"

definition dmx_parameter_commit :: "nat \<Rightarrow> (world, u16) cmd" where
  "dmx_parameter_commit dmx_num =
     then_c (assert_c (dmx_num < DMX_NUM_MAX))
    (bind_c (gets_c (dmx_driver_is_installed dmx_num)) (\<lambda>installed.
     then_c (assert_c installed)
    (bind_c (query (get_drv dmx_num)) (\<lambda>d.
     if d_count_staged d = 0 then ret 0
     else bind_c (commit_loop dmx_num 0 (d_devices d) None) (\<lambda>found.
     case found of
       None \<Rightarrow> ret 0
     | Some (sub_device, pid, data) \<Rightarrow>
         if pid > 0 then
           bind_c (query (dmx_parameter_size dmx_num sub_device pid)) (\<lambda>sz.
           bind_c (query (\<lambda>w. case data of
               None \<Rightarrow> Inr None
             | Some a \<Rightarrow> bind_r (get_block a w) (\<lambda>bs. Inr (Some bs)))) (\<lambda>param.
           then_c (dmx_nvs_set dmx_num sub_device pid param sz) (ret pid)))
         else ret pid)))))"

section \<open>Well-formed states\<close>

definition live :: "dmx_driver_t \<Rightarrow> dmx_device_t \<Rightarrow> dmx_parameter_t list" where
  "live d dev = take (param_count d (dev_num dev)) (dev_parameters dev)"

text \<open>Used entries come first and have different PIDs; after them every PID is zero.\<close>

definition packed_pids :: "u16 list \<Rightarrow> bool" where
  "packed_pids pids \<longleftrightarrow>
     distinct (takeWhile (\<lambda>pid. pid \<noteq> 0) pids) \<and>
     list_all (\<lambda>pid. pid = 0) (dropWhile (\<lambda>pid. pid \<noteq> 0) pids)"

definition packed :: "dmx_parameter_t list \<Rightarrow> bool" where
  "packed ps \<longleftrightarrow> packed_pids (map p_pid ps)"

definition is_staged :: "dmx_parameter_t \<Rightarrow> bool" where
  "is_staged p \<longleftrightarrow> p_pid p \<noteq> 0 \<and> p_type p = DMX_PARAMETER_TYPE_NON_VOLATILE_STAGED"

definition staged_in :: "dmx_parameter_t list \<Rightarrow> nat" where
  "staged_in ps = length (filter is_staged ps)"

definition wf_device :: "dmx_driver_t \<Rightarrow> dmx_device_t \<Rightarrow> bool" where
  "wf_device d dev \<longleftrightarrow>
     dev_num dev < RDM_SUB_DEVICE_MAX \<and>
     param_count d (dev_num dev) \<le> length (dev_parameters dev) \<and> packed (live d dev)"

definition wf_driver :: "dmx_driver_t \<Rightarrow> bool" where
  "wf_driver d \<longleftrightarrow>
     length (d_data d) = DMX_PACKET_SIZE_MAX \<and>
     d_devices d \<noteq> [] \<and> dev_num (d_devices d ! 0) = RDM_SUB_DEVICE_ROOT \<and>
     distinct (map dev_num (d_devices d)) \<and> list_all (wf_device d) (d_devices d) \<and>
     d_count_staged d = sum_list (map (\<lambda>dev. staged_in (live d dev)) (d_devices d))"

text \<open>
  The data of a used entry is a block of at least the entry's size; only entries without storage of
  their own may have no data.
\<close>

definition wf_entry :: "(nat \<Rightarrow> bytes option) \<Rightarrow> dmx_parameter_t \<Rightarrow> bool" where
  "wf_entry h p \<longleftrightarrow> p_pid p \<noteq> 0 \<longrightarrow> (case p_data p of
     None \<Rightarrow> p_type p = DMX_PARAMETER_TYPE_NULL \<or> p_type p = DMX_PARAMETER_TYPE_STATIC
   | Some a \<Rightarrow> (case h a of None \<Rightarrow> False | Some blk \<Rightarrow> p_size p \<le> length blk))"

definition wf_port :: "world \<Rightarrow> nat \<Rightarrow> dmx_driver_t \<Rightarrow> bool" where
  "wf_port w n d \<longleftrightarrow>
     n < DMX_NUM_MAX \<and> drv w n = Some d \<and> wf_driver d \<and>
     list_all (\<lambda>dev. list_all (wf_entry (heap w)) (live d dev)) (d_devices d)"

definition wf_heap :: "world \<Rightarrow> bool" where
  "wf_heap w \<longleftrightarrow> (\<forall>a \<ge> next_addr w. heap w a = None)"

definition wf_world :: "world \<Rightarrow> bool" where
  "wf_world w \<longleftrightarrow> wf_heap w \<and> (\<forall>n d. drv w n = Some d \<longrightarrow> wf_port w n d)"

text \<open>The reference for every search: device and entry as positions in the two lists.\<close>

definition entry_lookup :: "dmx_driver_t \<Rightarrow> u16 \<Rightarrow> u16 \<Rightarrow> (nat \<times> nat) option" where
  "entry_lookup d num pid =
     (case find_index (\<lambda>dev. dev_num dev = num) (d_devices d) of
        None \<Rightarrow> None
      | Some j \<Rightarrow> map_option (Pair j)
          (find_index (\<lambda>p. p_pid p = pid) (live d (d_devices d ! j))))"

definition the_entry :: "dmx_driver_t \<Rightarrow> nat \<times> nat \<Rightarrow> dmx_parameter_t" where
  "the_entry d ptr = dev_parameters (d_devices d ! fst ptr) ! snd ptr"

section \<open>Lookups\<close>

lemma scan_pid_find:
  "k \<le> length ps \<Longrightarrow> scan_pid pid k ps = Inr (find_index (\<lambda>p. p_pid p = pid) (take k ps))"
  by (induction pid k ps rule: scan_pid.induct) auto

lemma assert_r_simps [simp]:
  "assert_r True r = r" "assert_r False r = Inl Assert_Failed"
  by (simp_all add: assert_r_def)

lemma wf_port_installed: "wf_port w n d \<Longrightarrow> dmx_driver_is_installed n w"
  by (simp add: wf_port_def dmx_driver_is_installed_def)

lemma wf_port_get_drv: "wf_port w n d \<Longrightarrow> get_drv n w = Inr d"
  by (simp add: wf_port_def get_drv_def)

lemma wf_port_num: "wf_port w n d \<Longrightarrow> n < 3"
  by (simp add: wf_port_def)

lemmas wf_port_simps = wf_port_installed wf_port_get_drv wf_port_num

lemma device_get_find:
  "wf_port w n d \<Longrightarrow> num < RDM_SUB_DEVICE_MAX \<Longrightarrow>
   dmx_device_get n num w = Inr (find_index (\<lambda>dev. dev_num dev = num) (d_devices d))"
  by (simp add: dmx_device_get_def wf_port_simps)

lemma find_device:
  assumes "find_index (\<lambda>dev. dev_num dev = num) (d_devices d) = Some j"
  shows "j < length (d_devices d)" "dev_num (d_devices d ! j) = num"
  using assms by (auto simp: find_index_Some_iff)

lemma wf_port_device:
  assumes "wf_port w n d" "j < length (d_devices d)"
  shows "wf_device d (d_devices d ! j)" "list_all (wf_entry (heap w)) (live d (d_devices d ! j))"
  using assms by (auto simp: wf_port_def wf_driver_def list_all_iff)

lemma get_entry_lookup:
  assumes "wf_port w n d" "num < RDM_SUB_DEVICE_MAX" "pid \<noteq> 0"
  shows "dmx_parameter_get_entry n num pid w = Inr (entry_lookup d num pid)"
proof (cases "find_index (\<lambda>dev. dev_num dev = num) (d_devices d)")
  case (Some j)
  note dev = find_device [OF Some] wf_port_device [OF assms(1) find_device(1) [OF Some]]
  from Some dev assms show ?thesis
    by (simp add: dmx_parameter_get_entry_def device_get_find wf_port_simps entry_lookup_def
        scan_pid_find wf_device_def live_def word_gt_0)
qed (use assms in \<open>simp add: dmx_parameter_get_entry_def device_get_find wf_port_simps
      entry_lookup_def word_gt_0\<close>)

lemma entry_at_eq: "wf_port w n d \<Longrightarrow> entry_at n ptr w = Inr (the_entry d ptr)"
  by (simp add: entry_at_def wf_port_simps the_entry_def)

lemma entry_lookup_Some:
  assumes "entry_lookup d num pid = Some (j, i)"
  shows "j < length (d_devices d)" "dev_num (d_devices d ! j) = num"
    "i < length (live d (d_devices d ! j))" "i < length (dev_parameters (d_devices d ! j))"
    "live d (d_devices d ! j) ! i = the_entry d (j, i)" "p_pid (the_entry d (j, i)) = pid"
proof -
  from assms obtain "find_index (\<lambda>dev. dev_num dev = num) (d_devices d) = Some j"
    and i: "find_index (\<lambda>p. p_pid p = pid) (live d (d_devices d ! j)) = Some i"
    by (auto simp: entry_lookup_def split: option.splits)
  then show "j < length (d_devices d)" "dev_num (d_devices d ! j) = num"
    by (auto simp: find_index_Some_iff)
  from i show live_i: "i < length (live d (d_devices d ! j))"
    by (simp add: find_index_Some_iff)
  then show "i < length (dev_parameters (d_devices d ! j))"
    and "live d (d_devices d ! j) ! i = the_entry d (j, i)"
    by (simp_all add: live_def the_entry_def)
  with i show "p_pid (the_entry d (j, i)) = pid"
    by (simp add: find_index_Some_iff)
qed

lemma lookup_wf_entry:
  assumes "wf_port w n d" "entry_lookup d num pid = Some ptr"
  shows "wf_entry (heap w) (the_entry d ptr)"
proof -
  obtain j i where ptr: "ptr = (j, i)" by force
  note e = entry_lookup_Some [OF assms(2) [unfolded ptr]]
  from wf_port_device(2) [OF assms(1) e(1)] e(3,5) show ?thesis
    by (metis ptr list_all_length)
qed

lemma param_exists_eq:
  "wf_port w n d \<Longrightarrow> num < RDM_SUB_DEVICE_MAX \<Longrightarrow> pid \<noteq> 0 \<Longrightarrow>
   dmx_parameter_exists n num pid w = Inr (entry_lookup d num pid \<noteq> None)"
  by (simp add: dmx_parameter_exists_def get_entry_lookup wf_port_simps word_gt_0)

lemma param_size_eq:
  "wf_port w n d \<Longrightarrow> num < RDM_SUB_DEVICE_MAX \<Longrightarrow> pid \<noteq> 0 \<Longrightarrow>
   dmx_parameter_size n num pid w =
     Inr (case entry_lookup d num pid of None \<Rightarrow> 0 | Some ptr \<Rightarrow> p_size (the_entry d ptr))"
  by (simp add: dmx_parameter_size_def get_entry_lookup wf_port_simps word_gt_0 entry_at_eq
      split: option.splits)

lemma param_get_data_eq:
  "wf_port w n d \<Longrightarrow> num < RDM_SUB_DEVICE_MAX \<Longrightarrow> pid \<noteq> 0 \<Longrightarrow>
   dmx_parameter_get_data n num pid w =
     Inr (case entry_lookup d num pid of None \<Rightarrow> None | Some ptr \<Rightarrow> p_data (the_entry d ptr))"
  by (simp add: dmx_parameter_get_data_def get_entry_lookup wf_port_simps word_gt_0 entry_at_eq
      split: option.splits)

lemma param_copy_eq:
  assumes "wf_port w n d" "num < RDM_SUB_DEVICE_MAX" "pid \<noteq> 0"
    and "entry_lookup d num pid = Some ptr" "p_data (the_entry d ptr) = Some a" "heap w a = Some blk"
  shows "dmx_parameter_copy n num pid sz w = Inr (take (min sz (p_size (the_entry d ptr))) blk)"
proof -
  have "p_size (the_entry d ptr) \<le> length blk"
    using lookup_wf_entry [OF assms(1,4)] assms(3,5,6) entry_lookup_Some(6) [of d num pid "fst ptr" "snd ptr"]
      assms(4) by (auto simp: wf_entry_def)
  then show ?thesis
    using assms
    by (auto simp: dmx_parameter_copy_def get_entry_lookup wf_port_simps word_gt_0 entry_at_eq
        copy_from_def heap_load_def get_block_def slice_def min_def)
qed

lemma param_copy_missing:
  "wf_port w n d \<Longrightarrow> num < RDM_SUB_DEVICE_MAX \<Longrightarrow> pid \<noteq> 0 \<Longrightarrow> entry_lookup d num pid = None \<Longrightarrow>
   dmx_parameter_copy n num pid sz w = Inr []"
  by (simp add: dmx_parameter_copy_def get_entry_lookup wf_port_simps word_gt_0)

section \<open>Writing an entry\<close>

lemma put_entry_simps [simp]:
  "d_data (put_entry j i f d) = d_data d" "d_uid (put_entry j i f d) = d_uid d"
  "d_count_staged (put_entry j i f d) = d_count_staged d"
  "d_is_enabled (put_entry j i f d) = d_is_enabled d" "d_tn (put_entry j i f d) = d_tn d"
  "d_count_root (put_entry j i f d) = d_count_root d"
  "d_count_sub_devices (put_entry j i f d) = d_count_sub_devices d"
  "length (d_devices (put_entry j i f d)) = length (d_devices d)"
  "d_devices (put_entry j i f d) = [] \<longleftrightarrow> d_devices d = []"
  "param_count (put_entry j i f d) num = param_count d num"
  by (simp_all add: put_entry_def param_count_def)

lemma put_entry_num [simp]:
  "k < length (d_devices d) \<Longrightarrow> dev_num (d_devices (put_entry j i f d) ! k) = dev_num (d_devices d ! k)"
  by (cases "j = k") (simp_all add: put_entry_def)

lemma put_entry_nums [simp]: "map dev_num (d_devices (put_entry j i f d)) = map dev_num (d_devices d)"
  by (intro nth_equalityI) auto

lemma live_nth: "i < length (live d (d_devices d ! j)) \<Longrightarrow> live d (d_devices d ! j) ! i = the_entry d (j, i)"
  by (simp add: live_def the_entry_def)

lemma live_put_entry:
  assumes "k < length (d_devices d)"
  shows "live (put_entry j i f d) (d_devices (put_entry j i f d) ! k) =
    (if k = j then (live d (d_devices d ! j))[i := f (the_entry d (j, i))]
     else live d (d_devices d ! k))"
  using assms
  by (simp add: live_def put_entry_num)
    (simp add: put_entry_def nth_list_update take_update_swap the_entry_def)

lemma param_count_staged_update [simp]:
  "param_count (d\<lparr>d_count_staged := c\<rparr>) num = param_count d num"
  by (simp add: param_count_def)

lemma live_staged_update [simp]:
  "live (d\<lparr>d_count_staged := c\<rparr>) dev = live d dev"
  by (simp add: live_def param_count_def)

lemma the_entry_put_entry:
  assumes "k < length (d_devices d)" "j < length (d_devices d)"
    "i < length (dev_parameters (d_devices d ! j))"
  shows "the_entry (put_entry j i f d) (k, l) =
    (if k = j \<and> l = i then f (the_entry d (j, i)) else the_entry d (k, l))"
  using assms by (simp add: the_entry_def put_entry_def nth_list_update)

lemma find_index_cong:
  "length xs = length ys \<Longrightarrow> (\<And>i. i < length ys \<Longrightarrow> P (xs ! i) = Q (ys ! i)) \<Longrightarrow>
   find_index P xs = find_index Q ys"
proof (induction xs ys rule: list_induct2')
  case (4 x xs y ys)
  have "P x = Q y" using 4(3) [of 0] by simp
  moreover have "find_index P xs = find_index Q ys"
    using 4(2) 4(3) [of "Suc _"] by (intro 4(1)) auto
  ultimately show ?case by simp
qed auto

lemma entry_lookup_put_entry:
  assumes "\<And>q. p_pid (f q) = p_pid q"
  shows "entry_lookup (put_entry j i f d) num pid = entry_lookup d num pid"
proof -
  have dev: "find_index (\<lambda>dev. dev_num dev = num) (d_devices (put_entry j i f d)) =
      find_index (\<lambda>dev. dev_num dev = num) (d_devices d)"
    by (rule find_index_cong) auto
  have pid_upd: "p_pid ((live d (d_devices d ! j))[i := f (the_entry d (j, i))] ! l) =
      p_pid (live d (d_devices d ! j) ! l)" if "l < length (live d (d_devices d ! j))" for l
    using that assms by (cases "l = i") (simp_all add: live_nth)
  have "find_index (\<lambda>p. p_pid p = pid) (live (put_entry j i f d) (d_devices (put_entry j i f d) ! k)) =
      find_index (\<lambda>p. p_pid p = pid) (live d (d_devices d ! k))"
    if "k < length (d_devices d)" for k
    using that assms
    by (intro find_index_cong) (auto simp: live_put_entry pid_upd)
  then show ?thesis
    by (cases "find_index (\<lambda>dev. dev_num dev = num) (d_devices d)")
      (simp_all add: entry_lookup_def dev find_device)
qed

lemma entry_lookup_staged_update [simp]:
  "entry_lookup (d\<lparr>d_count_staged := c\<rparr>) num pid = entry_lookup d num pid"
  by (simp add: entry_lookup_def split: option.splits)

section \<open>Counting staged parameters\<close>

lemma staged_in_update:
  "i < length ps \<Longrightarrow>
   staged_in (ps[i := q]) + of_bool (is_staged (ps ! i)) = staged_in ps + of_bool (is_staged q)"
proof (induction ps arbitrary: i)
  case (Cons p ps)
  then show ?case by (cases i) (auto simp: staged_in_def)
qed simp

lemma packed_update:
  "packed ps \<Longrightarrow> i < length ps \<Longrightarrow> p_pid q = p_pid (ps ! i) \<Longrightarrow> packed (ps[i := q])"
  by (metis packed_def list_update_id map_update nth_map)

section \<open>Setting a parameter\<close>

definition mark_staged :: "nat \<times> nat \<Rightarrow> dmx_driver_t \<Rightarrow> dmx_driver_t" where
  "mark_staged ptr d =
     (if p_type (the_entry d ptr) = DMX_PARAMETER_TYPE_NON_VOLATILE then
        (put_entry (fst ptr) (snd ptr)
          (\<lambda>q. q\<lparr>p_type := DMX_PARAMETER_TYPE_NON_VOLATILE_STAGED\<rparr>) d)
          \<lparr>d_count_staged := d_count_staged d + 1\<rparr>
      else d)"

lemma mark_staged_simps [simp]:
  "d_data (mark_staged ptr d) = d_data d" "d_uid (mark_staged ptr d) = d_uid d"
  "entry_lookup (mark_staged ptr d) num pid = entry_lookup d num pid"
  by (simp_all add: mark_staged_def entry_lookup_put_entry)

lemma set_effect:
  assumes wf: "wf_port w n d" and args: "num < RDM_SUB_DEVICE_MAX" "pid \<noteq> 0" "sz \<noteq> 0"
    and entry: "entry_lookup d num pid = Some ptr" "p_data (the_entry d ptr) = Some a"
      "heap w a = Some blk"
    and src: "m = min sz (p_size (the_entry d ptr))" "m \<le> length src"
  shows "dmx_parameter_set n num pid (Some src) sz w =
    Inr (m, w\<lparr>heap := (heap w)(a \<mapsto> splice 0 (take m src) blk), drv := (drv w)(n \<mapsto> mark_staged ptr d)\<rparr>)"
proof -
  obtain j i where ptr: "ptr = (j, i)" by force
  have pid: "p_pid (the_entry d ptr) = pid" using entry_lookup_Some(6) entry(1) ptr by metis
  have "p_size (the_entry d ptr) \<le> length blk"
    using lookup_wf_entry [OF wf entry(1)] entry(2,3) pid args(2) by (auto simp: wf_entry_def)
  then have m: "m \<le> length blk" "m = (if sz > p_size (the_entry d ptr) then p_size (the_entry d ptr) else sz)"
    using src(1) by auto
  have drv: "drv w n = Some d" using wf by (simp add: wf_port_def)
  have same: "w\<lparr>heap := h, drv := (drv w)(n \<mapsto> d)\<rparr> = w\<lparr>heap := h\<rparr>" for h
    using drv by (simp add: fun_upd_idem)
  show ?thesis
    using wf args entry src m drv
    by (simp add: dmx_parameter_set_def wf_port_simps get_entry_lookup word_gt_0 entry_at_eq
        critical_def Let_def slice_def heap_store_def get_block_def mark_staged_def set_entry_def
        upd_drv_def get_drv_def ptr same)
qed

lemma set_missing:
  "wf_port w n d \<Longrightarrow> num < RDM_SUB_DEVICE_MAX \<Longrightarrow> pid \<noteq> 0 \<Longrightarrow> entry_lookup d num pid = None \<Longrightarrow>
   dmx_parameter_set n num pid src sz w = Inr (0, w)"
  by (simp add: dmx_parameter_set_def wf_port_simps get_entry_lookup word_gt_0)

lemma wf_entry_heap_upd:
  "wf_entry h p \<Longrightarrow> h a = Some blk \<Longrightarrow> length blk' = length blk \<Longrightarrow> wf_entry (h(a \<mapsto> blk')) p"
  by (auto simp: wf_entry_def split: option.splits)

lemma list_all_update:
  "list_all P xs \<Longrightarrow> P y \<Longrightarrow> list_all P (xs[i := y])"
  using set_update_subset_insert [of xs i y] by (auto simp: list_all_iff)

text \<open>Changing one entry keeps the driver well-formed when the PIDs stay packed.\<close>

lemma wf_driver_put_entry:
  assumes wf: "wf_driver d" and j: "j < length (d_devices d)"
    and i: "i < length (live d (d_devices d ! j))"
    and f: "packed ((live d (d_devices d ! j))[i := f (the_entry d (j, i))])"
    and c: "c + of_bool (is_staged (the_entry d (j, i))) =
      d_count_staged d + of_bool (is_staged (f (the_entry d (j, i))))"
  shows "wf_driver ((put_entry j i f d)\<lparr>d_count_staged := c\<rparr>)"
proof -
  let ?d = "put_entry j i f d" and ?q = "f (the_entry d (j, i))"
  let ?L = "\<lambda>k. staged_in (live d (d_devices d ! k))"
  have live_i: "live d (d_devices d ! j) ! i = the_entry d (j, i)" by (rule live_nth [OF i])
  have dev: "wf_device ?d (d_devices ?d ! k)" if k: "k < length (d_devices d)" for k
  proof -
    from wf k have "wf_device d (d_devices d ! k)" by (simp add: wf_driver_def list_all_length)
    moreover have "length (dev_parameters (d_devices ?d ! k)) = length (dev_parameters (d_devices d ! k))"
      using k by (cases "k = j") (simp_all add: put_entry_def)
    ultimately show ?thesis
      using k i f by (auto simp: wf_device_def live_put_entry)
  qed
  have sum: "map (\<lambda>dev. staged_in (live ?d dev)) (d_devices ?d) =
      (map (\<lambda>dev. staged_in (live d dev)) (d_devices d))
        [j := staged_in ((live d (d_devices d ! j))[i := ?q])]"
    using j by (intro nth_equalityI) (auto simp: live_put_entry nth_list_update)
  have elem: "?L j \<le> sum_list (map (\<lambda>dev. staged_in (live d dev)) (d_devices d))"
    using j by (intro member_le_sum_list) auto
  have "sum_list (map (\<lambda>dev. staged_in (live ?d dev)) (d_devices ?d)) =
      sum_list (map (\<lambda>dev. staged_in (live d dev)) (d_devices d)) +
        staged_in ((live d (d_devices d ! j))[i := ?q]) - ?L j"
    unfolding sum using j by (subst sum_list_update) simp_all
  moreover have "staged_in ((live d (d_devices d ! j))[i := ?q]) + of_bool (is_staged (the_entry d (j, i))) =
      ?L j + of_bool (is_staged ?q)"
    using staged_in_update [OF i, of ?q] live_i by simp
  ultimately have count: "c = sum_list (map (\<lambda>dev. staged_in (live ?d dev)) (d_devices ?d))"
    using c elem wf by (simp add: wf_driver_def)
  have "list_all (wf_device ?d) (d_devices ?d)"
    using dev by (simp add: list_all_length)
  then have "list_all (wf_device (?d\<lparr>d_count_staged := c\<rparr>)) (d_devices ?d)"
    by (simp add: wf_device_def list_all_iff)
  then show ?thesis
    using wf j count by (simp add: wf_driver_def)
qed

lemma live_mem_put_entry:
  assumes "i < length (live d (d_devices d ! j))" "k < length (d_devices d)"
  shows "list_all P (live d (d_devices d ! k)) \<Longrightarrow> P (f (the_entry d (j, i))) \<Longrightarrow>
    list_all P (live (put_entry j i f d) (d_devices (put_entry j i f d) ! k))"
  using assms by (auto simp: live_put_entry intro: list_all_update)

lemma wf_port_put_entry:
  assumes wf: "wf_port w n d" and j: "j < length (d_devices d)"
    and i: "i < length (live d (d_devices d ! j))"
    and f: "packed ((live d (d_devices d ! j))[i := f (the_entry d (j, i))])"
    and c: "c + of_bool (is_staged (the_entry d (j, i))) =
      d_count_staged d + of_bool (is_staged (f (the_entry d (j, i))))"
    and q: "wf_entry (heap w) (f (the_entry d (j, i)))"
    and d': "d' = (put_entry j i f d)\<lparr>d_count_staged := c\<rparr>"
    and w': "drv w' n = Some d'" "heap w' = heap w"
  shows "wf_port w' n d'"
proof -
  have "wf_driver d'"
    unfolding d' using wf by (intro wf_driver_put_entry j i f c) (simp add: wf_port_def)
  moreover have "list_all (wf_entry (heap w)) (live d' (d_devices d' ! k))"
    if "k < length (d_devices d)" for k
    using that live_mem_put_entry [OF i that, of "wf_entry (heap w)" f] wf_port_device(2) [OF wf that] q
    by (simp add: d')
  ultimately show ?thesis
    using wf w' by (simp add: wf_port_def d' list_all_length)
qed

lemma is_staged_simps [simp]:
  "is_staged (q\<lparr>p_type := DMX_PARAMETER_TYPE_NON_VOLATILE_STAGED\<rparr>) \<longleftrightarrow> p_pid q \<noteq> 0"
  "\<not> is_staged (q\<lparr>p_type := DMX_PARAMETER_TYPE_NON_VOLATILE\<rparr>)"
  by (simp_all add: is_staged_def)

lemma wf_port_mark_staged:
  assumes wf: "wf_port w n d" and entry: "entry_lookup d num pid = Some ptr" "pid \<noteq> 0"
    and w': "drv w' n = Some (mark_staged ptr d)" "heap w' = heap w"
  shows "wf_port w' n (mark_staged ptr d)"
proof (cases "p_type (the_entry d ptr) = DMX_PARAMETER_TYPE_NON_VOLATILE")
  case True
  obtain j i where ptr: "ptr = (j, i)" by force
  note e = entry_lookup_Some [OF entry(1) [unfolded ptr]]
  show ?thesis
  proof (rule wf_port_put_entry [OF wf e(1) e(3)])
    show "packed ((live d (d_devices d ! j))
        [i := (the_entry d (j, i))\<lparr>p_type := DMX_PARAMETER_TYPE_NON_VOLATILE_STAGED\<rparr>])"
      using wf_port_device(1) [OF wf e(1)] e(3,5) by (intro packed_update) (simp_all add: wf_device_def)
    show "mark_staged ptr d = (put_entry j i (\<lambda>q. q\<lparr>p_type := DMX_PARAMETER_TYPE_NON_VOLATILE_STAGED\<rparr>) d)
        \<lparr>d_count_staged := d_count_staged d + 1\<rparr>"
      using True by (simp add: mark_staged_def ptr)
    show "wf_entry (heap w) ((the_entry d (j, i))\<lparr>p_type := DMX_PARAMETER_TYPE_NON_VOLATILE_STAGED\<rparr>)"
      using lookup_wf_entry [OF wf entry(1)] True by (auto simp: ptr wf_entry_def split: option.splits)
  qed (use True e(6) entry(2) w' in \<open>simp_all add: ptr is_staged_def\<close>)
next
  case False
  then show ?thesis using wf w' by (simp add: mark_staged_def wf_port_def)
qed

lemma wf_port_heap_upd:
  assumes "wf_port w n d" "heap w a = Some blk" "length blk' = length blk"
    and "heap w' = (heap w)(a \<mapsto> blk')" "drv w' n = drv w n"
  shows "wf_port w' n d"
  using assms by (auto simp: wf_port_def list_all_iff intro: wf_entry_heap_upd)

lemma set_preserves_wf: "preserves wf_world (dmx_parameter_set n num pid src sz)"
proof (rule preservesI)
  fix w r w'
  assume wf: "wf_world w" and run: "dmx_parameter_set n num pid src sz w = Inr (r, w')"
  from run have args: "n < DMX_NUM_MAX" "num < RDM_SUB_DEVICE_MAX" "pid \<noteq> 0"
      "dmx_driver_is_installed n w"
    by (auto simp: dmx_parameter_set_def cmd_Inr_iff word_gt_0 split: if_splits)
  then obtain d where d: "drv w n = Some d" by (auto simp: dmx_driver_is_installed_def)
  with wf have port: "wf_port w n d" by (simp add: wf_world_def)
  show "wf_world w'"
  proof (cases "src = None \<or> sz = 0 \<or> entry_lookup d num pid = None")
    case True
    then have "w' = w"
      using run args port set_missing [OF port, of num pid src sz]
      by (auto simp: dmx_parameter_set_def wf_port_simps word_gt_0)
    with wf show ?thesis by simp
  next
    case False
    then obtain s ptr where s: "src = Some s" "sz \<noteq> 0" and e: "entry_lookup d num pid = Some ptr"
      by auto
    let ?m = "min sz (p_size (the_entry d ptr))"
    obtain a where a: "p_data (the_entry d ptr) = Some a"
      using run args port s e
      by (cases "p_data (the_entry d ptr)")
        (auto simp: dmx_parameter_set_def wf_port_simps word_gt_0 get_entry_lookup entry_at_eq)
    obtain blk where blk: "heap w a = Some blk" "p_size (the_entry d ptr) \<le> length blk"
      using lookup_wf_entry [OF port e] a args(3) entry_lookup_Some(6) [of d num pid "fst ptr" "snd ptr"] e
      by (auto simp: wf_entry_def split: option.splits)
    have len: "?m \<le> length s"
      using run args port s e a blk
      by (auto simp: dmx_parameter_set_def wf_port_simps word_gt_0 get_entry_lookup entry_at_eq
          critical_def cmd_Inr_iff load_Inr_iff Let_def split: if_splits)
    let ?h = "(heap w)(a \<mapsto> splice 0 (take ?m s) blk)"
    have w': "w' = w\<lparr>heap := ?h, drv := (drv w)(n \<mapsto> mark_staged ptr d)\<rparr>"
      using run unfolding s(1) set_effect [OF port args(2,3) s(2) e a blk(1) refl len] by auto
    have keep: "length (splice 0 (take ?m s) blk) = length blk"
      using blk(2) len by simp
    have port': "wf_port (w\<lparr>heap := ?h\<rparr>) k x" if "drv w k = Some x" for k x
    proof (rule wf_port_heap_upd [OF _ blk(1) keep])
      show "wf_port w k x" using wf that by (simp add: wf_world_def)
    qed simp_all
    have "wf_port w' k x" if "drv w' k = Some x" for k x
    proof (cases "k = n")
      case True
      with that have x: "x = mark_staged ptr d" by (simp add: w')
      show ?thesis
        unfolding x True by (rule wf_port_mark_staged [OF port' [OF d] e args(3)]) (simp_all add: w')
    next
      case False
      with that have "drv w k = Some x" by (simp add: w')
      from port' [OF this] False show ?thesis by (simp add: wf_port_def w')
    qed
    moreover have "wf_heap w'"
      using wf blk(1) by (auto simp: w' wf_world_def wf_heap_def)
    ultimately show ?thesis by (simp add: wf_world_def)
  qed
qed

lemma the_entry_mark_staged:
  assumes "entry_lookup d num pid = Some ptr" "entry_lookup d num' pid' = Some ptr'"
  shows "p_data (the_entry (mark_staged ptr d) ptr') = p_data (the_entry d ptr')"
    "p_size (the_entry (mark_staged ptr d) ptr') = p_size (the_entry d ptr')"
proof -
  obtain j i j' i' where p: "ptr = (j, i)" "ptr' = (j', i')" by force
  note e = entry_lookup_Some [OF assms(1) [unfolded p]] entry_lookup_Some [OF assms(2) [unfolded p]]
  have "the_entry (d\<lparr>d_count_staged := c\<rparr>) q = the_entry d q" for d c q
    by (simp add: the_entry_def)
  then show "p_data (the_entry (mark_staged ptr d) ptr') = p_data (the_entry d ptr')"
    and "p_size (the_entry (mark_staged ptr d) ptr') = p_size (the_entry d ptr')"
    using e by (auto simp: mark_staged_def p the_entry_put_entry)
qed

section \<open>Parameters as shared cells\<close>

text \<open>
  What the clients of the parameter store rely on: keys name cells, two keys may name the same cell,
  and a write through one key is seen through every key of that cell and through no other.
\<close>

locale shared_cells =
  fixes valid :: "'s \<Rightarrow> bool"
    and cell :: "'s \<Rightarrow> 'k \<Rightarrow> 'a option"
    and width :: "'s \<Rightarrow> 'k \<Rightarrow> nat"
    and peek :: "'s \<Rightarrow> 'k \<Rightarrow> bytes"
    and poke :: "'k \<Rightarrow> bytes \<Rightarrow> 's \<Rightarrow> 's"
  assumes valid_poke: "valid s \<Longrightarrow> valid (poke k v s)"
    and cell_poke: "valid s \<Longrightarrow> cell (poke k v s) k' = cell s k'"
    and width_poke: "valid s \<Longrightarrow> width (poke k v s) k' = width s k'"
    and peek_poke_alias: "valid s \<Longrightarrow> cell s k = Some a \<Longrightarrow> cell s k' = Some a \<Longrightarrow>
      width s k = length v \<Longrightarrow> width s k' = length v \<Longrightarrow> v \<noteq> [] \<Longrightarrow> peek (poke k v s) k' = v"
    and peek_poke_other: "valid s \<Longrightarrow> cell s k' = Some a \<Longrightarrow> cell s k \<noteq> Some a \<Longrightarrow>
      peek (poke k v s) k' = peek s k'"
begin

definition pokes :: "('k \<times> bytes) list \<Rightarrow> 's \<Rightarrow> 's" where
  "pokes ops s = fold (\<lambda>(k, v). poke k v) ops s"

text \<open>
  The value of a cell after a list of pokes: the last one that went to it, if there was one.
\<close>

definition last_value :: "('k \<Rightarrow> bool) \<Rightarrow> ('k \<times> bytes) list \<Rightarrow> bytes \<Rightarrow> bytes" where
  "last_value hits ops v0 = fold (\<lambda>(k, v) u. if hits k then v else u) ops v0"

lemma pokes_keep:
  "valid s \<Longrightarrow> valid (pokes ops s) \<and> cell (pokes ops s) k = cell s k \<and>
     width (pokes ops s) k = width s k"
  by (induction ops arbitrary: s) (auto simp: pokes_def valid_poke cell_poke width_poke)

lemma peek_pokes:
  assumes "valid s" "cell s k = Some a"
    and "\<And>k' v. (k', v) \<in> set ops \<Longrightarrow> cell s k' = Some a \<Longrightarrow>
      width s k' = length v \<and> width s k = length v \<and> v \<noteq> []"
  shows "peek (pokes ops s) k = last_value (\<lambda>k'. cell s k' = Some a) ops (peek s k)"
  using assms
proof (induction ops arbitrary: s)
  case (Cons op ops)
  obtain k' v where op: "op = (k', v)" by force
  have "peek (pokes ops (poke k' v s)) k =
      last_value (\<lambda>x. cell (poke k' v s) x = Some a) ops (peek (poke k' v s) k)"
    using Cons.prems by (subst Cons.IH) (auto simp: valid_poke cell_poke width_poke)
  moreover have "peek (poke k' v s) k = (if cell s k' = Some a then v else peek s k)"
    using Cons.prems(1,2) Cons.prems(3) [of k' v] peek_poke_alias [of s k' a k v]
      peek_poke_other [of s k a k' v] by (auto simp: op)
  ultimately show ?case
    using Cons.prems(1) by (simp add: pokes_def last_value_def op cell_poke)
qed (simp add: pokes_def last_value_def)

end

definition port_valid :: "nat \<Rightarrow> world \<Rightarrow> bool" where
  "port_valid n w \<longleftrightarrow> wf_world w \<and> n < DMX_NUM_MAX \<and> drv w n \<noteq> None"

definition param_cell :: "nat \<Rightarrow> world \<Rightarrow> u16 \<Rightarrow> nat option" where
  "param_cell n w pid = (case dmx_parameter_get_data n RDM_SUB_DEVICE_ROOT pid w of
     Inl _ \<Rightarrow> None | Inr p \<Rightarrow> p)"

definition param_width :: "nat \<Rightarrow> world \<Rightarrow> u16 \<Rightarrow> nat" where
  "param_width n w pid = (case dmx_parameter_size n RDM_SUB_DEVICE_ROOT pid w of
     Inl _ \<Rightarrow> 0 | Inr k \<Rightarrow> k)"

definition param_read :: "nat \<Rightarrow> world \<Rightarrow> u16 \<Rightarrow> bytes" where
  "param_read n w pid =
     (case dmx_parameter_copy n RDM_SUB_DEVICE_ROOT pid (param_width n w pid) w of
        Inl _ \<Rightarrow> [] | Inr bs \<Rightarrow> bs)"

definition param_write :: "nat \<Rightarrow> u16 \<Rightarrow> bytes \<Rightarrow> world \<Rightarrow> world" where
  "param_write n pid v w =
     (case dmx_parameter_set n RDM_SUB_DEVICE_ROOT pid (Some v) (length v) w of
        Inl _ \<Rightarrow> w | Inr (_, w') \<Rightarrow> w')"

lemma port_validE:
  assumes "port_valid n w"
  obtains d where "wf_port w n d"
  using assms by (auto simp: port_valid_def wf_world_def)

lemma param_pid_zero [simp]:
  "param_cell n w 0 = None" "param_width n w 0 = 0"
  by (auto simp: param_cell_def dmx_parameter_get_data_def param_width_def dmx_parameter_size_def
      assert_r_def)

lemma param_views:
  assumes "wf_port w n d" "pid \<noteq> 0"
  shows "param_cell n w pid = (case entry_lookup d 0 pid of
      None \<Rightarrow> None | Some ptr \<Rightarrow> p_data (the_entry d ptr))"
    and "param_width n w pid = (case entry_lookup d 0 pid of
      None \<Rightarrow> 0 | Some ptr \<Rightarrow> p_size (the_entry d ptr))"
  using assms by (simp_all add: param_cell_def param_get_data_eq param_width_def param_size_eq)

lemma param_read_cell:
  assumes "wf_port w n d" "entry_lookup d 0 pid = Some ptr" "pid \<noteq> 0"
    and "p_data (the_entry d ptr) = Some a" "heap w a = Some blk"
  shows "param_read n w pid = take (p_size (the_entry d ptr)) blk"
  using assms param_copy_eq [of w n d 0 pid ptr a blk] by (simp add: param_read_def param_views)

text \<open>The three outcomes of a write through the root device.\<close>

lemma param_write_cases:
  assumes port: "wf_port w n d" and v: "v \<noteq> []"
  obtains (same) "param_write n pid v w = w" "param_cell n w pid = None \<or> param_width n w pid > length v"
  | (set) ptr a blk where "pid \<noteq> 0" "entry_lookup d 0 pid = Some ptr"
      "p_data (the_entry d ptr) = Some a" "heap w a = Some blk" "p_size (the_entry d ptr) \<le> length blk"
      "param_write n pid v w = w\<lparr>heap :=
          (heap w)(a \<mapsto> splice 0 (take (min (length v) (p_size (the_entry d ptr))) v) blk),
        drv := (drv w)(n \<mapsto> mark_staged ptr d)\<rparr>"
proof (cases "pid = 0 \<or> entry_lookup d 0 pid = None")
  case True
  then have "param_write n pid v w = w"
  proof (cases "pid = 0")
    case True
    then show ?thesis
      using wf_port_num [OF port] by (simp add: param_write_def dmx_parameter_set_def)
  next
    case False
    with True show ?thesis by (simp add: param_write_def set_missing [OF port])
  qed
  moreover have "param_cell n w pid = None"
    using True port by (cases "pid = 0") (simp_all add: param_views)
  ultimately show ?thesis by (rule same [OF _ disjI1])
next
  case False
  then obtain ptr where e: "pid \<noteq> 0" "entry_lookup d 0 pid = Some ptr" by auto
  show ?thesis
  proof (cases "p_data (the_entry d ptr)")
    case None
    then have "param_write n pid v w = w"
      using port e v by (simp add: param_write_def dmx_parameter_set_def wf_port_simps word_gt_0
          get_entry_lookup entry_at_eq)
    moreover have "param_cell n w pid = None" using None e port by (simp add: param_views)
    ultimately show ?thesis by (rule same [OF _ disjI1])
  next
    case (Some a)
    have pid: "p_pid (the_entry d ptr) = pid"
      using entry_lookup_Some(6) [of d 0 pid "fst ptr" "snd ptr"] e(2) by simp
    obtain blk where blk: "heap w a = Some blk" "p_size (the_entry d ptr) \<le> length blk"
      using lookup_wf_entry [OF port e(2)] Some e(1) pid
      by (auto simp: wf_entry_def split: option.splits)
    have "param_write n pid v w = w\<lparr>heap :=
          (heap w)(a \<mapsto> splice 0 (take (min (length v) (p_size (the_entry d ptr))) v) blk),
        drv := (drv w)(n \<mapsto> mark_staged ptr d)\<rparr>"
      using v set_effect [OF port _ e(1) _ e(2) Some blk(1) refl, of "length v" v]
      by (simp add: param_write_def)
    then show ?thesis using e Some blk by (intro set)
  qed
qed

lemma param_write_valid: "port_valid n w \<Longrightarrow> port_valid n (param_write n pid v w)"
proof -
  assume valid: "port_valid n w"
  show ?thesis
  proof (cases "dmx_parameter_set n RDM_SUB_DEVICE_ROOT pid (Some v) (length v) w")
    case (Inr r)
    obtain k w' where r: "r = (k, w')" by force
    with Inr valid have wf: "wf_world w'"
      by (auto simp: port_valid_def intro: preservesD [OF set_preserves_wf])
    obtain d where d: "wf_port w n d" using valid by (rule port_validE)
    have "drv w' n \<noteq> None"
    proof (cases "v = []")
      case True
      then have "w' = w" using Inr r by (auto simp: dmx_parameter_set_def cmd_Inr_iff split: if_splits)
      then show ?thesis using d by (simp add: wf_port_def)
    next
      case False
      have w': "w' = param_write n pid v w" using Inr r by (simp add: param_write_def)
      show ?thesis
        unfolding w' using d False
        by (cases rule: param_write_cases [where pid = pid]) (use d in \<open>auto simp: wf_port_def\<close>)
    qed
    with wf Inr r valid show ?thesis by (simp add: param_write_def port_valid_def)
  qed (use valid in \<open>simp add: param_write_def\<close>)
qed

lemma param_write_nil [simp]: "param_write n pid [] w = w"
  by (auto simp: param_write_def dmx_parameter_set_def assert_c_def)

lemma param_write_views:
  assumes "port_valid n w"
  shows "param_cell n (param_write n k v w) k' = param_cell n w k'"
    and "param_width n (param_write n k v w) k' = param_width n w k'"
proof -
  obtain d where d: "wf_port w n d" using assms by (rule port_validE)
  obtain d' where d': "wf_port (param_write n k v w) n d'"
    using param_write_valid [OF assms] by (rule port_validE)
  have "param_cell n (param_write n k v w) k' = param_cell n w k' \<and>
      param_width n (param_write n k v w) k' = param_width n w k'"
  proof (cases "v = [] \<or> k' = 0")
    case False
    then have v: "v \<noteq> []" and k': "k' \<noteq> 0" by auto
    show ?thesis
      using d v
    proof (cases rule: param_write_cases [where pid = k])
      case (set ptr a blk)
      then have "d' = mark_staged ptr d" using d' by (simp add: wf_port_def)
      then show ?thesis
        using d d' k' the_entry_mark_staged [OF set(2)]
        by (auto simp: param_views split: option.splits)
    qed simp
  qed auto
  then show "param_cell n (param_write n k v w) k' = param_cell n w k'"
    and "param_width n (param_write n k v w) k' = param_width n w k'" by auto
qed

text \<open>What is read through \<open>k'\<close> after a write through \<open>k\<close>, in terms of the blocks.\<close>

lemma param_read_block:
  assumes "port_valid n w" "param_cell n w k = Some a"
  obtains blk where "heap w a = Some blk" "param_read n w k = take (param_width n w k) blk"
    "param_width n w k \<le> length blk"
proof -
  obtain d where d: "wf_port w n d" using assms(1) by (rule port_validE)
  have k: "k \<noteq> 0" using assms(2) by (cases "k = 0") auto
  then obtain ptr where e: "entry_lookup d 0 k = Some ptr" "p_data (the_entry d ptr) = Some a"
    using assms(2) d by (auto simp: param_views split: option.splits)
  then obtain blk where "heap w a = Some blk" "p_size (the_entry d ptr) \<le> length blk"
    using lookup_wf_entry [OF d e(1)] k entry_lookup_Some(6) [of d 0 k "fst ptr" "snd ptr"]
    by (auto simp: wf_entry_def split: option.splits)
  with d k e show ?thesis
    using that param_read_cell [OF d e(1) k e(2)] by (simp add: param_views)
qed

interpretation params: shared_cells "port_valid n" "param_cell n" "param_width n" "param_read n"
  "param_write n" for n
proof
  fix w k v k'
  assume valid: "port_valid n w"
  then show "port_valid n (param_write n k v w)" by (rule param_write_valid)
  from valid show "param_cell n (param_write n k v w) k' = param_cell n w k'"
    and "param_width n (param_write n k v w) k' = param_width n w k'"
    by (rule param_write_views)+
  obtain d where d: "wf_port w n d" using valid by (rule port_validE)
  note views = param_write_views [OF valid, of k v]
  {
    fix a
    assume c: "param_cell n w k = Some a" "param_cell n w k' = Some a"
      and len: "param_width n w k = length v" "param_width n w k' = length v" and v: "v \<noteq> []"
    obtain blk' where b: "heap (param_write n k v w) a = Some blk'"
        "param_read n (param_write n k v w) k' = take (param_width n (param_write n k v w) k') blk'"
      by (rule param_read_block [OF param_write_valid [OF valid], of k v k' a]) (use c views in auto)
    show "param_read n (param_write n k v w) k' = v"
      using d v
    proof (cases rule: param_write_cases [where pid = k])
      case (set ptr a' blk)
      have "a' = a" "p_size (the_entry d ptr) = length v"
        using set(1,2,3) c(1) len(1) d by (simp_all add: param_views)
      then have "blk' = splice 0 v blk" using b(1) set(6) by simp
      then show ?thesis using b(2) views len by (simp add: splice_def)
    qed (use c len in auto)
  }
  {
    fix a
    assume c: "param_cell n w k' = Some a" "param_cell n w k \<noteq> Some a"
    obtain blk where b: "heap w a = Some blk" "param_read n w k' = take (param_width n w k') blk"
      using param_read_block [OF valid c(1)] by auto
    obtain blk' where b': "heap (param_write n k v w) a = Some blk'"
        "param_read n (param_write n k v w) k' = take (param_width n w k') blk'"
      by (rule param_read_block [OF param_write_valid [OF valid], of k v k' a]) (use c views in auto)
    have "heap (param_write n k v w) a = heap w a"
    proof (cases "v = []")
      case False
      show ?thesis
        using d False
      proof (cases rule: param_write_cases [where pid = k])
        case (set ptr a' blk)
        have "a' \<noteq> a" using set(1,2,3) c(2) d by (auto simp: param_views)
        then show ?thesis using set(6) by simp
      qed simp
    qed simp
    then show "param_read n (param_write n k v w) k' = param_read n w k'" using b b' by simp
  }
qed

section \<open>Adding a parameter\<close>

lemma scan_slot_eq:
  "k \<le> length ps \<Longrightarrow> pid \<noteq> 0 \<Longrightarrow>
   scan_slot pid i k ps =
     Inr (let pids = takeWhile (\<lambda>x. x \<noteq> 0) (map p_pid (take k ps)) in
          if pid \<in> set pids then Slot_Exists
          else if length pids < k then Slot_Empty (i + length pids) else Slot_None)"
  by (induction pid i k ps rule: scan_slot.induct) (auto simp: Let_def)

lemma packed_pids_add:
  assumes "packed_pids xs" "m = length (takeWhile (\<lambda>x. x \<noteq> 0) xs)" "m < length xs"
    "pid \<noteq> 0" "pid \<notin> set (takeWhile (\<lambda>x. x \<noteq> 0) xs)"
  shows "packed_pids (xs[m := pid])"
proof -
  let ?us = "takeWhile (\<lambda>x. x \<noteq> 0) xs"
  have "length xs = length ?us + length (dropWhile (\<lambda>x. x \<noteq> 0) xs)"
    by (metis length_append takeWhile_dropWhile_id)
  then obtain z zs where drop: "dropWhile (\<lambda>x. x \<noteq> 0) xs = z # zs"
    using assms(2,3) by (cases "dropWhile (\<lambda>x. x \<noteq> 0) xs") auto
  then have xs: "xs = ?us @ z # zs" by (metis takeWhile_dropWhile_id)
  have zs: "list_all (\<lambda>x. x = 0) zs" using assms(1) drop by (simp add: packed_pids_def)
  have "xs[m := pid] = ?us @ pid # zs" by (subst xs) (simp add: assms(2) list_update_append)
  moreover have "\<forall>x \<in> set ?us. x \<noteq> 0" using set_takeWhileD by fastforce
  moreover have "takeWhile (\<lambda>x. x \<noteq> 0) zs = []" "dropWhile (\<lambda>x. x \<noteq> 0) zs = zs"
    using zs by (cases zs; simp)+
  ultimately show ?thesis
    using assms(1,4,5) zs by (simp add: packed_pids_def takeWhile_append dropWhile_append)
qed

lemma packed_pids_mem:
  assumes "packed_pids xs" "x \<in> set xs" "x \<noteq> 0"
  shows "x \<in> set (takeWhile (\<lambda>x. x \<noteq> 0) xs)"
proof -
  have "x \<in> set (takeWhile (\<lambda>x. x \<noteq> 0) xs @ dropWhile (\<lambda>x. x \<noteq> 0) xs)"
    using assms(2) by (simp only: takeWhile_dropWhile_id)
  moreover have "\<forall>y \<in> set (dropWhile (\<lambda>x. x \<noteq> 0) xs). y = 0"
    using assms(1) unfolding packed_pids_def list_all_iff by (rule conjunct2)
  ultimately show ?thesis using assms(3) unfolding set_append by blast
qed

lemma find_index_update_new:
  assumes "i < length xs" "P y" "\<forall>x \<in> set xs. \<not> P x"
  shows "find_index P (xs[i := y]) = Some i"
  using assms by (auto simp: find_index_Some_iff nth_list_update)

text \<open>The entry that \<^verbatim>\<open>dmx_parameter_add\<close> writes into an empty slot.\<close>

definition new_entry :: "u16 \<Rightarrow> dmx_parameter_type_t \<Rightarrow> nat \<Rightarrow> nat option \<Rightarrow> dmx_parameter_t \<Rightarrow>
    dmx_parameter_t" where
  "new_entry pid type sz addr p = p\<lparr>p_pid := pid, p_size := sz, p_data := addr, p_type := type,
     p_definition := None, p_callback := None\<rparr>"

lemma fill_entry_eq:
  "drv w n = Some d \<Longrightarrow> fill_entry n j i pid type sz addr w =
     Inr (True, w\<lparr>drv := (drv w)(n \<mapsto> put_entry j i (new_entry pid type sz addr) d)\<rparr>)"
  by (simp add: fill_entry_def set_entry_def upd_drv_def new_entry_def [abs_def])

lemma new_entry_simps [simp]:
  "p_pid (new_entry pid type sz addr p) = pid" "p_size (new_entry pid type sz addr p) = sz"
  "p_data (new_entry pid type sz addr p) = addr" "p_type (new_entry pid type sz addr p) = type"
  by (simp_all add: new_entry_def)

lemma add_new_entry:
  assumes wf: "wf_world w" "drv w n = Some d"
    and dev: "find_index (\<lambda>dev. dev_num dev = num) (d_devices d) = Some j"
    and slot: "scan_slot pid 0 (param_count d num) (dev_parameters (d_devices d ! j)) = Inr (Slot_Empty i)"
    and pid: "pid \<noteq> 0" and type: "type \<noteq> DMX_PARAMETER_TYPE_NON_VOLATILE_STAGED"
    and entry: "\<And>p. wf_entry (heap w) (new_entry pid type sz addr p)"
    and d': "d' = put_entry j i (new_entry pid type sz addr) d"
  shows "wf_world (w\<lparr>drv := (drv w)(n \<mapsto> d')\<rparr>)"
    and "entry_lookup d' num pid = Some (j, i)"
    and "the_entry d' (j, i) = new_entry pid type sz addr (the_entry d (j, i))"
proof -
  let ?f = "new_entry pid type sz addr" and ?L = "live d (d_devices d ! j)"
  have port: "wf_port w n d" using wf by (simp add: wf_world_def)
  note j = find_device [OF dev]
  note wfd = wf_port_device(1) [OF port j(1)]
  have L: "?L = take (param_count d num) (dev_parameters (d_devices d ! j))"
    using j by (simp add: live_def)
  have k: "param_count d num \<le> length (dev_parameters (d_devices d ! j))"
    using wfd j by (simp add: wf_device_def)
  from slot have i: "i = length (takeWhile (\<lambda>x. x \<noteq> 0) (map p_pid ?L))" "i < length ?L"
      and fresh: "pid \<notin> set (takeWhile (\<lambda>x. x \<noteq> 0) (map p_pid ?L))"
    using k by (auto simp: scan_slot_eq [OF k pid] L Let_def split: if_splits)
  then have i_par: "i < length (dev_parameters (d_devices d ! j))" by (simp add: live_def)
  have pk: "packed_pids (map p_pid ?L)" using wfd by (simp add: wf_device_def packed_def)
  have old: "map p_pid ?L ! i = 0"
    using i nth_length_takeWhile [of "\<lambda>x. x \<noteq> 0" "map p_pid ?L"] by simp
  have live_i: "?L ! i = the_entry d (j, i)" by (rule live_nth [OF i(2)])
  have absent: "\<forall>p \<in> set ?L. p_pid p \<noteq> pid"
    using packed_pids_mem [OF pk _ pid] fresh by force
  have packed: "packed (?L[i := ?f (the_entry d (j, i))])"
    using packed_pids_add [OF pk i(1) _ pid fresh] i(2) by (simp add: packed_def map_update)
  have count: "d_count_staged d + of_bool (is_staged (the_entry d (j, i))) =
      d_count_staged d + of_bool (is_staged (?f (the_entry d (j, i))))"
    using old live_i i(2) type by (simp add: is_staged_def)
  have same: "d' = (put_entry j i ?f d)\<lparr>d_count_staged := d_count_staged d\<rparr>"
    by (simp add: d' put_entry_def)
  have "wf_port (w\<lparr>drv := (drv w)(n \<mapsto> d')\<rparr>) n d'"
    by (rule wf_port_put_entry [OF port j(1) i(2) packed count entry same]) simp_all
  then show "wf_world (w\<lparr>drv := (drv w)(n \<mapsto> d')\<rparr>)"
    using wf by (auto simp: wf_world_def wf_heap_def wf_port_def)
  have "find_index (\<lambda>p. p_pid p = pid) (live d' (d_devices d' ! j)) = Some i"
    using find_index_update_new [of i ?L "\<lambda>p. p_pid p = pid"] i(2) absent j(1)
    by (simp add: d' live_put_entry)
  moreover have "find_index (\<lambda>dev. dev_num dev = num) (d_devices d') = Some j"
    using dev by (simp add: d' find_index_Some_iff)
  ultimately show "entry_lookup d' num pid = Some (j, i)" by (simp add: entry_lookup_def)
  show "the_entry d' (j, i) = ?f (the_entry d (j, i))"
    using j(1) i_par by (simp add: d' the_entry_put_entry)
qed

lemma wf_world_alloc:
  assumes "wf_world w"
  shows "wf_world (w\<lparr>calls := cs, heap := (heap w)(next_addr w \<mapsto> blk), next_addr := next_addr w + 1\<rparr>)"
proof -
  have "heap w (next_addr w) = None" using assms by (simp add: wf_world_def wf_heap_def)
  then have "wf_entry ((heap w)(next_addr w \<mapsto> blk)) p" if "wf_entry (heap w) p" for p
    using that by (auto simp: wf_entry_def split: option.splits)
  then show ?thesis
    using assms by (auto simp: wf_world_def wf_heap_def wf_port_def list_all_iff)
qed

definition init_ok :: "init_data \<Rightarrow> nat \<Rightarrow> world \<Rightarrow> bool" where
  "init_ok data sz w = (case data of
     Init_Null \<Rightarrow> True
   | Init_Bytes bs \<Rightarrow> sz \<le> length bs
   | Init_Static a \<Rightarrow> (case heap w a of None \<Rightarrow> False | Some blk \<Rightarrow> sz \<le> length blk))"

lemma add_eq:
  assumes "wf_port w n d" "num < RDM_SUB_DEVICE_MAX" "pid \<noteq> 0"
    and "find_index (\<lambda>dev. dev_num dev = num) (d_devices d) = Some j"
    and "scan_slot pid 0 (param_count d num) (dev_parameters (d_devices d ! j)) = Inr slot"
  shows "dmx_parameter_add n num pid type data sz w =
    (case slot of
       Slot_Exists \<Rightarrow> Inr (True, w)
     | Slot_None \<Rightarrow> Inr (False, w)
     | Slot_Empty i \<Rightarrow> (case type of
         DMX_PARAMETER_TYPE_STATIC \<Rightarrow>
           (case data of
              Init_Static a \<Rightarrow> fill_entry n j i pid type sz (Some a) w
            | Init_Null \<Rightarrow> fill_entry n j i pid type sz None w
            | Init_Bytes bs \<Rightarrow> fill_entry n j i pid type sz (Some (next_addr w))
                (w\<lparr>heap := (heap w)(next_addr w \<mapsto> bs), next_addr := next_addr w + 1\<rparr>))
       | DMX_PARAMETER_TYPE_NULL \<Rightarrow> fill_entry n j i pid type sz None w
       | DMX_PARAMETER_TYPE_NON_VOLATILE_STAGED \<Rightarrow> Inr (False, w)
       | _ \<Rightarrow>
           bind_c (malloc sz) (\<lambda>p. case p of
               None \<Rightarrow> then_c (set_entry n j i (\<lambda>q. q\<lparr>p_data := None\<rparr>)) (ret False)
             | Some a \<Rightarrow> bind_c (query (init_bytes data sz)) (\<lambda>bs.
                 then_c (heap_store a 0 bs) (fill_entry n j i pid type sz (Some a)))) w))"
  using assms
  by (simp add: dmx_parameter_add_def wf_port_simps word_gt_0 device_get_find
      split: slot.splits dmx_parameter_type_t.splits init_data.splits)

lemma add_dynamic_eq:
  assumes wf: "wf_world w" "drv w n = Some d" and ok: "init_ok data sz w"
    and alloc: "r_code (env w (calls w) (Mem (Malloc sz))) \<noteq> 0"
  obtains bs where "length bs = sz" "init_bytes data sz w = Inr bs"
    "bind_c (malloc sz) (\<lambda>p. case p of
        None \<Rightarrow> then_c (set_entry n j i (\<lambda>q. q\<lparr>p_data := None\<rparr>)) (ret False)
      | Some a \<Rightarrow> bind_c (query (init_bytes data sz)) (\<lambda>bs.
          then_c (heap_store a 0 bs) (fill_entry n j i pid type sz (Some a)))) w =
     Inr (True, w\<lparr>calls := calls w @ [Mem (Malloc sz)], heap := (heap w)(next_addr w \<mapsto> bs),
       next_addr := next_addr w + 1,
       drv := (drv w)(n \<mapsto> put_entry j i (new_entry pid type sz (Some (next_addr w))) d)\<rparr>)"
proof -
  let ?blk = "take sz (r_bytes (env w (calls w) (Mem (Malloc sz))) @ replicate sz 0)"
  let ?w = "w\<lparr>calls := calls w @ [Mem (Malloc sz)], heap := (heap w)(next_addr w \<mapsto> ?blk),
    next_addr := next_addr w + 1\<rparr>"
  have fresh: "heap w (next_addr w) = None" using wf by (simp add: wf_world_def wf_heap_def)
  obtain bs where bs: "init_bytes data sz w = Inr bs" "length bs = sz"
    using ok by (auto simp: init_ok_def init_bytes_def heap_load_def get_block_def
        split: init_data.splits option.splits)
  have "init_bytes data sz ?w = Inr bs"
    using bs ok fresh by (auto simp: init_ok_def init_bytes_def heap_load_def get_block_def
        split: init_data.splits option.splits)
  moreover have "splice 0 bs ?blk = bs" using bs(2) by (simp add: splice_def)
  ultimately have "bind_c (malloc sz) (\<lambda>p. case p of
        None \<Rightarrow> then_c (set_entry n j i (\<lambda>q. q\<lparr>p_data := None\<rparr>)) (ret False)
      | Some a \<Rightarrow> bind_c (query (init_bytes data sz)) (\<lambda>bs.
          then_c (heap_store a 0 bs) (fill_entry n j i pid type sz (Some a)))) w =
     Inr (True, w\<lparr>calls := calls w @ [Mem (Malloc sz)], heap := (heap w)(next_addr w \<mapsto> bs),
       next_addr := next_addr w + 1,
       drv := (drv w)(n \<mapsto> put_entry j i (new_entry pid type sz (Some (next_addr w))) d)\<rparr>)"
    using alloc bs(2) wf(2)
    by (simp add: malloc_def ext_def heap_store_def get_block_def fill_entry_eq)
  with bs show ?thesis by (intro that)
qed

definition dynamic_type :: "dmx_parameter_type_t \<Rightarrow> bool" where
  "dynamic_type type \<longleftrightarrow>
     type = DMX_PARAMETER_TYPE_DYNAMIC \<or> type = DMX_PARAMETER_TYPE_NON_VOLATILE"

lemma wf_world_static_alloc:
  "wf_world w \<Longrightarrow> wf_world (w\<lparr>heap := (heap w)(next_addr w \<mapsto> blk), next_addr := next_addr w + 1\<rparr>)"
  using wf_world_alloc [where cs = "calls w"] by fastforce

lemma slot_empty_lookup:
  assumes "wf_port w n d" "find_index (\<lambda>dev. dev_num dev = num) (d_devices d) = Some j" "pid \<noteq> 0"
    and "scan_slot pid 0 (param_count d num) (dev_parameters (d_devices d ! j)) = Inr Slot_Exists"
  shows "entry_lookup d num pid \<noteq> None"
proof -
  note j = find_device [OF assms(2)]
  have k: "param_count d num \<le> length (dev_parameters (d_devices d ! j))"
    using wf_port_device(1) [OF assms(1) j(1)] j(2) by (simp add: wf_device_def)
  have "pid \<in> set (takeWhile (\<lambda>x. x \<noteq> 0) (map p_pid (live d (d_devices d ! j))))"
    using assms(4) j(2) by (simp add: scan_slot_eq [OF k assms(3)] live_def Let_def split: if_splits)
  then have "pid \<in> set (map p_pid (live d (d_devices d ! j)))" by (rule set_takeWhileD [THEN conjunct1])
  then show ?thesis
    using assms(2) by (auto simp: entry_lookup_def find_index_None_iff)
qed

lemma add_new_exists:
  assumes "wf_world w" "drv w n = Some d" "num < RDM_SUB_DEVICE_MAX" "pid \<noteq> 0"
    and "find_index (\<lambda>dev. dev_num dev = num) (d_devices d) = Some j"
    and "scan_slot pid 0 (param_count d num) (dev_parameters (d_devices d ! j)) = Inr (Slot_Empty i)"
    and "type \<noteq> DMX_PARAMETER_TYPE_NON_VOLATILE_STAGED"
    and "\<And>p. wf_entry (heap w) (new_entry pid type sz addr p)"
  shows "\<exists>w' d'. fill_entry n j i pid type sz addr w = Inr (True, w') \<and> wf_world w' \<and>
    drv w' n = Some d' \<and> entry_lookup d' num pid = Some (j, i) \<and>
    p_size (the_entry d' (j, i)) = sz \<and> p_data (the_entry d' (j, i)) = addr"
  using add_new_entry [OF assms(1,2,5,6,4,7,8) refl] assms(2) by (simp add: fill_entry_eq)

lemma add_malloc_failed:
  assumes wf: "wf_world w" "drv w n = Some d"
    and dev: "find_index (\<lambda>dev. dev_num dev = num) (d_devices d) = Some j"
    and slot: "scan_slot pid 0 (param_count d num) (dev_parameters (d_devices d ! j)) = Inr (Slot_Empty i)"
    and pid: "pid \<noteq> 0" and fail: "r_code (env w (calls w) (Mem (Malloc sz))) = 0"
  shows "\<exists>w' d'. bind_c (malloc sz) (\<lambda>p. case p of
        None \<Rightarrow> then_c (set_entry n j i (\<lambda>q. q\<lparr>p_data := None\<rparr>)) (ret False)
      | Some a \<Rightarrow> bind_c (query (init_bytes data sz)) (\<lambda>bs.
          then_c (heap_store a 0 bs) (fill_entry n j i pid type sz (Some a)))) w = Inr (False, w') \<and>
    wf_world w' \<and> drv w' n = Some d'"
proof -
  let ?d = "put_entry j i (\<lambda>q. q\<lparr>p_data := None\<rparr>) d" and ?L = "live d (d_devices d ! j)"
  let ?w = "w\<lparr>calls := calls w @ [Mem (Malloc sz)], drv := (drv w)(n \<mapsto> ?d)\<rparr>"
  have port: "wf_port w n d" using wf by (simp add: wf_world_def)
  note j = find_device [OF dev]
  have k: "param_count d num \<le> length (dev_parameters (d_devices d ! j))"
    using wf_port_device(1) [OF port j(1)] j by (simp add: wf_device_def)
  from slot have i: "i = length (takeWhile (\<lambda>x. x \<noteq> 0) (map p_pid ?L))" "i < length ?L"
    using k j by (auto simp: scan_slot_eq [OF k pid] live_def Let_def split: if_splits)
  have zero: "p_pid (the_entry d (j, i)) = 0"
    using i nth_length_takeWhile [of "\<lambda>x. x \<noteq> 0" "map p_pid ?L"] live_nth [OF i(2)] by simp
  have "wf_port ?w n ?d"
  proof (rule wf_port_put_entry [OF port j(1) i(2)])
    show "packed (?L[i := (the_entry d (j, i))\<lparr>p_data := None\<rparr>])"
      using wf_port_device(1) [OF port j(1)] i(2) live_nth [OF i(2)]
      by (intro packed_update) (simp_all add: wf_device_def)
    show "?d = ?d\<lparr>d_count_staged := d_count_staged d\<rparr>" by (simp add: put_entry_def)
  qed (use zero in \<open>simp_all add: is_staged_def wf_entry_def\<close>)
  then have "wf_world ?w" using wf by (auto simp: wf_world_def wf_heap_def wf_port_def)
  moreover have "bind_c (malloc sz) (\<lambda>p. case p of
        None \<Rightarrow> then_c (set_entry n j i (\<lambda>q. q\<lparr>p_data := None\<rparr>)) (ret False)
      | Some a \<Rightarrow> bind_c (query (init_bytes data sz)) (\<lambda>bs.
          then_c (heap_store a 0 bs) (fill_entry n j i pid type sz (Some a)))) w = Inr (False, ?w)"
    using fail wf(2) by (simp add: malloc_def ext_def set_entry_def upd_drv_def)
  ultimately show ?thesis by auto
qed

text \<open>
  What adding a parameter promises: it returns, keeps the state well-formed, leaves the parameter in
  place when it reports success, and a parameter that was not there before holds its initial value.
\<close>

definition add_ok :: "nat \<Rightarrow> u16 \<Rightarrow> u16 \<Rightarrow> dmx_parameter_type_t \<Rightarrow> init_data \<Rightarrow> nat \<Rightarrow> world \<Rightarrow>
    dmx_driver_t \<Rightarrow> (bool \<times> world) res \<Rightarrow> bool" where
  "add_ok n num pid type data sz w d r \<longleftrightarrow>
     (\<exists>ok w' d'. r = Inr (ok, w') \<and> wf_world w' \<and> drv w' n = Some d' \<and>
       (ok \<longrightarrow> entry_lookup d' num pid \<noteq> None) \<and>
       (ok \<and> entry_lookup d num pid = None \<and> dynamic_type type \<longrightarrow>
         (\<exists>bs. init_bytes data sz w = Inr bs \<and> dmx_parameter_copy n num pid sz w' = Inr bs)))"

lemma add_slot_static:
  assumes wf: "wf_world w" "drv w n = Some d" and args: "num < RDM_SUB_DEVICE_MAX" "pid \<noteq> 0"
    and init: "init_ok data sz w"
    and dev: "find_index (\<lambda>dev. dev_num dev = num) (d_devices d) = Some j"
    and slot: "scan_slot pid 0 (param_count d num) (dev_parameters (d_devices d ! j)) = Inr (Slot_Empty i)"
    and type: "\<not> dynamic_type type"
  shows "add_ok n num pid type data sz w d (dmx_parameter_add n num pid type data sz w)"
proof -
  have port: "wf_port w n d" using wf by (simp add: wf_world_def)
  note run = add_eq [OF port args dev slot, of type data sz]
  note new = add_new_exists [OF wf args dev slot, of type sz]
  from type consider "type = DMX_PARAMETER_TYPE_NULL" | "type = DMX_PARAMETER_TYPE_NON_VOLATILE_STAGED"
    | a where "type = DMX_PARAMETER_TYPE_STATIC" "data = Init_Static a"
    | "type = DMX_PARAMETER_TYPE_STATIC" "data = Init_Null"
    | bs where "type = DMX_PARAMETER_TYPE_STATIC" "data = Init_Bytes bs"
    by (cases type; cases data) (auto simp: dynamic_type_def)
  then show ?thesis
  proof cases
    case (3 a)
    then show ?thesis
      using run new [of "Some a"] init
      by (force simp: add_ok_def wf_entry_def init_ok_def dynamic_type_def split: option.splits)
  next
    case (5 bs)
    let ?w = "w\<lparr>heap := (heap w)(next_addr w \<mapsto> bs), next_addr := next_addr w + 1\<rparr>"
    have "wf_world ?w" "drv ?w n = Some d" using wf wf_world_static_alloc by simp_all
    from add_new_exists [OF this args dev slot, of type sz "Some (next_addr w)"] show ?thesis
      using 5 run init by (force simp: add_ok_def wf_entry_def init_ok_def dynamic_type_def)
  qed (use run wf new [of None] in \<open>force simp: add_ok_def wf_entry_def dynamic_type_def\<close>)+
qed

lemma add_slot_dynamic:
  assumes wf: "wf_world w" "drv w n = Some d" and args: "num < RDM_SUB_DEVICE_MAX" "pid \<noteq> 0"
    and init: "init_ok data sz w"
    and dev: "find_index (\<lambda>dev. dev_num dev = num) (d_devices d) = Some j"
    and slot: "scan_slot pid 0 (param_count d num) (dev_parameters (d_devices d ! j)) = Inr (Slot_Empty i)"
    and type: "dynamic_type type" and alloc: "r_code (env w (calls w) (Mem (Malloc sz))) \<noteq> 0"
  shows "add_ok n num pid type data sz w d (dmx_parameter_add n num pid type data sz w)"
proof -
  have port: "wf_port w n d" using wf by (simp add: wf_world_def)
  let ?d = "put_entry j i (new_entry pid type sz (Some (next_addr w))) d"
  obtain bs where bs: "length bs = sz" "init_bytes data sz w = Inr bs" and
    eff: "dmx_parameter_add n num pid type data sz w = Inr (True,
      w\<lparr>calls := calls w @ [Mem (Malloc sz)], heap := (heap w)(next_addr w \<mapsto> bs),
        next_addr := next_addr w + 1, drv := (drv w)(n \<mapsto> ?d)\<rparr>)"
    by (rule add_dynamic_eq [OF wf init alloc, of j i pid type])
      (use add_eq [OF port args dev slot] type in \<open>auto simp: dynamic_type_def\<close>)
  let ?w = "w\<lparr>calls := calls w @ [Mem (Malloc sz)], heap := (heap w)(next_addr w \<mapsto> bs),
    next_addr := next_addr w + 1\<rparr>"
  let ?w' = "?w\<lparr>drv := (drv ?w)(n \<mapsto> ?d)\<rparr>"
  have w: "wf_world ?w" "drv ?w n = Some d" using wf wf_world_alloc by simp_all
  have "type \<noteq> DMX_PARAMETER_TYPE_NON_VOLATILE_STAGED" using type by (auto simp: dynamic_type_def)
  note add = add_new_entry [OF w dev slot args(2) this _ refl, of sz "Some (next_addr w)"]
  have entry: "wf_entry (heap ?w) (new_entry pid type sz (Some (next_addr w)) p)" for p
    using bs(1) by (simp add: wf_entry_def)
  have wf': "wf_world ?w'" by (rule add(1) [OF entry])
  then have "wf_port ?w' n ?d" by (simp add: wf_world_def)
  from param_copy_eq [OF this args add(2) [OF entry], of "next_addr w" bs sz] add(3) [OF entry] bs(1)
  have "dmx_parameter_copy n num pid sz ?w' = Inr bs" by simp
  then show ?thesis
    using eff wf' bs add(2) [OF entry] by (auto simp: add_ok_def)
qed

lemma add_ok_unchanged:
  "wf_world w \<Longrightarrow> drv w n = Some d \<Longrightarrow> (ok \<Longrightarrow> entry_lookup d num pid \<noteq> None) \<Longrightarrow>
   add_ok n num pid type data sz w d (Inr (ok, w))"
  unfolding add_ok_def by (intro exI [of _ ok] exI [of _ w] exI [of _ d]) auto

lemma add_result:
  assumes wf: "wf_world w" "drv w n = Some d" and args: "num < RDM_SUB_DEVICE_MAX" "pid \<noteq> 0"
    and init: "init_ok data sz w"
  shows "add_ok n num pid type data sz w d (dmx_parameter_add n num pid type data sz w)"
proof (cases "find_index (\<lambda>dev. dev_num dev = num) (d_devices d)")
  case None
  have "wf_port w n d" using wf by (simp add: wf_world_def)
  with None args have "dmx_parameter_add n num pid type data sz w = Inr (False, w)"
    by (simp add: dmx_parameter_add_def wf_port_simps word_gt_0 device_get_find)
  with wf show ?thesis by (simp add: add_ok_unchanged)
next
  case (Some j)
  have port: "wf_port w n d" using wf by (simp add: wf_world_def)
  note j = find_device [OF Some]
  have k: "param_count d num \<le> length (dev_parameters (d_devices d ! j))"
    using wf_port_device(1) [OF port j(1)] j by (simp add: wf_device_def)
  obtain slot where slot: "scan_slot pid 0 (param_count d num) (dev_parameters (d_devices d ! j)) = Inr slot"
    by (simp add: scan_slot_eq [OF k args(2)])
  note run = add_eq [OF port args Some slot, of type data sz]
  show ?thesis
  proof (cases slot)
    case (Slot_Empty i)
    note slot' = slot [unfolded Slot_Empty]
    show ?thesis
    proof (cases "dynamic_type type \<and> r_code (env w (calls w) (Mem (Malloc sz))) = 0")
      case True
      with add_malloc_failed [OF wf Some slot' args(2), of sz data type] show ?thesis
        using run Slot_Empty by (auto simp: add_ok_def dynamic_type_def)
    next
      case False
      then show ?thesis
        using add_slot_static [OF wf args init Some slot', of type]
          add_slot_dynamic [OF wf args init Some slot', of type] by auto
    qed
  next
    case Slot_Exists
    then show ?thesis
      using run slot slot_empty_lookup [OF port Some args(2)] by (simp add: add_ok_unchanged [OF wf])
  qed (use run in \<open>simp add: add_ok_unchanged [OF wf]\<close>)
qed

section \<open>Committing staged parameters\<close>

lemma find_staged_eq:
  "k \<le> length ps \<Longrightarrow> find_staged i k ps = Inr (map_option (\<lambda>m. i + m)
     (find_index (\<lambda>p. p_type p = DMX_PARAMETER_TYPE_NON_VOLATILE_STAGED) (take k ps)))"
  by (induction i k ps rule: find_staged.induct)
    (auto simp: option.map_comp comp_def intro!: option.map_cong0)

lemma packed_pids_prefix:
  assumes "packed_pids xs" "i \<le> m" "m < length xs" "xs ! m \<noteq> 0"
  shows "i < length (takeWhile (\<lambda>x. x \<noteq> 0) xs)"
proof (rule ccontr)
  let ?k = "length (takeWhile (\<lambda>x. x \<noteq> 0) xs)"
  assume "\<not> i < ?k"
  then have k: "?k \<le> m" using assms(2) by simp
  have "length xs = ?k + length (dropWhile (\<lambda>x. x \<noteq> 0) xs)"
    by (simp flip: length_append)
  with k assms(3) have j: "m - ?k < length (dropWhile (\<lambda>x. x \<noteq> 0) xs)" by linarith
  from nth_mem [OF j] have "xs ! m \<in> set (dropWhile (\<lambda>x. x \<noteq> 0) xs)"
    unfolding dropWhile_nth [OF j] using k by simp
  with assms(1,4) show False by (simp only: packed_pids_def list_all_iff) blast
qed

lemma packed_lookup:
  assumes "packed ps" "i < length ps" "p_pid (ps ! i) \<noteq> 0"
  shows "find_index (\<lambda>p. p_pid p = p_pid (ps ! i)) ps = Some i"
proof -
  let ?xs = "map p_pid ps" let ?tw = "takeWhile (\<lambda>x. x \<noteq> 0) ?xs"
  have pk: "packed_pids ?xs" using assms(1) by (simp add: packed_def)
  have "p_pid (ps ! j) \<noteq> p_pid (ps ! i)" if "j < i" for j
  proof -
    have lt: "i < length ?tw" "j < length ?tw"
      using packed_pids_prefix [OF pk, of i i] packed_pids_prefix [OF pk, of j i] that assms by auto
    have "distinct ?tw" using pk by (simp only: packed_pids_def)
    with lt that have "?tw ! j \<noteq> ?tw ! i" by (simp add: nth_eq_iff_index_eq)
    then show ?thesis using lt that assms(2) by (simp add: takeWhile_nth)
  qed
  with assms(2) show ?thesis by (simp add: find_index_Some_iff)
qed

lemma staged_in_pos: "0 < staged_in ps \<Longrightarrow> \<exists>i < length ps. is_staged (ps ! i)"
  by (auto simp: staged_in_def length_filter_conv_card card_gt_0_iff)

lemma wf_world_hw_eq: "hw_eq w w' \<Longrightarrow> wf_world w \<Longrightarrow> wf_world w'"
proof -
  assume eq: "hw_eq w w'" and wf: "wf_world w"
  have "wf_port w' n d'" if "drv w' n = Some d'" for n d'
  proof -
    from eq that obtain d where d: "drv w n = Some d" "same_params d d'"
      by (metis hw_eq_def option_rel_Some2)
    from d have same: "param_count d' = param_count d" "live d' = live d"
      by (auto simp: param_count_def live_def same_params_def fun_eq_iff)
    with d have "wf_device d' = wf_device d" by (simp add: wf_device_def fun_eq_iff)
    with same d eq wf that show ?thesis
      by (simp add: wf_world_def wf_port_def wf_driver_def same_params_def hw_eq_def)
  qed
  then show ?thesis using eq wf by (simp add: wf_world_def wf_heap_def hw_eq_def)
qed

text \<open>The first staged entry of the root device, and the state in which it no longer is.\<close>

lemma root_staged:
  assumes port: "wf_port w n d" and one: "length (d_devices d) = 1" and staged: "0 < d_count_staged d"
  obtains i where "find_staged 0 (d_count_root d) (dev_parameters (d_devices d ! 0)) = Inr (Some i)"
    "i < length (live d (d_devices d ! 0))" "is_staged (the_entry d (0, i))"
    "entry_lookup d 0 (p_pid (the_entry d (0, i))) = Some (0, i)"
proof -
  let ?L = "live d (d_devices d ! 0)" let ?P = "\<lambda>p. p_type p = DMX_PARAMETER_TYPE_NON_VOLATILE_STAGED"
  obtain dev where devs: "d_devices d = [dev]" using one by (cases "d_devices d") auto
  have root: "dev_num dev = 0" using port devs by (simp add: wf_port_def wf_driver_def)
  have dev: "wf_device d dev" using wf_port_device(1) [OF port, of 0] devs by simp
  have L: "?L = take (d_count_root d) (dev_parameters dev)"
    using devs root by (simp add: live_def param_count_def)
  have "staged_in ?L = d_count_staged d" using port devs by (simp add: wf_port_def wf_driver_def)
  then obtain m where m: "m < length ?L" "is_staged (?L ! m)" using staged staged_in_pos by metis
  then have "\<not> (\<forall>p \<in> set ?L. \<not> ?P p)" by (auto simp: is_staged_def)
  then obtain i where i: "find_index ?P ?L = Some i"
    using find_index_None_iff [of ?P ?L] by (cases "find_index ?P ?L") auto
  have "\<not> m < i" using i m by (auto simp: find_index_Some_iff is_staged_def)
  have pk: "packed ?L" using dev devs by (simp add: wf_device_def)
  have tw: "i < length (takeWhile (\<lambda>x. x \<noteq> 0) (map p_pid ?L))"
    using packed_pids_prefix [of "map p_pid ?L" i m] pk m \<open>\<not> m < i\<close>
    by (simp add: packed_def is_staged_def)
  from nth_mem [OF tw] have "map p_pid ?L ! i \<noteq> 0"
    unfolding takeWhile_nth [OF tw] by (rule set_takeWhileD [THEN conjunct2])
  then have iL: "i < length ?L" "p_pid (?L ! i) \<noteq> 0" "?P (?L ! i)"
    using i by (auto simp: find_index_Some_iff)
  note e = live_nth [OF iL(1)]
  show ?thesis
  proof (rule that)
    show "find_staged 0 (d_count_root d) (dev_parameters (d_devices d ! 0)) = Inr (Some i)"
      using i dev devs L root by (simp add: find_staged_eq wf_device_def param_count_def)
    show "entry_lookup d 0 (p_pid (the_entry d (0, i))) = Some (0, i)"
      using packed_lookup [OF pk iL(1,2)] e devs root by (simp add: entry_lookup_def)
  qed (use iL e in \<open>simp_all add: is_staged_def\<close>)
qed

lemma commit_root:
  assumes wf: "wf_world w" "drv w n = Some d" and one: "length (d_devices d) = 1"
    and staged: "0 < d_count_staged d"
  shows "\<exists>pid ptr w' d'. dmx_parameter_commit n w = Inr (pid, w') \<and> wf_world w' \<and>
    entry_lookup d 0 pid = Some ptr \<and> is_staged (the_entry d ptr) \<and> drv w' n = Some d' \<and>
    d_count_staged d' = d_count_staged d - 1 \<and>
    d_devices d' = d_devices (put_entry (fst ptr) (snd ptr)
      (\<lambda>q. q\<lparr>p_type := DMX_PARAMETER_TYPE_NON_VOLATILE\<rparr>) d)"
proof -
  have port: "wf_port w n d" using wf by (simp add: wf_world_def)
  obtain i where i: "find_staged 0 (d_count_root d) (dev_parameters (d_devices d ! 0)) = Inr (Some i)"
    "i < length (live d (d_devices d ! 0))" "is_staged (the_entry d (0, i))"
    "entry_lookup d 0 (p_pid (the_entry d (0, i))) = Some (0, i)"
    using root_staged [OF port one staged] by metis
  let ?f = "\<lambda>q. q\<lparr>p_type := DMX_PARAMETER_TYPE_NON_VOLATILE\<rparr>" and ?p = "the_entry d (0, i)"
  let ?d = "(put_entry 0 i ?f d)\<lparr>d_count_staged := d_count_staged d - 1\<rparr>"
  let ?w = "w\<lparr>drv := (drv w)(n \<mapsto> ?d)\<rparr>"
  obtain dev where devs: "d_devices d = [dev]" using one by (cases "d_devices d") auto
  have root: "dev_num dev = 0" using port devs by (simp add: wf_port_def wf_driver_def)
  have e: "wf_entry (heap w) ?p" by (rule lookup_wf_entry [OF port i(4)])
  then obtain a blk where a: "p_data ?p = Some a" "heap w a = Some blk" "p_size ?p \<le> length blk"
    using i(3) by (auto simp: wf_entry_def is_staged_def split: option.splits)
  have j: "0 < length (d_devices d)" using devs by simp
  have "wf_port ?w n ?d"
  proof (rule wf_port_put_entry [OF port j i(2), where f = ?f])
    show "packed ((live d (d_devices d ! 0))[i := ?f ?p])"
      using wf_port_device(1) [OF port j] i(2) live_nth [OF i(2)]
      by (intro packed_update) (simp_all add: wf_device_def)
    show "wf_entry (heap w) (?f ?p)" using e i(3) a by (auto simp: wf_entry_def)
  qed (use i(3) staged in simp_all)
  then have wf': "wf_world ?w" using wf by (auto simp: wf_world_def wf_heap_def wf_port_def)
  have port': "wf_port ?w n ?d" using wf' by (simp add: wf_world_def)
  have pid: "p_pid ?p \<noteq> 0" using i(3) by (simp add: is_staged_def)
  have size: "dmx_parameter_size n 0 (p_pid ?p) ?w = Inr (p_size ?p)"
  proof -
    have "entry_lookup ?d 0 (p_pid ?p) = Some (0, i)" using i(4) by (simp add: entry_lookup_put_entry)
    moreover have "p_size (the_entry ?d (0, i)) = p_size ?p"
      using i(2) devs by (simp add: the_entry_def put_entry_def live_def)
    ultimately show ?thesis using param_size_eq [OF port', of 0] pid by simp
  qed
  have "runs (hw_eq ?w) (dmx_nvs_set n 0 (p_pid ?p) (Some blk) (p_size ?p))"
    by (rule runs_nvs_set) (use port pid a in \<open>simp_all add: wf_port_def\<close>)
  then obtain r w' where w': "dmx_nvs_set n 0 (p_pid ?p) (Some blk) (p_size ?p) ?w = Inr (r, w')" "hw_eq ?w w'"
    using runsE hw_eq_refl by metis
  have loop: "commit_loop n 0 (d_devices d) None w = Inr (Some (0, p_pid ?p, Some a), ?w)"
    using i(1) wf(2) a(1) root devs
    by (simp add: critical_def get_drv_def set_entry_def upd_drv_def the_entry_def)
  have "dmx_parameter_commit n w = Inr (p_pid ?p, w')"
    using wf(2) staged pid a size w'(1)
    by (simp add: dmx_parameter_commit_def wf_port_simps [OF port] loop get_block_def word_gt_0)
  moreover have "wf_world w'" using wf_world_hw_eq [OF w'(2) wf'] .
  moreover obtain d' where "drv w' n = Some d'" "same_params ?d d'"
    using hw_eq_drv [OF w'(2), of n ?d] by auto
  ultimately show ?thesis using i by (auto simp: same_params_def)
qed

section \<open>Example states\<close>

lemma wf_demo: "wf_world (demo_world k)"
proof -
  have "map (\<lambda>p. p\<lparr>p_pid := 0\<rparr>) (replicate k blank_parameter) = replicate k blank_parameter"
    by (simp add: blank_parameter_def)
  then show ?thesis
    by (auto simp: wf_world_def wf_heap_def wf_port_def wf_driver_def wf_device_def live_def
        param_count_def staged_in_def is_staged_def packed_def packed_pids_def wf_entry_def
        demo_world_def demo_driver_def initial_driver_def boot_world_def blank_parameter_def
        list_all_iff filter_replicate takeWhile_replicate dropWhile_replicate
        split: if_splits)
qed

text \<open>A port whose parameters 2 and 3 share one block, as DISC_MUTE and DISC_UN_MUTE do.\<close>

definition demo_alias_driver :: dmx_driver_t where
  "demo_alias_driver = (demo_driver 2)\<lparr>d_devices := [\<lparr>dev_num = 0, dev_parameters =
     [blank_parameter\<lparr>p_pid := 2, p_size := 1, p_data := Some 0, p_type := DMX_PARAMETER_TYPE_DYNAMIC\<rparr>,
      blank_parameter\<lparr>p_pid := 3, p_size := 1, p_data := Some 0, p_type := DMX_PARAMETER_TYPE_STATIC\<rparr>]\<rparr>]\<rparr>"

definition demo_alias_world :: world where
  "demo_alias_world = (demo_world 2)\<lparr>heap := [0 \<mapsto> [0]], next_addr := 1,
     drv := (\<lambda>_. None)(0 \<mapsto> demo_alias_driver)\<rparr>"

lemmas demo_alias_defs = demo_alias_world_def demo_alias_driver_def demo_world_def demo_driver_def
  initial_driver_def boot_world_def blank_parameter_def

lemma wf_demo_alias: "wf_world demo_alias_world"
  by (simp add: wf_world_def wf_heap_def wf_port_def wf_driver_def wf_device_def live_def
      param_count_def staged_in_def is_staged_def packed_def packed_pids_def wf_entry_def
      demo_alias_defs take_Cons')

lemma demo_alias_port: "wf_port demo_alias_world 0 demo_alias_driver"
  using wf_demo_alias by (simp add: wf_world_def demo_alias_world_def)

lemma demo_alias_lookup:
  "entry_lookup demo_alias_driver 0 2 = Some (0, 0)" "entry_lookup demo_alias_driver 0 3 = Some (0, 1)"
  by (simp_all add: entry_lookup_def live_def param_count_def demo_alias_defs take_Cons')

lemma demo_alias_views:
  "port_valid 0 demo_alias_world"
  "param_cell 0 demo_alias_world 2 = Some 0" "param_cell 0 demo_alias_world 3 = Some 0"
  "param_width 0 demo_alias_world 2 = 1" "param_width 0 demo_alias_world 3 = 1"
  "param_read 0 demo_alias_world 2 = [0]"
  using wf_demo_alias param_read_cell [OF demo_alias_port demo_alias_lookup(1), of 0 "[0]"]
  by (simp_all add: port_valid_def param_views [OF demo_alias_port] demo_alias_lookup the_entry_def)
    (simp_all add: demo_alias_defs)

section \<open>Properties\<close>

text \<open>
  C16. Registering a parameter never faults on a well-formed state and keeps it well-formed; when it
  reports success the parameter exists afterwards, and a parameter with storage of its own that did
  not exist before reads back as its initial value.
\<close>

theorem parameter_add_correct:
  assumes "wf_world w" "drv w n = Some d" "num < RDM_SUB_DEVICE_MAX" "pid \<noteq> 0" "init_ok data sz w"
  shows "\<exists>ok w'. dmx_parameter_add n num pid type data sz w = Inr (ok, w') \<and> wf_world w' \<and>
    (ok \<longrightarrow> dmx_parameter_exists n num pid w' = Inr True) \<and>
    (ok \<and> dmx_parameter_exists n num pid w = Inr False \<and> dynamic_type type \<longrightarrow>
       (\<exists>bs. init_bytes data sz w = Inr bs \<and> dmx_parameter_copy n num pid sz w' = Inr bs))"
proof -
  have port: "wf_port w n d" using assms by (simp add: wf_world_def)
  from add_result [OF assms, of type] obtain ok w' d' where r:
    "dmx_parameter_add n num pid type data sz w = Inr (ok, w')" "wf_world w'" "drv w' n = Some d'"
    "ok \<longrightarrow> entry_lookup d' num pid \<noteq> None"
    "ok \<and> entry_lookup d num pid = None \<and> dynamic_type type \<longrightarrow>
       (\<exists>bs. init_bytes data sz w = Inr bs \<and> dmx_parameter_copy n num pid sz w' = Inr bs)"
    unfolding add_ok_def by blast
  then have "wf_port w' n d'" by (simp add: wf_world_def)
  with r show ?thesis
    using param_exists_eq [OF port assms(3,4)] param_exists_eq [OF _ assms(3,4), of w' n d'] by auto
qed

theorem parameter_add_correct_witness:
  "\<exists>ok w'. dmx_parameter_add 0 0 0xf0 DMX_PARAMETER_TYPE_NON_VOLATILE (Init_Bytes [1, 0]) 2
      (demo_world 3) = Inr (ok, w') \<and> wf_world w' \<and>
    (ok \<longrightarrow> dmx_parameter_exists 0 0 0xf0 w' = Inr True) \<and>
    (ok \<and> dmx_parameter_exists 0 0 0xf0 (demo_world 3) = Inr False \<and>
       dynamic_type DMX_PARAMETER_TYPE_NON_VOLATILE \<longrightarrow>
       (\<exists>bs. init_bytes (Init_Bytes [1, 0]) 2 (demo_world 3) = Inr bs \<and>
          dmx_parameter_copy 0 0 0xf0 2 w' = Inr bs))"
  by (rule parameter_add_correct [where d = "demo_driver 3"])
    (rule wf_demo, simp_all add: demo_world_def init_ok_def)




definition demo_staged_driver :: dmx_driver_t where
  "demo_staged_driver = (demo_driver 1)\<lparr>d_count_staged := 1, d_devices := [\<lparr>dev_num = 0, dev_parameters =
     [blank_parameter\<lparr>p_pid := 0xf0, p_size := 2, p_data := Some 0,
        p_type := DMX_PARAMETER_TYPE_NON_VOLATILE_STAGED\<rparr>]\<rparr>]\<rparr>"

definition demo_staged_world :: world where
  "demo_staged_world = (demo_world 1)\<lparr>heap := [0 \<mapsto> [1, 0]], next_addr := 1,
     drv := (\<lambda>_. None)(0 \<mapsto> demo_staged_driver)\<rparr>"


text \<open>
  C30. Setting a parameter preserves well-formedness: block sizes, packed PIDs and in particular the
  counter of staged parameters, which every set of a non-volatile parameter raises at most once.
\<close>

theorem parameter_set_preserves_wf:
  assumes "wf_world w" "dmx_parameter_set n num pid src sz w = Inr (r, w')"
  shows "wf_world w'"
  using preservesD [OF set_preserves_wf assms] .

theorem parameter_set_preserves_wf_witness:
  "\<exists>r w'. dmx_parameter_set 0 0 2 (Some [1]) 1 demo_alias_world = Inr (r, w') \<and> wf_world w'"
proof -
  have run: "dmx_parameter_set 0 0 2 (Some [1]) 1 demo_alias_world =
      Inr (1, demo_alias_world\<lparr>heap := (heap demo_alias_world)(0 \<mapsto> splice 0 (take 1 [1]) [0]),
        drv := (drv demo_alias_world)(0 \<mapsto> mark_staged (0, 0) demo_alias_driver)\<rparr>)"
    by (rule set_effect [OF demo_alias_port _ _ _ demo_alias_lookup(1)])
      (simp_all add: the_entry_def demo_alias_defs)
  with parameter_set_preserves_wf [OF wf_demo_alias run] show ?thesis by blast
qed

text \<open>
  The bound of \<^verbatim>\<open>dmx_parameter_at\<close> is off by one: when the root device is full (as many entries are
  allocated as the count says), the index that equals the count is accepted and reads past the array.
\<close>

lemma parameter_at_out_of_bounds:
  assumes "wf_port w n d" "length (dev_parameters (d_devices d ! 0)) = d_count_root d"
  shows "dmx_parameter_at n RDM_SUB_DEVICE_ROOT (d_count_root d) w = Inl Out_Of_Bounds"
proof -
  have "find_index (\<lambda>dev. dev_num dev = 0) (d_devices d) = Some 0"
    using assms(1) by (auto simp: find_index_Some_iff wf_port_def wf_driver_def)
  then show ?thesis
    using assms by (simp add: dmx_parameter_at_def wf_port_simps)
qed

lemma parameter_at_out_of_bounds_witness:
  "dmx_parameter_at 0 RDM_SUB_DEVICE_ROOT (d_count_root demo_alias_driver) demo_alias_world = Inl Out_Of_Bounds"
  by (rule parameter_at_out_of_bounds [OF demo_alias_port]) (simp add: demo_alias_defs)

end
