(* ===== verification/Rdm_Driver.thy ===== *)
theory Rdm_Driver
  imports Dmx_Parameter
begin

text \<open>
  Reading and writing RDM packets in the driver's buffer: \<^verbatim>\<open>rdm_read_header\<close>, \<^verbatim>\<open>rdm_read_pd\<close> and
  \<^verbatim>\<open>rdm_write\<close> of \<^verbatim>\<open>rdm/driver.c\<close>.

  The result of \<^verbatim>\<open>rdm_read_header\<close> is the header when it returns true and \<open>None\<close> when it returns false.
  The lemmas give the exact bytes of a written packet (\<open>wire_header\<close>, \<open>euid_bytes\<close>) and show that
  what was written is read back, for standard packets and for discovery responses, and that a damaged
  slot is noticed.
\<close>

section \<open>Reading\<close>

definition checksum16 :: "bytes \<Rightarrow> u16" where
  "checksum16 bs = sum_list (map ucast bs)"

text \<open>The struct filled from the packet, with its multi-byte fields swapped.\<close>

definition swap_header :: "rdm_header_t \<Rightarrow> rdm_header_t" where
  "swap_header h = h\<lparr>
     h_dest_uid := Rdm_Uid (bswap16 (man_id (h_dest_uid h))) (bswap32 (dev_id (h_dest_uid h))),
     h_src_uid := Rdm_Uid (bswap16 (man_id (h_src_uid h))) (bswap32 (dev_id (h_src_uid h))),
     h_sub_device := bswap16 (h_sub_device h),
     h_pid := bswap16 (h_pid h)\<rparr>"

definition read_standard :: "bytes \<Rightarrow> rdm_header_t option" where
  "read_standard data =
     (let message_len = unat (data ! 2) in
      if checksum16 (take message_len data) \<noteq> bswap16 (of_le16 (slice message_len 2 data)) then None
      else Some (swap_header (header_of_bytes (take 24 data))))"

text \<open>Six pairs of slots, each the AND of its two bytes.\<close>

definition euid_decode :: "bytes \<Rightarrow> bytes" where
  "euid_decode bs = map (\<lambda>i. bs ! (2 * i) AND bs ! (2 * i + 1)) [0..<6]"

definition disc_response_header :: "nat \<Rightarrow> rdm_uid_t \<Rightarrow> rdm_header_t" where
  "disc_response_header preamble_len src_uid = \<lparr>
     h_message_len = of_nat (preamble_len + 17),
     h_dest_uid = RDM_UID_BROADCAST_ALL, h_src_uid = src_uid, h_tn = 0,
     h_port_id = RDM_RESPONSE_TYPE_ACK, h_message_count = 0, h_sub_device = RDM_SUB_DEVICE_ROOT,
     h_cc = RDM_CC_DISC_COMMAND_RESPONSE, h_pid = RDM_PID_DISC_UNIQUE_BRANCH, h_pdl = 0\<rparr>"

definition read_discovery :: "bytes \<Rightarrow> rdm_header_t option" where
  "read_discovery data =
     (case find_index (\<lambda>b. b = RDM_DELIMITER) (take 8 data) of
        None \<Rightarrow> None
      | Some preamble_len \<Rightarrow>
          (let data = drop (preamble_len + 1) data in
           if checksum16 (take 12 data) \<noteq>
              (push_bit 8 (ucast (data ! 12 AND data ! 13)) OR ucast (data ! 14 AND data ! 15)) then None
           else
             (let uid = uid_of_bytes (euid_decode data) in
              Some (disc_response_header preamble_len
                (Rdm_Uid (bswap16 (man_id uid)) (bswap32 (dev_id uid)))))))"

definition rdm_read_header :: "nat \<Rightarrow> world \<Rightarrow> rdm_header_t option res" where
  "rdm_read_header dmx_num w =
     (if \<not> dmx_num < DMX_NUM_MAX then Inr None
      else case drv w dmx_num of
        None \<Rightarrow> Inr None
      | Some d \<Rightarrow>
          (let data = d_data d in
           if of_le16 (take 2 data) = ucast RDM_SC OR push_bit 8 (ucast RDM_SUB_SC) then
             Inr (read_standard data)
           else if data ! 0 = RDM_PREAMBLE \<or> data ! 0 = RDM_DELIMITER then Inr (read_discovery data)
           else Inr None))"

text \<open>
  \<open>room\<close> is the size of the object at \<^verbatim>\<open>destination\<close>, \<open>None\<close> when it is NULL. The result is the returned
  size and the bytes written to the destination.
\<close>

definition rdm_read_pd :: "nat \<Rightarrow> string option \<Rightarrow> nat option \<Rightarrow> nat \<Rightarrow> world \<Rightarrow> (nat \<times> bytes) res" where
  "rdm_read_pd dmx_num format room sz w =
     (if \<not> dmx_num < DMX_NUM_MAX then Inr (0, [])
      else bind_r (rdm_format_is_valid format) (\<lambda>valid.
        if \<not> valid then Inr (0, [])
        else if \<not> dmx_driver_is_installed dmx_num w then Inr (0, [])
        else bind_r (get_drv dmx_num w) (\<lambda>d.
          (let pdl = unat (d_data d ! 23) in
           if pdl = 0 \<or> pdl > 231 then Inr (0, [])
           else case room of
             None \<Rightarrow> Inr (pdl, [])
           | Some cap \<Rightarrow>
               bind_r (rdm_format_encode (Some cap) format (Some (drop 24 (d_data d)))
                         (of_nat (if pdl < sz then pdl else sz)) True)
                 (\<lambda>bs. Inr (pdl, bs))))))"

section \<open>Writing\<close>

definition euid_bytes :: "rdm_uid_t \<Rightarrow> bytes" where
  "euid_bytes src_uid =
     (let uid = uid_bytes (Rdm_Uid (bswap16 (man_id src_uid)) (bswap32 (dev_id src_uid)));
          checksum = sum_list (map (\<lambda>b. ucast b + (0xaa OR 0x55)) uid) :: u16;
          hi = ucast (drop_bit 8 checksum) :: u8; lo = ucast checksum :: u8
      in concat (map (\<lambda>b. [b OR 0xaa, b OR 0x55]) uid) @
         [hi OR 0xaa, hi OR 0x55, lo OR 0xaa, lo OR 0x55])"

definition disc_packet :: "rdm_uid_t \<Rightarrow> bytes" where
  "disc_packet uid = replicate 7 RDM_PREAMBLE @ [RDM_DELIMITER] @ euid_bytes uid"

definition header_format :: string where
  "header_format = ''xCCx01buubbbwbwb''"

text \<open>
  The standard packet: header, parameter data, then the checksum. When the encoder has written fewer
  or more bytes than \<^verbatim>\<open>header->pdl\<close>, the lengths in the buffer are corrected.
\<close>

definition write_pd :: "rdm_header_t \<Rightarrow> string option \<Rightarrow> bytes option \<Rightarrow> bytes \<Rightarrow>
    (nat \<times> nat \<times> bytes) res" where
  "write_pd header format pd data =
     (if pd \<noteq> None \<and> h_pdl header > 0 then
        bind_r (rdm_format_encode (Some (length data - 24)) format pd (ucast (h_pdl header)) False)
          (\<lambda>bs.
        bind_r (store 24 bs data) (\<lambda>data.
        if unat (h_pdl header) \<noteq> length bs then
          bind_r (store 2 [of_nat (24 + length bs)] data) (\<lambda>data.
          bind_r (store 23 [of_nat (length bs)] data) (\<lambda>data.
          Inr (24 + length bs, 24 + length bs, data)))
        else Inr (unat (h_message_len header), 24 + length bs, data)))
      else Inr (24, 24, data))"

definition write_standard :: "rdm_header_t \<Rightarrow> string option \<Rightarrow> bytes option \<Rightarrow> bytes \<Rightarrow>
    (nat \<times> bytes) res" where
  "write_standard header format pd data =
     bind_r (rdm_format_encode (Some (length data)) (Some header_format)
               (Some (header_bytes header)) 24 False) (\<lambda>hdr.
     bind_r (store 0 hdr data) (\<lambda>data.
     bind_r (write_pd header format pd data) (\<lambda>(message_len, off, data).
     bind_r (load 0 message_len data) (\<lambda>msg.
     bind_r (store off
         (le16 (bswap16 (ucast RDM_SC + ucast RDM_SUB_SC + checksum16 (drop 2 msg)))) data) (\<lambda>data.
     Inr (message_len + 2, data))))))"

definition rdm_write :: "nat \<Rightarrow> rdm_header_t option \<Rightarrow> string option \<Rightarrow> bytes option \<Rightarrow>
    (world, nat) cmd" where
  "rdm_write dmx_num header format pd =
     (if \<not> dmx_num < DMX_NUM_MAX then ret 0
      else case header of
        None \<Rightarrow> ret 0
      | Some h \<Rightarrow>
          if \<not> (h_message_len h \<ge> 24 \<and> unat (h_message_len h) = 24 + unat (h_pdl h)) then ret 0
          else if \<not> (h_sub_device h < RDM_SUB_DEVICE_MAX \<or> h_sub_device h = RDM_SUB_DEVICE_ALL) then ret 0
          else if \<not> rdm_cc_is_valid (h_cc h) then ret 0
          else if \<not> h_pdl h < 231 then ret 0
          else if rdm_cc_is_request (h_cc h) \<and> \<not> h_port_id h > 0 then ret 0
          else if \<not> rdm_cc_is_request (h_cc h) \<and> \<not> rdm_response_type_is_valid (h_response_type h) then ret 0
          else bind_c (lift_c (rdm_format_is_valid format)) (\<lambda>valid.
            if \<not> valid then ret 0
            else if \<not> (h_pdl h = 0 \<or> (format \<noteq> None \<and> pd \<noteq> None)) then ret 0
            else bind_c (gets_c (dmx_driver_is_installed dmx_num)) (\<lambda>installed.
              if \<not> installed then ret 0
              else bind_c (query (get_drv dmx_num)) (\<lambda>d.
                if h_cc h = RDM_CC_DISC_COMMAND_RESPONSE \<and> h_pid h = RDM_PID_DISC_UNIQUE_BRANCH then
                  bind_c (lift_c (store 0 (disc_packet (h_src_uid h)) (d_data d))) (\<lambda>data.
                  then_c (upd_drv dmx_num (\<lambda>d. d\<lparr>d_data := data\<rparr>)) (ret (7 + 1 + 16)))
                else
                  bind_c (lift_c (write_standard h format pd (d_data d))) (\<lambda>(written, data).
                  then_c (upd_drv dmx_num (\<lambda>d. d\<lparr>d_data := data\<rparr>)) (ret written))))))"

section \<open>The bytes on the wire\<close>

definition uid_wire :: "rdm_uid_t \<Rightarrow> bytes" where
  "uid_wire u = rev (le16 (man_id u)) @ rev (le32 (dev_id u))"

definition wire_header :: "rdm_header_t \<Rightarrow> bytes" where
  "wire_header h =
     [RDM_SC, RDM_SUB_SC, h_message_len h] @ uid_wire (h_dest_uid h) @ uid_wire (h_src_uid h) @
     [h_tn h, h_port_id h, h_message_count h] @ rev (le16 (h_sub_device h)) @ [h_cc h] @
     rev (le16 (h_pid h)) @ [h_pdl h]"

lemma length_uid_wire [simp]: "length (uid_wire u) = 6"
  by (simp add: uid_wire_def)

lemma length_wire_header [simp]: "length (wire_header h) = 24"
  by (simp add: wire_header_def)

lemma wire_header_nonempty [simp]: "wire_header h \<noteq> []"
  by (simp add: wire_header_def)

lemma fmt_token_x:
  "length out < cap \<Longrightarrow> fmt_token nulls cap CHR ''x'' (a # b # f) src sz out =
     Inr (False, f, drop 1 src, sz - 1, out @ [hex_literal a b])"
  by (simp add: fmt_token_def emit_def)

lemma hex_literals [simp]:
  "hex_literal CHR ''C'' CHR ''C'' = 0xcc" "hex_literal CHR ''0'' CHR ''1'' = 1"
  "hex_literal CHR ''0'' CHR ''0'' = 0"
  by (simp_all add: hex_literal_def hex_digit_def of_char_def Let_def)

lemma header_format_valid [simp]: "rdm_format_is_valid (Some header_format) = Inr True"
  by code_simp

lemma swap_header_bytes:
  "swap_fields (widths ''buubbbwbwb'') (drop 2 (header_bytes h)) = drop 2 (wire_header h)"
  by (simp add: header_bytes_def wire_header_def uid_bytes_def uid_wire_def le16_def le32_def)

lemma encode_header:
  assumes "24 \<le> cap"
  shows "rdm_format_encode (Some cap) (Some header_format) (Some (header_bytes h)) 24 nulls =
    Inr (wire_header h)"
proof -
  have "fmt_pass nulls cap header_format (header_bytes h) 24 [] =
      fmt_pass nulls cap (''buubbbwbwb'' @ []) (drop 2 (header_bytes h)) 22 [0xcc, 1]"
    using assms by (simp add: header_format_def fmt_token_x numeral_2_eq_2)
  also have "\<dots> = Inr (False, [], 0, [0xcc, 1] @ drop 2 (wire_header h))"
    using assms by (subst fmt_pass_plain) (simp_all add: swap_header_bytes del: widths_simps)
  also have "[0xcc, 1] @ drop 2 (wire_header h) = wire_header h"
    by (simp add: wire_header_def)
  finally show ?thesis
    by (simp add: rdm_format_encode_def fmt_loop.simps)
qed

lemma splice_prefix [simp]:
  "splice 0 ys xs = ys @ drop (length ys) xs"
  "length as = off \<Longrightarrow> splice off ys (as @ xs) = as @ ys @ drop (length ys) xs"
  by (simp_all add: splice_def)

lemma splice_after:
  "off = length as + length bs \<Longrightarrow> splice off ys (as @ bs @ xs) = as @ bs @ ys @ drop (length ys) xs"
  using splice_prefix(2) [of "as @ bs" off ys xs] by simp

lemma splice_wire_header:
  "splice 2 [x] (wire_header h @ r) = wire_header (h\<lparr>h_message_len := x\<rparr>) @ r"
  "splice 23 [x] (wire_header h @ r) = wire_header (h\<lparr>h_pdl := x\<rparr>) @ r"
proof -
  show "splice 2 [x] (wire_header h @ r) = wire_header (h\<lparr>h_message_len := x\<rparr>) @ r"
    by (simp add: splice_def wire_header_def)
  let ?a = "take 23 (wire_header h)"
  have "wire_header h = ?a @ [h_pdl h]" "wire_header (h\<lparr>h_pdl := x\<rparr>) = ?a @ [x]"
    by (simp_all add: wire_header_def)
  moreover have "length ?a = 23" by simp
  ultimately show "splice 23 [x] (wire_header h @ r) = wire_header (h\<lparr>h_pdl := x\<rparr>) @ r"
    using splice_prefix(2) [of ?a 23 "[x]" "[h_pdl h] @ r"] by (metis append.assoc append_Cons append_Nil
        drop0 drop_Suc_Cons length_Cons list.size(3) One_nat_def)
qed

text \<open>The header that is sent when the encoder has written \<open>k\<close> bytes of parameter data.\<close>

definition sent_header :: "rdm_header_t \<Rightarrow> nat \<Rightarrow> rdm_header_t" where
  "sent_header h k = h\<lparr>h_message_len := of_nat (24 + k), h_pdl := of_nat k\<rparr>"

definition packet :: "rdm_header_t \<Rightarrow> bytes \<Rightarrow> bytes" where
  "packet h bs = wire_header h @ bs @ rev (le16 (checksum16 (wire_header h @ bs)))"

lemma checksum16_simps [simp]:
  "checksum16 [] = 0" "checksum16 (x # xs) = ucast x + checksum16 xs"
  "checksum16 (xs @ ys) = checksum16 xs + checksum16 ys"
  by (simp_all add: checksum16_def)

lemma checksum_wire_header: "0xcd + checksum16 (drop 2 (wire_header h)) = checksum16 (wire_header h)"
  by (simp add: wire_header_def checksum16_def)

lemma length_packet [simp]: "length (packet h bs) = 26 + length bs"
  by (simp add: packet_def)

definition encoded_pd :: "rdm_header_t \<Rightarrow> string option \<Rightarrow> bytes option \<Rightarrow> bytes res" where
  "encoded_pd h format pd =
     (if pd \<noteq> None \<and> h_pdl h > 0 then
        rdm_format_encode (Some (DMX_PACKET_SIZE_MAX - 24)) format pd (ucast (h_pdl h)) False
      else Inr [])"

lemma sent_header_same:
  assumes "unat (h_message_len h) = 24 + unat (h_pdl h)" "k = unat (h_pdl h)"
  shows "sent_header h k = h"
proof -
  have "(of_nat (24 + k) :: u8) = of_nat (unat (h_message_len h))" using assms by simp
  then have "(of_nat (24 + k) :: u8) = h_message_len h" by simp
  then show ?thesis using assms(2) by (cases h) (simp add: sent_header_def)
qed

lemma write_pd_eq:
  assumes len: "length data = DMX_PACKET_SIZE_MAX" "data = wire_header h @ r"
    and h: "unat (h_message_len h) = 24 + unat (h_pdl h)" "h_pdl h = 0 \<or> pd \<noteq> None"
    and pd: "encoded_pd h format pd = Inr bs" "length bs \<le> 231"
  shows "write_pd h format pd data =
    Inr (24 + length bs, 24 + length bs, wire_header (sent_header h (length bs)) @ bs @ drop (length bs) r)"
proof (cases "pd \<noteq> None \<and> h_pdl h > 0")
  case True
  have r: "length r = 489" using len by simp
  show ?thesis
  proof (cases "unat (h_pdl h) = length bs")
    case eq: True
    then show ?thesis
      using True pd r h len(2) sent_header_same [OF h(1), of "length bs"]
      by (simp add: write_pd_def encoded_pd_def)
  next
    case False
    then show ?thesis
      using True pd r len(2)
      by (simp add: write_pd_def encoded_pd_def splice_wire_header sent_header_def)
  qed
next
  case False
  then have "h_pdl h = 0" "bs = []" using h(2) pd(1) by (auto simp: encoded_pd_def word_gt_0)
  then show ?thesis
    using False len(2) sent_header_same [OF h(1), of 0] by (auto simp: write_pd_def)
qed

lemma write_standard_eq:
  assumes len: "length data = DMX_PACKET_SIZE_MAX"
    and h: "unat (h_message_len h) = 24 + unat (h_pdl h)" "h_pdl h = 0 \<or> pd \<noteq> None"
    and pd: "encoded_pd h format pd = Inr bs" "length bs \<le> 231"
  shows "write_standard h format pd data =
    Inr (26 + length bs, packet (sent_header h (length bs)) bs @ drop (26 + length bs) data)"
proof -
  have body: "write_pd h format pd (wire_header h @ drop 24 data) =
      Inr (24 + length bs, 24 + length bs,
        wire_header (sent_header h (length bs)) @ bs @ drop (24 + length bs) data)"
    using len write_pd_eq [OF _ refl h pd, of "drop 24 data"] by (simp add: add.commute)
  show ?thesis
    using len pd(2) checksum_wire_header [of "sent_header h (length bs)"]
    by (simp add: write_standard_def encode_header body slice_def packet_def bswap16_bytes
        add.assoc [symmetric] del: append_assoc)
      (simp add: splice_after add.commute)
qed

section \<open>Reading what was written\<close>

lemma of_le16_rev: "of_le16 (rev (le16 x)) = bswap16 x"
  by (simp add: bswap16_def)

lemma swap_wire_header: "swap_header (header_of_bytes (wire_header h)) = h"
proof -
  have "uid_of_bytes (rev (le16 a) @ rev (le32 b)) = Rdm_Uid (bswap16 a) (bswap32 b)" for a b
    by (simp add: uid_of_bytes_def bswap16_def bswap32_def)
  then show ?thesis
    by (simp add: header_of_bytes_def wire_header_def slice_def nth_append nth_Cons' drop_Cons'
        swap_header_def uid_wire_def of_le16_rev)
qed

lemma read_standard_packet:
  assumes "unat (h_message_len h) = 24 + length bs"
  shows "read_standard (packet h bs @ r) = Some h"
proof -
  have "(packet h bs @ r) ! 2 = h_message_len h" by (simp add: packet_def wire_header_def)
  then show ?thesis
    using assms by (simp add: read_standard_def Let_def packet_def slice_def swap_wire_header of_le16_rev)
qed

text \<open>The conditions under which \<^verbatim>\<open>rdm_write\<close> accepts a header.\<close>

definition header_ok :: "rdm_header_t \<Rightarrow> bool" where
  "header_ok h \<longleftrightarrow>
     unat (h_message_len h) = 24 + unat (h_pdl h) \<and>
     (h_sub_device h < RDM_SUB_DEVICE_MAX \<or> h_sub_device h = RDM_SUB_DEVICE_ALL) \<and>
     rdm_cc_is_valid (h_cc h) \<and> h_pdl h < 231 \<and>
     (if rdm_cc_is_request (h_cc h) then h_port_id h > 0
      else rdm_response_type_is_valid (h_response_type h))"

definition is_disc_response :: "rdm_header_t \<Rightarrow> bool" where
  "is_disc_response h \<longleftrightarrow>
     h_cc h = RDM_CC_DISC_COMMAND_RESPONSE \<and> h_pid h = RDM_PID_DISC_UNIQUE_BRANCH"

definition set_data :: "nat \<Rightarrow> bytes \<Rightarrow> world \<Rightarrow> world" where
  "set_data n data w =
     w\<lparr>drv := (drv w)(n := map_option (\<lambda>d. d\<lparr>d_data := data\<rparr>) (drv w n))\<rparr>"

lemma header_ok_len: "header_ok h \<Longrightarrow> h_message_len h \<ge> 24"
  by (simp add: header_ok_def word_le_nat_alt)

lemma header_ok_guards:
  assumes "header_ok h"
  shows "24 \<le> h_message_len h \<and> unat (h_message_len h) = 24 + unat (h_pdl h)"
    and "h_sub_device h < RDM_SUB_DEVICE_MAX \<or> h_sub_device h = RDM_SUB_DEVICE_ALL"
    and "rdm_cc_is_valid (h_cc h)" "h_pdl h < 231"
    and "\<not> (rdm_cc_is_request (h_cc h) \<and> \<not> h_port_id h > 0)"
    and "\<not> (\<not> rdm_cc_is_request (h_cc h) \<and> \<not> rdm_response_type_is_valid (h_response_type h))"
  using assms by (auto simp: header_ok_def word_le_nat_alt split: if_splits)

text \<open>What an accepted header makes of the call, once every guard has passed.\<close>

lemma rdm_write_accepted:
  assumes "n < DMX_NUM_MAX" "drv w n = Some d" "header_ok h"
    and "rdm_format_is_valid format = Inr True" "h_pdl h = 0 \<or> format \<noteq> None \<and> pd \<noteq> None"
  shows "rdm_write n (Some h) format pd w =
    (if is_disc_response h then
       bind_r (store 0 (disc_packet (h_src_uid h)) (d_data d)) (\<lambda>data. Inr (24, set_data n data w))
     else bind_r (write_standard h format pd (d_data d)) (\<lambda>(k, data). Inr (k, set_data n data w)))"
proof -
  note g = header_ok_guards [OF assms(3)]
  show ?thesis
    unfolding rdm_write_def option.case
    using assms(1,2)
    by (simp only: g assms(4,5) if_False if_True not_True_eq_False not_False_eq_True)
      (auto simp: is_disc_response_def dmx_driver_is_installed_def get_drv_def upd_drv_def set_data_def
        bind_r_def split: sum.split prod.split)
qed

lemma rdm_write_standard:
  assumes port: "n < DMX_NUM_MAX" "drv w n = Some d" "length (d_data d) = DMX_PACKET_SIZE_MAX"
    and h: "header_ok h" "\<not> is_disc_response h"
    and fmt: "rdm_format_is_valid format = Inr True" "h_pdl h = 0 \<or> format \<noteq> None \<and> pd \<noteq> None"
    and pd: "encoded_pd h format pd = Inr bs" "length bs \<le> 231"
  shows "rdm_write n (Some h) format pd w = Inr (26 + length bs,
    set_data n (packet (sent_header h (length bs)) bs @ drop (26 + length bs) (d_data d)) w)"
proof -
  have "h_pdl h = 0 \<or> pd \<noteq> None" using fmt(2) by auto
  note std = write_standard_eq [OF port(3) _ this pd]
  from h(1) have "unat (h_message_len h) = 24 + unat (h_pdl h)" by (simp add: header_ok_def)
  from std [OF this] show ?thesis
    using rdm_write_accepted [OF port(1,2) h(1) fmt] h(2) by simp
qed

lemma rdm_write_discovery:
  assumes port: "n < DMX_NUM_MAX" "drv w n = Some d" "length (d_data d) = DMX_PACKET_SIZE_MAX"
    and h: "header_ok h" "is_disc_response h" "h_pdl h = 0"
    and fmt: "rdm_format_is_valid format = Inr True"
  shows "rdm_write n (Some h) format pd w = Inr (24,
    set_data n (disc_packet (h_src_uid h) @ drop 24 (d_data d)) w)"
proof -
  have "length (disc_packet (h_src_uid h)) = 24"
    by (simp add: disc_packet_def euid_bytes_def Let_def uid_bytes_def le16_def le32_def)
  then show ?thesis
    using rdm_write_accepted [OF port(1,2) h(1) fmt] port(3) h(2,3) by simp
qed

lemma read_packet:
  assumes "n < DMX_NUM_MAX" "drv w n = Some d" "d_data d = packet h bs @ r"
    and "unat (h_message_len h) = 24 + length bs"
  shows "rdm_read_header n w = Inr (Some h)"
proof -
  have "of_le16 (take 2 (packet h bs @ r)) = 0x1cc"
    by (simp add: packet_def wire_header_def of_le16_def)
  then show ?thesis
    using assms read_standard_packet [OF assms(4), of r]
    by (simp add: rdm_read_header_def Let_def del: take_append)
qed

lemma euid_pair: "(b OR 0xaa) AND (b OR 0x55) = (b :: u8)"
proof -
  have "(b OR 0xaa) AND (b OR 0x55) = b OR (0xaa AND 0x55)"
    by (rule bit.disj_conj_distrib [symmetric])
  then show ?thesis by simp
qed

lemma euid_pair_sum: "ucast (b OR 0xaa) + ucast (b OR 0x55) = (ucast (b :: u8) + 0xff :: u16)"
proof -
  have "(ucast (b OR 0xaa) :: u16) OR ucast (b OR 0x55) = 0xff"
  proof (rule bit_word_eqI)
    fix k assume "k < LENGTH(16)"
    then have "k \<in> {0..<16}" by simp
    then show "bit ((ucast (b OR 0xaa) :: u16) OR ucast (b OR 0x55)) k = bit (0xff :: u16) k"
      by (auto simp: bit_simps atLeastLessThan_nat_numeral bit_above_byte)
  qed
  moreover have "(ucast (b OR 0xaa) :: u16) AND ucast (b OR 0x55) = ucast b"
    by (simp add: euid_pair flip: unsigned_and_eq)
  ultimately show ?thesis
    using word_plus_and_or [of "ucast (b OR 0xaa) :: u16" "ucast (b OR 0x55)"] by simp
qed

lemma join_bytes16: "push_bit 8 (ucast (ucast (drop_bit 8 c) :: u8)) OR ucast (ucast c :: u8) = (c :: u16)"
  by (rule bit_word_eqI) (auto simp: bit_simps)

lemma euid_decode_pairs:
  assumes "length us = 6"
  shows "euid_decode (concat (map (\<lambda>b. [b OR 0xaa, b OR 0x55]) us) @ r) = us"
    and "checksum16 (concat (map (\<lambda>b. [b OR 0xaa, b OR 0x55]) us)) =
      sum_list (map (\<lambda>b. ucast b + (0xaa OR 0x55)) us)"
proof -
  obtain a b c d e f where us: "us = [a, b, c, d, e, f]"
    using assms by (auto simp: length_Suc_conv numeral_eq_Suc)
  show "euid_decode (concat (map (\<lambda>b. [b OR 0xaa, b OR 0x55]) us) @ r) = us"
    by (simp add: us euid_decode_def upt_rec euid_pair)
  show "checksum16 (concat (map (\<lambda>b. [b OR 0xaa, b OR 0x55]) us)) =
      sum_list (map (\<lambda>b. ucast b + (0xaa OR 0x55)) us)"
    by (simp add: us add.assoc [symmetric] euid_pair_sum)
qed

lemma read_disc_packet:
  "read_discovery (disc_packet uid @ r) = Some (disc_response_header 7 uid)"
proof -
  let ?us = "uid_bytes (Rdm_Uid (bswap16 (man_id uid)) (bswap32 (dev_id uid)))"
  define c :: u16 where "c = sum_list (map (\<lambda>b. ucast b + (0xaa OR 0x55)) ?us)"
  define hi lo :: u8 where "hi = ucast (drop_bit 8 c)" and "lo = ucast c"
  let ?ps = "concat (map (\<lambda>b. [b OR 0xaa, b OR 0x55]) ?us)"
  let ?cs = "[hi OR 0xaa, hi OR 0x55, lo OR 0xaa, lo OR 0x55] @ r"
  have len: "length ?ps = 12" "length ?us = 6"
    by (simp_all add: uid_bytes_def le16_def le32_def)
  have data: "disc_packet uid @ r = replicate 7 RDM_PREAMBLE @ [RDM_DELIMITER] @ ?ps @ ?cs"
    by (simp add: disc_packet_def euid_bytes_def c_def hi_def lo_def Let_def)
  have idx: "find_index (\<lambda>b. b = RDM_DELIMITER) (take 8 (disc_packet uid @ r)) = Some 7"
    unfolding data by (simp add: find_index_Some_iff nth_append)
  have drop: "drop 8 (disc_packet uid @ r) = ?ps @ ?cs" unfolding data by simp
  have join: "push_bit 8 (ucast hi) OR ucast lo = c" by (simp add: hi_def lo_def join_bytes16)
  have sum: "checksum16 ?ps = c" using euid_decode_pairs(2) [OF len(2)] by (simp add: c_def)
  have "(?ps @ ?cs) ! (12 + k) = ?cs ! k" for k
    unfolding len(1) [symmetric] by (rule nth_append_length_plus)
  from this [of 0] this [of 1] this [of 2] this [of 3]
  have chk: "push_bit 8 (ucast ((?ps @ ?cs) ! 12 AND (?ps @ ?cs) ! 13)) OR
      ucast ((?ps @ ?cs) ! 14 AND (?ps @ ?cs) ! 15) = c"
    by (simp add: euid_pair join)
  show ?thesis
    using len(1) chk sum euid_decode_pairs(1) [OF len(2), of ?cs]
    unfolding read_discovery_def idx option.case by (simp add: drop Let_def del: drop_append)
qed

lemma disc_packet_start:
  "of_le16 (take 2 (disc_packet uid @ r)) = 0xfefe" "(disc_packet uid @ r) ! 0 = RDM_PREAMBLE"
proof -
  have "disc_packet uid @ r = [0xfe, 0xfe] @ replicate 5 0xfe @ [RDM_DELIMITER] @ euid_bytes uid @ r"
    using replicate_add [of 2 5 "0xfe :: u8"] by (simp add: disc_packet_def numeral_2_eq_2)
  then show "of_le16 (take 2 (disc_packet uid @ r)) = 0xfefe" "(disc_packet uid @ r) ! 0 = RDM_PREAMBLE"
    by (simp_all add: of_le16_def)
qed

lemma checksum16_update:
  "i < length xs \<Longrightarrow> checksum16 (xs[i := x]) = checksum16 xs - ucast (xs ! i) + ucast x"
  by (induction xs arbitrary: i) (auto split: nat.split simp: algebra_simps)

lemma ucast_ucast_u8_u16: "ucast (ucast (a :: u8) :: u16) = a"
  by (rule bit_word_eqI) (auto simp: bit_simps)

lemma ucast_u8_u16_inject [simp]: "(ucast (a :: u8) :: u16) = ucast b \<longleftrightarrow> a = b"
  by (metis ucast_ucast_u8_u16)

lemma bswap16_of_le16_inject:
  assumes "length xs = 2" "length ys = 2"
  shows "bswap16 (of_le16 xs) = bswap16 (of_le16 ys) \<longleftrightarrow> xs = ys"
  using assms by (metis bswap16_bswap16 le16_of_le16_length)

text \<open>A changed slot between the length and the end of the checksum makes the two sums differ.\<close>

lemma read_standard_damaged:
  assumes len: "unat (h_message_len h) = 24 + length bs"
    and i: "3 \<le> i" "i < length (packet h bs)" "x \<noteq> packet h bs ! i"
  shows "read_standard ((packet h bs @ r)[i := x]) = None"
proof -
  let ?m = "24 + length bs" and ?p = "packet h bs @ r"
  have "?p ! 2 = h_message_len h" by (simp add: packet_def wire_header_def)
  then have two: "(?p[i := x]) ! 2 = h_message_len h" using i(1) by (subst nth_list_update_neq) auto
  have body: "take ?m ?p = wire_header h @ bs" and tail: "slice ?m 2 ?p = rev (le16 (checksum16 (wire_header h @ bs)))"
    by (simp_all add: packet_def slice_def)
  have old: "checksum16 (take ?m ?p) = bswap16 (of_le16 (slice ?m 2 ?p))"
    unfolding body tail by (simp add: of_le16_rev)
  have "checksum16 (take ?m (?p[i := x])) \<noteq> bswap16 (of_le16 (slice ?m 2 (?p[i := x])))"
  proof (cases "i < ?m")
    case True
    then have "slice ?m 2 (?p[i := x]) = slice ?m 2 ?p" by (simp add: slice_def)
    moreover have "checksum16 (take ?m (?p[i := x])) =
        checksum16 (take ?m ?p) - ucast (take ?m ?p ! i) + ucast x"
      using True i(2) by (simp add: take_update_swap checksum16_update)
    moreover have "take ?m ?p ! i = packet h bs ! i" using True i(2) by (simp add: nth_append)
    ultimately show ?thesis using old i(3) by (auto simp: algebra_simps)
  next
    case False
    have "slice ?m 2 (?p[i := x]) = (slice ?m 2 ?p)[i - ?m := x]"
      using False by (simp add: slice_def drop_update_swap take_update_swap)
    moreover have "slice ?m 2 ?p ! (i - ?m) = packet h bs ! i"
      using False i(2) by (simp add: slice_def nth_append)
    moreover have "length (slice ?m 2 ?p) = 2" "i - ?m < 2" using False i(2) by (simp_all add: tail)
    ultimately have "slice ?m 2 (?p[i := x]) \<noteq> slice ?m 2 ?p" "length (slice ?m 2 (?p[i := x])) = 2"
      using i(3) by (metis nth_list_update_eq, simp)
    moreover have "take ?m (?p[i := x]) = take ?m ?p" using False by simp
    ultimately show ?thesis
      using old bswap16_of_le16_inject [of "slice ?m 2 ?p" "slice ?m 2 (?p[i := x])"] tail by auto
  qed
  then show ?thesis using len by (simp add: read_standard_def Let_def two del: list_update_append)
qed

text \<open>Whole records of a plain format, in network byte order and followed by anything, decode.\<close>

lemma record_fields: "sum_list (concat (replicate k (widths f))) = k * record_size f"
  by (induction k) (simp_all add: record_size_def)

lemma decode_plain:
  assumes f: "plain f" "0 < record_size f" "record_size f \<le> 231"
    and pd: "length pd = k * record_size f" "length pd < 2 ^ 32" "length pd \<le> cap"
  shows "rdm_format_encode (Some cap) (Some f)
      (Some (swap_fields (concat (replicate k (widths f))) pd @ r)) (of_nat (length pd)) nulls = Inr pd"
proof -
  let ?ws = "concat (replicate k (widths f))"
  have sum: "sum_list ?ws = length pd" using pd(1) record_fields [of k f] by simp
  then have len: "length (swap_fields ?ws pd) = length pd" by simp
  have "rdm_format_encode (Some cap) (Some f) (Some (swap_fields ?ws pd @ r)) (of_nat (length pd)) nulls =
      Inr (swap_fields ?ws (swap_fields ?ws pd @ r))"
    unfolding pd(1) using pd len by (intro encode_plain [OF f]) simp_all
  also have "swap_fields ?ws (swap_fields ?ws pd @ r) = pd"
    using sum len by (simp add: swap_fields_prefix swap_fields_involution)
  finally show ?thesis .
qed

lemma read_pd_packet:
  assumes "n < DMX_NUM_MAX" "drv w n = Some d" "d_data d = packet h bs @ r"
    and "rdm_format_is_valid format = Inr True" "unat (h_pdl h) = k" "k \<le> 231"
  shows "rdm_read_pd n format (Some cap) k w =
    (if k = 0 then Inr (0, []) else
     bind_r (rdm_format_encode (Some cap) format (Some (drop 24 (d_data d))) (of_nat k) True)
       (\<lambda>out. Inr (k, out)))"
proof -
  have "d_data d ! 23 = h_pdl h" by (simp add: assms(3) packet_def wire_header_def nth_append nth_Cons')
  then show ?thesis
    using assms by (simp add: rdm_read_pd_def dmx_driver_is_installed_def get_drv_def)
qed

section \<open>Properties\<close>

text \<open>
  A packet whose parameter data is encoded to as many bytes, and decoded to what it was, survives the
  trip through the buffer.
\<close>

lemma packet_trip:
  assumes port: "n < DMX_NUM_MAX" "drv w n = Some d" "length (d_data d) = DMX_PACKET_SIZE_MAX"
    and h: "header_ok h" "\<not> is_disc_response h" "unat (h_pdl h) = length pd"
    and g: "rdm_format_is_valid (Some g) = Inr True" "encoded_pd h (Some g) (Some pd) = Inr bs" "length bs = length pd"
      "\<And>r. pd \<noteq> [] \<Longrightarrow> rdm_format_encode (Some (length pd)) (Some g) (Some (bs @ r)) (of_nat (length pd)) True = Inr pd"
  shows "\<exists>w'. rdm_write n (Some h) (Some g) (Some pd) w = Inr (26 + length pd, w') \<and>
    rdm_read_header n w' = Inr (Some h) \<and>
    rdm_read_pd n (Some g) (Some (length pd)) (length pd) w' = Inr (length pd, pd)"
proof -
  let ?data = "packet h bs @ drop (26 + length bs) (d_data d)"
  have short: "length pd < 231" using h(1,3) by (simp add: header_ok_def word_less_nat_alt)
  have "sent_header h (length bs) = h"
    using h(1,3) g(3) by (intro sent_header_same) (simp_all add: header_ok_def)
  then have wr: "rdm_write n (Some h) (Some g) (Some pd) w = Inr (26 + length pd, set_data n ?data w)"
    using rdm_write_standard [OF port h(1,2), of "Some g" "Some pd" bs] g short by simp
  have drv: "drv (set_data n ?data w) n = Some (d\<lparr>d_data := ?data\<rparr>)"
    using port(2) by (simp add: set_data_def)
  have "rdm_read_header n (set_data n ?data w) = Inr (Some h)"
    using read_packet [OF port(1) drv] h(1,3) g(3) by (simp add: header_ok_def)
  moreover have "drop 24 ?data = bs @ rev (le16 (checksum16 (wire_header h @ bs))) @ drop (26 + length bs) (d_data d)"
    by (simp add: packet_def)
  then have "rdm_read_pd n (Some g) (Some (length pd)) (length pd) (set_data n ?data w) = Inr (length pd, pd)"
    using g(4) short
    by (subst read_pd_packet [OF port(1) drv _ g(1) h(3)]) (auto simp del: drop_append)
  ultimately show ?thesis using wr by blast
qed

lemma standard_round_trip:
  assumes port: "n < DMX_NUM_MAX" "drv w n = Some d" "length (d_data d) = DMX_PACKET_SIZE_MAX"
    and h: "header_ok h" "\<not> is_disc_response h" "unat (h_pdl h) = length pd"
    and f: "plain f" "0 < record_size f" "record_size f \<le> 231" "length pd = k * record_size f"
  shows "\<exists>w'. rdm_write n (Some h) (Some f) (Some pd) w = Inr (26 + length pd, w') \<and>
    rdm_read_header n w' = Inr (Some h) \<and>
    rdm_read_pd n (Some f) (Some (length pd)) (length pd) w' = Inr (length pd, pd)"
proof (rule packet_trip [OF port h plain_valid(1) [OF f(1-3)]])
  let ?bs = "swap_fields (concat (replicate k (widths f))) pd"
  show len: "length ?bs = length pd" using f(4) by (simp add: record_fields)
  have short: "length pd < 231" using h(1,3) by (simp add: header_ok_def word_less_nat_alt)
  have pdl: "(ucast (h_pdl h) :: u32) = of_nat (length pd)" using h(3) by (metis of_nat_unat)
  show "encoded_pd h (Some f) (Some pd) = Inr ?bs"
  proof (cases "h_pdl h > 0")
    case True
    then show ?thesis
      using encode_plain [OF f(1-3), of k pd 489 False] f(4) short by (simp add: encoded_pd_def pdl)
  next
    case False
    then show ?thesis using h(3) len by (simp add: encoded_pd_def word_gt_0)
  qed
  show "rdm_format_encode (Some (length pd)) (Some f) (Some (?bs @ r)) (of_nat (length pd)) True = Inr pd" for r
    using decode_plain [OF f, of "length pd" r] short by simp
qed

text \<open>One record of a terminated format, which most of the library's parameters have.\<close>

lemma terminated_round_trip:
  assumes port: "n < DMX_NUM_MAX" "drv w n = Some d" "length (d_data d) = DMX_PACKET_SIZE_MAX"
    and h: "header_ok h" "\<not> is_disc_response h" "unat (h_pdl h) = length pd"
    and f: "plain f" "0 < record_size f" "record_size f \<le> 231" "length pd = record_size f"
  shows "\<exists>w'. rdm_write n (Some h) (Some (f @ ''$'')) (Some pd) w = Inr (26 + length pd, w') \<and>
    rdm_read_header n w' = Inr (Some h) \<and>
    rdm_read_pd n (Some (f @ ''$'')) (Some (length pd)) (length pd) w' = Inr (length pd, pd)"
proof (rule packet_trip [OF port h plain_valid(2) [OF f(1-3)]])
  let ?bs = "swap_fields (widths f) pd"
  show len: "length ?bs = length pd" using f(4) by (simp add: record_size_def)
  have short: "length pd < 231" using h(1,3) by (simp add: header_ok_def word_less_nat_alt)
  have pdl: "(ucast (h_pdl h) :: u32) = of_nat (length pd)" "0 < unat (h_pdl h)" using h(3) f by (metis of_nat_unat, simp)
  have nz: "(of_nat (length pd) :: u32) \<noteq> 0" using f short of_nat_u32_eq_0_iff [of "length pd"] by simp
  show "encoded_pd h (Some (f @ ''$'')) (Some pd) = Inr ?bs"
    using encode_plain_dollar [OF f(1-3), of pd 489 "of_nat (length pd)" False] f(4) short nz pdl
    by (simp add: encoded_pd_def word_less_nat_alt)
  show "rdm_format_encode (Some (length pd)) (Some (f @ ''$'')) (Some (?bs @ r)) (of_nat (length pd)) True = Inr pd" for r
    using encode_plain_dollar [OF f(1-3), of "?bs @ r" "length pd" "of_nat (length pd)" True]
      decode_plain [OF f(1-3), of pd 1 "length pd" r True] encode_plain [OF f(1-3), of 1 "?bs @ r" "length pd" True] f(4) len short nz
    by simp
qed

text \<open>
  C1. A standard packet survives the trip through the buffer. For every header that
  \<^verbatim>\<open>rdm_write\<close> accepts and parameter data made of whole records of a plain format, the call writes
  26 bytes more than the parameter data, \<^verbatim>\<open>rdm_read_header\<close> then finds a valid checksum and
  returns the same header, and \<^verbatim>\<open>rdm_read_pd\<close> returns the same parameter data.
\<close>

theorem packet_round_trip:
  assumes port: "n < DMX_NUM_MAX" "drv w n = Some d" "length (d_data d) = DMX_PACKET_SIZE_MAX"
    and h: "header_ok h" "\<not> is_disc_response h" "unat (h_pdl h) = length pd"
    and f: "plain f" "0 < record_size f" "record_size f \<le> 231" "length pd = k * record_size f"
  shows "\<exists>w'. rdm_write n (Some h) (Some f) (Some pd) w = Inr (26 + length pd, w') \<and>
    rdm_read_header n w' = Inr (Some h) \<and>
    rdm_read_pd n (Some f) (Some (length pd)) (length pd) w' = Inr (length pd, pd)"
  by (rule standard_round_trip [OF port h f])

definition demo_header :: rdm_header_t where
  "demo_header = \<lparr>h_message_len = 26, h_dest_uid = Rdm_Uid 0x05e0 7, h_src_uid = Rdm_Uid 0x05e0 8,
     h_tn = 3, h_port_id = 1, h_message_count = 0, h_sub_device = 0, h_cc = RDM_CC_SET_COMMAND,
     h_pid = RDM_PID_DMX_START_ADDRESS, h_pdl = 2\<rparr>"

lemma demo_header_ok: "header_ok demo_header" "\<not> is_disc_response demo_header"
  by code_simp+

lemma demo_port:
  "drv (demo_world k) 0 = Some (demo_driver k)" "length (d_data (demo_driver k)) = DMX_PACKET_SIZE_MAX"
  by (simp_all add: demo_world_def demo_driver_def initial_driver_def)

theorem packet_round_trip_witness:
  "\<exists>w'. rdm_write 0 (Some demo_header) (Some ''w'') (Some [5, 0]) (demo_world 2) =
      Inr (26 + length [5 :: u8, 0], w') \<and>
    rdm_read_header 0 w' = Inr (Some demo_header) \<and>
    rdm_read_pd 0 (Some ''w'') (Some (length [5 :: u8, 0])) (length [5 :: u8, 0]) w' =
      Inr (length [5 :: u8, 0], [5, 0])"
  by (rule packet_round_trip [where k = 1 and d = "demo_driver 2"])
    (simp_all add: demo_port demo_header_ok, simp add: demo_header_def)

text \<open>
  C28. A response to \<^verbatim>\<open>DISC_UNIQUE_BRANCH\<close> is written as seven preamble bytes, the delimiter and the
  encoded UID (24 bytes), and is read back as a discovery response from that same UID, whatever the
  UID: each byte is split over two slots and put together again, and the checksum agrees.
\<close>

theorem discovery_response_round_trip:
  assumes "n < DMX_NUM_MAX" "drv w n = Some d" "length (d_data d) = DMX_PACKET_SIZE_MAX"
    and "header_ok h" "is_disc_response h" "h_pdl h = 0"
  shows "\<exists>w'. rdm_write n (Some h) None None w = Inr (24, w') \<and>
    rdm_read_header n w' = Inr (Some (disc_response_header 7 (h_src_uid h)))"
proof -
  let ?r = "drop 24 (d_data d)"
  have "rdm_write n (Some h) None None w = Inr (24, set_data n (disc_packet (h_src_uid h) @ ?r) w)"
    using assms by (intro rdm_write_discovery) (simp_all add: rdm_format_is_valid_def)
  moreover have "rdm_read_header n (set_data n (disc_packet (h_src_uid h) @ ?r) w) =
      Inr (read_discovery (disc_packet (h_src_uid h) @ ?r))"
    using assms(1,2) disc_packet_start [of "h_src_uid h" ?r]
    by (simp add: rdm_read_header_def set_data_def Let_def)
  ultimately show ?thesis by (simp add: read_disc_packet)
qed

theorem discovery_response_round_trip_witness:
  "\<exists>w'. rdm_write 0 (Some (disc_response_header 7 (Rdm_Uid 0x05e0 0x12345678))) None None (demo_world 0) =
      Inr (24, w') \<and>
    rdm_read_header 0 w' = Inr (Some (disc_response_header 7
      (h_src_uid (disc_response_header 7 (Rdm_Uid 0x05e0 0x12345678)))))"
  by (rule discovery_response_round_trip [where d = "demo_driver 0"])
    (simp_all add: demo_port, code_simp+)

text \<open>
  C23. A packet with one damaged slot is never taken for a message: whichever slot from the addresses
  to the end of the checksum is changed, \<^verbatim>\<open>rdm_read_header\<close> returns false.
\<close>

theorem damaged_packet_rejected:
  assumes "n < DMX_NUM_MAX" "drv w n = Some d" "d_data d = (packet h bs @ r)[i := x]"
    and "unat (h_message_len h) = 24 + length bs"
    and "3 \<le> i" "i < length (packet h bs)" "x \<noteq> packet h bs ! i"
  shows "rdm_read_header n w = Inr None"
proof -
  have "take 2 ((packet h bs @ r)[i := x]) = take 2 (packet h bs @ r)"
    using assms(5) by (intro take_update_cancel) simp
  also have "\<dots> = [0xcc, 1]" by (simp add: packet_def wire_header_def)
  finally have "of_le16 (take 2 ((packet h bs @ r)[i := x])) = 0x1cc"
    by (simp add: of_le16_def)
  then show ?thesis
    using assms(1-3) read_standard_damaged [OF assms(4-7), of r]
    by (simp add: rdm_read_header_def Let_def del: take_update_swap)
qed

theorem damaged_packet_rejected_witness:
  "rdm_read_header 0 (set_data 0 ((packet demo_header [0, 5] @ [])[25 := 9]) (demo_world 0)) = Inr None"
  by (rule damaged_packet_rejected [where h = demo_header and bs = "[0, 5]" and r = "[]" and i = 25 and x = 9
        and d = "(demo_driver 0)\<lparr>d_data := (packet demo_header [0, 5] @ [])[25 := 9]\<rparr>"])
    (simp_all add: set_data_def demo_port, simp_all add: packet_def demo_header_def wire_header_def nth_append)

text \<open>
  A header that is not well formed never reaches the buffer: when the message length does not
  match the parameter data length, the sub-device, command class, port or response type is out of
  range, or the parameter data length is 231 or more, \<^verbatim>\<open>rdm_write\<close> returns 0 and changes nothing.
\<close>

lemma rdm_write_rejects_bad_header:
  assumes "\<not> header_ok h"
  shows "rdm_write n (Some h) format pd w = Inr (0, w)"
proof -
  consider "\<not> (h_message_len h \<ge> 24 \<and> unat (h_message_len h) = 24 + unat (h_pdl h))"
    | "\<not> (h_sub_device h < RDM_SUB_DEVICE_MAX \<or> h_sub_device h = RDM_SUB_DEVICE_ALL)"
    | "\<not> rdm_cc_is_valid (h_cc h)" | "\<not> h_pdl h < 231"
    | "rdm_cc_is_request (h_cc h) \<and> \<not> h_port_id h > 0"
    | "\<not> rdm_cc_is_request (h_cc h) \<and> \<not> rdm_response_type_is_valid (h_response_type h)"
    using assms unfolding header_ok_def by (smt (verit))
  then show ?thesis
    by cases (simp_all only: rdm_write_def option.case if_True if_cancel ret_def if_distribR simp_thms if_False)
qed

lemma rdm_write_rejects_bad_header_witness:
  "rdm_write 0 (Some (demo_header\<lparr>h_pdl := 3\<rparr>)) (Some ''w'') (Some [5, 0]) (demo_world 2) = Inr (0, demo_world 2)"
  by (rule rdm_write_rejects_bad_header) (simp add: header_ok_def demo_header_def)

end
