(* ===== verification/Rdm_Queue.thy ===== *)
theory Rdm_Queue
  imports Rdm_Driver
begin

text \<open>
  The queue of PIDs behind \<^verbatim>\<open>RDM_PID_QUEUED_MESSAGE\<close>, \<^verbatim>\<open>rdm/responder/queue_status.c\<close>, and
  \<^verbatim>\<open>rdm_uid_get\<close> of \<^verbatim>\<open>dmx/driver.c\<close>. The queue is the data block of the parameter: four 16-bit fields
  and the slots of a ring buffer.

  The abstract queue is a list of PIDs (\<open>queue_pids\<close>). The locale \<open>pid_queue\<close> states what a queue
  promises; the ring buffer is an interpretation of it. Its promise about pushing is limited to the
  states in which the search for duplicates ends (\<open>ready\<close>): in the others the loop of
  \<^verbatim>\<open>rdm_queue_push\<close> does not return.
\<close>

section \<open>The ring buffer\<close>

definition q_head :: "bytes \<Rightarrow> u16" where "q_head q = of_le16 (slice 0 2 q)"
definition q_tail :: "bytes \<Rightarrow> u16" where "q_tail q = of_le16 (slice 2 2 q)"
definition q_previous :: "bytes \<Rightarrow> u16" where "q_previous q = of_le16 (slice 4 2 q)"
definition q_max_size :: "bytes \<Rightarrow> u16" where "q_max_size q = of_le16 (slice 6 2 q)"

definition q_slot :: "bytes \<Rightarrow> nat \<Rightarrow> u16 res" where
  "q_slot q i = bind_r (load (8 + 2 * i) 2 q) (\<lambda>bs. Inr (of_le16 bs))"

text \<open>The fields as assignments through the pointer.\<close>

definition set_q_head :: "u16 \<Rightarrow> bytes \<Rightarrow> bytes res" where "set_q_head x q = store 0 (le16 x) q"
definition set_q_tail :: "u16 \<Rightarrow> bytes \<Rightarrow> bytes res" where "set_q_tail x q = store 2 (le16 x) q"
definition set_q_previous :: "u16 \<Rightarrow> bytes \<Rightarrow> bytes res" where "set_q_previous x q = store 4 (le16 x) q"
definition set_q_max_size :: "u16 \<Rightarrow> bytes \<Rightarrow> bytes res" where "set_q_max_size x q = store 6 (le16 x) q"

text \<open>
  The search for a duplicate. \<open>None\<close> is a search that does not end; the result is whether the PID was
  found.
\<close>

partial_function (option) queue_scan :: "u16 \<Rightarrow> bytes \<Rightarrow> nat \<Rightarrow> bool res option" where
  "queue_scan pid q i =
     (if i = unat (q_head q) then Some (Inr False)
      else (case q_slot q (if i = unat (q_max_size q) then 0 else i) of
        Inl e \<Rightarrow> Some (Inl e)
      | Inr x \<Rightarrow>
          if x = pid then Some (Inr True)
          else queue_scan pid q ((if i = unat (q_max_size q) then 0 else i) + 1)))"

declare queue_scan.simps [code]

text \<open>The critical section of \<^verbatim>\<open>rdm_queue_push\<close>.\<close>

definition push_body :: "u16 \<Rightarrow> bytes \<Rightarrow> (bool \<times> bytes) res" where
  "push_body pid q =
     (case queue_scan pid q (unat (q_tail q)) of
        None \<Rightarrow> Inl Loops_Forever
      | Some r \<Rightarrow> bind_r r (\<lambda>already_queued.
          if already_queued then Inr (True, q)
          else if q_max_size q = 0 then Inl Div_By_Zero
          else if (unat (q_head q) + 1) mod unat (q_max_size q) \<noteq> unat (q_tail q) then
            bind_r (store (8 + 2 * unat (q_head q)) (le16 pid) q) (\<lambda>q.
            bind_r (set_q_head (q_head q + 1) q) (\<lambda>q.
            bind_r (if q_head q = q_max_size q then set_q_head 0 q else Inr q) (\<lambda>q.
            Inr (True, q))))
          else Inr (False, q)))"

text \<open>The critical section of \<^verbatim>\<open>rdm_queue_pop\<close>.\<close>

definition pop_body :: "bytes \<Rightarrow> (u16 \<times> bytes) res" where
  "pop_body q =
     bind_r (q_slot q (unat (q_tail q))) (\<lambda>pid.
     bind_r (set_q_tail (q_tail q + 1) q) (\<lambda>q.
     bind_r (if q_tail q = q_max_size q then set_q_tail 0 q else Inr q) (\<lambda>q.
     bind_r (set_q_previous pid q) (\<lambda>q.
     Inr (pid, q)))))"

definition size_body :: "bytes \<Rightarrow> u8" where
  "size_body q =
     (let n = - uint (q_tail q) + uint (q_head q);
          n = (if n < 0 then n + uint (q_max_size q) else n)
      in of_int (if n > 255 then 255 else n))"

section \<open>Operations on a port\<close>

definition rdm_uid_get :: "nat \<Rightarrow> world \<Rightarrow> rdm_uid_t option" where
  "rdm_uid_get dmx_num w =
     (if dmx_driver_is_installed dmx_num w then map_option d_uid (drv w dmx_num) else None)"

definition rdm_get_queue :: "nat \<Rightarrow> world \<Rightarrow> nat option res" where
  "rdm_get_queue dmx_num = dmx_parameter_get_data dmx_num RDM_SUB_DEVICE_ROOT RDM_PID_QUEUED_MESSAGE"

definition rdm_queue_push :: "nat \<Rightarrow> u16 \<Rightarrow> (world, bool) cmd" where
  "rdm_queue_push dmx_num pid =
     (if \<not> dmx_num < DMX_NUM_MAX then ret False
      else if \<not> pid > 0 then ret False
      else bind_c (gets_c (dmx_driver_is_installed dmx_num)) (\<lambda>installed.
        if \<not> installed then ret False
        else bind_c (query (rdm_get_queue dmx_num)) (\<lambda>queue.
          case queue of
            None \<Rightarrow> ret False
          | Some a \<Rightarrow>
              critical dmx_num
               (bind_c (query (get_block a)) (\<lambda>q.
                bind_c (lift_c (push_body pid q)) (\<lambda>(success, q').
                then_c (heap_store a 0 q') (ret success)))))))"

definition rdm_queue_size :: "nat \<Rightarrow> (world, u8) cmd" where
  "rdm_queue_size dmx_num =
     (if \<not> dmx_num < DMX_NUM_MAX then ret 0
      else bind_c (gets_c (dmx_driver_is_installed dmx_num)) (\<lambda>installed.
        if \<not> installed then ret 0
        else bind_c (query (rdm_get_queue dmx_num)) (\<lambda>queue.
          case queue of
            None \<Rightarrow> ret 0
          | Some a \<Rightarrow> bind_c (query (get_block a)) (\<lambda>q. ret (size_body q)))))"

definition rdm_queue_pop :: "nat \<Rightarrow> (world, u16) cmd" where
  "rdm_queue_pop dmx_num =
     (if \<not> dmx_num < DMX_NUM_MAX then ret 0
      else bind_c (gets_c (dmx_driver_is_installed dmx_num)) (\<lambda>installed.
        if \<not> installed then ret 0
        else bind_c (rdm_queue_size dmx_num) (\<lambda>n.
          if n > 0 then
            bind_c (query (rdm_get_queue dmx_num)) (\<lambda>queue.
            case queue of
              None \<Rightarrow> throw Assert_Failed
            | Some a \<Rightarrow>
                critical dmx_num
                 (bind_c (query (get_block a)) (\<lambda>q.
                  bind_c (lift_c (pop_body q)) (\<lambda>(pid, q').
                  then_c (heap_store a 0 q') (ret pid)))))
          else ret 0)))"

definition rdm_queue_previous :: "nat \<Rightarrow> (world, u16) cmd" where
  "rdm_queue_previous dmx_num =
     (if \<not> dmx_num < DMX_NUM_MAX then ret 0
      else bind_c (gets_c (dmx_driver_is_installed dmx_num)) (\<lambda>installed.
        if \<not> installed then ret 0
        else bind_c (query (rdm_get_queue dmx_num)) (\<lambda>queue.
          case queue of
            None \<Rightarrow> ret 0
          | Some a \<Rightarrow> bind_c (query (get_block a)) (\<lambda>q. ret (q_previous q)))))"

section \<open>The abstract queue\<close>

definition wf_queue :: "bytes \<Rightarrow> bool" where
  "wf_queue q \<longleftrightarrow> unat (q_head q) < unat (q_max_size q) \<and> unat (q_tail q) < unat (q_max_size q) \<and>
     8 + 2 * unat (q_max_size q) \<le> length q"

definition q_pid :: "bytes \<Rightarrow> nat \<Rightarrow> u16" where
  "q_pid q i = of_le16 (slice (8 + 2 * i) 2 q)"

definition queue_len :: "bytes \<Rightarrow> nat" where
  "queue_len q = (unat (q_head q) + unat (q_max_size q) - unat (q_tail q)) mod unat (q_max_size q)"

definition ring :: "bytes \<Rightarrow> nat \<Rightarrow> nat" where
  "ring q k = (unat (q_tail q) + k) mod unat (q_max_size q)"

definition queue_pids :: "bytes \<Rightarrow> u16 list" where
  "queue_pids q = map (\<lambda>k. q_pid q (ring q k)) [0..<queue_len q]"

text \<open>
  The search for duplicates starts at the tail and stops at the head. It wraps around only after
  comparing with the head, so it misses a head at slot 0.
\<close>

definition ready :: "bytes \<Rightarrow> bool" where
  "ready q \<longleftrightarrow> q_head q \<noteq> 0 \<or> q_tail q = 0"

lemma length_queue_pids [simp]: "length (queue_pids q) = queue_len q"
  by (simp add: queue_pids_def)

lemma q_slot_ok: "wf_queue q \<Longrightarrow> i < unat (q_max_size q) \<Longrightarrow> q_slot q i = Inr (q_pid q i)"
  by (simp add: q_slot_def wf_queue_def q_pid_def)

lemma queue_len_cases:
  assumes "wf_queue q"
  shows "queue_len q = (if q_tail q \<le> q_head q then unat (q_head q) - unat (q_tail q)
    else unat (q_head q) + unat (q_max_size q) - unat (q_tail q))"
proof (cases "q_tail q \<le> q_head q")
  case True
  then have eq: "unat (q_head q) + unat (q_max_size q) - unat (q_tail q) =
      (unat (q_head q) - unat (q_tail q)) + unat (q_max_size q)"
    by (simp add: word_le_nat_alt)
  have "unat (q_head q) - unat (q_tail q) < unat (q_max_size q)"
    using assms by (auto simp: wf_queue_def)
  then show ?thesis using True by (simp only: queue_len_def eq mod_add_self2 mod_less if_True)
next
  case False
  then have "unat (q_head q) + unat (q_max_size q) - unat (q_tail q) < unat (q_max_size q)"
    using assms by (auto simp: wf_queue_def word_le_nat_alt)
  with False show ?thesis by (simp add: queue_len_def)
qed

lemma ring_cases:
  assumes "wf_queue q" "k < unat (q_max_size q)"
  shows "ring q k = (if unat (q_tail q) + k < unat (q_max_size q) then unat (q_tail q) + k
    else unat (q_tail q) + k - unat (q_max_size q))"
proof (cases "unat (q_tail q) + k < unat (q_max_size q)")
  case False
  have "unat (q_tail q) + k - unat (q_max_size q) < unat (q_max_size q)"
    using assms by (auto simp: wf_queue_def)
  then show ?thesis using False le_mod_geq [of "unat (q_max_size q)" "unat (q_tail q) + k"] by (simp add: ring_def)
qed (simp add: ring_def)

lemma queue_len_less: "wf_queue q \<Longrightarrow> queue_len q < unat (q_max_size q)"
  by (simp add: queue_len_def wf_queue_def)

text \<open>The value of the loop variable after \<open>k\<close> rounds.\<close>

lemma scan_from:
  assumes wf: "wf_queue q" "ready q" and k: "k \<le> queue_len q"
  shows "queue_scan pid q (if unat (q_tail q) + k \<le> unat (q_max_size q) then unat (q_tail q) + k
      else unat (q_tail q) + k - unat (q_max_size q)) =
    Some (Inr (pid \<in> set (drop k (queue_pids q))))"
  using k
proof (induction k rule: inc_induct)
  case base
  have "unat (q_head q) = 0 \<Longrightarrow> unat (q_tail q) = 0" using wf(2) by (auto simp: ready_def unat_eq_0)
  then show ?case
    using wf(1) queue_len_cases [OF wf(1)]
    by (subst queue_scan.simps) (auto simp: wf_queue_def word_le_nat_alt)
next
  case (step k)
  let ?t = "unat (q_tail q)" and ?m = "unat (q_max_size q)" and ?h = "unat (q_head q)"
  let ?i = "if ?t + k \<le> ?m then ?t + k else ?t + k - ?m"
  note len = queue_len_cases [OF wf(1)]
  have k: "k < ?m" using step.hyps queue_len_less [OF wf(1)] by simp
  have slot: "(if ?i = ?m then 0 else ?i) = ring q k"
    using ring_cases [OF wf(1) k] wf(1) k by (auto simp: wf_queue_def)
  have "?i \<noteq> ?h"
    using step.hyps wf(1) len by (auto simp: wf_queue_def word_le_nat_alt split: if_splits)
  moreover have "ring q k < ?m" using k by (simp add: ring_def)
  moreover have "drop k (queue_pids q) = q_pid q (ring q k) # drop (Suc k) (queue_pids q)"
    using step.hyps by (simp add: queue_pids_def Cons_nth_drop_Suc [symmetric])
  moreover have "ring q k + 1 = (if ?t + Suc k \<le> ?m then ?t + Suc k else ?t + Suc k - ?m)"
    using ring_cases [OF wf(1) k] wf(1) k by (auto simp: wf_queue_def)
  ultimately show ?case
    using step.IH by (subst queue_scan.simps) (simp add: slot q_slot_ok [OF wf(1)])
qed

lemma scan_ready:
  assumes "wf_queue q" "ready q"
  shows "queue_scan pid q (unat (q_tail q)) = Some (Inr (pid \<in> set (queue_pids q)))"
  using scan_from [OF assms, of 0 pid] assms(1) by (simp add: wf_queue_def)

section \<open>Effect of the operations\<close>

lemma field_store [simp]:
  assumes "8 \<le> length q"
  shows "q_head (splice 0 (le16 x) q) = x" "q_tail (splice 0 (le16 x) q) = q_tail q"
    "q_max_size (splice 0 (le16 x) q) = q_max_size q" "q_previous (splice 0 (le16 x) q) = q_previous q"
    "q_head (splice 2 (le16 x) q) = q_head q" "q_tail (splice 2 (le16 x) q) = x"
    "q_max_size (splice 2 (le16 x) q) = q_max_size q"
    "q_head (splice 4 (le16 x) q) = q_head q" "q_tail (splice 4 (le16 x) q) = q_tail q"
    "q_max_size (splice 4 (le16 x) q) = q_max_size q" "q_previous (splice 4 (le16 x) q) = x"
  using assms
  by (simp_all add: q_head_def q_tail_def q_max_size_def q_previous_def slice_splice_other
      del: splice_prefix)

lemma pid_field_store [simp]:
  assumes "off + 2 \<le> 8" "8 + 2 * i + 2 \<le> length q"
  shows "q_pid (splice off (le16 x) q) i = q_pid q i"
  using assms by (simp add: q_pid_def slice_splice_other del: splice_prefix)

lemma slot_store [simp]:
  assumes "8 + 2 * i + 2 \<le> length q"
  shows "q_head (splice (8 + 2 * i) (le16 x) q) = q_head q"
    "q_tail (splice (8 + 2 * i) (le16 x) q) = q_tail q"
    "q_max_size (splice (8 + 2 * i) (le16 x) q) = q_max_size q"
    "q_pid (splice (8 + 2 * i) (le16 x) q) i = x"
  using assms
  by (simp_all add: q_head_def q_tail_def q_max_size_def q_pid_def slice_splice_other)

lemma slot_store_other:
  assumes "8 + 2 * i + 2 \<le> length q" "8 + 2 * j + 2 \<le> length q" "i \<noteq> j"
  shows "q_pid (splice (8 + 2 * i) (le16 x) q) j = q_pid q j"
proof -
  have "8 + 2 * j + 2 \<le> 8 + 2 * i \<or> 8 + 2 * i + length (le16 x) \<le> 8 + 2 * j"
    using assms(3) by auto
  then show ?thesis using assms(1,2) by (simp add: q_pid_def slice_splice_other)
qed

text \<open>Going one slot further in the ring.\<close>

definition next_slot :: "u16 \<Rightarrow> u16 \<Rightarrow> u16" where
  "next_slot m i = (if i + 1 = m then 0 else i + 1)"

lemma unat_next_slot: "unat i < unat m \<Longrightarrow> unat (next_slot m i) = (unat i + 1) mod unat m"
proof -
  assume i: "unat i < unat m"
  have "unat m < 2 ^ 16" using unsigned_less [of m] by simp
  with i have "unat (i + 1) = unat i + 1" by (simp add: unat_word_ariths(1))
  moreover have "(unat i + 1) mod unat m = (if unat i + 1 = unat m then 0 else unat i + 1)"
    using i by auto
  ultimately show ?thesis by (simp add: next_slot_def word_unat_eq_iff)
qed

text \<open>The length is the only distance from the tail to the head.\<close>

lemma ring_queue_len: "wf_queue q \<Longrightarrow> ring q (queue_len q) = unat (q_head q)"
  using ring_cases [OF _ queue_len_less] queue_len_cases
  by (auto simp: wf_queue_def word_le_nat_alt)

lemma ring_inject:
  assumes "wf_queue q" "k < unat (q_max_size q)" "l < unat (q_max_size q)"
  shows "ring q k = ring q l \<longleftrightarrow> k = l"
  using assms(2,3) ring_cases [OF assms(1,2)] ring_cases [OF assms(1,3)] by auto

lemma queue_len_eqI:
  assumes "wf_queue q" "l < unat (q_max_size q)" "ring q l = unat (q_head q)"
  shows "queue_len q = l"
  using assms ring_queue_len [OF assms(1)] ring_inject [OF assms(1) queue_len_less [OF assms(1)] assms(2)]
  by simp

lemma full_iff:
  assumes "wf_queue q"
  shows "(unat (q_head q) + 1) mod unat (q_max_size q) = unat (q_tail q) \<longleftrightarrow>
    queue_len q + 1 = unat (q_max_size q)"
proof -
  have "(unat (q_head q) + 1) mod unat (q_max_size q) = ring q (queue_len q + 1)"
    unfolding ring_queue_len [OF assms, symmetric] by (simp add: ring_def mod_simps)
  moreover have "ring q 0 = unat (q_tail q)" using assms by (simp add: ring_def wf_queue_def)
  moreover have "ring q (unat (q_max_size q)) = ring q 0" by (simp add: ring_def)
  ultimately show ?thesis
    using queue_len_less [OF assms] ring_inject [OF assms, of "queue_len q + 1" 0]
    by (cases "queue_len q + 1 = unat (q_max_size q)") auto
qed

definition pushed :: "u16 \<Rightarrow> bytes \<Rightarrow> bytes" where
  "pushed pid q = splice 0 (le16 (next_slot (q_max_size q) (q_head q)))
     (splice (8 + 2 * unat (q_head q)) (le16 pid) q)"

lemma splice_twice:
  "off + length ys \<le> length xs \<Longrightarrow> length zs = length ys \<Longrightarrow>
   splice off zs (splice off ys xs) = splice off zs xs"
  by (intro nth_equalityI) (auto simp: nth_splice)

lemma push_body_eq:
  assumes wf: "wf_queue q" "ready q"
  shows "push_body pid q =
    (if pid \<in> set (queue_pids q) then Inr (True, q)
     else if queue_len q + 1 < unat (q_max_size q) then Inr (True, pushed pid q)
     else Inr (False, q))"
proof -
  have len: "8 + 2 * unat (q_head q) + 2 \<le> length q" "8 \<le> length q" "q_max_size q \<noteq> 0"
    using wf(1) by (auto simp: wf_queue_def unat_eq_0)
  then show ?thesis
    using full_iff [OF wf(1)] queue_len_less [OF wf(1)]
    by (simp add: push_body_def scan_ready [OF wf] set_q_head_def pushed_def next_slot_def splice_twice
        del: splice_prefix)
qed

lemma pushed_fields:
  assumes "wf_queue q"
  shows "q_head (pushed pid q) = next_slot (q_max_size q) (q_head q)" "q_tail (pushed pid q) = q_tail q"
    "q_max_size (pushed pid q) = q_max_size q" "length (pushed pid q) = length q"
  using assms by (simp_all add: pushed_def wf_queue_def del: splice_prefix)

lemma pushed_wf: "wf_queue q \<Longrightarrow> wf_queue (pushed pid q)"
  using pushed_fields [of q pid] by (auto simp: wf_queue_def unat_next_slot)

lemma pushed_pids:
  assumes wf: "wf_queue q" and len: "queue_len q + 1 < unat (q_max_size q)"
  shows "queue_pids (pushed pid q) = queue_pids q @ [pid]"
proof -
  note f = pushed_fields [OF wf, of pid]
  have ring: "ring (pushed pid q) = ring q" by (simp add: ring_def fun_eq_iff f)
  have "ring (pushed pid q) (queue_len q + 1) = unat (q_head (pushed pid q))"
    using wf ring_queue_len [OF wf] unfolding ring f
    by (simp add: unat_next_slot wf_queue_def) (simp add: ring_def mod_simps flip: ring_queue_len [OF wf])
  then have l: "queue_len (pushed pid q) = queue_len q + 1"
    using len by (intro queue_len_eqI [OF pushed_wf [OF wf]]) (simp_all add: f)
  have room: "8 + 2 * i + 2 \<le> length q" if "i < unat (q_max_size q)" for i
    using wf that by (simp add: wf_queue_def)
  have h: "unat (q_head q) < unat (q_max_size q)" using wf by (simp add: wf_queue_def)
  have "q_pid (pushed pid q) (ring q k) = q_pid q (ring q k)" if "k < queue_len q" for k
  proof -
    have k: "ring q k < unat (q_max_size q)" using h by (simp add: ring_def)
    moreover have "ring q k \<noteq> unat (q_head q)"
      using that len ring_inject [OF wf, of k "queue_len q"] ring_queue_len [OF wf] by simp
    ultimately show ?thesis
      using room [OF k] room [OF h] by (simp add: pushed_def slot_store_other del: splice_prefix)
  qed
  moreover have "q_pid (pushed pid q) (unat (q_head q)) = pid"
    using room [OF h] by (simp add: pushed_def del: splice_prefix)
  ultimately show ?thesis
    by (simp add: queue_pids_def l ring ring_queue_len [OF wf] cong: map_cong)
qed

definition popped :: "bytes \<Rightarrow> bytes" where
  "popped q = splice 4 (le16 (q_pid q (unat (q_tail q))))
     (splice 2 (le16 (next_slot (q_max_size q) (q_tail q))) q)"

lemma pop_body_eq:
  assumes wf: "wf_queue q"
  shows "pop_body q = Inr (q_pid q (unat (q_tail q)), popped q)"
proof -
  have "unat (q_tail q) < unat (q_max_size q)" "8 \<le> length q" using wf by (auto simp: wf_queue_def)
  then show ?thesis
    by (simp add: pop_body_def q_slot_ok [OF wf] set_q_tail_def set_q_previous_def popped_def next_slot_def
        splice_twice del: splice_prefix)
qed

lemma popped_fields:
  assumes "wf_queue q"
  shows "q_head (popped q) = q_head q" "q_tail (popped q) = next_slot (q_max_size q) (q_tail q)"
    "q_max_size (popped q) = q_max_size q" "length (popped q) = length q"
    "q_previous (popped q) = q_pid q (unat (q_tail q))"
    "i < unat (q_max_size q) \<Longrightarrow> q_pid (popped q) i = q_pid q i"
  using assms by (simp_all add: popped_def wf_queue_def del: splice_prefix)

lemma popped_wf: "wf_queue q \<Longrightarrow> wf_queue (popped q)"
  using popped_fields [of q] by (auto simp: wf_queue_def unat_next_slot)

lemma popped_pids:
  assumes wf: "wf_queue q" and len: "0 < queue_len q"
  shows "queue_pids q = q_pid q (unat (q_tail q)) # queue_pids (popped q)"
proof -
  note f = popped_fields [OF wf]
  have t: "unat (q_tail q) < unat (q_max_size q)" using wf by (simp add: wf_queue_def)
  have ring: "ring (popped q) k = ring q (Suc k)" for k
    using t by (simp add: ring_def f unat_next_slot mod_simps)
  have l: "queue_len (popped q) = queue_len q - 1"
    using len queue_len_less [OF wf] ring_queue_len [OF wf]
    by (intro queue_len_eqI [OF popped_wf [OF wf]]) (simp_all add: f ring)
  have "ring q k < unat (q_max_size q)" for k using t by (simp add: ring_def)
  moreover have "[0..<queue_len q] = 0 # map Suc [0..<queue_len q - 1]"
    using len by (cases "queue_len q") (simp_all add: upt_conv_Cons map_Suc_upt del: upt_Suc)
  ultimately show ?thesis using t by (simp add: queue_pids_def l ring f) (simp add: ring_def)
qed

lemma ring_distance:
  "t < m \<Longrightarrow> h < m \<Longrightarrow>
   (let n = - int t + int h in if n < 0 then n + int m else n) = int (if t \<le> h then h - t else h + m - t)"
  by (auto simp: Let_def)

lemma size_body_eq:
  assumes "wf_queue q"
  shows "size_body q = of_nat (min 255 (queue_len q))"
proof -
  have "(let n = - uint (q_tail q) + uint (q_head q) in if n < 0 then n + uint (q_max_size q) else n) =
      int (queue_len q)"
    unfolding uint_nat queue_len_cases [OF assms] word_le_nat_alt
    using assms by (intro ring_distance) (simp_all add: wf_queue_def)
  then have "size_body q = of_int (if int (queue_len q) > 255 then 255 else int (queue_len q))"
    unfolding size_body_def Let_def by (simp only:)
  then show ?thesis by (auto simp: min_def)
qed

lemma of_nat_u8_neq_0: "0 < k \<Longrightarrow> k < 256 \<Longrightarrow> (of_nat k :: u8) \<noteq> 0"
  using nat_dvd_not_less [of k 256] by (simp add: word_of_nat_eq_0_iff)

lemma size_body_pos:
  assumes "wf_queue q"
  shows "size_body q > 0 \<longleftrightarrow> 0 < queue_len q"
  using of_nat_u8_neq_0 [of "min 255 (queue_len q)"]
  by (cases "queue_len q = 0") (simp_all add: size_body_eq [OF assms] word_gt_0 min_def)

section \<open>What a queue of PIDs promises\<close>

fun drain :: "('q \<Rightarrow> ('k \<times> 'q) res) \<Rightarrow> nat \<Rightarrow> 'q \<Rightarrow> ('k list \<times> 'q) res" where
  "drain deq 0 q = Inr ([], q)"
| "drain deq (Suc n) q =
     bind_r (deq q) (\<lambda>(k, q). bind_r (drain deq n q) (\<lambda>(ks, q). Inr (k # ks, q)))"

locale pid_queue =
  fixes inv :: "'q \<Rightarrow> bool" and able :: "'q \<Rightarrow> bool" and key :: "'k \<Rightarrow> bool"
    and cap :: "'q \<Rightarrow> nat" and pids :: "'q \<Rightarrow> 'k list"
    and enq :: "'k \<Rightarrow> 'q \<Rightarrow> (bool \<times> 'q) res" and deq :: "'q \<Rightarrow> ('k \<times> 'q) res"
  assumes bound: "inv q \<Longrightarrow> length (pids q) \<le> cap q"
    and enq_old: "inv q \<Longrightarrow> able q \<Longrightarrow> key k \<Longrightarrow> k \<in> set (pids q) \<Longrightarrow> enq k q = Inr (True, q)"
    and enq_new: "inv q \<Longrightarrow> able q \<Longrightarrow> key k \<Longrightarrow> k \<notin> set (pids q) \<Longrightarrow> length (pids q) < cap q \<Longrightarrow>
      \<exists>q'. enq k q = Inr (True, q') \<and> inv q' \<and> pids q' = pids q @ [k] \<and> cap q' = cap q"
    and enq_full: "inv q \<Longrightarrow> able q \<Longrightarrow> key k \<Longrightarrow> k \<notin> set (pids q) \<Longrightarrow> length (pids q) = cap q \<Longrightarrow>
      enq k q = Inr (False, q)"
    and deq_head: "inv q \<Longrightarrow> pids q = k # ks \<Longrightarrow>
      \<exists>q'. deq q = Inr (k, q') \<and> inv q' \<and> pids q' = ks \<and> cap q' = cap q"
begin

lemma drain_in_order: "inv q \<Longrightarrow> \<exists>q'. drain deq (length (pids q)) q = Inr (pids q, q') \<and> inv q' \<and> pids q' = []"
proof (induction "pids q" arbitrary: q)
  case (Cons k ks)
  from deq_head [OF Cons.prems Cons.hyps(2) [symmetric]] obtain q1
    where q1: "deq q = Inr (k, q1)" "inv q1" "pids q1 = ks" by blast
  from Cons.hyps(1) [OF q1(3) [symmetric] q1(2)] show ?case
    using q1 by (auto simp flip: Cons.hyps(2))
qed auto

lemma enq_result:
  assumes "inv q" "able q" "key k"
  shows "\<exists>b q'. enq k q = Inr (b, q') \<and> inv q' \<and>
    b = (k \<in> set (pids q) \<or> length (pids q) < cap q) \<and>
    pids q' = (if b \<and> k \<notin> set (pids q) then pids q @ [k] else pids q)"
  using enq_old [OF assms] enq_new [OF assms] enq_full [OF assms] bound [OF assms(1)] assms(1)
  by (cases "k \<in> set (pids q)"; cases "length (pids q) < cap q") auto

lemma enq_keeps_distinct:
  assumes "inv q" "able q" "key k" "distinct (pids q)" "enq k q = Inr (b, q')"
  shows "distinct (pids q')"
  using enq_result [OF assms(1-3)] assms(4,5) by (auto split: if_splits)

lemma fifo:
  assumes "inv q" "able q" "key k" "k \<notin> set (pids q)" "length (pids q) < cap q"
  shows "\<exists>q1 q2. enq k q = Inr (True, q1) \<and>
    drain deq (length (pids q) + 1) q1 = Inr (pids q @ [k], q2) \<and> pids q2 = []"
proof -
  from enq_new [OF assms] obtain q1
    where q1: "enq k q = Inr (True, q1)" "inv q1" "pids q1 = pids q @ [k]" by blast
  from drain_in_order [OF q1(2)] q1 show ?thesis by auto
qed

end

section \<open>The queue of a port\<close>

definition the_queue :: "nat \<Rightarrow> world \<Rightarrow> bytes" where
  "the_queue n w = (case rdm_get_queue n w of
     Inr (Some a) \<Rightarrow> (case heap w a of Some q \<Rightarrow> q | None \<Rightarrow> []) | _ \<Rightarrow> [])"

definition has_queue :: "nat \<Rightarrow> world \<Rightarrow> bool" where
  "has_queue n w \<longleftrightarrow> n < DMX_NUM_MAX \<and> wf_queue (the_queue n w) \<and>
     (case rdm_get_queue n w of Inr (Some a) \<Rightarrow> heap w a \<noteq> None | _ \<Rightarrow> False)"

lemma has_queueE:
  assumes "has_queue n w"
  obtains a where "n < DMX_NUM_MAX" "rdm_get_queue n w = Inr (Some a)" "heap w a = Some (the_queue n w)"
    "wf_queue (the_queue n w)" "dmx_driver_is_installed n w"
proof -
  from assms obtain a where a: "rdm_get_queue n w = Inr (Some a)" "heap w a \<noteq> None"
    by (auto simp: has_queue_def split: sum.splits option.splits)
  moreover have "dmx_driver_is_installed n w"
    using a(1) by (auto simp: rdm_get_queue_def dmx_parameter_get_data_def assert_r_def split: if_splits)
  ultimately show thesis
    using that [of a] assms by (auto simp: has_queue_def the_queue_def)
qed

lemma drv_heap [simp]:
  "get_drv n (w\<lparr>heap := h\<rparr>) = get_drv n w" "entry_at n p (w\<lparr>heap := h\<rparr>) = entry_at n p w"
  "dmx_driver_is_installed n (w\<lparr>heap := h\<rparr>) = dmx_driver_is_installed n w"
  by (simp_all add: get_drv_def entry_at_def dmx_driver_is_installed_def)

lemma rdm_get_queue_heap [simp]: "rdm_get_queue n (w\<lparr>heap := h\<rparr>) = rdm_get_queue n w"
  by (simp add: rdm_get_queue_def dmx_parameter_get_data_def dmx_parameter_get_entry_def
      dmx_device_get_def cong: option.case_cong)

lemma the_queue_store:
  assumes "rdm_get_queue n w = Inr (Some a)"
  shows "the_queue n (w\<lparr>heap := (heap w)(a \<mapsto> q)\<rparr>) = q"
    "has_queue n (w\<lparr>heap := (heap w)(a \<mapsto> q)\<rparr>) \<longleftrightarrow> n < DMX_NUM_MAX \<and> wf_queue q"
  using assms by (simp_all add: the_queue_def has_queue_def)

lemma heap_store_all:
  "heap w a = Some q \<Longrightarrow> length q' = length q \<Longrightarrow>
   heap_store a 0 q' w = Inr ((), w\<lparr>heap := (heap w)(a \<mapsto> q')\<rparr>)"
  by (simp add: heap_store_def get_block_def)

lemma push_by_body:
  assumes "has_queue n w" "rdm_get_queue n w = Inr (Some a)" "pid \<noteq> 0"
    and "push_body pid (the_queue n w) = Inr (b, q')" "length q' = length (the_queue n w)"
  shows "rdm_queue_push n pid w = Inr (b, w\<lparr>heap := (heap w)(a \<mapsto> q')\<rparr>)"
proof -
  from assms(1) obtain c where q: "n < DMX_NUM_MAX" "rdm_get_queue n w = Inr (Some c)"
    "heap w c = Some (the_queue n w)" "dmx_driver_is_installed n w" by (rule has_queueE)
  moreover from q(4) obtain d where "get_drv n w = Inr d"
    by (auto simp: dmx_driver_is_installed_def get_drv_def)
  ultimately show ?thesis
    using assms(2-5) by (simp add: rdm_queue_push_def word_gt_0 critical_def get_block_def heap_store_all)
qed

lemma pop_by_body:
  assumes "has_queue n w" "rdm_get_queue n w = Inr (Some a)" "0 < queue_len (the_queue n w)"
  shows "rdm_queue_pop n w = Inr (q_pid (the_queue n w) (unat (q_tail (the_queue n w))),
    w\<lparr>heap := (heap w)(a \<mapsto> popped (the_queue n w))\<rparr>)"
proof -
  from assms(1) obtain c where q: "n < DMX_NUM_MAX" "rdm_get_queue n w = Inr (Some c)"
    "heap w c = Some (the_queue n w)" "wf_queue (the_queue n w)" "dmx_driver_is_installed n w"
    by (rule has_queueE)
  moreover from q(5) obtain d where "get_drv n w = Inr d"
    by (auto simp: dmx_driver_is_installed_def get_drv_def)
  ultimately show ?thesis
    using assms(2,3) pop_body_eq [OF q(4)] popped_fields [OF q(4)] size_body_pos [OF q(4)]
    by (simp add: rdm_queue_pop_def rdm_queue_size_def critical_def get_block_def heap_store_all)
qed

interpretation ports: pid_queue "has_queue n" "\<lambda>w. ready (the_queue n w)" "\<lambda>pid. pid \<noteq> 0"
    "\<lambda>w. unat (q_max_size (the_queue n w)) - 1" "\<lambda>w. queue_pids (the_queue n w)"
    "rdm_queue_push n" "rdm_queue_pop n" for n
proof
  fix w assume q: "has_queue n w"
  let ?q = "the_queue n w"
  from q obtain a where a: "n < DMX_NUM_MAX" "rdm_get_queue n w = Inr (Some a)" "heap w a = Some ?q"
    "wf_queue ?q" by (rule has_queueE)
  have keep: "w\<lparr>heap := (heap w)(a \<mapsto> ?q)\<rparr> = w" using a(3) by (simp add: fun_upd_idem)
  note len = queue_len_less [OF a(4)]
  show "length (queue_pids ?q) \<le> unat (q_max_size ?q) - 1" using len by simp
  { fix pid :: u16 assume r: "ready ?q" and pid: "pid \<noteq> 0"
    note push = push_by_body [OF q a(2) pid, unfolded push_body_eq [OF a(4) r]]
    { assume "pid \<in> set (queue_pids ?q)"
      then show "rdm_queue_push n pid w = Inr (True, w)" using push keep by simp }
    { assume "pid \<notin> set (queue_pids ?q)" "length (queue_pids ?q) = unat (q_max_size ?q) - 1"
      then show "rdm_queue_push n pid w = Inr (False, w)" using push keep len by simp }
    { assume "pid \<notin> set (queue_pids ?q)" "length (queue_pids ?q) < unat (q_max_size ?q) - 1"
      then have "rdm_queue_push n pid w = Inr (True, w\<lparr>heap := (heap w)(a \<mapsto> pushed pid ?q)\<rparr>)"
        "queue_pids (pushed pid ?q) = queue_pids ?q @ [pid]"
        using push pushed_fields [OF a(4)] pushed_pids [OF a(4)] by simp_all
      then show "\<exists>w'. rdm_queue_push n pid w = Inr (True, w') \<and> has_queue n w' \<and>
          queue_pids (the_queue n w') = queue_pids ?q @ [pid] \<and>
          unat (q_max_size (the_queue n w')) - 1 = unat (q_max_size ?q) - 1"
        using a the_queue_store [OF a(2)] pushed_wf [OF a(4)] pushed_fields [OF a(4)] by auto } }
  { fix pid pids assume "queue_pids ?q = pid # pids"
    moreover from this have "0 < queue_len ?q" by (metis length_queue_pids length_greater_0_conv list.discI)
    ultimately show "\<exists>w'. rdm_queue_pop n w = Inr (pid, w') \<and> has_queue n w' \<and>
        queue_pids (the_queue n w') = pids \<and>
        unat (q_max_size (the_queue n w')) - 1 = unat (q_max_size ?q) - 1"
      using a pop_by_body [OF q a(2)] the_queue_store [OF a(2)] popped_wf [OF a(4)] popped_fields [OF a(4)]
        popped_pids [OF a(4)] by auto }
qed

section \<open>A head at slot 0\<close>

lemma scan_step:
  assumes "wf_queue q" "q_head q = 0" "0 < i" "i \<le> unat (q_max_size q)"
  shows "queue_scan pid q i =
    (let j = if i = unat (q_max_size q) then 0 else i in
     if q_pid q j = pid then Some (Inr True) else queue_scan pid q (j + 1))"
  using assms by (subst queue_scan.simps) (auto simp: Let_def q_slot_ok wf_queue_def)

text \<open>A search that ends has found the PID: by induction on the approximations of the loop.\<close>

lemma scan_ends:
  "queue_scan pid q i = Some r \<Longrightarrow>
   \<not> (wf_queue q \<and> q_head q = 0 \<and> (\<forall>j < unat (q_max_size q). q_pid q j \<noteq> pid) \<and>
      0 < i \<and> i \<le> unat (q_max_size q))"
proof (erule queue_scan.raw_induct [rotated, where P = "\<lambda>pid q i r. \<not> (wf_queue q \<and> q_head q = 0 \<and>
    (\<forall>j < unat (q_max_size q). q_pid q j \<noteq> pid) \<and> 0 < i \<and> i \<le> unat (q_max_size q))"], goal_cases)
  case (1 scan pid q i r)
  show ?case
  proof
    assume a: "wf_queue q \<and> q_head q = 0 \<and> (\<forall>j < unat (q_max_size q). q_pid q j \<noteq> pid) \<and>
      0 < i \<and> i \<le> unat (q_max_size q)"
    let ?j = "if i = unat (q_max_size q) then 0 else i"
    have j: "?j < unat (q_max_size q)" using a by (auto simp: wf_queue_def)
    then have "q_slot q ?j = Inr (q_pid q ?j)" "q_pid q ?j \<noteq> pid" using a q_slot_ok by blast+
    then have "scan pid q (?j + 1) = Some r" using 1(2) a by simp
    from 1(1) [OF this] a j show False by (simp add: Suc_le_eq)
  qed
qed

lemma scan_never_ends:
  assumes "wf_queue q" "q_head q = 0" "\<forall>j < unat (q_max_size q). q_pid q j \<noteq> pid"
    and "0 < i" "i \<le> unat (q_max_size q)"
  shows "queue_scan pid q i = None"
  using assms scan_ends [of pid q i] by (cases "queue_scan pid q i") auto

lemma scan_finds_ahead:
  assumes "wf_queue q" "q_head q = 0" "0 < i" "i \<le> j" "j < unat (q_max_size q)" "q_pid q j = pid"
  shows "queue_scan pid q i = Some (Inr True)"
  using assms(4,3)
proof (induction i rule: inc_induct)
  case base
  then show ?case using assms by (simp add: scan_step Let_def)
next
  case (step k)
  then show ?case using assms(1,2,5) by (simp add: scan_step Let_def)
qed

lemma scan_finds_stale:
  assumes "wf_queue q" "q_head q = 0" "j < unat (q_max_size q)" "q_pid q j = pid"
    and "0 < i" "i \<le> unat (q_max_size q)"
  shows "queue_scan pid q i = Some (Inr True)"
  using assms(6,5)
proof (induction i rule: inc_induct)
  case base
  then show ?case
    using assms scan_finds_ahead [OF assms(1,2), of 1 j] by (cases "j = 0") (auto simp: scan_step Let_def)
next
  case (step k)
  then show ?case using assms(1,2) by (simp add: scan_step Let_def)
qed

section \<open>Properties\<close>

text \<open>
  Pushing a PID, in every state in which the search for duplicates ends: the call returns, a PID
  that is already queued is reported as success and changes nothing, a new one is appended when fewer
  than \<^verbatim>\<open>max_size - 1\<close> PIDs are queued and refused otherwise, and the queue stays well formed.
\<close>

lemma queue_push_result:
  assumes "has_queue n w" "ready (the_queue n w)" "pid \<noteq> 0"
  shows "\<exists>b w'. rdm_queue_push n pid w = Inr (b, w') \<and> has_queue n w' \<and>
    b = (pid \<in> set (queue_pids (the_queue n w)) \<or>
         length (queue_pids (the_queue n w)) < unat (q_max_size (the_queue n w)) - 1) \<and>
    queue_pids (the_queue n w') =
      (if b \<and> pid \<notin> set (queue_pids (the_queue n w)) then queue_pids (the_queue n w) @ [pid]
       else queue_pids (the_queue n w))"
  by (rule ports.enq_result [OF assms])

text \<open>A queue made by the operations: three slots, of which one PID has gone through.\<close>

definition demo_queue :: "u16 list \<Rightarrow> (world, unit) cmd" where
  "demo_queue pids =
     bind_c (dmx_parameter_add 0 RDM_SUB_DEVICE_ROOT RDM_PID_QUEUED_MESSAGE DMX_PARAMETER_TYPE_DYNAMIC
       Init_Null 14) (\<lambda>_.
     then_c (heap_store 0 6 (le16 3))
    (then_c (rdm_queue_push 0 5)
    (then_c (rdm_queue_pop 0)
       (for_c pids (\<lambda>pid. then_c (rdm_queue_push 0 pid) (ret ()))))))"

definition demo_queue_world :: "u16 list \<Rightarrow> world" where
  "demo_queue_world pids = (case demo_queue pids (demo_world 3) of Inr (_, w) \<Rightarrow> w | Inl _ \<Rightarrow> demo_world 3)"

lemma demo_blocks:
  "the_queue 0 (demo_queue_world [6]) = [2, 0, 1, 0, 5, 0, 3, 0, 5, 0, 6, 0, 0, 0]"
  "the_queue 0 (demo_queue_world [6, 7]) = [0, 0, 1, 0, 5, 0, 3, 0, 5, 0, 6, 0, 7, 0]"
  by code_simp+

lemma demo_has_block:
  "case rdm_get_queue 0 (demo_queue_world [6]) of Inr (Some a) \<Rightarrow> heap (demo_queue_world [6]) a \<noteq> None | _ \<Rightarrow> False"
  "case rdm_get_queue 0 (demo_queue_world [6, 7]) of Inr (Some a) \<Rightarrow> heap (demo_queue_world [6, 7]) a \<noteq> None | _ \<Rightarrow> False"
  by code_simp+

lemma demo_wf: "has_queue 0 (demo_queue_world [6])" "has_queue 0 (demo_queue_world [6, 7])"
proof -
  have "wf_queue [2, 0, 1, 0, 5, 0, 3, 0, 5, 0, 6, 0, 0, 0]" "wf_queue [0, 0, 1, 0, 5, 0, 3, 0, 5, 0, 6, 0, 7, 0]"
    by code_simp+
  then show "has_queue 0 (demo_queue_world [6])" "has_queue 0 (demo_queue_world [6, 7])"
    unfolding has_queue_def demo_blocks using demo_has_block by (intro conjI; simp only: DMX_NUM_MAX_def zero_less_numeral)+
qed

lemma demo_has_queue:
  "ready (the_queue 0 (demo_queue_world [6]))"
  "queue_pids (the_queue 0 (demo_queue_world [6])) = [6]"
  "q_max_size (the_queue 0 (demo_queue_world [6])) = 3"
  unfolding demo_blocks by code_simp+

lemma queue_push_result_witness:
  "\<exists>b w'. rdm_queue_push 0 7 (demo_queue_world [6]) = Inr (b, w') \<and> has_queue 0 w' \<and>
    b = (7 \<in> set (queue_pids (the_queue 0 (demo_queue_world [6]))) \<or>
         length (queue_pids (the_queue 0 (demo_queue_world [6]))) <
           unat (q_max_size (the_queue 0 (demo_queue_world [6]))) - 1) \<and>
    queue_pids (the_queue 0 w') =
      (if b \<and> 7 \<notin> set (queue_pids (the_queue 0 (demo_queue_world [6])))
       then queue_pids (the_queue 0 (demo_queue_world [6])) @ [7]
       else queue_pids (the_queue 0 (demo_queue_world [6])))"
  by (rule queue_push_result) (simp_all add: demo_wf demo_has_queue)



text \<open>
  C39. When the head has wrapped around to slot 0 and the tail has not, \<^verbatim>\<open>rdm_queue_push\<close> runs through
  all slots, used or not: it either finds the PID in some slot and reports success without queueing
  it, or it never returns, with interrupts disabled. The state arises in normal use: on a queue with
  three slots, from one push and pop followed by two pushes.
\<close>

theorem queue_push_wrapped_head:
  assumes "has_queue n w" "pid \<noteq> 0" "q_head (the_queue n w) = 0" "q_tail (the_queue n w) \<noteq> 0"
  shows "rdm_queue_push n pid w =
    (if \<exists>j < unat (q_max_size (the_queue n w)). q_pid (the_queue n w) j = pid then Inr (True, w)
     else Inl Loops_Forever)"
proof -
  let ?q = "the_queue n w"
  from assms(1) obtain a where a: "n < DMX_NUM_MAX" "rdm_get_queue n w = Inr (Some a)" "heap w a = Some ?q"
    "wf_queue ?q" "dmx_driver_is_installed n w" by (rule has_queueE)
  have t: "0 < unat (q_tail ?q)" "unat (q_tail ?q) \<le> unat (q_max_size ?q)"
    using a(4) assms(4) unat_eq_0 [of "q_tail ?q"] by (auto simp: wf_queue_def simp del: unat_eq_0)
  show ?thesis
  proof (cases "\<exists>j < unat (q_max_size ?q). q_pid ?q j = pid")
    case True
    then obtain j where j: "j < unat (q_max_size ?q)" "q_pid ?q j = pid" by blast
    have "push_body pid ?q = Inr (True, ?q)"
      by (simp add: push_body_def scan_finds_stale [OF a(4) assms(3) j t])
    from push_by_body [OF assms(1) a(2) assms(2) this] a(3) True show ?thesis by (simp add: fun_upd_idem)
  next
    case False
    then have "push_body pid ?q = Inl Loops_Forever"
      using scan_never_ends [OF a(4) assms(3) _ t, of pid] by (simp add: push_body_def)
    moreover from a(5) obtain d where "get_drv n w = Inr d"
      by (auto simp: dmx_driver_is_installed_def get_drv_def)
    ultimately show ?thesis
      using a assms(2) False by (simp add: rdm_queue_push_def word_gt_0 critical_def get_block_def)
  qed
qed

lemma demo_wrapped:
  "q_head (the_queue 0 (demo_queue_world [6, 7])) = 0"
  "q_tail (the_queue 0 (demo_queue_world [6, 7])) = 1"
  "\<not> (\<exists>j < unat (q_max_size (the_queue 0 (demo_queue_world [6, 7]))).
     q_pid (the_queue 0 (demo_queue_world [6, 7])) j = 8)"
  "(\<exists>j < unat (q_max_size (the_queue 0 (demo_queue_world [6, 7]))).
     q_pid (the_queue 0 (demo_queue_world [6, 7])) j = 5)"
  "queue_pids (the_queue 0 (demo_queue_world [6, 7])) = [6, 7]"
  unfolding demo_blocks by code_simp+

theorem queue_push_wrapped_head_witness:
  "rdm_queue_push 0 8 (demo_queue_world [6, 7]) = Inl Loops_Forever \<and>
   rdm_queue_push 0 5 (demo_queue_world [6, 7]) = Inr (True, demo_queue_world [6, 7]) \<and>
   5 \<notin> set (queue_pids (the_queue 0 (demo_queue_world [6, 7])))"
  using queue_push_wrapped_head [of 0 "demo_queue_world [6, 7]" 8]
    queue_push_wrapped_head [of 0 "demo_queue_world [6, 7]" 5]
  by (simp add: demo_wf demo_wrapped)

end
