(* ===== verification/Rdm_Utils.thy ===== *)
theory Rdm_Utils
  imports Rdm_Queue
begin

text \<open>
  The tools of the RDM responder, \<^verbatim>\<open>rdm/responder/utils.c\<close>: acknowledge and negative-acknowledge
  responses, the boot-loader flag, definitions and callbacks of parameters, and the handler that most
  parameters use. A handler has the type \<open>handler_fun\<close>: it reads the request from the driver's buffer,
  writes the response into it and returns the size of the response.
\<close>

type_synonym handler_fun =
  "nat \<Rightarrow> rdm_parameter_definition_t \<Rightarrow> rdm_header_t \<Rightarrow> (world, nat) cmd"

section \<open>Guards and local objects\<close>

text \<open>
  The two checks at the start of the functions of the API: the port number and the installed driver,
  each with the value that is returned when it fails.
\<close>

definition check_port :: "nat \<Rightarrow> 'a \<Rightarrow> (world, 'a) cmd \<Rightarrow> (world, 'a) cmd" where
  "check_port dmx_num err m =
     (if \<not> dmx_num < DMX_NUM_MAX then ret err
      else bind_c (gets_c (dmx_driver_is_installed dmx_num)) (\<lambda>installed.
        if \<not> installed then ret err else m))"

text \<open>A local object of \<open>n\<close> bytes whose first bytes have been written.\<close>

definition local_object :: "nat \<Rightarrow> bytes \<Rightarrow> world \<Rightarrow> bytes" where
  "local_object n bs w = bs @ drop (length bs) (uninit_bytes n w)"

text \<open>
  A call of \<^verbatim>\<open>rdm_read_pd\<close> on a local object of \<open>n\<close> bytes: the returned size and the object's contents
  afterwards.
\<close>

definition read_local :: "nat \<Rightarrow> string option \<Rightarrow> nat \<Rightarrow> nat \<Rightarrow> (world, nat \<times> bytes) cmd" where
  "read_local dmx_num format n sz =
     bind_c (query (rdm_read_pd dmx_num format (Some n) sz)) (\<lambda>(k, bs).
     bind_c (gets_c (local_object n bs)) (\<lambda>obj. ret (k, obj)))"

section \<open>Responses\<close>

definition response_header :: "rdm_header_t \<Rightarrow> rdm_uid_t \<Rightarrow> u8 \<Rightarrow> u8 \<Rightarrow> nat \<Rightarrow> rdm_header_t" where
  "response_header header uid response_type queued pdl = \<lparr>
     h_message_len = of_nat (24 + pdl), h_dest_uid = h_src_uid header, h_src_uid = uid,
     h_tn = h_tn header, h_port_id = response_type, h_message_count = queued,
     h_sub_device = h_sub_device header, h_cc = h_cc header OR 1, h_pid = h_pid header,
     h_pdl = of_nat pdl\<rparr>"

definition rdm_write_ack :: "nat \<Rightarrow> rdm_header_t \<Rightarrow> string option \<Rightarrow> bytes option \<Rightarrow> nat \<Rightarrow>
    (world, nat) cmd" where
  "rdm_write_ack dmx_num header format pd pdl =
     then_c (assert_c (dmx_num < DMX_NUM_MAX))
    (then_c (assert_c (rdm_cc_is_request (h_cc header)))
    (bind_c (lift_c (rdm_format_is_valid format)) (\<lambda>valid.
     then_c (assert_c valid)
    (then_c (assert_c (format \<noteq> None \<or> pd = None))
    (then_c (assert_c (pd \<noteq> None \<or> pdl = 0))
    (then_c (assert_c (pdl < 231))
    (bind_c (gets_c (dmx_driver_is_installed dmx_num)) (\<lambda>installed.
     then_c (assert_c installed)
    (bind_c (gets_c (rdm_uid_get dmx_num)) (\<lambda>this_uid.
     bind_c (deref_c this_uid) (\<lambda>uid.
     bind_c (rdm_queue_size dmx_num) (\<lambda>message_count.
     rdm_write dmx_num
       (Some (response_header header uid RDM_RESPONSE_TYPE_ACK message_count pdl)) format pd))))))))))))"

definition rdm_write_nack_reason :: "nat \<Rightarrow> rdm_header_t \<Rightarrow> u16 \<Rightarrow> (world, nat) cmd" where
  "rdm_write_nack_reason dmx_num header nack_reason =
     then_c (assert_c (dmx_num < DMX_NUM_MAX))
    (then_c (assert_c (rdm_cc_is_request (h_cc header)))
    (bind_c (gets_c (dmx_driver_is_installed dmx_num)) (\<lambda>installed.
     then_c (assert_c installed)
    (bind_c (gets_c (rdm_uid_get dmx_num)) (\<lambda>this_uid.
     bind_c (deref_c this_uid) (\<lambda>uid.
     bind_c (rdm_queue_size dmx_num) (\<lambda>message_count.
     rdm_write dmx_num
       (Some (response_header header uid RDM_RESPONSE_TYPE_NACK_REASON message_count 2))
       (Some ''w'') (Some (le16 nack_reason)))))))))"

definition rdm_write_ack_timer :: "nat \<Rightarrow> rdm_header_t \<Rightarrow> nat \<Rightarrow> (world, nat) cmd" where
  "rdm_write_ack_timer dmx_num header ready_ticks = ret 0"

definition rdm_write_ack_overflow :: "nat \<Rightarrow> rdm_header_t \<Rightarrow> string option \<Rightarrow> bytes option \<Rightarrow> nat \<Rightarrow>
    int \<Rightarrow> (world, nat) cmd" where
  "rdm_write_ack_overflow dmx_num header format pd pdl page = ret 0"

section \<open>The boot-loader flag\<close>

definition rdm_get_boot_loader :: "nat \<Rightarrow> (world, bool) cmd" where
  "rdm_get_boot_loader dmx_num =
     then_c (assert_c (dmx_num < DMX_NUM_MAX))
    (bind_c (gets_c (dmx_driver_is_installed dmx_num)) (\<lambda>installed.
     then_c (assert_c installed)
    (critical dmx_num (bind_c (query (get_drv dmx_num)) (\<lambda>d. ret (boot_loader d))))))"

definition rdm_set_boot_loader :: "nat \<Rightarrow> (world, unit) cmd" where
  "rdm_set_boot_loader dmx_num =
     then_c (assert_c (dmx_num < DMX_NUM_MAX))
    (bind_c (gets_c (dmx_driver_is_installed dmx_num)) (\<lambda>installed.
     then_c (assert_c installed)
    (critical dmx_num (upd_drv dmx_num set_boot_loader))))"

section \<open>Definitions and callbacks\<close>

definition definition_ok :: "rdm_parameter_definition_t \<Rightarrow> bool" where
  "definition_ok d \<longleftrightarrow>
     (def_pid_cc d \<ge> RDM_CC_DISC \<and> def_pid_cc d \<le> RDM_CC_GET_SET) \<and>
     ((def_ds d \<ge> RDM_DS_NOT_DEFINED \<and> def_ds d \<le> RDM_DS_SIGNED_DWORD) \<or>
      (def_ds d \<ge> 0x80 \<and> def_ds d \<le> 0xdf)) \<and>
     ((handler (def_get d) \<noteq> None \<and> (def_pid_cc d = RDM_CC_DISC \<or> def_pid_cc d = RDM_CC_GET)) \<or>
      (handler (def_set d) \<noteq> None \<and> def_pid_cc d = RDM_CC_SET) \<or>
      (handler (def_get d) \<noteq> None \<and> handler (def_set d) \<noteq> None \<and> def_pid_cc d = RDM_CC_GET_SET)) \<and>
     unat (def_pdl_size d) < RDM_PD_SIZE_MAX \<and>
     (def_units d \<le> RDM_UNITS_BYTE \<or> (def_units d \<ge> 0x80 \<and> def_units d \<le> 0xff)) \<and>
     (def_prefix d \<le> RDM_PREFIX_YOCTO \<or>
      (def_prefix d \<ge> RDM_PREFIX_DECA \<and> def_prefix d \<le> RDM_PREFIX_YOTTA))"

definition formats_ok :: "rdm_parameter_definition_t \<Rightarrow> bool res" where
  "formats_ok d =
     bind_r (rdm_format_is_valid (request_format (def_get d))) (\<lambda>a.
     if \<not> a then Inr False else
     bind_r (rdm_format_is_valid (response_format (def_get d))) (\<lambda>b.
     if \<not> b then Inr False else
     bind_r (rdm_format_is_valid (request_format (def_set d))) (\<lambda>c.
     if \<not> c then Inr False else rdm_format_is_valid (response_format (def_set d)))))"

definition rdm_definition_set :: "nat \<Rightarrow> u16 \<Rightarrow> u16 \<Rightarrow> rdm_parameter_definition_t \<Rightarrow>
    (world, bool) cmd" where
  "rdm_definition_set dmx_num sub_device pid def =
     bind_c (lift_c (formats_ok def)) (\<lambda>valid.
     then_c (assert_c (definition_ok def \<and> valid))
    (bind_c (query (dmx_parameter_get_entry dmx_num sub_device pid)) (\<lambda>entry.
     case entry of
       None \<Rightarrow> ret False
     | Some (j, i) \<Rightarrow>
         then_c (set_entry dmx_num j i (\<lambda>p. p\<lparr>p_definition := Some def\<rparr>)) (ret True))))"

definition rdm_definition_get :: "nat \<Rightarrow> u16 \<Rightarrow> u16 \<Rightarrow> world \<Rightarrow> rdm_parameter_definition_t option res" where
  "rdm_definition_get dmx_num sub_device pid w =
     assert_r (pid > 0)
    (bind_r (dmx_parameter_get_entry dmx_num sub_device pid w) (\<lambda>entry.
     case entry of
       None \<Rightarrow> Inr None
     | Some ptr \<Rightarrow> bind_r (entry_at dmx_num ptr w) (\<lambda>p. Inr (p_definition p))))"

definition rdm_callback_set :: "nat \<Rightarrow> u16 \<Rightarrow> u16 \<Rightarrow> rdm_callback_t option \<Rightarrow> nat option \<Rightarrow>
    (world, bool) cmd" where
  "rdm_callback_set dmx_num sub_device pid callback context =
     then_c (assert_c (pid > 0))
    (bind_c (query (dmx_parameter_get_entry dmx_num sub_device pid)) (\<lambda>entry.
     case entry of
       None \<Rightarrow> ret False
     | Some (j, i) \<Rightarrow>
         then_c (set_entry dmx_num j i (\<lambda>p. p\<lparr>p_callback := callback, p_context := context\<rparr>))
           (ret True)))"

section \<open>The simple handler\<close>

definition simple_get :: handler_fun where
  "simple_get dmx_num def header =
     bind_c (query (dmx_parameter_size dmx_num (h_sub_device header) (h_pid header))) (\<lambda>pdl.
     bind_c (query (dmx_parameter_get_data dmx_num (h_sub_device header) (h_pid header))) (\<lambda>p.
     bind_c (gets_c (bytes_at p)) (\<lambda>pd.
     rdm_write_ack dmx_num header (response_format (def_get def)) pd pdl)))"

definition rdm_simple_response_handler :: handler_fun where
  "rdm_simple_response_handler dmx_num def header =
     (if h_sub_device header \<noteq> RDM_SUB_DEVICE_ALL then
        bind_c (query (dmx_sub_device_exists dmx_num (h_sub_device header))) (\<lambda>exists.
        if \<not> exists then rdm_write_nack_reason dmx_num header RDM_NR_SUB_DEVICE_OUT_OF_RANGE
        else bind_c (query (dmx_parameter_exists dmx_num (h_sub_device header) (h_pid header))) (\<lambda>exists.
        if \<not> exists then rdm_write_nack_reason dmx_num header RDM_NR_SUB_DEVICE_OUT_OF_RANGE
        else if h_cc header = RDM_CC_GET_COMMAND then simple_get dmx_num def header
        else
          bind_c (read_local dmx_num (request_format (def_set def)) 231 (unat (h_pdl header))) (\<lambda>(sz, pd).
          then_c (dmx_parameter_set dmx_num (h_sub_device header) (h_pid header) (Some pd) sz)
            (rdm_write_ack dmx_num header None None 0))))
      else if h_cc header = RDM_CC_GET_COMMAND then
        rdm_write_nack_reason dmx_num header RDM_NR_SUB_DEVICE_OUT_OF_RANGE
      else
        bind_c (read_local dmx_num (request_format (def_set def)) 231 (unat (h_pdl header))) (\<lambda>(sz, pd).
        then_c (for_c (map of_nat [0..<unat RDM_SUB_DEVICE_MAX]) (\<lambda>i.
            then_c (dmx_parameter_set dmx_num i (h_pid header) (Some pd) sz) (ret ())))
          (rdm_write_ack dmx_num header None None 0)))"

section \<open>Registering a parameter\<close>

definition no_command :: rdm_command_t where
  "no_command = \<lparr>request_format = None, response_format = None, handler = None\<rparr>"

definition command :: "rdm_handler_t \<Rightarrow> string option \<Rightarrow> string option \<Rightarrow> rdm_command_t" where
  "command hdl req resp = \<lparr>request_format = req, response_format = resp, handler = Some hdl\<rparr>"

text \<open>A definition without default value, units, prefix and description, as the library's own ones.\<close>

definition parameter_definition ::
  "u8 \<Rightarrow> u8 \<Rightarrow> rdm_command_t \<Rightarrow> rdm_command_t \<Rightarrow> u8 \<Rightarrow> u32 \<Rightarrow> u32 \<Rightarrow> rdm_parameter_definition_t" where
  "parameter_definition cc ds gt st pdl hi lo = \<lparr>
     def_pid_cc = cc, def_ds = ds, def_get = gt, def_set = st, def_pdl_size = pdl,
     def_max_value = hi, def_min_value = lo, def_default_value = 0, def_units = RDM_UNITS_NONE,
     def_prefix = RDM_PREFIX_NONE, def_description = None\<rparr>"

text \<open>
  The end of every function that registers a parameter of the root device: add it, define it, set the
  callback.
\<close>

definition rdm_register :: "nat \<Rightarrow> u16 \<Rightarrow> dmx_parameter_type_t \<Rightarrow> init_data \<Rightarrow> nat \<Rightarrow>
    rdm_parameter_definition_t \<Rightarrow> rdm_callback_t option \<Rightarrow> nat option \<Rightarrow> (world, bool) cmd" where
  "rdm_register dmx_num pid type data sz def cb context =
     bind_c (dmx_parameter_add dmx_num RDM_SUB_DEVICE_ROOT pid type data sz) (\<lambda>added.
     if \<not> added then ret False
     else then_c (rdm_definition_set dmx_num RDM_SUB_DEVICE_ROOT pid def)
       (rdm_callback_set dmx_num RDM_SUB_DEVICE_ROOT pid cb context))"

end
