(* ===== verification/Rdm_Handlers.thy ===== *)
theory Rdm_Handlers
  imports Rdm_Utils
begin

text \<open>
  The handlers and registrations of \<^verbatim>\<open>rdm/responder/discovery.c\<close>, \<^verbatim>\<open>device_control.c\<close> and
  \<^verbatim>\<open>power_lamp.c\<close>. A C function that fills an object through a pointer returns the bytes it has
  written; the size it returns is their number.
\<close>

section \<open>Discovery\<close>

definition is_muted :: "nat \<Rightarrow> world \<Rightarrow> bool res" where
  "is_muted dmx_num w =
     bind_r (dmx_parameter_copy dmx_num RDM_SUB_DEVICE_ROOT RDM_PID_DISC_MUTE 1 w)
       (\<lambda>bs. Inr (bs = [] \<or> hd bs \<noteq> 0))"

definition installed_ports :: "world \<Rightarrow> nat list" where
  "installed_ports w = filter (\<lambda>i. dmx_driver_is_installed i w) [0..<DMX_NUM_MAX]"

text \<open>The mute response; the reserved bits of the control field are not written.\<close>

definition mute_response :: "nat \<Rightarrow> (world, rdm_disc_mute_t) cmd" where
  "mute_response dmx_num =
     bind_c (gets_c installed_ports) (\<lambda>ports.
     bind_c (if length ports = 1 then ret (Rdm_Uid 0 0)
             else case ports of
               [] \<Rightarrow> gets_c (\<lambda>w. uid_of_bytes (drop 2 (uninit_bytes 8 w)))
             | i # _ \<Rightarrow> bind_c (gets_c (rdm_uid_get i)) deref_c) (\<lambda>uid.
     bind_c (query (dmx_sub_device_get_count dmx_num)) (\<lambda>sub_devices.
     bind_c (rdm_get_boot_loader dmx_num) (\<lambda>boot.
     bind_c (gets_c (\<lambda>w. of_le16 (take 2 (uninit_bytes 8 w)))) (\<lambda>junk.
     ret \<lparr>control_field = (junk AND 0xfff0) OR (if sub_devices > 0 then 2 else 0) OR (if boot then 4 else 0),
          binding_uid = uid\<rparr>)))))"

definition rdm_rhd_discovery :: handler_fun where
  "rdm_rhd_discovery dmx_num def header =
     (if h_sub_device header \<noteq> RDM_SUB_DEVICE_ROOT then ret 0
      else if h_pid header = RDM_PID_DISC_UNIQUE_BRANCH then
        bind_c (query (is_muted dmx_num)) (\<lambda>muted.
        if muted then ret 0
        else bind_c (read_local dmx_num (request_format (def_get def)) 12 12) (\<lambda>(k, obj).
          if k = 0 then ret 0
          else bind_c (gets_c (rdm_uid_get dmx_num)) (\<lambda>this_uid.
            bind_c (deref_c this_uid) (\<lambda>uid.
            (let branch = disc_unique_branch_of_bytes obj in
             if rdm_uid_is_lt uid (lower_bound branch) \<or> rdm_uid_is_gt uid (upper_bound branch) then ret 0
             else rdm_write_ack dmx_num header None None 0)))))
      else
        then_c (dmx_parameter_set dmx_num RDM_SUB_DEVICE_ROOT (h_pid header)
                  (Some [if h_pid header = RDM_PID_DISC_MUTE then 1 else 0]) 1)
       (bind_c (mute_response dmx_num) (\<lambda>mute.
        rdm_write_ack dmx_num header (response_format (def_get def)) (Some (disc_mute_bytes mute)) 8)))"

definition disc_unique_branch_definition :: rdm_parameter_definition_t where
  "disc_unique_branch_definition = parameter_definition RDM_CC_DISC RDM_DS_NOT_DEFINED
     (command Rhd_Discovery (Some ''uu$'') None) no_command 12 0 0"

definition disc_mute_definition :: rdm_parameter_definition_t where
  "disc_mute_definition = parameter_definition RDM_CC_DISC RDM_DS_NOT_DEFINED
     (command Rhd_Discovery None (Some ''wv'')) no_command 0 0 0"

definition rdm_register_disc_unique_branch :: "nat \<Rightarrow> rdm_callback_t option \<Rightarrow> nat option \<Rightarrow>
    (world, bool) cmd" where
  "rdm_register_disc_unique_branch dmx_num cb context = check_port dmx_num False
     (rdm_register dmx_num RDM_PID_DISC_UNIQUE_BRANCH DMX_PARAMETER_TYPE_STATIC Init_Null 0
        disc_unique_branch_definition cb context)"

text \<open>The two mute parameters share one byte: the second one registered is an alias of the first.\<close>

definition register_mute :: "nat \<Rightarrow> u16 \<Rightarrow> u16 \<Rightarrow> rdm_callback_t option \<Rightarrow> nat option \<Rightarrow>
    (world, bool) cmd" where
  "register_mute dmx_num pid counterpart cb context = check_port dmx_num False
     (bind_c (query (dmx_parameter_get_data dmx_num RDM_SUB_DEVICE_ROOT counterpart)) (\<lambda>other.
      case other of
        None \<Rightarrow> rdm_register dmx_num pid DMX_PARAMETER_TYPE_DYNAMIC (Init_Bytes [0]) 1
                  disc_mute_definition cb context
      | Some a \<Rightarrow> rdm_register dmx_num pid DMX_PARAMETER_TYPE_STATIC (Init_Static a) 1
                  disc_mute_definition cb context))"

definition rdm_register_disc_mute :: "nat \<Rightarrow> rdm_callback_t option \<Rightarrow> nat option \<Rightarrow> (world, bool) cmd" where
  "rdm_register_disc_mute dmx_num cb context =
     register_mute dmx_num RDM_PID_DISC_MUTE RDM_PID_DISC_UN_MUTE cb context"

definition rdm_register_disc_un_mute :: "nat \<Rightarrow> rdm_callback_t option \<Rightarrow> nat option \<Rightarrow> (world, bool) cmd" where
  "rdm_register_disc_un_mute dmx_num cb context =
     register_mute dmx_num RDM_PID_DISC_UN_MUTE RDM_PID_DISC_MUTE cb context"

section \<open>Reading and writing a parameter of the root device\<close>

text \<open>
  The getters and setters of the API: a copy of the parameter, and a write that also queues the PID
  for the controller.
\<close>

definition get_root :: "nat \<Rightarrow> u16 \<Rightarrow> nat \<Rightarrow> (world, bytes) cmd" where
  "get_root dmx_num pid sz = check_port dmx_num []
     (query (dmx_parameter_copy dmx_num RDM_SUB_DEVICE_ROOT pid sz))"

definition set_root :: "nat \<Rightarrow> u16 \<Rightarrow> bytes option \<Rightarrow> nat \<Rightarrow> (world, bool) cmd" where
  "set_root dmx_num pid source sz =
     bind_c (dmx_parameter_set dmx_num RDM_SUB_DEVICE_ROOT pid source sz) (\<lambda>n.
     if n = 0 then ret False else then_c (rdm_queue_push dmx_num pid) (ret True))"

section \<open>Device control\<close>

definition rdm_rhd_set_reset_device :: handler_fun where
  "rdm_rhd_set_reset_device dmx_num def header =
     bind_c (read_local dmx_num (request_format (def_set def)) 1 1) (\<lambda>(k, obj).
     if k = 0 then rdm_write_nack_reason dmx_num header RDM_NR_FORMAT_ERROR
     else if obj ! 0 \<noteq> RDM_RESET_TYPE_WARM \<and> obj ! 0 \<noteq> RDM_RESET_TYPE_COLD then
       rdm_write_nack_reason dmx_num header RDM_NR_DATA_OUT_OF_RANGE
     else
       then_c (dmx_parameter_set dmx_num RDM_SUB_DEVICE_ROOT (h_pid header) (Some obj) 1)
      (then_c (dmx_parameter_set dmx_num RDM_SUB_DEVICE_ROOT RDM_PID_DISC_MUTE (Some [0]) 1)
         (rdm_write_ack dmx_num header None None 0)))"

definition identify_device_definition :: rdm_parameter_definition_t where
  "identify_device_definition = parameter_definition RDM_CC_GET_SET RDM_DS_UNSIGNED_BYTE
     (command Rhd_Simple None (Some ''b$'')) (command Rhd_Simple (Some ''b$'') None) 1 1 0"

definition rdm_register_identify_device :: "nat \<Rightarrow> rdm_callback_t option \<Rightarrow> nat option \<Rightarrow>
    (world, bool) cmd" where
  "rdm_register_identify_device dmx_num cb context = check_port dmx_num False
     (if cb = None then ret False
      else rdm_register dmx_num RDM_PID_IDENTIFY_DEVICE DMX_PARAMETER_TYPE_NON_VOLATILE (Init_Bytes [0]) 1
        identify_device_definition cb context)"

definition rdm_get_identify_device :: "nat \<Rightarrow> (world, bytes) cmd" where
  "rdm_get_identify_device dmx_num = get_root dmx_num RDM_PID_IDENTIFY_DEVICE 1"

definition rdm_set_identify_device :: "nat \<Rightarrow> bool \<Rightarrow> (world, bool) cmd" where
  "rdm_set_identify_device dmx_num identify = check_port dmx_num False
     (set_root dmx_num RDM_PID_IDENTIFY_DEVICE (Some [if identify then 1 else 0]) 1)"

definition reset_device_definition :: rdm_parameter_definition_t where
  "reset_device_definition = parameter_definition RDM_CC_SET RDM_DS_UNSIGNED_BYTE
     no_command (command Rhd_Set_Reset_Device (Some ''b$'') None) 1 0 0"

definition rdm_register_reset_device :: "nat \<Rightarrow> rdm_callback_t option \<Rightarrow> nat option \<Rightarrow>
    (world, bool) cmd" where
  "rdm_register_reset_device dmx_num cb context = check_port dmx_num False
     (if cb = None then ret False
      else rdm_register dmx_num RDM_PID_RESET_DEVICE DMX_PARAMETER_TYPE_NON_VOLATILE
        (Init_Bytes [RDM_RESET_TYPE_NONE]) 1 reset_device_definition cb context)"

definition rdm_get_reset_device :: "nat \<Rightarrow> (world, bytes) cmd" where
  "rdm_get_reset_device dmx_num = get_root dmx_num RDM_PID_RESET_DEVICE 1"

section \<open>Power and lamp\<close>

definition hours_definition :: rdm_parameter_definition_t where
  "hours_definition = parameter_definition RDM_CC_GET_SET RDM_DS_UNSIGNED_DWORD
     (command Rhd_Simple None (Some ''d$'')) (command Rhd_Simple (Some ''d$'') None) 4 0xffffffff 0"

text \<open>The value comes from NVS, or is zero when it cannot be read.\<close>

definition register_hours :: "nat \<Rightarrow> u16 \<Rightarrow> rdm_callback_t option \<Rightarrow> nat option \<Rightarrow> (world, bool) cmd" where
  "register_hours dmx_num pid cb context = check_port dmx_num False
     (bind_c (dmx_nvs_get dmx_num RDM_SUB_DEVICE_ROOT pid 4) (\<lambda>stored.
      bind_c (if stored = [] then ret (le32 0) else gets_c (local_object 4 stored)) (\<lambda>hours.
      rdm_register dmx_num pid DMX_PARAMETER_TYPE_NON_VOLATILE (Init_Bytes hours) 4
        hours_definition cb context)))"

definition rdm_register_device_hours :: "nat \<Rightarrow> rdm_callback_t option \<Rightarrow> nat option \<Rightarrow> (world, bool) cmd" where
  "rdm_register_device_hours dmx_num = register_hours dmx_num RDM_PID_DEVICE_HOURS"

definition rdm_get_device_hours :: "nat \<Rightarrow> (world, bytes) cmd" where
  "rdm_get_device_hours dmx_num = get_root dmx_num RDM_PID_DEVICE_HOURS 4"

definition rdm_set_device_hours :: "nat \<Rightarrow> u32 \<Rightarrow> (world, bool) cmd" where
  "rdm_set_device_hours dmx_num device_hours = check_port dmx_num False
     (set_root dmx_num RDM_PID_DEVICE_HOURS (Some (le32 device_hours)) 4)"

definition rdm_register_lamp_hours :: "nat \<Rightarrow> rdm_callback_t option \<Rightarrow> nat option \<Rightarrow> (world, bool) cmd" where
  "rdm_register_lamp_hours dmx_num = register_hours dmx_num RDM_PID_LAMP_HOURS"

definition rdm_get_lamp_hours :: "nat \<Rightarrow> (world, bytes) cmd" where
  "rdm_get_lamp_hours dmx_num = get_root dmx_num RDM_PID_LAMP_HOURS 4"

definition rdm_set_lamp_hours :: "nat \<Rightarrow> u32 \<Rightarrow> (world, bool) cmd" where
  "rdm_set_lamp_hours dmx_num lamp_hours = check_port dmx_num False
     (set_root dmx_num RDM_PID_LAMP_HOURS (Some (le32 lamp_hours)) 4)"

end
