(* ===== verification/Rdm_Setup.thy ===== *)
theory Rdm_Setup
  imports Rdm_Handlers
begin

text \<open>
  DMX personalities and the start address: \<^verbatim>\<open>dmx/device.c\<close> and \<^verbatim>\<open>rdm/responder/dmx_setup.c\<close>. The
  personality of a device is the parameter \<^verbatim>\<open>RDM_PID_DMX_PERSONALITY\<close> (two bytes); the descriptions of
  the personalities are an array of structs of 36 bytes in the data of
  \<^verbatim>\<open>RDM_PID_DMX_PERSONALITY_DESCRIPTION\<close>.
\<close>

section \<open>The structs\<close>

definition sizeof_description :: nat where "sizeof_description = 36"

record rdm_dmx_personality_description_t =
  pd_personality_num :: u8
  pd_footprint :: u16
  pd_description :: bytes

definition description_bytes :: "rdm_dmx_personality_description_t \<Rightarrow> bytes" where
  "description_bytes d = [pd_personality_num d] @ le16 (pd_footprint d) @ pd_description d"

definition description_of_bytes :: "bytes \<Rightarrow> rdm_dmx_personality_description_t" where
  "description_of_bytes bs = \<lparr>pd_personality_num = bs ! 0, pd_footprint = of_le16 (slice 1 2 bs),
     pd_description = drop 3 bs\<rparr>"

section \<open>Personalities\<close>

definition rdm_get_dmx_personality :: "nat \<Rightarrow> (world, bytes) cmd" where
  "rdm_get_dmx_personality dmx_num = get_root dmx_num RDM_PID_DMX_PERSONALITY 2"

text \<open>A local \<^verbatim>\<open>rdm_dmx_personality_t\<close> after the call, \<open>None\<close> when the call returned zero.\<close>

definition read_personality :: "nat \<Rightarrow> (world, rdm_dmx_personality_t option) cmd" where
  "read_personality dmx_num =
     bind_c (rdm_get_dmx_personality dmx_num) (\<lambda>bs.
     if bs = [] then ret None
     else bind_c (gets_c (local_object 2 bs)) (\<lambda>obj. ret (Some (personality_of_bytes obj))))"

definition dmx_get_current_personality :: "nat \<Rightarrow> (world, u8) cmd" where
  "dmx_get_current_personality dmx_num = check_port dmx_num 0
     (bind_c (read_personality dmx_num) (\<lambda>p.
      ret (case p of None \<Rightarrow> 0 | Some q \<Rightarrow> current q)))"

definition dmx_get_personality_count :: "nat \<Rightarrow> (world, u8) cmd" where
  "dmx_get_personality_count dmx_num = check_port dmx_num 0
     (bind_c (read_personality dmx_num) (\<lambda>p.
      ret (case p of None \<Rightarrow> 0 | Some q \<Rightarrow> count q)))"

text \<open>A personality number is checked against the count in several places.\<close>

definition check_personality :: "nat \<Rightarrow> u8 \<Rightarrow> 'a \<Rightarrow> (world, 'a) cmd \<Rightarrow> (world, 'a) cmd" where
  "check_personality dmx_num personality_num err m =
     (if \<not> personality_num > 0 then ret err
      else bind_c (dmx_get_personality_count dmx_num) (\<lambda>n.
        if \<not> personality_num \<le> n then ret err else m))"

definition rdm_set_dmx_personality :: "nat \<Rightarrow> u8 \<Rightarrow> (world, bool) cmd" where
  "rdm_set_dmx_personality dmx_num personality_num = check_port dmx_num False
     (check_personality dmx_num personality_num False
       (bind_c (query (dmx_parameter_copy dmx_num RDM_SUB_DEVICE_ROOT RDM_PID_DMX_PERSONALITY 2)) (\<lambda>bs.
        if bs = [] then ret False
        else bind_c (gets_c (local_object 2 bs)) (\<lambda>obj.
          set_root dmx_num RDM_PID_DMX_PERSONALITY
            (Some (personality_bytes ((personality_of_bytes obj)\<lparr>current := personality_num\<rparr>))) 2))))"

definition dmx_set_current_personality :: "nat \<Rightarrow> u8 \<Rightarrow> (world, bool) cmd" where
  "dmx_set_current_personality dmx_num personality_num = check_port dmx_num False
     (check_personality dmx_num personality_num False
       (bind_c (rdm_set_dmx_personality dmx_num personality_num) (\<lambda>ok.
        if \<not> ok then ret False else ret True)))"

definition rdm_rhd_set_dmx_personality :: handler_fun where
  "rdm_rhd_set_dmx_personality dmx_num def header =
     bind_c (read_local dmx_num (request_format (def_set def)) 1 1) (\<lambda>(k, obj).
     if k = 0 then rdm_write_nack_reason dmx_num header RDM_NR_FORMAT_ERROR
     else if obj ! 0 = 0 then rdm_write_nack_reason dmx_num header RDM_NR_DATA_OUT_OF_RANGE
     else bind_c (dmx_get_personality_count dmx_num) (\<lambda>n.
     if obj ! 0 > n then rdm_write_nack_reason dmx_num header RDM_NR_DATA_OUT_OF_RANGE
     else bind_c (query (dmx_parameter_copy dmx_num (h_sub_device header) (h_pid header) 2)) (\<lambda>bs.
     if bs = [] then rdm_write_nack_reason dmx_num header RDM_NR_HARDWARE_FAULT
     else bind_c (gets_c (local_object 2 bs)) (\<lambda>old.
     bind_c (dmx_parameter_set dmx_num (h_sub_device header) (h_pid header)
       (Some (personality_bytes ((personality_of_bytes old)\<lparr>current := obj ! 0\<rparr>))) 2) (\<lambda>m.
     if m = 0 then rdm_write_nack_reason dmx_num header RDM_NR_HARDWARE_FAULT
     else rdm_write_ack dmx_num header None None 0)))))"

definition personality_definition :: rdm_parameter_definition_t where
  "personality_definition = parameter_definition RDM_CC_GET_SET RDM_DS_NOT_DEFINED
     (command Rhd_Simple None (Some ''bb$'')) (command Rhd_Set_Dmx_Personality (Some ''b$'') None) 2 0 0"

definition rdm_register_dmx_personality :: "nat \<Rightarrow> u8 \<Rightarrow> rdm_callback_t option \<Rightarrow> nat option \<Rightarrow>
    (world, bool) cmd" where
  "rdm_register_dmx_personality dmx_num personality_count cb context = check_port dmx_num False
     (bind_c (dmx_nvs_get dmx_num RDM_SUB_DEVICE_ROOT RDM_PID_DMX_PERSONALITY 2) (\<lambda>stored.
      bind_c (gets_c (local_object 2 stored)) (\<lambda>obj.
      rdm_register dmx_num RDM_PID_DMX_PERSONALITY DMX_PARAMETER_TYPE_NON_VOLATILE
        (Init_Bytes (if stored = [] \<or> count (personality_of_bytes obj) \<noteq> personality_count
           then personality_bytes \<lparr>current = 1, count = personality_count\<rparr> else obj)) 2
        personality_definition cb context)))"

section \<open>Descriptions\<close>

definition rdm_get_dmx_personality_description :: "nat \<Rightarrow> u8 \<Rightarrow> (world, bytes) cmd" where
  "rdm_get_dmx_personality_description dmx_num personality_num = check_port dmx_num []
     (bind_c (query (dmx_parameter_size dmx_num RDM_SUB_DEVICE_ROOT RDM_PID_DMX_PERSONALITY_DESCRIPTION))
       (\<lambda>sz.
        if personality_num = 0 \<or> unat personality_num > sz div sizeof_description then ret []
        else bind_c (query (dmx_parameter_get_data dmx_num RDM_SUB_DEVICE_ROOT
               RDM_PID_DMX_PERSONALITY_DESCRIPTION)) (\<lambda>personalities.
          case personalities of
            None \<Rightarrow> ret []
          | Some a \<Rightarrow> query (heap_load a (sizeof_description * (unat personality_num - 1))
                        sizeof_description))))"

definition dmx_get_footprint :: "nat \<Rightarrow> u8 \<Rightarrow> (world, nat) cmd" where
  "dmx_get_footprint dmx_num personality_num = check_port dmx_num 0
     (check_personality dmx_num personality_num 0
       (bind_c (rdm_get_dmx_personality_description dmx_num personality_num) (\<lambda>bs.
        if bs = [] then ret 0 else ret (unat (pd_footprint (description_of_bytes bs))))))"

text \<open>
  The result is a pointer into the array: the bytes from there to the end of the block, \<open>None\<close> for
  NULL.
\<close>

definition dmx_get_personality_description :: "nat \<Rightarrow> u8 \<Rightarrow> (world, bytes option) cmd" where
  "dmx_get_personality_description dmx_num personality_num = check_port dmx_num None
     (check_personality dmx_num personality_num None
       (bind_c (query (dmx_parameter_get_data dmx_num RDM_SUB_DEVICE_ROOT
           RDM_PID_DMX_PERSONALITY_DESCRIPTION)) (\<lambda>p.
        bind_c (gets_c (bytes_at p)) (\<lambda>personalities.
        ret (map_option (drop (sizeof_description * (unat personality_num - 1) + 3)) personalities)))))"

definition rdm_rhd_get_dmx_personality_description :: handler_fun where
  "rdm_rhd_get_dmx_personality_description dmx_num def header =
     (if h_sub_device header \<noteq> RDM_SUB_DEVICE_ROOT then
        rdm_write_nack_reason dmx_num header RDM_NR_DATA_OUT_OF_RANGE
      else bind_c (read_local dmx_num (request_format (def_get def)) 1 1) (\<lambda>(k, obj).
      if k = 0 then rdm_write_nack_reason dmx_num header RDM_NR_FORMAT_ERROR
      else if obj ! 0 = 0 then rdm_write_nack_reason dmx_num header RDM_NR_DATA_OUT_OF_RANGE
      else bind_c (dmx_get_personality_count dmx_num) (\<lambda>n.
      if obj ! 0 > n then rdm_write_nack_reason dmx_num header RDM_NR_DATA_OUT_OF_RANGE
      else bind_c (dmx_get_footprint dmx_num (obj ! 0)) (\<lambda>footprint.
      bind_c (dmx_get_personality_description dmx_num (obj ! 0)) (\<lambda>p.
      bind_c (deref_c p) (\<lambda>desc.
      bind_c (lift_c (strnlen desc RDM_ASCII_SIZE_MAX)) (\<lambda>len.
      bind_c (gets_c (local_object RDM_ASCII_SIZE_MAX (take len desc))) (\<lambda>description.
      rdm_write_ack dmx_num header (response_format (def_get def))
        (Some (description_bytes \<lparr>pd_personality_num = obj ! 0, pd_footprint = of_nat footprint,
           pd_description = description\<rparr>)) sizeof_description))))))))"

definition personality_description_definition :: rdm_parameter_definition_t where
  "personality_description_definition = parameter_definition RDM_CC_GET RDM_DS_NOT_DEFINED
     (command Rhd_Get_Dmx_Personality_Description (Some ''b$'') (Some ''bwa'')) no_command 0 0 0"

text \<open>The check of the array, which is skipped when the parameter exists.\<close>

fun personalities_ok :: "nat \<Rightarrow> rdm_dmx_personality_description_t list \<Rightarrow> bool" where
  "personalities_ok i [] = True"
| "personalities_ok i (p # ps) =
     (unat (pd_personality_num p) = i + 1 \<and>
      pd_footprint p > 0 \<and> unat (pd_footprint p) < DMX_PACKET_SIZE_MAX \<and> personalities_ok (i + 1) ps)"

definition rdm_register_dmx_personality_description ::
  "nat \<Rightarrow> rdm_dmx_personality_description_t list \<Rightarrow> rdm_callback_t option \<Rightarrow> nat option \<Rightarrow>
    (world, bool) cmd" where
  "rdm_register_dmx_personality_description dmx_num personalities cb context = check_port dmx_num False
     (bind_c (query (dmx_parameter_exists dmx_num RDM_SUB_DEVICE_ROOT RDM_PID_DMX_PERSONALITY_DESCRIPTION))
       (\<lambda>exists.
        if \<not> exists \<and> \<not> personalities_ok 0 personalities then ret False
        else rdm_register dmx_num RDM_PID_DMX_PERSONALITY_DESCRIPTION DMX_PARAMETER_TYPE_DYNAMIC
          (Init_Bytes (concat (map description_bytes personalities)))
          (length personalities * sizeof_description) personality_description_definition cb context))"

section \<open>The start address\<close>

definition start_address_definition :: rdm_parameter_definition_t where
  "start_address_definition = parameter_definition RDM_CC_GET_SET RDM_DS_UNSIGNED_WORD
     (command Rhd_Simple None (Some ''w$'')) (command Rhd_Simple (Some ''w$'') None) 2 512 1"

definition rdm_register_dmx_start_address :: "nat \<Rightarrow> rdm_callback_t option \<Rightarrow> nat option \<Rightarrow>
    (world, bool) cmd" where
  "rdm_register_dmx_start_address dmx_num cb context = check_port dmx_num False
     (bind_c (dmx_nvs_get dmx_num RDM_SUB_DEVICE_ROOT RDM_PID_DMX_START_ADDRESS 2) (\<lambda>stored.
      bind_c (gets_c (local_object 2 stored)) (\<lambda>obj.
      let dmx_start_address = (if stored = [] then 1 else of_le16 obj) in
      bind_c (dmx_get_current_personality dmx_num) (\<lambda>current_personality.
      bind_c (if current_personality > 0 then
                bind_c (dmx_get_current_personality dmx_num) (\<lambda>p.
                bind_c (dmx_get_footprint dmx_num p) (\<lambda>fp.
                ret (if unat dmx_start_address + fp > DMX_PACKET_SIZE_MAX then 1 else dmx_start_address)))
              else ret dmx_start_address) (\<lambda>dmx_start_address.
      rdm_register dmx_num RDM_PID_DMX_START_ADDRESS DMX_PARAMETER_TYPE_NON_VOLATILE
        (Init_Bytes (le16 dmx_start_address)) 2 start_address_definition cb context)))))"

definition rdm_get_dmx_start_address :: "nat \<Rightarrow> (world, bytes) cmd" where
  "rdm_get_dmx_start_address dmx_num = get_root dmx_num RDM_PID_DMX_START_ADDRESS 2"

definition rdm_set_dmx_start_address :: "nat \<Rightarrow> u16 \<Rightarrow> (world, bool) cmd" where
  "rdm_set_dmx_start_address dmx_num dmx_start_address = check_port dmx_num False
     (if \<not> (dmx_start_address > 0 \<and> unat dmx_start_address < DMX_PACKET_SIZE_MAX) then ret False
      else set_root dmx_num RDM_PID_DMX_START_ADDRESS (Some (le16 dmx_start_address)) 2)"

definition dmx_get_start_address :: "nat \<Rightarrow> (world, u16) cmd" where
  "dmx_get_start_address dmx_num = check_port dmx_num 0
     (bind_c (rdm_get_dmx_start_address dmx_num) (\<lambda>bs.
      if bs = [] then ret DMX_START_ADDRESS_NONE
      else bind_c (gets_c (local_object 2 bs)) (\<lambda>obj. ret (of_le16 obj))))"

definition dmx_set_start_address :: "nat \<Rightarrow> u16 \<Rightarrow> (world, bool) cmd" where
  "dmx_set_start_address dmx_num dmx_start_address = check_port dmx_num False
     (if \<not> (dmx_start_address > 0 \<and> unat dmx_start_address < DMX_PACKET_SIZE_MAX) then ret False
      else bind_c (dmx_get_start_address dmx_num) (\<lambda>now.
        if now = DMX_START_ADDRESS_NONE then ret False
        else bind_c (rdm_set_dmx_start_address dmx_num dmx_start_address) (\<lambda>ok.
          if \<not> ok then ret False else ret True)))"

end
