(* ===== verification/Rdm_Sensor.thy ===== *)
theory Rdm_Sensor
  imports Rdm_Setup
begin

text \<open>
  Sensors, \<^verbatim>\<open>rdm/responder/sensor_parameter.c\<close>. The data of \<^verbatim>\<open>RDM_PID_SENSOR_VALUE\<close> is the number of
  sensors followed by an array of packed values of nine bytes; the data of
  \<^verbatim>\<open>RDM_PID_SENSOR_DEFINITION\<close> is an array of packed definitions of 46 bytes. Both arrays are indexed
  without a bound other than the checks of the code, so an access past the last sensor is an access
  past the block.
\<close>

section \<open>The structs\<close>

definition sizeof_sensor_value :: nat where "sizeof_sensor_value = 9"
definition sizeof_sensor_definition :: nat where "sizeof_sensor_definition = 46"

definition sensor_value_at :: "nat \<Rightarrow> nat" where
  "sensor_value_at i = 1 + sizeof_sensor_value * i"

record rdm_sensor_definition_t =
  sd_num :: u8
  sd_type :: u8
  sd_unit :: u8
  sd_prefix :: u8
  sd_range_minimum :: u16
  sd_range_maximum :: u16
  sd_normal_minimum :: u16
  sd_normal_maximum :: u16
  sd_support :: u8
  sd_description :: bytes

definition sensor_definition_bytes :: "rdm_sensor_definition_t \<Rightarrow> bytes" where
  "sensor_definition_bytes d =
     [sd_num d, sd_type d, sd_unit d, sd_prefix d] @ le16 (sd_range_minimum d) @
     le16 (sd_range_maximum d) @ le16 (sd_normal_minimum d) @ le16 (sd_normal_maximum d) @
     [sd_support d] @ sd_description d"

section \<open>Access\<close>

definition rdm_get_sensors :: "nat \<Rightarrow> u16 \<Rightarrow> world \<Rightarrow> nat option res" where
  "rdm_get_sensors dmx_num sub_device = dmx_parameter_get_data dmx_num sub_device RDM_PID_SENSOR_VALUE"

definition sensor_count_of :: "nat \<Rightarrow> (world, u8) cmd" where
  "sensor_count_of a = bind_c (query (heap_load a 0 1)) (\<lambda>bs. ret (bs ! 0))"

definition rdm_sensor_get_count :: "nat \<Rightarrow> u16 \<Rightarrow> (world, u8) cmd" where
  "rdm_sensor_get_count dmx_num sub_device =
     (if \<not> dmx_num < DMX_NUM_MAX then ret 0
      else if \<not> sub_device < RDM_SUB_DEVICE_MAX then ret 0
      else check_port dmx_num 0
        (bind_c (query (rdm_get_sensors dmx_num sub_device)) (\<lambda>sensors.
         case sensors of None \<Rightarrow> ret 0 | Some a \<Rightarrow> sensor_count_of a)))"

text \<open>The four 16-bit fields of a value set to zero; the recorded value set to the present one.\<close>

definition reset_value :: "nat \<Rightarrow> nat \<Rightarrow> (world, unit) cmd" where
  "reset_value a i = heap_store a (sensor_value_at i + 1) (replicate 8 0)"

definition set_present :: "nat \<Rightarrow> nat \<Rightarrow> u16 \<Rightarrow> (world, unit) cmd" where
  "set_present a i present = heap_store a (sensor_value_at i + 1) (le16 present)"

definition record_value :: "nat \<Rightarrow> nat \<Rightarrow> (world, unit) cmd" where
  "record_value a i =
     bind_c (query (heap_load a (sensor_value_at i + 1) 2)) (\<lambda>present.
     heap_store a (sensor_value_at i + 7) present)"

definition rdm_sensor_get :: "nat \<Rightarrow> u16 \<Rightarrow> u8 \<Rightarrow> (world, bytes) cmd" where
  "rdm_sensor_get dmx_num sub_device sensor_num =
     (if \<not> dmx_num < DMX_NUM_MAX then ret []
      else if \<not> sub_device < RDM_SUB_DEVICE_MAX then ret []
      else bind_c (rdm_sensor_get_count dmx_num sub_device) (\<lambda>n.
        if \<not> sensor_num < n then ret []
        else check_port dmx_num []
          (bind_c (query (rdm_get_sensors dmx_num sub_device)) (\<lambda>sensors.
           case sensors of
             None \<Rightarrow> ret []
           | Some a \<Rightarrow> critical dmx_num
               (query (heap_load a (sensor_value_at (unat sensor_num)) sizeof_sensor_value))))))"

text \<open>
  The beginning of the three functions that change values: the checks, the pointer and the test of
  the sensor number, which lets the number that equals the count through.
\<close>

definition with_sensors :: "nat \<Rightarrow> u16 \<Rightarrow> u8 \<Rightarrow> (nat \<Rightarrow> u8 \<Rightarrow> (world, bool) cmd) \<Rightarrow> (world, bool) cmd" where
  "with_sensors dmx_num sub_device sensor_num m =
     (if \<not> dmx_num < DMX_NUM_MAX then ret False
      else if \<not> (sub_device < RDM_SUB_DEVICE_MAX \<or> sub_device = RDM_SUB_DEVICE_ALL) then ret False
      else check_port dmx_num False
        (bind_c (query (rdm_get_sensors dmx_num sub_device)) (\<lambda>sensors.
         case sensors of
           None \<Rightarrow> ret False
         | Some a \<Rightarrow> bind_c (sensor_count_of a) (\<lambda>n.
             if sensor_num > n \<and> sensor_num \<noteq> RDM_SENSOR_NUM_MAX then ret False else m a n))))"

definition rdm_sensor_set :: "nat \<Rightarrow> u16 \<Rightarrow> u8 \<Rightarrow> u16 \<Rightarrow> (world, bool) cmd" where
  "rdm_sensor_set dmx_num sub_device sensor_num present =
     with_sensors dmx_num sub_device sensor_num (\<lambda>a n.
       then_c (if sensor_num \<noteq> RDM_SENSOR_NUM_MAX then
                 critical dmx_num (set_present a (unat sensor_num) present)
               else for_c [0..<unat n] (\<lambda>i. critical dmx_num (set_present a i present)))
         (ret True))"

definition rdm_sensor_record :: "nat \<Rightarrow> u16 \<Rightarrow> u8 \<Rightarrow> (world, bool) cmd" where
  "rdm_sensor_record dmx_num sub_device sensor_num =
     with_sensors dmx_num sub_device sensor_num (\<lambda>a n.
       then_c (if sensor_num = 0xff then
                 for_c (rev [0..<Suc (unat n)]) (\<lambda>i. critical dmx_num (record_value a i))
               else critical dmx_num (record_value a (unat sensor_num)))
         (ret True))"

definition rdm_sensor_reset :: "nat \<Rightarrow> u16 \<Rightarrow> u8 \<Rightarrow> (world, bool) cmd" where
  "rdm_sensor_reset dmx_num sub_device sensor_num =
     with_sensors dmx_num sub_device sensor_num (\<lambda>a n.
       then_c (if sensor_num = 0xff then
                 for_c (rev [0..<Suc (unat n)]) (\<lambda>i. critical dmx_num (reset_value a i))
               else critical dmx_num (reset_value a (unat sensor_num)))
         (ret True))"

section \<open>Definitions of sensors\<close>

text \<open>The result is a pointer into the array: the bytes from there on, \<open>None\<close> for NULL.\<close>

definition rdm_sensor_definition_get :: "nat \<Rightarrow> u16 \<Rightarrow> u8 \<Rightarrow> (world, bytes option) cmd" where
  "rdm_sensor_definition_get dmx_num sub_device sensor_num =
     (if \<not> dmx_num < DMX_NUM_MAX then ret None
      else if \<not> (sub_device < RDM_SUB_DEVICE_MAX \<or> sub_device = RDM_SUB_DEVICE_ALL) then ret None
      else check_port dmx_num None
        (bind_c (query (rdm_get_sensors dmx_num sub_device)) (\<lambda>sensors.
         case sensors of
           None \<Rightarrow> ret None
         | Some a \<Rightarrow> bind_c (sensor_count_of a) (\<lambda>n.
             if sensor_num > n then ret None
             else bind_c (query (dmx_parameter_get_data dmx_num RDM_SUB_DEVICE_ROOT
                    RDM_PID_SENSOR_DEFINITION)) (\<lambda>sensor_defs.
               case sensor_defs of
                 None \<Rightarrow> ret None
               | Some b \<Rightarrow>
                   bind_c (query (heap_load b (sizeof_sensor_definition * unat sensor_num) 1)) (\<lambda>num.
                   if num ! 0 = 0xff then ret None
                   else bind_c (gets_c (bytes_at (Some b))) (\<lambda>bs.
                     ret (map_option (drop (sizeof_sensor_definition * unat sensor_num)) bs))))))))"

definition rdm_sensor_definition_add :: "nat \<Rightarrow> u16 \<Rightarrow> rdm_sensor_definition_t \<Rightarrow> (world, bool) cmd" where
  "rdm_sensor_definition_add dmx_num sub_device def =
     (if \<not> dmx_num < DMX_NUM_MAX then ret False
      else if \<not> (sub_device < RDM_SUB_DEVICE_MAX \<or> sub_device = RDM_SUB_DEVICE_ALL) then ret False
      else check_port dmx_num False
        (bind_c (query (rdm_get_sensors dmx_num sub_device)) (\<lambda>sensors.
         case sensors of
           None \<Rightarrow> ret False
         | Some a \<Rightarrow> bind_c (sensor_count_of a) (\<lambda>n.
             if sd_num def > n then ret False
             else bind_c (query (dmx_parameter_get_data dmx_num RDM_SUB_DEVICE_ROOT
                    RDM_PID_SENSOR_DEFINITION)) (\<lambda>sensor_defs.
               case sensor_defs of
                 None \<Rightarrow> ret False
               | Some b \<Rightarrow>
                   bind_c (query (heap_load b (sizeof_sensor_definition * unat (sd_num def)) 1)) (\<lambda>num.
                   if num ! 0 \<noteq> 0xff then ret False
                   else then_c (heap_store b (sizeof_sensor_definition * unat (sd_num def))
                          (sensor_definition_bytes def)) (ret True)))))))"

section \<open>Handlers\<close>

text \<open>The sensor number of a request, after the checks that the handlers share.\<close>

definition sensor_request :: "nat \<Rightarrow> rdm_header_t \<Rightarrow> string option \<Rightarrow> (u8 \<Rightarrow> (world, nat) cmd) \<Rightarrow>
    (world, nat) cmd" where
  "sensor_request dmx_num header format m =
     bind_c (read_local dmx_num format 1 1) (\<lambda>(k, obj).
     if k = 0 then rdm_write_nack_reason dmx_num header RDM_NR_FORMAT_ERROR
     else bind_c (rdm_sensor_get_count dmx_num (h_sub_device header)) (\<lambda>n.
     if obj ! 0 > n \<and> obj ! 0 \<noteq> RDM_SENSOR_NUM_MAX then
       rdm_write_nack_reason dmx_num header RDM_NR_DATA_OUT_OF_RANGE
     else m (obj ! 0)))"

definition ack_value :: "nat \<Rightarrow> rdm_header_t \<Rightarrow> string option \<Rightarrow> nat \<Rightarrow> nat \<Rightarrow> (world, nat) cmd" where
  "ack_value dmx_num header format a i =
     bind_c (gets_c (bytes_at (Some a))) (\<lambda>bs.
     rdm_write_ack dmx_num header format (map_option (drop (sensor_value_at i)) bs) sizeof_sensor_value)"

definition rdm_rhd_get_set_sensor_value :: handler_fun where
  "rdm_rhd_get_set_sensor_value dmx_num def header =
     (let cmd = (if h_cc header = RDM_CC_SET_COMMAND then def_set def else def_get def) in
      sensor_request dmx_num header (request_format cmd) (\<lambda>sensor_num.
      bind_c (query (rdm_get_sensors dmx_num (h_sub_device header))) (\<lambda>sensors.
      case sensors of
        None \<Rightarrow> throw Assert_Failed
      | Some a \<Rightarrow>
          if h_cc header = RDM_CC_GET_COMMAND then
            (if sensor_num = RDM_SENSOR_NUM_MAX then
               rdm_write_nack_reason dmx_num header RDM_NR_UNSUPPORTED_COMMAND_CLASS
             else ack_value dmx_num header (response_format cmd) a (unat sensor_num))
          else if sensor_num = RDM_SENSOR_NUM_MAX then
            bind_c (sensor_count_of a) (\<lambda>n.
            then_c (for_c [0..<unat n] (reset_value a))
              (ack_value dmx_num header (response_format cmd) a 0))
          else
            then_c (reset_value a (unat sensor_num))
              (ack_value dmx_num header (response_format cmd) a (unat sensor_num)))))"

definition rdm_rhd_set_record_sensors :: handler_fun where
  "rdm_rhd_set_record_sensors dmx_num def header =
     sensor_request dmx_num header (request_format (def_set def)) (\<lambda>sensor_num.
     bind_c (rdm_sensor_record dmx_num (h_sub_device header) sensor_num) (\<lambda>ok.
     if \<not> ok then rdm_write_nack_reason dmx_num header RDM_NR_DATA_OUT_OF_RANGE
     else rdm_write_ack dmx_num header None None 0))"

definition rdm_rhd_get_sensor_definition :: handler_fun where
  "rdm_rhd_get_sensor_definition dmx_num def header =
     sensor_request dmx_num header (request_format (def_set def)) (\<lambda>sensor_num.
     bind_c (rdm_sensor_definition_get dmx_num (h_sub_device header) sensor_num) (\<lambda>sensor_def.
     if sensor_def = None then rdm_write_nack_reason dmx_num header RDM_NR_HARDWARE_FAULT
     else rdm_write_ack dmx_num header (response_format (def_get def)) sensor_def
       sizeof_sensor_definition))"

section \<open>Registration\<close>

definition sensor_definition_definition :: rdm_parameter_definition_t where
  "sensor_definition_definition = parameter_definition RDM_CC_GET RDM_DS_NOT_DEFINED
     (command Rhd_Get_Sensor_Definition (Some ''b$'') (Some ''bbbbwwwwba'')) no_command 1 0 0"

definition sensor_value_definition :: rdm_parameter_definition_t where
  "sensor_value_definition = parameter_definition RDM_CC_GET RDM_DS_NOT_DEFINED
     (command Rhd_Get_Set_Sensor_Value (Some ''b$'') (Some ''bwwww$''))
     (command Rhd_Get_Set_Sensor_Value (Some ''b$'') (Some ''bwwww$'')) 1 0 0"

definition record_sensors_definition :: rdm_parameter_definition_t where
  "record_sensors_definition = parameter_definition RDM_CC_SET RDM_DS_NOT_DEFINED
     no_command (command Rhd_Set_Record_Sensors (Some ''b$'') None) 1 0 0"

text \<open>
  The definitions are marked as empty (number 0xff) only when the parameter existed before the call:
  the local variable \<^verbatim>\<open>first_time_func_called\<close> has the opposite value of its name.
\<close>

definition rdm_register_sensor_definition :: "nat \<Rightarrow> rdm_callback_t option \<Rightarrow> nat option \<Rightarrow>
    (world, bool) cmd" where
  "rdm_register_sensor_definition dmx_num cb context = check_port dmx_num False
     (bind_c (query (rdm_get_sensors dmx_num RDM_SUB_DEVICE_ROOT)) (\<lambda>sensors.
      case sensors of
        None \<Rightarrow> ret False
      | Some a \<Rightarrow>
          bind_c (query (dmx_parameter_exists dmx_num RDM_SUB_DEVICE_ROOT RDM_PID_SENSOR_DEFINITION))
            (\<lambda>first_time_func_called.
          bind_c (sensor_count_of a) (\<lambda>n.
          bind_c (dmx_parameter_add dmx_num RDM_SUB_DEVICE_ROOT RDM_PID_SENSOR_DEFINITION
            DMX_PARAMETER_TYPE_DYNAMIC Init_Null (sizeof_sensor_definition * unat n)) (\<lambda>added.
          if \<not> added then ret False
          else
            then_c (if first_time_func_called then
                bind_c (query (dmx_parameter_get_data dmx_num RDM_SUB_DEVICE_ROOT
                  RDM_PID_SENSOR_DEFINITION)) (\<lambda>sensor_defs.
                case sensor_defs of
                  None \<Rightarrow> throw Assert_Failed
                | Some b \<Rightarrow> for_c [0..<unat n] (\<lambda>i.
                    heap_store b (sizeof_sensor_definition * i) [0xff]))
              else ret ())
           (then_c (rdm_definition_set dmx_num RDM_SUB_DEVICE_ROOT RDM_PID_SENSOR_DEFINITION
              sensor_definition_definition)
              (rdm_callback_set dmx_num RDM_SUB_DEVICE_ROOT RDM_PID_SENSOR_DEFINITION cb context)))))))"

definition rdm_register_sensor_value :: "nat \<Rightarrow> u8 \<Rightarrow> rdm_callback_t option \<Rightarrow> nat option \<Rightarrow>
    (world, bool) cmd" where
  "rdm_register_sensor_value dmx_num sensor_count cb context = check_port dmx_num False
     (bind_c (dmx_parameter_add dmx_num RDM_SUB_DEVICE_ROOT RDM_PID_SENSOR_VALUE
        DMX_PARAMETER_TYPE_DYNAMIC Init_Null (1 + sizeof_sensor_value * unat sensor_count)) (\<lambda>added.
      if \<not> added then ret False
      else bind_c (query (rdm_get_sensors dmx_num RDM_SUB_DEVICE_ROOT)) (\<lambda>sensors.
        case sensors of
          None \<Rightarrow> throw Assert_Failed
        | Some a \<Rightarrow>
            then_c (heap_store a 0 [sensor_count])
           (then_c (for_c [0..<unat sensor_count] (\<lambda>i. heap_store a (sensor_value_at i) [of_nat i]))
           (then_c (rdm_definition_set dmx_num RDM_SUB_DEVICE_ROOT RDM_PID_SENSOR_VALUE
              sensor_value_definition)
              (rdm_callback_set dmx_num RDM_SUB_DEVICE_ROOT RDM_PID_SENSOR_VALUE cb context))))))"

definition rdm_register_record_sensors :: "nat \<Rightarrow> rdm_callback_t option \<Rightarrow> nat option \<Rightarrow>
    (world, bool) cmd" where
  "rdm_register_record_sensors dmx_num cb context = check_port dmx_num False
     (rdm_register dmx_num RDM_PID_RECORD_SENSORS DMX_PARAMETER_TYPE_STATIC Init_Null 0
        record_sensors_definition cb context)"

end
