(* ===== verification/Rdm_Product.thy ===== *)
theory Rdm_Product
  imports Rdm_Sensor
begin

text \<open>
  Product information, \<^verbatim>\<open>rdm/responder/product_info.c\<close>: the device information, the labels and the
  language. A C string is the object behind its pointer, from the pointer to the end; \<open>None\<close> is NULL.
\<close>

section \<open>Strings\<close>

text \<open>\<^verbatim>\<open>strncpy\<close>: the characters up to the first NUL, at most \<open>n\<close> of them, padded with NULs to \<open>n\<close> bytes.\<close>

definition strncpy :: "bytes \<Rightarrow> nat \<Rightarrow> bytes res" where
  "strncpy src n = bind_r (strnlen src n) (\<lambda>k. Inr (take k src @ replicate (n - k) 0))"

lemma length_strncpy: "strncpy src n = Inr bs \<Longrightarrow> length bs = n"
  by (auto simp: strncpy_def bind_r_Inr_iff dest: strnlen_le)

text \<open>The check of a label that is shorter than its array.\<close>

definition label_ok :: "bytes option \<Rightarrow> (world, bool) cmd" where
  "label_ok label = (case label of
     None \<Rightarrow> ret False
   | Some s \<Rightarrow> bind_c (lift_c (strnlen s RDM_ASCII_SIZE_MAX)) (\<lambda>n. ret (n < RDM_ASCII_SIZE_MAX)))"

section \<open>Device information\<close>

definition product_info_bytes :: "u16 \<Rightarrow> u16 \<Rightarrow> u32 \<Rightarrow> bytes" where
  "product_info_bytes model_id product_category software_version_id =
     le16 model_id @ le16 product_category @ le32 software_version_id"

definition device_info_definition :: rdm_parameter_definition_t where
  "device_info_definition = parameter_definition RDM_CC_GET RDM_DS_NOT_DEFINED
     (command Rhd_Get_Device_Info None (Some ''x01x00wwdwbbwwb$'')) no_command 0 0 0"

definition rdm_register_device_info :: "nat \<Rightarrow> u16 \<Rightarrow> u16 \<Rightarrow> u32 \<Rightarrow> rdm_callback_t option \<Rightarrow>
    nat option \<Rightarrow> (world, bool) cmd" where
  "rdm_register_device_info dmx_num model_id product_category software_version_id cb context =
     check_port dmx_num False
      (rdm_register dmx_num RDM_PID_DEVICE_INFO DMX_PARAMETER_TYPE_DYNAMIC
        (Init_Bytes (product_info_bytes model_id product_category software_version_id)) 8
        device_info_definition cb context)"

text \<open>The result is \<open>None\<close> when the C function returns zero.\<close>

definition rdm_get_device_info :: "nat \<Rightarrow> (world, rdm_device_info_t option) cmd" where
  "rdm_get_device_info dmx_num = check_port dmx_num None
     (bind_c (query (dmx_parameter_get_data dmx_num RDM_SUB_DEVICE_ROOT RDM_PID_DEVICE_INFO)) (\<lambda>p.
      bind_c (case p of None \<Rightarrow> ret (replicate 8 0xff) | Some a \<Rightarrow> query (heap_load a 0 8)) (\<lambda>info.
      bind_c (read_personality dmx_num) (\<lambda>p.
      let personality = (case p of None \<Rightarrow> \<lparr>current = 0, count = 0\<rparr> | Some q \<Rightarrow> q) in
      bind_c (if current personality > 0 then dmx_get_footprint dmx_num (current personality) else ret 0)
        (\<lambda>footprint.
      bind_c (dmx_get_start_address dmx_num) (\<lambda>start_address.
      bind_c (query (dmx_sub_device_get_count dmx_num)) (\<lambda>sub_devices.
      bind_c (rdm_sensor_get_count dmx_num RDM_SUB_DEVICE_ROOT) (\<lambda>sensors.
      ret (Some \<lparr>di_model_id = of_le16 (slice 0 2 info), di_product_category = of_le16 (slice 2 2 info),
        di_software_version_id = of_le32 (slice 4 4 info), di_footprint = of_nat footprint,
        di_personality = personality, di_dmx_start_address = start_address,
        di_sub_device_count = of_nat sub_devices, di_sensor_count = sensors\<rparr>)))))))))"

definition rdm_rhd_get_device_info :: handler_fun where
  "rdm_rhd_get_device_info dmx_num def header =
     bind_c (rdm_get_device_info dmx_num) (\<lambda>info.
     case info of
       None \<Rightarrow> rdm_write_nack_reason dmx_num header RDM_NR_HARDWARE_FAULT
     | Some d \<Rightarrow> rdm_write_ack dmx_num header (response_format (def_get def)) (Some (device_info_bytes d)) 19)"

section \<open>Labels\<close>

definition device_label_definition :: rdm_parameter_definition_t where
  "device_label_definition = parameter_definition RDM_CC_GET_SET RDM_DS_ASCII
     (command Rhd_Simple None (Some ''a'')) (command Rhd_Simple (Some ''a'') None) 32 0 0"

definition label_definition :: rdm_parameter_definition_t where
  "label_definition = parameter_definition RDM_CC_GET RDM_DS_ASCII
     (command Rhd_Simple None (Some ''a$'')) no_command (of_nat RDM_ASCII_SIZE_MAX) 0 0"

definition rdm_register_device_label :: "nat \<Rightarrow> bytes option \<Rightarrow> rdm_callback_t option \<Rightarrow> nat option \<Rightarrow>
    (world, bool) cmd" where
  "rdm_register_device_label dmx_num device_label cb context = check_port dmx_num False
     (bind_c (query (dmx_parameter_exists dmx_num RDM_SUB_DEVICE_ROOT RDM_PID_DEVICE_LABEL)) (\<lambda>exists.
      bind_c (if \<not> exists then label_ok device_label else ret True) (\<lambda>ok.
      if \<not> ok then ret False
      else bind_c (deref_c device_label) (\<lambda>s.
        bind_c (lift_c (strncpy s 32)) (\<lambda>bs.
        bind_c (gets_c (local_object RDM_ASCII_SIZE_MAX bs)) (\<lambda>init_value.
        rdm_register dmx_num RDM_PID_DEVICE_LABEL DMX_PARAMETER_TYPE_NON_VOLATILE (Init_Bytes init_value)
          RDM_ASCII_SIZE_MAX device_label_definition cb context))))))"

definition rdm_get_device_label :: "nat \<Rightarrow> nat \<Rightarrow> (world, bytes) cmd" where
  "rdm_get_device_label dmx_num sz = get_root dmx_num RDM_PID_DEVICE_LABEL sz"

definition rdm_set_device_label :: "nat \<Rightarrow> bytes option \<Rightarrow> nat \<Rightarrow> (world, bool) cmd" where
  "rdm_set_device_label dmx_num device_label sz = check_port dmx_num False
     (set_root dmx_num RDM_PID_DEVICE_LABEL device_label sz)"

text \<open>
  The labels that are fixed at registration. The argument is checked only when the parameter
  \<open>guard_pid\<close> has no data yet.
\<close>

definition register_label :: "nat \<Rightarrow> u16 \<Rightarrow> bytes option \<Rightarrow>
    (bytes \<Rightarrow> nat \<Rightarrow> (world, bool) cmd) \<Rightarrow> (world, bool) cmd" where
  "register_label dmx_num guard_pid label add = check_port dmx_num False
     (bind_c (query (dmx_parameter_get_data dmx_num RDM_SUB_DEVICE_ROOT guard_pid)) (\<lambda>p.
      bind_c (if p = None then label_ok label else ret True) (\<lambda>ok.
      if \<not> ok then ret False
      else bind_c (deref_c label) (\<lambda>s.
        bind_c (lift_c (strnlen s RDM_ASCII_SIZE_MAX)) (\<lambda>sz. add s sz)))))"

definition rdm_register_software_version_label :: "nat \<Rightarrow> bytes option \<Rightarrow> rdm_callback_t option \<Rightarrow>
    nat option \<Rightarrow> (world, bool) cmd" where
  "rdm_register_software_version_label dmx_num software_version_label cb context =
     register_label dmx_num RDM_PID_SOFTWARE_VERSION_LABEL software_version_label (\<lambda>s sz.
       bind_c (lift_c (strncpy s RDM_ASCII_SIZE_MAX)) (\<lambda>pd.
       rdm_register dmx_num RDM_PID_SOFTWARE_VERSION_LABEL DMX_PARAMETER_TYPE_DYNAMIC (Init_Bytes pd) sz
         label_definition cb context))"

definition rdm_register_manufacturer_label :: "nat \<Rightarrow> bytes option \<Rightarrow> rdm_callback_t option \<Rightarrow>
    nat option \<Rightarrow> (world, bool) cmd" where
  "rdm_register_manufacturer_label dmx_num manufacturer_label cb context =
     register_label dmx_num RDM_PID_SOFTWARE_VERSION_LABEL manufacturer_label (\<lambda>s sz.
       rdm_register dmx_num RDM_PID_MANUFACTURER_LABEL DMX_PARAMETER_TYPE_STATIC (Init_Bytes s) sz
         label_definition cb context)"

definition rdm_register_device_model_description :: "nat \<Rightarrow> bytes option \<Rightarrow> rdm_callback_t option \<Rightarrow>
    nat option \<Rightarrow> (world, bool) cmd" where
  "rdm_register_device_model_description dmx_num device_model_description cb context =
     register_label dmx_num RDM_PID_DEVICE_MODEL_DESCRIPTION device_model_description (\<lambda>s sz.
       bind_c (lift_c (strncpy s RDM_ASCII_SIZE_MAX)) (\<lambda>pd.
       rdm_register dmx_num RDM_PID_DEVICE_MODEL_DESCRIPTION DMX_PARAMETER_TYPE_DYNAMIC (Init_Bytes pd) sz
         label_definition cb context))"

definition get_label :: "nat \<Rightarrow> u16 \<Rightarrow> nat \<Rightarrow> (world, bytes) cmd" where
  "get_label dmx_num pid sz = (if \<not> sz > 0 then ret [] else get_root dmx_num pid sz)"

definition rdm_get_software_version_label :: "nat \<Rightarrow> nat \<Rightarrow> (world, bytes) cmd" where
  "rdm_get_software_version_label dmx_num sz = get_label dmx_num RDM_PID_SOFTWARE_VERSION_LABEL sz"

definition rdm_get_manufacturer_label :: "nat \<Rightarrow> nat \<Rightarrow> (world, bytes) cmd" where
  "rdm_get_manufacturer_label dmx_num sz = get_label dmx_num RDM_PID_MANUFACTURER_LABEL sz"

definition rdm_get_device_model_description :: "nat \<Rightarrow> nat \<Rightarrow> (world, bytes) cmd" where
  "rdm_get_device_model_description dmx_num sz = get_label dmx_num RDM_PID_DEVICE_MODEL_DESCRIPTION sz"

section \<open>Language\<close>

definition rdm_rhd_get_set_language :: handler_fun where
  "rdm_rhd_get_set_language dmx_num def header =
     (if h_cc header = RDM_CC_GET_COMMAND then simple_get dmx_num def header
      else if h_pdl header \<noteq> 2 then rdm_write_nack_reason dmx_num header RDM_NR_FORMAT_ERROR
      else bind_c (read_local dmx_num (request_format (def_set def)) 3 3) (\<lambda>(k, language).
        if k = 0 then rdm_write_nack_reason dmx_num header RDM_NR_FORMAT_ERROR
        else then_c (dmx_parameter_set dmx_num RDM_SUB_DEVICE_ROOT (h_pid header) (Some language) 3)
          (rdm_write_ack dmx_num header None None 0)))"

definition language_definition :: rdm_parameter_definition_t where
  "language_definition = parameter_definition RDM_CC_GET_SET RDM_DS_ASCII
     (command Rhd_Get_Set_Language None (Some ''a$'')) (command Rhd_Get_Set_Language (Some ''a$'') None) 2 0 0"

text \<open>The check refuses a language of two characters and accepts every other length.\<close>

definition language_ok :: "bytes option \<Rightarrow> (world, bool) cmd" where
  "language_ok language = (case language of
     None \<Rightarrow> ret False
   | Some s \<Rightarrow> bind_c (lift_c (strnlen s 3)) (\<lambda>n. ret (n \<noteq> 2)))"

definition rdm_register_language :: "nat \<Rightarrow> bytes option \<Rightarrow> rdm_callback_t option \<Rightarrow> nat option \<Rightarrow>
    (world, bool) cmd" where
  "rdm_register_language dmx_num language cb context = check_port dmx_num False
     (bind_c (query (dmx_parameter_get_data dmx_num RDM_SUB_DEVICE_ROOT RDM_PID_LANGUAGE)) (\<lambda>p.
      bind_c (if p = None then language_ok language else ret True) (\<lambda>ok.
      if \<not> ok then ret False
      else bind_c (deref_c language) (\<lambda>s.
        bind_c (lift_c (load 0 2 s)) (\<lambda>bs.
        rdm_register dmx_num RDM_PID_LANGUAGE DMX_PARAMETER_TYPE_DYNAMIC (Init_Bytes (bs @ [0])) 3
          language_definition cb context)))))"

definition rdm_get_language :: "nat \<Rightarrow> (world, bytes) cmd" where
  "rdm_get_language dmx_num = get_root dmx_num RDM_PID_LANGUAGE 3"

text \<open>The setter writes the device label, not the language.\<close>

definition rdm_set_language :: "nat \<Rightarrow> bytes option \<Rightarrow> (world, bool) cmd" where
  "rdm_set_language dmx_num language =
     (if \<not> dmx_num < DMX_NUM_MAX then ret False
      else bind_c (deref_c language) (\<lambda>s.
        bind_c (lift_c (strnlen s 3)) (\<lambda>n.
        if \<not> n \<noteq> 2 then ret False
        else check_port dmx_num False
          (bind_c (lift_c (strncpy s 2)) (\<lambda>bs.
           set_root dmx_num RDM_PID_DEVICE_LABEL (Some (bs @ [0])) 3)))))"

end
