(* ===== verification/Rdm_Info.thy ===== *)
theory Rdm_Info
  imports Rdm_Product
begin

text \<open>
  RDM information, \<^verbatim>\<open>rdm/responder/rdm_info.c\<close>, the handler and registration of
  \<^verbatim>\<open>RDM_PID_QUEUED_MESSAGE\<close> in \<^verbatim>\<open>queue_status.c\<close>, and the dispatch of a handler name to its function.
\<close>

section \<open>Supported parameters\<close>

definition minimum_pids :: "u16 list" where
  "minimum_pids = [RDM_PID_DISC_UNIQUE_BRANCH, RDM_PID_DISC_MUTE, RDM_PID_DISC_UN_MUTE,
     RDM_PID_SUPPORTED_PARAMETERS, RDM_PID_PARAMETER_DESCRIPTION, RDM_PID_DEVICE_INFO,
     RDM_PID_SOFTWARE_VERSION_LABEL, RDM_PID_DMX_START_ADDRESS, RDM_PID_IDENTIFY_DEVICE]"

text \<open>The loop over the indices from \<open>i\<close> on, with \<open>fuel\<close> of them left.\<close>

fun collect_pids :: "nat \<Rightarrow> u16 \<Rightarrow> nat \<Rightarrow> nat \<Rightarrow> world \<Rightarrow> u16 list res" where
  "collect_pids dmx_num sub_device i 0 w = Inr []"
| "collect_pids dmx_num sub_device i (Suc fuel) w =
     bind_r (dmx_parameter_at dmx_num sub_device i w) (\<lambda>pid.
     if pid = 0 then Inr []
     else bind_r (collect_pids dmx_num sub_device (Suc i) fuel w) (\<lambda>pids.
       Inr (if pid \<in> set minimum_pids then pids else pid # pids)))"

definition rdm_rhd_get_supported_parameters :: handler_fun where
  "rdm_rhd_get_supported_parameters dmx_num def header =
     bind_c (query (collect_pids dmx_num (h_sub_device header) 0 115)) (\<lambda>pids.
     bind_c (gets_c (local_object 230 (concat (map le16 pids)))) (\<lambda>obj.
     rdm_write_ack dmx_num header (response_format (def_get def)) (Some obj) (length pids * 2)))"

definition supported_parameters_definition :: rdm_parameter_definition_t where
  "supported_parameters_definition = parameter_definition RDM_CC_GET RDM_DS_UNSIGNED_WORD
     (command Rhd_Get_Supported_Parameters None (Some ''w'')) no_command 0 0 0"

definition rdm_register_supported_parameters :: "nat \<Rightarrow> rdm_callback_t option \<Rightarrow> nat option \<Rightarrow>
    (world, bool) cmd" where
  "rdm_register_supported_parameters dmx_num cb context = check_port dmx_num False
     (rdm_register dmx_num RDM_PID_SUPPORTED_PARAMETERS DMX_PARAMETER_TYPE_STATIC Init_Null 0
        supported_parameters_definition cb context)"

text \<open>
  The first loop of \<^verbatim>\<open>rdm_get_supported_parameters\<close> counts down the room in the buffer; it does not
  move past a PID that is not reported. The result is the PIDs written and the index reached.
\<close>

fun write_pids :: "nat \<Rightarrow> nat \<Rightarrow> nat \<Rightarrow> world \<Rightarrow> (u16 list \<times> nat) res" where
  "write_pids dmx_num i 0 w = Inr ([], i)"
| "write_pids dmx_num i (Suc slots) w =
     bind_r (dmx_parameter_at dmx_num RDM_SUB_DEVICE_ROOT i w) (\<lambda>pid.
     if pid = 0 then Inr ([], i)
     else if pid \<in> set minimum_pids then write_pids dmx_num i slots w
     else bind_r (write_pids dmx_num (Suc i) slots w) (\<lambda>(pids, j). Inr (pid # pids, j)))"

text \<open>
  The second loop counts the remaining PIDs. \<^verbatim>\<open>dmx_parameter_at\<close> returns zero past the count, so the
  count bounds the number of rounds.
\<close>

fun count_pids :: "nat \<Rightarrow> nat \<Rightarrow> nat \<Rightarrow> world \<Rightarrow> nat res" where
  "count_pids dmx_num i 0 w = Inl Loops_Forever"
| "count_pids dmx_num i (Suc fuel) w =
     bind_r (dmx_parameter_at dmx_num RDM_SUB_DEVICE_ROOT i w) (\<lambda>pid.
     if pid = 0 then Inr 0
     else bind_r (count_pids dmx_num (Suc i) fuel w) (\<lambda>n. Inr (Suc n)))"

text \<open>\<open>room\<close> is the size of the buffer, \<open>None\<close> for NULL. The result is the returned size and the bytes written.\<close>

definition rdm_get_supported_parameters :: "nat \<Rightarrow> nat option \<Rightarrow> (world, nat \<times> bytes) cmd" where
  "rdm_get_supported_parameters dmx_num room = check_port dmx_num (0, [])
     (bind_c (query (write_pids dmx_num 0 (case room of None \<Rightarrow> 0 | Some sz \<Rightarrow> sz div 2))) (\<lambda>(pids, i).
      bind_c (query (get_drv dmx_num)) (\<lambda>d.
      bind_c (query (count_pids dmx_num i (d_count_root d + 2))) (\<lambda>n.
      ret ((length pids + n) * 2, concat (map le16 pids))))))"

section \<open>Parameter descriptions\<close>

definition sizeof_parameter_description :: nat where "sizeof_parameter_description = 53"

text \<open>The struct, packed; the byte for the type of the PID has no name and is not written.\<close>

definition parameter_description_bytes :: "u8 \<Rightarrow> u16 \<Rightarrow> rdm_parameter_definition_t \<Rightarrow> bytes \<Rightarrow> bytes" where
  "parameter_description_bytes junk pid d description =
     le16 pid @ [def_pdl_size d, def_ds d, def_pid_cc d, junk, def_units d, def_prefix d] @
     le32 (def_min_value d) @ le32 (def_max_value d) @ le32 (def_default_value d) @ description"

text \<open>The local struct filled from a definition; a definition without description is a NULL source.\<close>

definition describe :: "u16 \<Rightarrow> rdm_parameter_definition_t \<Rightarrow> (world, bytes) cmd" where
  "describe pid d =
     bind_c (deref_c (def_description d)) (\<lambda>s.
     bind_c (lift_c (strncpy (map of_char s @ [0]) RDM_ASCII_SIZE_MAX)) (\<lambda>description.
     bind_c (gets_c (uninit_bytes sizeof_parameter_description)) (\<lambda>junk.
     ret (parameter_description_bytes (junk ! 5) pid d description))))"

definition rdm_rhd_get_parameter_description :: handler_fun where
  "rdm_rhd_get_parameter_description dmx_num def header =
     (if h_sub_device header \<noteq> RDM_SUB_DEVICE_ROOT then
        rdm_write_nack_reason dmx_num header RDM_NR_SUB_DEVICE_OUT_OF_RANGE
      else bind_c (read_local dmx_num (request_format (def_get def)) 2 2) (\<lambda>(k, obj).
      if k = 0 then rdm_write_nack_reason dmx_num header RDM_NR_FORMAT_ERROR
      else let pid = of_le16 obj in
      if ucast pid < def_min_value def \<or> ucast pid > def_max_value def then
        rdm_write_nack_reason dmx_num header RDM_NR_DATA_OUT_OF_RANGE
      else bind_c (query (rdm_definition_get dmx_num (h_sub_device header) pid)) (\<lambda>requested.
      case requested of
        None \<Rightarrow> rdm_write_nack_reason dmx_num header RDM_NR_DATA_OUT_OF_RANGE
      | Some d \<Rightarrow> bind_c (describe pid d) (\<lambda>pd.
          rdm_write_ack dmx_num header (response_format (def_get def)) (Some pd)
            sizeof_parameter_description))))"

definition parameter_description_definition :: rdm_parameter_definition_t where
  "parameter_description_definition = parameter_definition RDM_CC_GET RDM_DS_ASCII
     (command Rhd_Get_Parameter_Description (Some ''w$'') (Some ''wbbbx00bbddda'')) no_command 2
     (ucast RDM_PID_MANUFACTURER_SPECIFIC_END) (ucast RDM_PID_MANUFACTURER_SPECIFIC_BEGIN)"

definition rdm_register_parameter_description :: "nat \<Rightarrow> rdm_callback_t option \<Rightarrow> nat option \<Rightarrow>
    (world, bool) cmd" where
  "rdm_register_parameter_description dmx_num cb context = check_port dmx_num False
     (rdm_register dmx_num RDM_PID_PARAMETER_DESCRIPTION DMX_PARAMETER_TYPE_STATIC Init_Null 0
        parameter_description_definition cb context)"

definition rdm_get_parameter_description :: "nat \<Rightarrow> u16 \<Rightarrow> (world, bytes) cmd" where
  "rdm_get_parameter_description dmx_num pid = check_port dmx_num []
     (if pid < RDM_PID_MANUFACTURER_SPECIFIC_BEGIN \<or> pid > RDM_PID_MANUFACTURER_SPECIFIC_END then ret []
      else bind_c (query (rdm_definition_get dmx_num RDM_SUB_DEVICE_ROOT pid)) (\<lambda>requested.
        case requested of None \<Rightarrow> ret [] | Some d \<Rightarrow> describe pid d))"

section \<open>Queued messages\<close>

text \<open>
  The handler up to its last call: either the size it returns, or the handler, definition and header
  it continues with.
\<close>

definition queued_message_step ::
  "nat \<Rightarrow> rdm_parameter_definition_t \<Rightarrow> rdm_header_t \<Rightarrow>
   (world, nat + (rdm_handler_t option \<times> rdm_parameter_definition_t \<times> rdm_header_t)) cmd" where
  "queued_message_step dmx_num def header =
     (if h_sub_device header \<noteq> RDM_SUB_DEVICE_ROOT then
        bind_c (rdm_write_nack_reason dmx_num header RDM_NR_SUB_DEVICE_OUT_OF_RANGE) (\<lambda>n. ret (Inl n))
      else bind_c (read_local dmx_num (request_format (def_get def)) 1 1) (\<lambda>(k, obj).
      if k = 0 then
        bind_c (rdm_write_nack_reason dmx_num header RDM_NR_FORMAT_ERROR) (\<lambda>n. ret (Inl n))
      else if ucast (obj ! 0) < def_min_value def \<or> ucast (obj ! 0) > def_max_value def then
        bind_c (rdm_write_nack_reason dmx_num header RDM_NR_DATA_OUT_OF_RANGE) (\<lambda>n. ret (Inl n))
      else bind_c (rdm_queue_size dmx_num) (\<lambda>sz.
      if sz > 0 then
        bind_c (rdm_queue_pop dmx_num) (\<lambda>pid.
        bind_c (query (rdm_definition_get dmx_num RDM_SUB_DEVICE_ROOT pid)) (\<lambda>response_definition.
        case response_definition of
          None \<Rightarrow> throw Assert_Failed
        | Some d \<Rightarrow> ret (Inr (handler (def_get d), d, header\<lparr>h_pid := pid\<rparr>))))
      else
        bind_c (query (rdm_definition_get dmx_num RDM_SUB_DEVICE_ROOT RDM_PID_STATUS_MESSAGE))
          (\<lambda>response_definition.
        case response_definition of
          None \<Rightarrow> bind_c (rdm_write_ack dmx_num (header\<lparr>h_pid := RDM_PID_STATUS_MESSAGE\<rparr>) None None 0)
                    (\<lambda>n. ret (Inl n))
        | Some d \<Rightarrow> ret (Inr (handler (def_get d), d, header\<lparr>h_pid := RDM_PID_STATUS_MESSAGE\<rparr>))))))"

text \<open>The handlers other than the one of the queue.\<close>

fun leaf_handler :: "rdm_handler_t \<Rightarrow> handler_fun" where
  "leaf_handler Rhd_Discovery = rdm_rhd_discovery"
| "leaf_handler Rhd_Simple = rdm_simple_response_handler"
| "leaf_handler Rhd_Get_Device_Info = rdm_rhd_get_device_info"
| "leaf_handler Rhd_Get_Set_Language = rdm_rhd_get_set_language"
| "leaf_handler Rhd_Get_Supported_Parameters = rdm_rhd_get_supported_parameters"
| "leaf_handler Rhd_Get_Parameter_Description = rdm_rhd_get_parameter_description"
| "leaf_handler Rhd_Set_Dmx_Personality = rdm_rhd_set_dmx_personality"
| "leaf_handler Rhd_Get_Dmx_Personality_Description = rdm_rhd_get_dmx_personality_description"
| "leaf_handler Rhd_Set_Reset_Device = rdm_rhd_set_reset_device"
| "leaf_handler Rhd_Get_Set_Sensor_Value = rdm_rhd_get_set_sensor_value"
| "leaf_handler Rhd_Set_Record_Sensors = rdm_rhd_set_record_sensors"
| "leaf_handler Rhd_Get_Sensor_Definition = rdm_rhd_get_sensor_definition"
| "leaf_handler Rhd_Get_Queued_Message = (\<lambda>_ _ _. throw Unreachable)"

text \<open>
  The handler of the queue calls the handler of the popped PID, which may be itself; \<open>None\<close> is a
  recursion that does not end.
\<close>

partial_function (option) queued_message ::
  "nat \<Rightarrow> rdm_parameter_definition_t \<Rightarrow> rdm_header_t \<Rightarrow> world \<Rightarrow> (nat \<times> world) res option" where
  "queued_message dmx_num def header w =
     (case queued_message_step dmx_num def header w of
        Inl e \<Rightarrow> Some (Inl e)
      | Inr (r, w') \<Rightarrow> (case r of
          Inl n \<Rightarrow> Some (Inr (n, w'))
        | Inr (h, def', header') \<Rightarrow> (case h of
            None \<Rightarrow> Some (Inl Null_Deref)
          | Some hn \<Rightarrow>
              if hn = Rhd_Get_Queued_Message then queued_message dmx_num def' header' w'
              else Some (leaf_handler hn dmx_num def' header' w'))))"

declare queued_message.simps [code]

definition rdm_rhd_get_queued_message :: handler_fun where
  "rdm_rhd_get_queued_message dmx_num def header w =
     (case queued_message dmx_num def header w of None \<Rightarrow> Inl Loops_Forever | Some r \<Rightarrow> r)"

definition call_handler :: "rdm_handler_t option \<Rightarrow> handler_fun" where
  "call_handler h dmx_num def header = (case h of
     None \<Rightarrow> throw Null_Deref
   | Some hn \<Rightarrow> if hn = Rhd_Get_Queued_Message then rdm_rhd_get_queued_message dmx_num def header
                 else leaf_handler hn dmx_num def header)"

definition queued_message_definition :: rdm_parameter_definition_t where
  "queued_message_definition = parameter_definition RDM_CC_GET RDM_DS_NOT_DEFINED
     (command Rhd_Get_Queued_Message None (Some ''b$'')) no_command 1
     (ucast RDM_STATUS_ERROR) (ucast RDM_STATUS_GET_LAST_MESSAGE)"

definition rdm_register_queued_message :: "nat \<Rightarrow> u32 \<Rightarrow> rdm_callback_t option \<Rightarrow> nat option \<Rightarrow>
    (world, bool) cmd" where
  "rdm_register_queued_message dmx_num max_count cb context = check_port dmx_num False
     (if \<not> max_count > 0 then ret False
      else bind_c (dmx_parameter_add dmx_num RDM_SUB_DEVICE_ROOT RDM_PID_QUEUED_MESSAGE
             DMX_PARAMETER_TYPE_DYNAMIC Init_Null (unat (8 + 2 * max_count))) (\<lambda>added.
        if \<not> added then ret False
        else bind_c (query (rdm_get_queue dmx_num)) (\<lambda>queue.
          case queue of
            None \<Rightarrow> throw Assert_Failed
          | Some a \<Rightarrow>
              then_c (heap_store a 6 (le16 (ucast max_count)))
             (then_c (rdm_definition_set dmx_num RDM_SUB_DEVICE_ROOT RDM_PID_QUEUED_MESSAGE
                queued_message_definition)
                (rdm_callback_set dmx_num RDM_SUB_DEVICE_ROOT RDM_PID_QUEUED_MESSAGE cb context)))))"

section \<open>The report of the supported parameters\<close>

definition root_pids :: "dmx_driver_t \<Rightarrow> u16 list" where
  "root_pids d = map p_pid (dev_parameters (d_devices d ! 0))"

text \<open>An entry that is free: the position of a zero within the count.\<close>

definition free_slot :: "dmx_driver_t \<Rightarrow> nat \<Rightarrow> bool" where
  "free_slot d j \<longleftrightarrow> j < length (root_pids d) \<and> j \<le> d_count_root d \<and> root_pids d ! j = 0"

lemma parameter_at_root:
  assumes "wf_port w n d" "free_slot d j" "i \<le> j"
  shows "dmx_parameter_at n RDM_SUB_DEVICE_ROOT i w = Inr (root_pids d ! i)"
proof -
  have "find_index (\<lambda>dev. dev_num dev = 0) (d_devices d) = Some 0"
    using assms(1) by (auto simp: find_index_Some_iff wf_port_def wf_driver_def)
  then show ?thesis
    using assms by (simp add: dmx_parameter_at_def wf_port_simps free_slot_def root_pids_def)
qed

lemma collect_pids_reference:
  assumes "wf_port w n d" "free_slot d j" "i \<le> j"
  shows "collect_pids n RDM_SUB_DEVICE_ROOT i fuel w =
     Inr (filter (\<lambda>pid. pid \<notin> set minimum_pids) (takeWhile (\<lambda>pid. pid \<noteq> 0) (take fuel (drop i (root_pids d)))))"
  using assms(3)
proof (induction fuel arbitrary: i)
  case (Suc fuel)
  have i: "i < length (root_pids d)" using assms(2) Suc.prems by (simp add: free_slot_def)
  have at: "dmx_parameter_at n RDM_SUB_DEVICE_ROOT i w = Inr (root_pids d ! i)"
    by (rule parameter_at_root [OF assms(1,2) Suc.prems])
  show ?case
  proof (cases "root_pids d ! i = 0")
    case True
    then show ?thesis using at by (simp add: Cons_nth_drop_Suc [OF i, symmetric] bind_r_def)
  next
    case False
    then have "Suc i \<le> j" using assms(2) Suc.prems by (cases "i = j") (auto simp: free_slot_def)
    from Suc.IH [OF this] show ?thesis
      using False at by (simp add: Cons_nth_drop_Suc [OF i, symmetric] bind_r_def)
  qed
qed simp

lemma count_pids_reference:
  assumes "wf_port w n d" "free_slot d j" "i \<le> j" "j < i + fuel"
  shows "count_pids n i fuel w = Inr (length (takeWhile (\<lambda>pid. pid \<noteq> 0) (drop i (root_pids d))))"
  using assms(3,4)
proof (induction fuel arbitrary: i)
  case (Suc fuel)
  have i: "i < length (root_pids d)" using assms(2) Suc.prems by (simp add: free_slot_def)
  have at: "dmx_parameter_at n RDM_SUB_DEVICE_ROOT i w = Inr (root_pids d ! i)"
    by (rule parameter_at_root [OF assms(1,2) Suc.prems(1)])
  show ?case
  proof (cases "root_pids d ! i = 0")
    case True
    then show ?thesis using at by (simp add: Cons_nth_drop_Suc [OF i, symmetric] bind_r_def)
  next
    case False
    then have "Suc i \<le> j" using assms(2) Suc.prems by (cases "i = j") (auto simp: free_slot_def)
    from Suc.IH [OF this] show ?thesis
      using False at Suc.prems by (simp add: Cons_nth_drop_Suc [OF i, symmetric] bind_r_def)
  qed
qed simp

lemma write_pids_stuck:
  assumes "dmx_parameter_at n RDM_SUB_DEVICE_ROOT i w = Inr pid" "pid \<in> set minimum_pids" "pid \<noteq> 0"
  shows "write_pids n i slots w = Inr ([], i)"
  by (induction slots) (use assms in \<open>simp_all add: bind_r_def\<close>)


text \<open>
  The getter \<^verbatim>\<open>rdm_get_supported_parameters\<close> of the same list does not agree: when the first PID of the root device
  is one that every responder has, nothing at all is written to the buffer, whatever its size, while
  the returned size counts every PID.
\<close>

lemma supported_parameters_getter_stuck:
  assumes "wf_port w n d" "free_slot d j" "root_pids d ! 0 \<in> set minimum_pids"
  shows "rdm_get_supported_parameters n room w =
     Inr ((length (takeWhile (\<lambda>pid. pid \<noteq> 0) (root_pids d)) * 2, []), w)"
proof -
  have nz: "root_pids d ! 0 \<noteq> 0" using assms(3) by (auto simp: minimum_pids_def)
  have none: "write_pids n 0 slots w = Inr ([], 0)" for slots
    by (rule write_pids_stuck [OF parameter_at_root [OF assms(1,2)] assms(3) nz]) simp
  have "j < 0 + (d_count_root d + 2)" using assms(2) by (simp add: free_slot_def)
  from count_pids_reference [OF assms(1,2) _ this] show ?thesis
    using assms(1) by (simp add: rdm_get_supported_parameters_def check_port_def query_def bind_c_def ret_def none wf_port_simps)
qed

text \<open>A root device with four entries of which three are used: DISC_UNIQUE_BRANCH, DISC_MUTE and DEVICE_HOURS.\<close>

definition demo_pids_driver :: dmx_driver_t where
  "demo_pids_driver = (demo_driver 4)\<lparr>d_devices := [\<lparr>dev_num = 0, dev_parameters =
     [blank_parameter\<lparr>p_pid := 1\<rparr>, blank_parameter\<lparr>p_pid := 2\<rparr>, blank_parameter\<lparr>p_pid := 0x400\<rparr>,
      blank_parameter]\<rparr>]\<rparr>"

definition demo_pids_world :: world where
  "demo_pids_world = (demo_world 4)\<lparr>drv := (\<lambda>_. None)(0 \<mapsto> demo_pids_driver)\<rparr>"

lemma demo_pids_port: "wf_port demo_pids_world 0 demo_pids_driver"
  by (simp add: wf_port_def wf_driver_def wf_device_def live_def
      param_count_def staged_in_def is_staged_def packed_def packed_pids_def wf_entry_def
      demo_pids_world_def demo_pids_driver_def demo_world_def demo_driver_def initial_driver_def boot_world_def
      blank_parameter_def take_Cons')

lemma demo_pids_list: "root_pids demo_pids_driver = [1, 2, 0x400, 0]"
  by (simp add: root_pids_def demo_pids_driver_def blank_parameter_def)

lemma demo_pids_free: "free_slot demo_pids_driver 3"
  by (simp add: free_slot_def demo_pids_list) (simp add: demo_pids_driver_def demo_driver_def initial_driver_def)


lemma supported_parameters_getter_stuck_witness:
  "rdm_get_supported_parameters 0 (Some 64) demo_pids_world = Inr ((6, []), demo_pids_world)"
  using supported_parameters_getter_stuck [OF demo_pids_port demo_pids_free, of "Some 64"]
  by (simp add: demo_pids_list minimum_pids_def)

end
