(* ===== verification/Dmx_Isr.thy ===== *)
theory Dmx_Isr
  imports Rdm_Driver
begin

text \<open>
  The interrupt handlers of \<^verbatim>\<open>dmx/hal/uart.c\<close>, \<^verbatim>\<open>timer.c\<close> and \<^verbatim>\<open>gpio.c\<close>, which move the bytes of a packet
  between the driver's buffer and the UART and drive the state machine of a port (\<open>d_status\<close>,
  \<open>d_progress\<close>, \<open>d_head\<close>), and the delivery of interrupts to a blocked task.
\<close>

section \<open>Constants\<close>

definition RDM_TIMING_CONTROLLER_REQUEST_TO_REQUEST_MIN :: int where
  "RDM_TIMING_CONTROLLER_REQUEST_TO_REQUEST_MIN = 176"
definition RDM_TIMING_CONTROLLER_REQUEST_TO_RESPONSE_MAX :: int where
  "RDM_TIMING_CONTROLLER_REQUEST_TO_RESPONSE_MAX = 2800"
definition RDM_TIMING_CONTROLLER_RESPONSE_LOST_MIN :: int where
  "RDM_TIMING_CONTROLLER_RESPONSE_LOST_MIN = 3000"
definition RDM_TIMING_CONTROLLER_DISCOVERY_TO_REQUEST_MIN :: int where
  "RDM_TIMING_CONTROLLER_DISCOVERY_TO_REQUEST_MIN = 5800"
definition RDM_TIMING_CONTROLLER_DISCOVERY_TRANSACTION_MIN :: int where
  "RDM_TIMING_CONTROLLER_DISCOVERY_TRANSACTION_MIN = 5800"
definition RDM_TIMING_RESPONDER_MIN :: int where
  "RDM_TIMING_RESPONDER_MIN = 176"
definition RDM_TIMING_RESPONDER_MAX :: int where
  "RDM_TIMING_RESPONDER_MAX = 2000"
definition RDM_TIMING_RESPONDER_INTER_SLOT_MAX :: int where
  "RDM_TIMING_RESPONDER_INTER_SLOT_MAX = 2000"

definition DMX_OK :: int where [simp]: "DMX_OK = 0"
definition DMX_ERR_TIMEOUT :: int where [simp]: "DMX_ERR_TIMEOUT = 1"
definition DMX_ERR_UART_OVERFLOW :: int where [simp]: "DMX_ERR_UART_OVERFLOW = 2"
definition DMX_ERR_IMPROPER_SLOT :: int where [simp]: "DMX_ERR_IMPROPER_SLOT = 3"
definition DMX_ERR_NOT_ENOUGH_SLOTS :: int where [simp]: "DMX_ERR_NOT_ENOUGH_SLOTS = 4"

text \<open>\<open>flags & mask\<close> as a condition.\<close>

definition any_flag :: "intr_mask \<Rightarrow> intr_mask \<Rightarrow> bool" where
  "any_flag flags m \<longleftrightarrow> list_ex (\<lambda>f. f \<in> set m) flags"

section \<open>Receiving\<close>

text \<open>
  The FIFO is read into the buffer while there is room; otherwise its bytes are counted and dropped.
  The result is the local variable \<^verbatim>\<open>dmx_head\<close>.
\<close>

definition rx_read :: "nat \<Rightarrow> (world, int) cmd" where
  "rx_read dmx_num =
     bind_c (query (get_drv dmx_num)) (\<lambda>d.
     if d_head d \<ge> 0 \<and> d_head d < int DMX_PACKET_SIZE_MAX then
       bind_c (dmx_uart_read_rxfifo dmx_num (int DMX_PACKET_SIZE_MAX - d_head d)) (\<lambda>bs.
       bind_c (lift_c (store (nat (d_head d)) bs (d_data d))) (\<lambda>data.
       then_c (upd_drv dmx_num (\<lambda>d. d\<lparr>d_data := data, d_head := d_head d + int (length bs)\<rparr>))
         (ret (d_head d + int (length bs)))))
     else if d_head d > 0 then
       bind_c (dmx_uart_get_rxfifo_len dmx_num) (\<lambda>len.
       then_c (upd_drv dmx_num (\<lambda>d. d\<lparr>d_head := d_head d + len\<rparr>))
      (then_c (dmx_uart_rxfifo_reset dmx_num) (ret (d_head d + len))))
     else then_c (dmx_uart_rxfifo_reset dmx_num) (ret (d_head d)))"

text \<open>\<^verbatim>\<open>xTaskNotifyFromISR\<close> on the waiting task, if there is one.\<close>

definition notify_waiting :: "nat \<Rightarrow> int \<Rightarrow> (world, unit) cmd" where
  "notify_waiting dmx_num err =
     bind_c (query (get_drv dmx_num)) (\<lambda>d.
     if d_task_waiting d then ext_u (Rtos (Notify_From_Isr dmx_num err)) else ret ())"

definition rx_break :: "nat \<Rightarrow> int \<Rightarrow> (world, unit) cmd" where
  "rx_break dmx_num dmx_head =
     bind_c (query (get_drv dmx_num)) (\<lambda>d.
     then_c (if d_progress d = DMX_PROGRESS_IN_DATA \<and> dmx_head > 0 then
               then_c (upd_drv dmx_num (\<lambda>d. d\<lparr>d_size := dmx_head - 1\<rparr>))
                 (notify_waiting dmx_num DMX_ERR_NOT_ENOUGH_SLOTS)
             else ret ())
       (upd_drv dmx_num (\<lambda>d. d\<lparr>d_status := DMX_STATUS_RECEIVING,
          d_progress := DMX_PROGRESS_IN_BREAK, d_head := 0\<rparr>)))"

datatype rdm_type_t =
    RDM_TYPE_IS_NOT_RDM | RDM_TYPE_IS_DISCOVERY | RDM_TYPE_IS_RESPONSE | RDM_TYPE_IS_BROADCAST
  | RDM_TYPE_IS_REQUEST | RDM_TYPE_IS_UNKNOWN

text \<open>A standard DMX packet is complete when the expected number of slots has been received.\<close>

definition parse_dmx :: "nat \<Rightarrow> int \<Rightarrow> (world, bool) cmd" where
  "parse_dmx dmx_num dmx_head =
     then_c (upd_drv dmx_num (\<lambda>d. d\<lparr>d_last_controller_pid := 0, d_responder_sent_last := False\<rparr>))
    (bind_c (query (get_drv dmx_num)) (\<lambda>d. ret (dmx_head \<ge> d_size d)))"

text \<open>The index of the delimiter; 9 when a slot before it is not a preamble byte.\<close>

function delimiter_index :: "nat \<Rightarrow> bytes \<Rightarrow> nat" where
  "delimiter_index i data =
     (if i > 7 then i
      else if data ! i \<noteq> RDM_PREAMBLE then (if data ! i \<noteq> RDM_DELIMITER then 9 else i)
      else delimiter_index (i + 1) data)"
  by pat_completeness auto

termination by (relation "measure (\<lambda>(i, data). 8 - i)") simp_all

declare delimiter_index.simps [simp del]

definition parse_discovery :: "nat \<Rightarrow> int \<Rightarrow> (world, bool) cmd" where
  "parse_discovery dmx_num dmx_head =
     (if dmx_head < 17 then ret False
      else bind_c (query (get_drv dmx_num)) (\<lambda>d.
        (let delimiter_idx = delimiter_index 0 (d_data d) in
         if delimiter_idx > 8 then parse_dmx dmx_num dmx_head
         else if dmx_head < int delimiter_idx + 17 then ret False
         else bind_c (query (rdm_read_header dmx_num)) (\<lambda>header.
           if header = None then parse_dmx dmx_num dmx_head
           else then_c (upd_drv dmx_num (\<lambda>d. d\<lparr>d_last_responder_pid := RDM_PID_DISC_UNIQUE_BRANCH,
                    d_responder_sent_last := True\<rparr>))
             (ret True)))))"

text \<open>The destination and the PID of a standard packet are read from the buffer again.\<close>

definition packet_dest_uid :: "bytes \<Rightarrow> rdm_uid_t" where
  "packet_dest_uid data =
     Rdm_Uid (bswap16 (of_le16 (slice 3 2 data))) (bswap32 (of_le32 (slice 5 4 data)))"

definition packet_pid :: "bytes \<Rightarrow> u16" where
  "packet_pid data = bswap16 (of_le16 (slice 21 2 data))"

definition parse_rdm :: "nat \<Rightarrow> int \<Rightarrow> int \<Rightarrow> (world, bool) cmd" where
  "parse_rdm dmx_num now dmx_head =
     (if dmx_head < 26 then ret False
      else bind_c (query (get_drv dmx_num)) (\<lambda>d.
        (let data = d_data d; msg_len = data ! 2 in
         if data ! 1 \<noteq> RDM_SUB_SC \<or> \<not> rdm_cc_is_valid (data ! 20) \<or> msg_len < 24 then
           parse_dmx dmx_num dmx_head
         else if dmx_head < uint msg_len + 2 then ret False
         else bind_c (query (rdm_read_header dmx_num)) (\<lambda>header.
           if header = None then parse_dmx dmx_num dmx_head
           else
             (let rdm_type = (if \<not> rdm_cc_is_request (data ! 20) then RDM_TYPE_IS_RESPONSE
                              else if rdm_uid_is_broadcast (packet_dest_uid data) then RDM_TYPE_IS_BROADCAST
                              else RDM_TYPE_IS_REQUEST);
                  responder_sent_last = (rdm_type = RDM_TYPE_IS_RESPONSE) in
              then_c (upd_drv dmx_num (\<lambda>d.
                  if \<not> responder_sent_last then
                    d\<lparr>d_controller_eop_timestamp := now, d_last_controller_pid := packet_pid data\<rparr>
                  else d\<lparr>d_last_responder_pid := packet_pid data\<rparr>))
             (then_c (upd_drv dmx_num (\<lambda>d. d\<lparr>d_responder_sent_last := responder_sent_last\<rparr>))
                (ret True)))))))"

text \<open>
  The processing of received data: the error code and whether the packet is complete. An error of
  the UART completes the packet.
\<close>

definition rx_process :: "nat \<Rightarrow> int \<Rightarrow> intr_mask \<Rightarrow> int \<Rightarrow> (world, int \<times> bool) cmd" where
  "rx_process dmx_num now flags dmx_head =
     (if any_flag flags DMX_INTR_RX_ERR then
        ret (if DMX_INTR_RX_FIFO_OVERFLOW \<in> set flags then DMX_ERR_UART_OVERFLOW else DMX_ERR_IMPROPER_SLOT,
             True)
      else bind_c (query (get_drv dmx_num)) (\<lambda>d.
        (let sc = d_data d ! 0;
             rdm_type = (if sc = RDM_SC then RDM_TYPE_IS_UNKNOWN
                         else if sc = RDM_PREAMBLE \<or> sc = RDM_DELIMITER then RDM_TYPE_IS_DISCOVERY
                         else RDM_TYPE_IS_NOT_RDM) in
         then_c (if rdm_type = RDM_TYPE_IS_NOT_RDM then
                   upd_drv dmx_num (\<lambda>d. d\<lparr>d_controller_eop_timestamp := now\<rparr>) else ret ())
        (then_c (if d_is_controller d \<and> rdm_type \<noteq> RDM_TYPE_IS_NOT_RDM then
                   then_c (dmx_timer_set_counter dmx_num 0)
                     (dmx_timer_set_alarm dmx_num RDM_TIMING_RESPONDER_INTER_SLOT_MAX False)
                 else ret ())
        (bind_c (if rdm_type = RDM_TYPE_IS_DISCOVERY then parse_discovery dmx_num dmx_head
                 else if rdm_type \<noteq> RDM_TYPE_IS_NOT_RDM then parse_rdm dmx_num now dmx_head
                 else parse_dmx dmx_num dmx_head) (\<lambda>packet_is_complete.
         ret (DMX_OK, packet_is_complete)))))))"

text \<open>The receive branch of the handler's loop, for one value of the interrupt status.\<close>

definition uart_rx :: "nat \<Rightarrow> int \<Rightarrow> intr_mask \<Rightarrow> (world, unit) cmd" where
  "uart_rx dmx_num now flags =
     bind_c (rx_read dmx_num) (\<lambda>dmx_head.
     then_c (dmx_uart_clear_interrupt dmx_num DMX_INTR_RX_ALL)
    (if DMX_INTR_RX_BREAK \<in> set flags then rx_break dmx_num dmx_head
     else
       then_c (upd_drv dmx_num (\<lambda>d.
           if d_progress d = DMX_PROGRESS_IN_BREAK \<or> d_progress d = DMX_PROGRESS_IN_MAB
           then d\<lparr>d_progress := DMX_PROGRESS_IN_DATA\<rparr> else d))
      (bind_c (query (get_drv dmx_num)) (\<lambda>d.
       if d_progress d \<noteq> DMX_PROGRESS_IN_DATA then ret ()
       else bind_c (rx_process dmx_num now flags dmx_head) (\<lambda>(err, packet_is_complete).
         if \<not> packet_is_complete then ret ()
         else
           then_c (dmx_timer_stop dmx_num)
          (then_c (upd_drv dmx_num (\<lambda>d. d\<lparr>d_progress := DMX_PROGRESS_COMPLETE, d_status := DMX_STATUS_IDLE\<rparr>))
             (notify_waiting dmx_num err)))))))"

section \<open>Transmitting\<close>

definition uart_tx_data :: "nat \<Rightarrow> (world, unit) cmd" where
  "uart_tx_data dmx_num =
     bind_c (query (get_drv dmx_num)) (\<lambda>d.
     if d_head d < 0 then throw Out_Of_Bounds
     else bind_c (dmx_uart_write_txfifo dmx_num (drop (nat (d_head d)) (d_data d)) (d_size d - d_head d))
       (\<lambda>write_len.
        then_c (upd_drv dmx_num (\<lambda>d. d\<lparr>d_head := d_head d + write_len\<rparr>))
       (then_c (dmx_uart_clear_interrupt dmx_num [DMX_INTR_TX_DATA])
       (bind_c (query (get_drv dmx_num)) (\<lambda>d.
        if d_head d = d_size d then dmx_uart_disable_interrupt dmx_num [DMX_INTR_TX_DATA]
        else ret ())))))"

definition response_expected :: "dmx_driver_t \<Rightarrow> bool" where
  "response_expected d \<longleftrightarrow>
     \<not> (\<not> d_is_controller d \<or> d_last_controller_pid d = 0 \<or>
        (last_request_was_broadcast d \<and> d_last_controller_pid d \<noteq> RDM_PID_DISC_UNIQUE_BRANCH))"

definition uart_tx_done :: "nat \<Rightarrow> int \<Rightarrow> (world, unit) cmd" where
  "uart_tx_done dmx_num now =
     then_c (dmx_uart_disable_interrupt dmx_num DMX_INTR_TX_ALL)
    (then_c (dmx_uart_clear_interrupt dmx_num [DMX_INTR_TX_DONE])
    (then_c (upd_drv dmx_num (\<lambda>d. if d_is_controller d then d\<lparr>d_controller_eop_timestamp := now\<rparr> else d))
    (then_c (upd_drv dmx_num (\<lambda>d. d\<lparr>d_progress := DMX_PROGRESS_COMPLETE, d_status := DMX_STATUS_IDLE\<rparr>))
    (bind_c (query (get_drv dmx_num)) (\<lambda>d.
     then_c (if d_task_waiting d then ext_u (Rtos (Notify_From_Isr_No_Action dmx_num)) else ret ())
    (if \<not> response_expected d then ret ()
     else
       (let discovery = (d_last_controller_pid d = RDM_PID_DISC_UNIQUE_BRANCH) in
        then_c (upd_drv dmx_num (\<lambda>d. d\<lparr>d_head := if discovery then 0 else DMX_HEAD_WAITING_FOR_BREAK\<rparr>))
       (then_c (dmx_uart_rxfifo_reset dmx_num)
       (then_c (dmx_uart_set_rts dmx_num True)
         (upd_drv dmx_num (\<lambda>d. d\<lparr>d_progress :=
            if discovery then DMX_PROGRESS_IN_DATA else DMX_PROGRESS_STALE\<rparr>)))))))))))"

section \<open>The handlers\<close>

text \<open>One round of the loop: receive flags come first, then data to send, then the end of sending.\<close>

definition uart_round :: "nat \<Rightarrow> int \<Rightarrow> intr_mask \<Rightarrow> (world, unit) cmd" where
  "uart_round dmx_num now flags =
     (if any_flag flags DMX_INTR_RX_ALL then uart_rx dmx_num now flags
      else if DMX_INTR_TX_DATA \<in> set flags then uart_tx_data dmx_num
      else if DMX_INTR_TX_DONE \<in> set flags then uart_tx_done dmx_num now
      else ret ())"

text \<open>The loop ends at the first interrupt status without a flag.\<close>

fun uart_rounds :: "nat \<Rightarrow> int \<Rightarrow> intr_mask list \<Rightarrow> (world, unit) cmd" where
  "uart_rounds dmx_num now [] = ret ()"
| "uart_rounds dmx_num now (flags # rest) =
     (if flags = [] then ret ()
      else then_c (uart_round dmx_num now flags) (uart_rounds dmx_num now rest))"

definition dmx_uart_isr :: "nat \<Rightarrow> intr_mask list \<Rightarrow> (world, unit) cmd" where
  "dmx_uart_isr dmx_num statuses =
     bind_c dmx_timer_get_micros_since_boot (\<lambda>now. uart_rounds dmx_num now statuses)"

definition dmx_timer_isr :: "nat \<Rightarrow> (world, unit) cmd" where
  "dmx_timer_isr dmx_num =
     bind_c (query (get_drv dmx_num)) (\<lambda>d.
     if d_status d = DMX_STATUS_SENDING then
       if d_progress d = DMX_PROGRESS_IN_BREAK then
         then_c (dmx_uart_invert_tx dmx_num False)
        (then_c (upd_drv dmx_num (\<lambda>d. d\<lparr>d_progress := DMX_PROGRESS_IN_MAB\<rparr>))
           (dmx_timer_set_alarm dmx_num (uint (d_mab_len d)) False))
       else
         bind_c (dmx_uart_write_txfifo dmx_num (d_data d) (d_size d)) (\<lambda>write_len.
         then_c (upd_drv dmx_num (\<lambda>d. d\<lparr>d_head := write_len\<rparr>))
        (then_c (dmx_timer_stop dmx_num)
           (dmx_uart_enable_interrupt dmx_num DMX_INTR_TX_ALL)))
     else
       then_c (notify_waiting dmx_num DMX_OK) (dmx_timer_stop dmx_num))"

text \<open>The metadata is double-buffered: a new break is recorded in the other half.\<close>

definition set_metadata :: "nat \<Rightarrow> (dmx_metadata_t \<Rightarrow> dmx_metadata_t) \<Rightarrow> (world, unit) cmd" where
  "set_metadata dmx_num f =
     bind_c (query (get_drv dmx_num)) (\<lambda>d.
     if d_sniffer_index d < length (d_sniffer_metadata d) then
       upd_drv dmx_num (\<lambda>d. d\<lparr>d_sniffer_metadata := (d_sniffer_metadata d)
         [d_sniffer_index d := f (d_sniffer_metadata d ! d_sniffer_index d)]\<rparr>)
     else throw Out_Of_Bounds)"

definition dmx_gpio_isr :: "nat \<Rightarrow> (world, unit) cmd" where
  "dmx_gpio_isr dmx_num =
     bind_c dmx_timer_get_micros_since_boot (\<lambda>now.
     bind_c (dmx_gpio_read dmx_num) (\<lambda>level.
     bind_c (query (get_drv dmx_num)) (\<lambda>d.
     if level \<noteq> 0 then
       then_c (if d_progress d = DMX_PROGRESS_IN_BREAK \<and> d_last_neg_edge_ts d > -1 then
                 then_c (upd_drv dmx_num (\<lambda>d. d\<lparr>d_sniffer_index := if d_sniffer_index d = 0 then 1 else 0\<rparr>))
                (then_c (set_metadata dmx_num (\<lambda>m. m\<lparr>md_break_len := of_int (now - d_last_neg_edge_ts d)\<rparr>))
                   (upd_drv dmx_num (\<lambda>d. d\<lparr>d_progress := DMX_PROGRESS_IN_MAB\<rparr>)))
               else ret ())
         (upd_drv dmx_num (\<lambda>d. d\<lparr>d_last_pos_edge_ts := now\<rparr>))
     else
       then_c (if d_progress d = DMX_PROGRESS_IN_MAB then
                 then_c (set_metadata dmx_num (\<lambda>m. m\<lparr>md_mab_len := of_int (now - d_last_pos_edge_ts d)\<rparr>))
                   (upd_drv dmx_num (\<lambda>d. d\<lparr>d_progress := DMX_PROGRESS_IN_DATA\<rparr>))
               else ret ())
         (upd_drv dmx_num (\<lambda>d. d\<lparr>d_last_neg_edge_ts := now\<rparr>)))))"

section \<open>Delivery of interrupts\<close>

fun deliver :: "hw_event \<Rightarrow> (world, unit) cmd" where
  "deliver (Uart_Irq n statuses) = dmx_uart_isr n statuses"
| "deliver (Timer_Irq n) = dmx_timer_isr n"
| "deliver (Gpio_Irq n) = dmx_gpio_isr n"

text \<open>
  A call of the operating system that blocks the task: the handlers of the interrupts that arrive in
  the meantime run before it returns.
\<close>

definition blocking :: "rtos_call \<Rightarrow> (world, int) cmd" where
  "blocking c = bind_c (ext (Rtos c)) (\<lambda>r. then_c (for_c (r_events r) deliver) (ret (r_code r)))"

end
