(* ===== verification/Dmx_Driver.thy ===== *)
theory Dmx_Driver
  imports Rdm_Info Dmx_Isr
begin

text \<open>
  Installing, deleting and configuring a port, \<^verbatim>\<open>dmx/driver.c\<close>, and the sniffer, \<^verbatim>\<open>dmx/sniffer.c\<close>. The
  functions that switch a port on and off are in \<open>Dmx_Hal\<close>. Which GPIO numbers exist is vendor code:
  the pin checks take it as an argument.
\<close>

section \<open>The sniffer\<close>

definition dmx_tx_pin_is_valid :: "(int \<Rightarrow> bool) \<Rightarrow> int \<Rightarrow> bool" where
  "dmx_tx_pin_is_valid valid_output tx \<longleftrightarrow> tx < 0 \<or> valid_output tx"

definition dmx_rx_pin_is_valid :: "(int \<Rightarrow> bool) \<Rightarrow> int \<Rightarrow> bool" where
  "dmx_rx_pin_is_valid valid_gpio rx \<longleftrightarrow> rx < 0 \<or> valid_gpio rx"

definition dmx_rts_pin_is_valid :: "(int \<Rightarrow> bool) \<Rightarrow> int \<Rightarrow> bool" where
  "dmx_rts_pin_is_valid valid_output rts \<longleftrightarrow> rts < 0 \<or> valid_output rts"

definition dmx_sniffer_pin_is_valid :: "(int \<Rightarrow> bool) \<Rightarrow> int \<Rightarrow> bool" where
  "dmx_sniffer_pin_is_valid valid_gpio sniffer \<longleftrightarrow> valid_gpio sniffer"

definition dmx_sniffer_is_enabled :: "nat \<Rightarrow> world \<Rightarrow> bool" where
  "dmx_sniffer_is_enabled dmx_num w =
     (dmx_driver_is_installed dmx_num w \<and>
      (case drv w dmx_num of None \<Rightarrow> False | Some d \<Rightarrow> d_sniffer_enabled d))"

definition dmx_sniffer_enable :: "(int \<Rightarrow> bool) \<Rightarrow> nat \<Rightarrow> int \<Rightarrow> (world, bool) cmd" where
  "dmx_sniffer_enable valid_gpio dmx_num intr_pin =
     (if \<not> dmx_num < DMX_NUM_MAX then ret False
      else if \<not> dmx_sniffer_pin_is_valid valid_gpio intr_pin then ret False
      else bind_c (gets_c (dmx_sniffer_is_enabled dmx_num)) (\<lambda>enabled.
        if enabled then ret False
        else then_c (upd_drv dmx_num (\<lambda>d. d\<lparr>d_last_neg_edge_ts := -1\<rparr>))
         (then_c (upd_drv dmx_num (\<lambda>d. d\<lparr>d_sniffer_enabled := True\<rparr>))
           (dmx_gpio_init dmx_num intr_pin))))"

definition dmx_sniffer_disable :: "nat \<Rightarrow> (world, bool) cmd" where
  "dmx_sniffer_disable dmx_num =
     (if \<not> dmx_num < DMX_NUM_MAX then ret False
      else bind_c (gets_c (dmx_sniffer_is_enabled dmx_num)) (\<lambda>enabled.
        if \<not> enabled then ret False
        else then_c (dmx_gpio_deinit dmx_num)
         (then_c (upd_drv dmx_num (\<lambda>d. d\<lparr>d_sniffer_enabled := False\<rparr>)) (ret True))))"

text \<open>The result is the metadata written, \<open>None\<close> when the function returns false.\<close>

definition dmx_sniffer_get_data :: "nat \<Rightarrow> (world, dmx_metadata_t option) cmd" where
  "dmx_sniffer_get_data dmx_num =
     (if \<not> dmx_num < DMX_NUM_MAX then ret None
      else bind_c (gets_c (dmx_sniffer_is_enabled dmx_num)) (\<lambda>enabled.
        if \<not> enabled then ret None
        else critical dmx_num (bind_c (query (get_drv dmx_num)) (\<lambda>d.
          if d_sniffer_index d < length (d_sniffer_metadata d)
          then ret (Some (d_sniffer_metadata d ! d_sniffer_index d))
          else throw Out_Of_Bounds))))"

section \<open>Deleting a driver\<close>

text \<open>The parameters of a device: the data of dynamic ones is freed, up to the first empty entry.\<close>

fun free_parameters :: "nat \<Rightarrow> dmx_parameter_t list \<Rightarrow> (world, unit) cmd" where
  "free_parameters 0 ps = ret ()"
| "free_parameters (Suc k) [] = throw Out_Of_Bounds"
| "free_parameters (Suc k) (p # ps) =
     (if p_pid p = 0 then ret ()
      else if p_type p \<noteq> DMX_PARAMETER_TYPE_DYNAMIC then free_parameters k ps
      else then_c (free (p_data p)) (free_parameters k ps))"

definition dmx_driver_delete :: "nat \<Rightarrow> (world, bool) cmd" where
  "dmx_driver_delete dmx_num = check_port dmx_num False
     (bind_c (ext (Rtos (Mutex_Take dmx_num 0))) (\<lambda>r.
      if r_code r = 0 then ret False
      else bind_c (gets_c (dmx_sniffer_is_enabled dmx_num)) (\<lambda>enabled.
        then_c (if enabled then then_c (dmx_sniffer_disable dmx_num) (ret ()) else ret ())
       (then_c (dmx_timer_deinit dmx_num)
       (then_c (dmx_uart_deinit dmx_num)
       (bind_c (query (get_drv dmx_num)) (\<lambda>d.
        then_c (for_c (d_devices d) (\<lambda>dev. free_parameters (param_count d (dev_num dev)) (dev_parameters dev)))
       (then_c (for_c (tl (d_devices d)) (\<lambda>dev. ext_u (Mem (Device_Free (dev_num dev)))))
       (then_c (ext_u (Mem Driver_Free))
       (then_c (modify_c (\<lambda>w. w\<lparr>drv := (drv w)(dmx_num := None)\<rparr>))
       (then_c (ext_u (Rtos (Mutex_Give dmx_num)))
       (then_c (ext_u (Rtos (Mutex_Delete dmx_num))) (ret True)))))))))))))"

section \<open>Installing a driver\<close>

definition RDM_UID_MANUFACTURER_ID :: u16 where [simp]: "RDM_UID_MANUFACTURER_ID = 0x05e0"

definition RDM_MANUFACTURER_LABEL :: string where "RDM_MANUFACTURER_LABEL = ''esp_dmx''"

definition ESP_INTR_FLAG_IRAM :: int where "ESP_INTR_FLAG_IRAM = 1024"

record dmx_config_t =
  cf_interrupt_flags :: int
  cf_root_device_parameter_count :: nat
  cf_sub_device_parameter_count :: nat
  cf_model_id :: u16
  cf_product_category :: u16
  cf_software_version_id :: u32
  cf_software_version_label :: "bytes option"
  cf_queue_size_max :: u32

text \<open>The footprints of the first \<open>k\<close> personalities.\<close>

fun footprints_ok :: "nat \<Rightarrow> rdm_dmx_personality_description_t list \<Rightarrow> bool res" where
  "footprints_ok 0 ps = Inr True"
| "footprints_ok (Suc k) [] = Inl Out_Of_Bounds"
| "footprints_ok (Suc k) (p # ps) =
     (if pd_footprint p > 0 \<and> unat (pd_footprint p) < DMX_PACKET_SIZE_MAX then footprints_ok k ps
      else Inr False)"

text \<open>
  The number of parameters for which memory is allocated: the configured one, raised to the number
  of parameters that the driver itself registers first.
\<close>

definition root_param_count :: "bool \<Rightarrow> nat \<Rightarrow> nat" where
  "root_param_count uses_dmx configured =
     (let required = (if uses_dmx then 7 else 6) in
      if configured > 0 \<and> configured < required then required else configured)"

text \<open>The device ID from the last four bytes of the MAC address, with the port added to the last byte.\<close>

definition device_id :: "bytes \<Rightarrow> nat \<Rightarrow> u32" where
  "device_id mac dmx_num =
     (let bs = le32 (bswap32 (of_le32 (slice 2 4 mac))) in of_le32 ((bs ! 0 + of_nat dmx_num) # drop 1 bs))"

text \<open>
  \<open>raw\<close> is the content of the memory that \<^verbatim>\<open>heap_caps_malloc\<close> returns; its parameters are those of the
  flexible array.
\<close>

definition raw_parameters :: "nat \<Rightarrow> dmx_driver_t \<Rightarrow> dmx_parameter_t list" where
  "raw_parameters n raw = take n (concat (map dev_parameters (d_devices raw)) @ replicate n blank_parameter)"

text \<open>The parameters that every port has, in the order in which they are registered.\<close>

definition register_defaults :: "nat \<Rightarrow> dmx_config_t \<Rightarrow> rdm_dmx_personality_description_t list \<Rightarrow> bool \<Rightarrow>
    (world, unit) cmd" where
  "register_defaults dmx_num config personalities uses_dmx =
     then_c (rdm_register_disc_unique_branch dmx_num None None)
    (then_c (rdm_register_disc_mute dmx_num None None)
    (then_c (rdm_register_disc_un_mute dmx_num None None)
    (then_c (rdm_register_device_info dmx_num (cf_model_id config) (cf_product_category config)
               (cf_software_version_id config) None None)
    (then_c (rdm_register_software_version_label dmx_num (cf_software_version_label config) None None)
    (then_c (rdm_register_identify_device dmx_num (Some Default_Identify_Cb) None)
    (then_c (if uses_dmx then rdm_register_dmx_start_address dmx_num None None else ret True)
    (then_c (if cf_queue_size_max config > 0 then
               rdm_register_queued_message dmx_num (cf_queue_size_max config) None None else ret True)
    (then_c (rdm_register_manufacturer_label dmx_num
               (Some (map of_char RDM_MANUFACTURER_LABEL @ [0])) None None)
    (then_c (if uses_dmx then rdm_register_dmx_personality dmx_num (of_nat (length personalities)) None None
             else ret True)
    (then_c (if uses_dmx then rdm_register_dmx_personality_description dmx_num personalities None None
             else ret True)
    (then_c (rdm_register_device_label dmx_num (Some [0]) None None)
    (then_c (rdm_register_supported_parameters dmx_num None None)
    (then_c (rdm_register_parameter_description dmx_num None None) (ret ()))))))))))))))"

text \<open>The peripherals; when one of them fails the driver is deleted again.\<close>

definition start_hardware :: "nat \<Rightarrow> int \<Rightarrow> (world, bool) cmd" where
  "start_hardware dmx_num interrupt_flags =
     bind_c (dmx_uart_init dmx_num interrupt_flags) (\<lambda>uart_ok.
     if \<not> uart_ok then then_c (dmx_driver_delete dmx_num) (ret False)
     else bind_c (dmx_timer_init dmx_num interrupt_flags) (\<lambda>timer_ok.
     if \<not> timer_ok then then_c (dmx_driver_delete dmx_num) (ret False)
     else
       then_c (critical dmx_num
        (then_c (ext_u (Rtos Notify_State_Clear))
        (then_c (dmx_uart_enable_interrupt dmx_num DMX_INTR_RX_ALL)
           (dmx_uart_set_rts dmx_num True))))
      (then_c (ext_u (Rtos (Mutex_Give dmx_num))) (ret True))))"

text \<open>
  When the mutex cannot be created, the code deletes the driver and then reads it once more: if the
  deletion succeeded, that is an access to freed memory.
\<close>

definition dmx_driver_install :: "dmx_driver_t \<Rightarrow> nat \<Rightarrow> dmx_config_t option \<Rightarrow>
    rdm_dmx_personality_description_t list \<Rightarrow> int \<Rightarrow> (world, bool) cmd" where
  "dmx_driver_install raw dmx_num configp personalities personality_count =
     (if \<not> dmx_num < DMX_NUM_MAX then ret False
      else case configp of
        None \<Rightarrow> ret False
      | Some config \<Rightarrow>
          if \<not> (personality_count \<ge> 0 \<and> personality_count \<le> 255) then ret False
          else bind_c (gets_c (dmx_driver_is_installed dmx_num)) (\<lambda>installed.
          if installed then ret False
          else bind_c (lift_c (footprints_ok (nat personality_count) personalities)) (\<lambda>ok.
          if \<not> ok then ret False
          else bind_c (gets_c isr_in_iram) (\<lambda>iram.
          (let uses_dmx = (personality_count > 0);
               interrupt_flags = (if iram then cf_interrupt_flags config OR ESP_INTR_FLAG_IRAM
                                  else cf_interrupt_flags config);
               n = root_param_count uses_dmx (cf_root_device_parameter_count config) in
           then_c dmx_nvs_init
          (bind_c (ext (Mem (Driver_Malloc n))) (\<lambda>allocated.
           if r_code allocated = 0 then ret False
           else
             then_c (modify_c (\<lambda>w. w\<lparr>drv := (drv w)(dmx_num \<mapsto> raw)\<rparr>))
            (bind_c (ext (Rtos Mutex_Create)) (\<lambda>mux.
             if r_code mux = 0 then
               bind_c (dmx_driver_delete dmx_num) (\<lambda>deleted.
               if deleted then throw Out_Of_Bounds else ret False)
             else bind_c (ext (Rtos Mac_Get_Default)) (\<lambda>mac.
               then_c (modify_c (\<lambda>w. w\<lparr>drv := (drv w)(dmx_num \<mapsto>
                 initial_driver dmx_num
                   (Rdm_Uid RDM_UID_MANUFACTURER_ID (device_id (take 8 (r_bytes mac @ replicate 8 0)) dmx_num))
                   (cf_root_device_parameter_count config) (cf_sub_device_parameter_count config)
                   (raw_parameters n raw) (d_sniffer_metadata raw))\<rparr>))
              (then_c (register_defaults dmx_num config
                 (map (\<lambda>(i, p). p\<lparr>pd_personality_num := of_nat (i + 1)\<rparr>)
                    (enumerate 0 (take (nat personality_count) personalities))) uses_dmx)
                 (start_hardware dmx_num interrupt_flags))))))))))))"

section \<open>The default callback\<close>

definition rdm_default_identify_cb :: "nat \<Rightarrow> rdm_header_t \<Rightarrow> (world, unit) cmd" where
  "rdm_default_identify_cb dmx_num request =
     (if h_cc request = RDM_CC_SET_COMMAND \<and> h_sub_device request = RDM_SUB_DEVICE_ROOT then
        bind_c (query (dmx_parameter_get_data dmx_num (h_sub_device request) RDM_PID_IDENTIFY_DEVICE)) (\<lambda>p.
        bind_c (deref_c p) (\<lambda>a.
        bind_c (query (heap_load a 0 1)) (\<lambda>identify.
        ext_u (Rtos (Log_Identify (identify ! 0 \<noteq> 0))))))
      else ret ())"

section \<open>Configuration\<close>

definition dmx_set_pin :: "(int \<Rightarrow> bool) \<Rightarrow> (int \<Rightarrow> bool) \<Rightarrow> nat \<Rightarrow> int \<Rightarrow> int \<Rightarrow> int \<Rightarrow>
    (world, bool) cmd" where
  "dmx_set_pin valid_output valid_gpio dmx_num tx_pin rx_pin rts_pin =
     (if \<not> dmx_num < DMX_NUM_MAX then ret False
      else if \<not> dmx_tx_pin_is_valid valid_output tx_pin then ret False
      else if \<not> dmx_rx_pin_is_valid valid_gpio rx_pin then ret False
      else if \<not> dmx_rts_pin_is_valid valid_output rts_pin then ret False
      else check_port dmx_num False (dmx_uart_set_pin dmx_num tx_pin rx_pin rts_pin))"

definition clamp :: "u32 \<Rightarrow> u32 \<Rightarrow> u32 \<Rightarrow> u32" where
  "clamp lo hi x = (if x < lo then lo else if x > hi then hi else x)"

definition dmx_get_baud_rate :: "nat \<Rightarrow> (world, u32) cmd" where
  "dmx_get_baud_rate dmx_num =
     (if \<not> dmx_num < DMX_NUM_MAX then ret 0 else critical dmx_num (dmx_uart_get_baud_rate dmx_num))"

definition dmx_set_baud_rate :: "nat \<Rightarrow> u32 \<Rightarrow> (world, u32) cmd" where
  "dmx_set_baud_rate dmx_num baud_rate =
     (if \<not> dmx_num < DMX_NUM_MAX then ret 0
      else let baud_rate = clamp DMX_BAUD_RATE_MIN DMX_BAUD_RATE_MAX baud_rate in
        then_c (critical dmx_num (dmx_uart_set_baud_rate dmx_num baud_rate)) (ret baud_rate))"

definition dmx_get_break_len :: "nat \<Rightarrow> (world, u32) cmd" where
  "dmx_get_break_len dmx_num = check_port dmx_num 0
     (critical dmx_num (bind_c (query (get_drv dmx_num)) (\<lambda>d. ret (d_break_len d))))"

definition dmx_set_break_len :: "nat \<Rightarrow> u32 \<Rightarrow> (world, u32) cmd" where
  "dmx_set_break_len dmx_num break_len = check_port dmx_num 0
     (let break_len = clamp DMX_BREAK_LEN_MIN_US DMX_BREAK_LEN_MAX_US break_len in
      then_c (critical dmx_num (upd_drv dmx_num (\<lambda>d. d\<lparr>d_break_len := break_len\<rparr>))) (ret break_len))"

definition dmx_get_mab_len :: "nat \<Rightarrow> (world, u32) cmd" where
  "dmx_get_mab_len dmx_num = check_port dmx_num 0
     (critical dmx_num (bind_c (query (get_drv dmx_num)) (\<lambda>d. ret (d_mab_len d))))"

definition dmx_set_mab_len :: "nat \<Rightarrow> u32 \<Rightarrow> (world, u32) cmd" where
  "dmx_set_mab_len dmx_num mab_len = check_port dmx_num 0
     (let mab_len = clamp DMX_MAB_LEN_MIN_US DMX_MAB_LEN_MAX_US mab_len in
      then_c (critical dmx_num (upd_drv dmx_num (\<lambda>d. d\<lparr>d_mab_len := mab_len\<rparr>))) (ret mab_len))"

end
