(* ===== verification/Dmx_Io.thy ===== *)
theory Dmx_Io
  imports Dmx_Driver
begin

text \<open>
  Reading, writing, sending and receiving packets, \<^verbatim>\<open>dmx/io.c\<close>. Sizes and offsets are \<^verbatim>\<open>size_t\<close>, 32 bits
  wide, so that their sum may wrap around. A function that copies out returns the bytes; the number
  the C function returns is their length.
\<close>

section \<open>Reading and writing the buffer\<close>

text \<open>The clamp of \<^verbatim>\<open>dmx_read_offset\<close> and \<^verbatim>\<open>dmx_write_offset\<close>; the sum is computed with 32 bits.\<close>

definition clamp_size :: "u32 \<Rightarrow> u32 \<Rightarrow> u32" where
  "clamp_size offset sz =
     (if sz + offset > of_nat DMX_PACKET_SIZE_MAX then of_nat DMX_PACKET_SIZE_MAX - offset else sz)"

definition dmx_read_offset :: "nat \<Rightarrow> u32 \<Rightarrow> u32 \<Rightarrow> (world, bytes) cmd" where
  "dmx_read_offset dmx_num offset sz =
     (if \<not> dmx_num < DMX_NUM_MAX then ret []
      else if \<not> offset < of_nat DMX_PACKET_SIZE_MAX then ret []
      else check_port dmx_num []
        (let n = clamp_size offset sz in
         if n = 0 then ret []
         else bind_c (query (get_drv dmx_num)) (\<lambda>d. lift_c (load (unat offset) (unat n) (d_data d)))))"

definition dmx_read :: "nat \<Rightarrow> u32 \<Rightarrow> (world, bytes) cmd" where
  "dmx_read dmx_num sz = check_port dmx_num [] (dmx_read_offset dmx_num 0 sz)"

definition dmx_read_slot :: "nat \<Rightarrow> u32 \<Rightarrow> (world, int) cmd" where
  "dmx_read_slot dmx_num slot_num =
     (if \<not> dmx_num < DMX_NUM_MAX then ret (-1)
      else if \<not> slot_num < of_nat DMX_PACKET_SIZE_MAX then ret (-1)
      else check_port dmx_num (-1)
        (bind_c (dmx_read_offset dmx_num slot_num 1) (\<lambda>bs.
         bind_c (gets_c (local_object 1 bs)) (\<lambda>slot. ret (uint (slot ! 0))))))"

text \<open>
  Writing is refused while an RDM packet is being sent. \<open>source\<close> is the object behind the pointer,
  \<open>None\<close> for NULL.
\<close>

definition dmx_write_offset :: "nat \<Rightarrow> u32 \<Rightarrow> bytes option \<Rightarrow> u32 \<Rightarrow> (world, u32) cmd" where
  "dmx_write_offset dmx_num offset sourcep sz =
     (if \<not> dmx_num < DMX_NUM_MAX then ret 0
      else if \<not> offset < of_nat DMX_PACKET_SIZE_MAX then ret 0
      else case sourcep of
        None \<Rightarrow> ret 0
      | Some source \<Rightarrow> check_port dmx_num 0
          (let n = clamp_size offset sz in
           if n = 0 then ret 0
           else bind_c (critical dmx_num (query (get_drv dmx_num))) (\<lambda>d.
             bind_c (if d_status d = DMX_STATUS_SENDING then
                       bind_c (critical dmx_num (query (rdm_read_header dmx_num))) (\<lambda>header.
                       ret (header \<noteq> None))
                     else ret False) (\<lambda>sending_rdm.
             if sending_rdm then ret 0
             else bind_c (dmx_uart_get_rts dmx_num) (\<lambda>rts.
               then_c (if rts = 1 then dmx_uart_set_rts dmx_num False else ret ())
              (then_c (critical dmx_num
                 (bind_c (query (get_drv dmx_num)) (\<lambda>d.
                  bind_c (lift_c (load 0 (unat n) source)) (\<lambda>bs.
                  bind_c (lift_c (store (unat offset) bs (d_data d))) (\<lambda>data.
                  upd_drv dmx_num (\<lambda>d. d\<lparr>d_data := data\<rparr>))))))
                 (ret n)))))))"

definition dmx_write :: "nat \<Rightarrow> bytes option \<Rightarrow> u32 \<Rightarrow> (world, u32) cmd" where
  "dmx_write dmx_num source sz =
     (if source = None then ret 0 else check_port dmx_num 0 (dmx_write_offset dmx_num 0 source sz))"

definition dmx_write_slot :: "nat \<Rightarrow> u32 \<Rightarrow> u8 \<Rightarrow> (world, int) cmd" where
  "dmx_write_slot dmx_num slot_num slot_value =
     (if \<not> dmx_num < DMX_NUM_MAX then ret (-1)
      else if \<not> slot_num < of_nat DMX_PACKET_SIZE_MAX then ret (-1)
      else check_port dmx_num (-1)
        (then_c (dmx_write_offset dmx_num slot_num (Some [slot_value]) 1) (ret (uint slot_value))))"

section \<open>Waiting\<close>

definition dmx_ms_to_ticks :: "nat \<Rightarrow> world \<Rightarrow> nat" where
  "dmx_ms_to_ticks ms w =
     ms * tick_rate w div 1000 + (if ms * tick_rate w mod 1000 > 0 then 1 else 0)"

text \<open>The ticks left of a wait, \<open>None\<close> when it has timed out; a wait of zero ticks is not checked.\<close>

definition check_timeout :: "nat \<Rightarrow> (world, nat option) cmd" where
  "check_timeout wait_ticks =
     (if wait_ticks = 0 then ret (Some 0)
      else bind_c (ext (Rtos (Check_Timeout wait_ticks))) (\<lambda>r.
        ret (if r_code r < 0 then None else Some (nat (r_code r)))))"

definition take_mutex :: "nat \<Rightarrow> nat \<Rightarrow> (world, nat option) cmd" where
  "take_mutex dmx_num wait_ticks =
     bind_c (blocking (Mutex_Take dmx_num wait_ticks)) (\<lambda>taken.
     if taken = 0 then ret None else check_timeout wait_ticks)"

definition give_mutex :: "nat \<Rightarrow> (world, unit) cmd" where
  "give_mutex dmx_num = ext_u (Rtos (Mutex_Give dmx_num))"

definition set_waiting :: "nat \<Rightarrow> bool \<Rightarrow> (world, unit) cmd" where
  "set_waiting dmx_num b = upd_drv dmx_num (\<lambda>d. d\<lparr>d_task_waiting := b\<rparr>)"

definition dmx_wait_sent :: "nat \<Rightarrow> nat \<Rightarrow> (world, bool) cmd" where
  "dmx_wait_sent dmx_num wait_ticks = check_port dmx_num False
     (then_c (ext_u (Rtos Set_Timeout))
     (bind_c (take_mutex dmx_num wait_ticks) (\<lambda>left.
      case left of
        None \<Rightarrow> ret False
      | Some wait_ticks \<Rightarrow>
          bind_c (critical dmx_num (query (get_drv dmx_num))) (\<lambda>d.
          bind_c (if wait_ticks > 0 then
                    (if d_status d = DMX_STATUS_SENDING then
                       then_c (set_waiting dmx_num True)
                      (bind_c (blocking (Notify_Wait wait_ticks)) (\<lambda>notified.
                       then_c (set_waiting dmx_num False) (ret (notified \<ge> 0))))
                     else ret True)
                  else ret (d_status d \<noteq> DMX_STATUS_SENDING)) (\<lambda>result.
          then_c (give_mutex dmx_num) (ret result))))))"

section \<open>Receiving\<close>

record dmx_packet_t =
  pk_err :: int
  pk_sc :: int
  pk_size :: u32
  pk_is_rdm :: bool

definition timeout_packet :: dmx_packet_t where
  "timeout_packet = \<lparr>pk_err = DMX_ERR_TIMEOUT, pk_sc = -1, pk_size = 0, pk_is_rdm = False\<rparr>"

definition timed_out :: "(world, u32 \<times> dmx_packet_t option) cmd" where
  "timed_out = ret (0, Some timeout_packet)"

text \<open>The bus is turned around for reading when it was in write mode.\<close>

definition enable_reading :: "nat \<Rightarrow> (world, unit) cmd" where
  "enable_reading dmx_num =
     bind_c (dmx_uart_get_rts dmx_num) (\<lambda>rts.
     if rts = 0 then
       then_c (ext_u (Rtos Notify_State_Clear))
      (then_c (upd_drv dmx_num (\<lambda>d. d\<lparr>d_progress := DMX_PROGRESS_STALE,
                 d_head := DMX_HEAD_WAITING_FOR_BREAK\<rparr>))
         (dmx_uart_set_rts dmx_num True))
     else ret ())"

text \<open>
  The expected size. The comparison of the head, an \<^verbatim>\<open>int\<close>, with the size, a \<^verbatim>\<open>size_t\<close>, is unsigned: a head
  that waits for a break is larger than every size.
\<close>

definition update_size :: "nat \<Rightarrow> u32 \<Rightarrow> (world, unit) cmd" where
  "update_size dmx_num sz = upd_drv dmx_num (\<lambda>d.
     if sz \<noteq> of_int (d_size d) then
       d\<lparr>d_size := sint sz,
         d_progress := if d_progress d \<noteq> DMX_PROGRESS_STALE \<and> of_int (d_head d) \<ge> sz
           then DMX_PROGRESS_COMPLETE else d_progress d\<rparr>
     else d)"

text \<open>
  The controller's alarm for a response that is late. The result says whether to go on; it does not
  when the time has already elapsed.
\<close>

definition arm_response_timeout :: "nat \<Rightarrow> (world, bool) cmd" where
  "arm_response_timeout dmx_num =
     bind_c (query (get_drv dmx_num)) (\<lambda>d.
     if d_is_controller d then
       bind_c dmx_timer_get_micros_since_boot (\<lambda>now.
       (let timer_elapsed = now - d_controller_eop_timestamp d in
        if timer_elapsed > RDM_TIMING_CONTROLLER_REQUEST_TO_RESPONSE_MAX then ret False
        else then_c (dmx_timer_set_counter dmx_num timer_elapsed)
         (then_c (dmx_timer_set_alarm dmx_num RDM_TIMING_CONTROLLER_REQUEST_TO_RESPONSE_MAX False)
         (then_c (dmx_timer_start dmx_num) (ret True)))))
     else ret True)"

text \<open>The end of \<^verbatim>\<open>dmx_receive_num\<close>, with the error code and the head when the wait was over.\<close>

definition finish_receive :: "nat \<Rightarrow> int \<Rightarrow> int \<Rightarrow> (world, u32 \<times> dmx_packet_t option) cmd" where
  "finish_receive dmx_num err head =
     (let packet_size = (if head < 0 then 0 else head) in
      then_c (upd_drv dmx_num (\<lambda>d. d\<lparr>d_progress := DMX_PROGRESS_STALE\<rparr>))
     (bind_c (query (get_drv dmx_num)) (\<lambda>d.
      then_c (give_mutex dmx_num)
        (ret (of_int packet_size, Some \<lparr>pk_err = err,
           pk_sc = if packet_size > 0 then uint (d_data d ! 0) else -1,
           pk_size = of_int packet_size,
           pk_is_rdm = (packet_size > 0 \<and> dmx_start_code_is_rdm (d_data d ! 0))\<rparr>)))))"

text \<open>The wait for a packet that is not complete yet.\<close>

definition await_packet :: "nat \<Rightarrow> nat \<Rightarrow> (world, u32 \<times> dmx_packet_t option) cmd" where
  "await_packet dmx_num wait_ticks =
     then_c (set_waiting dmx_num True)
    (bind_c (arm_response_timeout dmx_num) (\<lambda>go_on.
     if \<not> go_on then then_c (give_mutex dmx_num) timed_out
     else bind_c (blocking (Notify_Wait wait_ticks)) (\<lambda>err.
       bind_c (query (get_drv dmx_num)) (\<lambda>d.
       then_c (set_waiting dmx_num False)
      (if err < 0 then
         then_c (ext_u (Rtos Notify_State_Clear))
        (then_c (give_mutex dmx_num)
        (then_c (dmx_parameter_commit dmx_num) timed_out))
       else finish_receive dmx_num err (d_head d))))))"

text \<open>
  The result is the returned size and what is written to \<^verbatim>\<open>packet\<close> when it is not NULL; \<open>None\<close> when
  nothing is written.
\<close>

definition dmx_receive_num :: "nat \<Rightarrow> u32 \<Rightarrow> nat \<Rightarrow> (world, u32 \<times> dmx_packet_t option) cmd" where
  "dmx_receive_num dmx_num sz wait_ticks = check_port dmx_num (0, None)
     (bind_c (gets_c (dmx_driver_is_enabled dmx_num)) (\<lambda>enabled.
      if \<not> enabled then ret (0, None)
      else
        then_c (ext_u (Rtos Set_Timeout))
       (bind_c (take_mutex dmx_num wait_ticks) (\<lambda>left.
        case left of
          None \<Rightarrow> timed_out
        | Some wait_ticks \<Rightarrow>
            bind_c (dmx_wait_sent dmx_num wait_ticks) (\<lambda>sent.
            bind_c (if \<not> sent then ret None else check_timeout wait_ticks) (\<lambda>left.
            case left of
              None \<Rightarrow> then_c (give_mutex dmx_num) timed_out
            | Some wait_ticks \<Rightarrow>
                then_c (enable_reading dmx_num)
               (then_c (update_size dmx_num sz)
               (bind_c (critical dmx_num (query (get_drv dmx_num))) (\<lambda>d.
                if d_progress d \<noteq> DMX_PROGRESS_COMPLETE \<and> wait_ticks = 0 then
                  then_c (give_mutex dmx_num) timed_out
                else if d_progress d \<noteq> DMX_PROGRESS_COMPLETE then await_packet dmx_num wait_ticks
                else finish_receive dmx_num DMX_OK (d_head d))))))))))"

definition dmx_receive :: "nat \<Rightarrow> nat \<Rightarrow> (world, u32 \<times> dmx_packet_t option) cmd" where
  "dmx_receive dmx_num wait_ticks = check_port dmx_num (0, None)
     (bind_c (gets_c (dmx_driver_is_enabled dmx_num)) (\<lambda>enabled.
      if \<not> enabled then ret (0, None)
      else bind_c (critical dmx_num (query (get_drv dmx_num))) (\<lambda>d.
        dmx_receive_num dmx_num (of_int (d_size d)) wait_ticks)))"

section \<open>Sending\<close>

text \<open>The time that must have passed since the end of the last controller packet.\<close>

definition send_spacing :: "dmx_driver_t \<Rightarrow> int" where
  "send_spacing d =
     (if d_is_controller d then
        if d_last_controller_pid d \<noteq> RDM_PID_DISC_UNIQUE_BRANCH then
          if d_responder_sent_last d \<or> d_last_controller_pid d = 0 \<or> last_request_was_broadcast d
          then RDM_TIMING_CONTROLLER_REQUEST_TO_REQUEST_MIN
          else RDM_TIMING_CONTROLLER_RESPONSE_LOST_MIN
        else if d_responder_sent_last d then RDM_TIMING_CONTROLLER_DISCOVERY_TRANSACTION_MIN
        else RDM_TIMING_CONTROLLER_DISCOVERY_TO_REQUEST_MIN
      else RDM_TIMING_RESPONDER_MIN)"

definition is_disc_reply :: "rdm_header_t option \<Rightarrow> bool" where
  "is_disc_reply header = (case header of
     None \<Rightarrow> False
   | Some h \<Rightarrow> h_cc h = RDM_CC_DISC_COMMAND_RESPONSE \<and> h_pid h = RDM_PID_DISC_UNIQUE_BRANCH)"

text \<open>The number of slots to send.\<close>

definition send_size :: "rdm_header_t option \<Rightarrow> u32 \<Rightarrow> u32" where
  "send_size header sz = (case header of
     Some h \<Rightarrow> if is_disc_reply header then ucast (h_message_len h) else ucast (h_message_len h) + 2
   | None \<Rightarrow> if sz = 0 \<or> sz > of_nat DMX_PACKET_SIZE_MAX then of_nat DMX_PACKET_SIZE_MAX else sz)"

text \<open>The wait for the spacing; the timer's interrupt always notifies the task. The result is the elapsed time.\<close>

definition await_spacing :: "nat \<Rightarrow> int \<Rightarrow> (world, int) cmd" where
  "await_spacing dmx_num timer_alarm =
     bind_c dmx_timer_get_micros_since_boot (\<lambda>now.
     bind_c (query (get_drv dmx_num)) (\<lambda>d.
     (let timer_elapsed = now - d_controller_eop_timestamp d in
      if timer_elapsed < timer_alarm then
        then_c (dmx_timer_set_counter dmx_num timer_elapsed)
       (then_c (dmx_timer_set_alarm dmx_num timer_alarm False)
       (then_c (dmx_timer_start dmx_num)
       (then_c (set_waiting dmx_num True)
       (bind_c (gets_c (dmx_ms_to_ticks 20)) (\<lambda>ticks.
        bind_c (blocking (Notify_Wait ticks)) (\<lambda>notified.
        if notified < 0 then throw Unreachable
        else then_c (set_waiting dmx_num False) (ret timer_elapsed)))))))
      else ret timer_elapsed)))"

text \<open>What the driver remembers of the packet it sends.\<close>

definition record_sent :: "rdm_header_t option \<Rightarrow> dmx_driver_t \<Rightarrow> dmx_driver_t" where
  "record_sent header d =
     (let pid = (case header of None \<Rightarrow> 0 | Some h \<Rightarrow> h_pid h) in
      if d_is_controller d then
        (let d = set_last_request_was_broadcast
               (case header of None \<Rightarrow> False | Some h \<Rightarrow> rdm_uid_is_broadcast (h_dest_uid h))
               (d\<lparr>d_last_controller_pid := pid\<rparr>);
             d = d\<lparr>d_responder_sent_last := False\<rparr>
         in if pid \<noteq> 0 then d\<lparr>d_tn := d_tn d + 1\<rparr> else d)
      else d\<lparr>d_last_responder_pid := pid, d_responder_sent_last := True\<rparr>)"

text \<open>
  A discovery response is written to the UART at once; every other packet starts with a break, whose
  end is a timer interrupt.
\<close>

definition start_packet :: "nat \<Rightarrow> rdm_header_t option \<Rightarrow> (world, unit) cmd" where
  "start_packet dmx_num header =
     (if is_disc_reply header then
        then_c (upd_drv dmx_num (\<lambda>d. d\<lparr>d_status := DMX_STATUS_SENDING\<rparr>))
       (bind_c (query (get_drv dmx_num)) (\<lambda>d.
        bind_c (dmx_uart_write_txfifo dmx_num (d_data d) (d_size d)) (\<lambda>write_len.
        then_c (upd_drv dmx_num (\<lambda>d. d\<lparr>d_head := write_len\<rparr>))
          (dmx_uart_enable_interrupt dmx_num DMX_INTR_TX_ALL))))
      else
        then_c (upd_drv dmx_num (\<lambda>d. d\<lparr>d_head := 0, d_progress := DMX_PROGRESS_IN_BREAK,
                  d_status := DMX_STATUS_SENDING\<rparr>))
       (then_c (dmx_timer_set_counter dmx_num 0)
       (bind_c (query (get_drv dmx_num)) (\<lambda>d.
        then_c (dmx_timer_set_alarm dmx_num (uint (d_break_len d)) True)
       (then_c (dmx_timer_start dmx_num)
          (dmx_uart_invert_tx dmx_num True))))))"

definition transmit :: "nat \<Rightarrow> rdm_header_t option \<Rightarrow> u32 \<Rightarrow> (world, u32) cmd" where
  "transmit dmx_num header sz =
     bind_c (dmx_uart_get_rts dmx_num) (\<lambda>rts.
     then_c (if rts = 1 then dmx_uart_set_rts dmx_num False else ret ())
    (then_c (upd_drv dmx_num (\<lambda>d. d\<lparr>d_size := sint (send_size header sz)\<rparr>))
    (then_c (upd_drv dmx_num (record_sent header))
    (then_c (start_packet dmx_num header)
    (then_c (give_mutex dmx_num) (ret (send_size header sz)))))))"

text \<open>The RDM header in the buffer; a packet with an invalid command class is a DMX packet.\<close>

definition sent_rdm_header :: "nat \<Rightarrow> (world, rdm_header_t option) cmd" where
  "sent_rdm_header dmx_num =
     bind_c (critical dmx_num (query (rdm_read_header dmx_num))) (\<lambda>header.
     ret (case header of None \<Rightarrow> None
        | Some h \<Rightarrow> if rdm_cc_is_valid (h_cc h) then Some h else None))"

definition dmx_send_num :: "nat \<Rightarrow> u32 \<Rightarrow> (world, u32) cmd" where
  "dmx_send_num dmx_num sz = check_port dmx_num 0
     (bind_c (gets_c (dmx_driver_is_enabled dmx_num)) (\<lambda>enabled.
      if \<not> enabled then ret 0
      else bind_c (blocking (Mutex_Take dmx_num 0)) (\<lambda>taken.
      if taken = 0 then ret 0
      else bind_c (gets_c (dmx_ms_to_ticks 23)) (\<lambda>ticks.
      bind_c (dmx_wait_sent dmx_num ticks) (\<lambda>sent.
      if \<not> sent then then_c (give_mutex dmx_num) (ret 0)
      else bind_c (sent_rdm_header dmx_num) (\<lambda>header.
        then_c (upd_drv dmx_num (\<lambda>d. d\<lparr>d_is_controller :=
          (case header of None \<Rightarrow> True | Some h \<Rightarrow> rdm_cc_is_request (h_cc h))\<rparr>))
       (bind_c (query (get_drv dmx_num)) (\<lambda>d.
        bind_c (await_spacing dmx_num (send_spacing d)) (\<lambda>timer_elapsed.
        if \<not> d_is_controller d \<and> timer_elapsed > RDM_TIMING_RESPONDER_MAX then
          then_c (give_mutex dmx_num) (ret 0)
        else transmit dmx_num header sz)))))))))"

definition dmx_send :: "nat \<Rightarrow> (world, u32) cmd" where
  "dmx_send dmx_num = check_port dmx_num 0
     (bind_c (gets_c (dmx_driver_is_enabled dmx_num)) (\<lambda>enabled.
      if \<not> enabled then ret 0 else dmx_send_num dmx_num (of_nat DMX_PACKET_SIZE_MAX)))"

end
