(* ===== verification/Rdm_Responder.thy ===== *)
theory Rdm_Responder
  imports Dmx_Io
begin

text \<open>
  The responder, \<^verbatim>\<open>rdm/responder.c\<close>: answering the request in the driver's buffer. The callbacks that an
  application registers are an argument, \<open>user_cb\<close>; the library's own callback is the one of
  \<open>Dmx_Driver\<close>.
\<close>

type_synonym user_callback =
  "nat \<Rightarrow> nat \<Rightarrow> rdm_header_t \<Rightarrow> rdm_header_t \<Rightarrow> nat option \<Rightarrow> (world, unit) cmd"

definition null_header :: rdm_header_t where
  "null_header = header_of_bytes (replicate 24 0)"

definition call_callback :: "user_callback \<Rightarrow> nat \<Rightarrow> rdm_callback_t \<Rightarrow> rdm_header_t \<Rightarrow> rdm_header_t \<Rightarrow>
    nat option \<Rightarrow> (world, unit) cmd" where
  "call_callback user_cb dmx_num cb request response context = (case cb of
     Default_Identify_Cb \<Rightarrow> rdm_default_identify_cb dmx_num request
   | User_Cb i \<Rightarrow> user_cb i dmx_num request response context)"

text \<open>The packet is a request for this device: it is remembered, and repetitions are counted.\<close>

definition note_request :: "rdm_header_t \<Rightarrow> dmx_driver_t \<Rightarrow> dmx_driver_t" where
  "note_request header d =
     d\<lparr>d_last_request_pid_repeats :=
         if h_pid header = d_last_request_pid d then d_last_request_pid_repeats d + 1 else 0,
       d_last_request_pid := h_pid header\<rparr>"

definition unsupported_class :: "u8 \<Rightarrow> u8 \<Rightarrow> bool" where
  "unsupported_class pid_cc cc \<longleftrightarrow>
     (pid_cc = RDM_CC_GET_SET \<and> cc = RDM_CC_DISC_COMMAND) \<or>
     (pid_cc = RDM_CC_GET \<and> cc \<noteq> RDM_CC_GET_COMMAND) \<or>
     (pid_cc = RDM_CC_SET \<and> cc \<noteq> RDM_CC_SET_COMMAND)"

text \<open>A handler's response: sizes that cannot be sent set the boot-loader flag.\<close>

definition handled_response :: handler_fun where
  "handled_response dmx_num def header =
     bind_c (call_handler (if h_cc header = RDM_CC_SET_COMMAND then handler (def_set def)
                           else handler (def_get def)) dmx_num def header) (\<lambda>packet_size.
     if h_pid header = RDM_PID_DISC_UNIQUE_BRANCH \<and>
        ((packet_size > 0 \<and> packet_size < 17) \<or> packet_size > 24) then
       then_c (rdm_set_boot_loader dmx_num) (ret 0)
     else if packet_size > 255 \<or> (packet_size = 0 \<and> \<not> rdm_uid_is_broadcast (h_dest_uid header)) then
       bind_c (rdm_write_nack_reason dmx_num header RDM_NR_HARDWARE_FAULT) (\<lambda>packet_size.
       then_c (rdm_set_boot_loader dmx_num) (ret packet_size))
     else ret packet_size)"

definition write_response :: "nat \<Rightarrow> rdm_header_t \<Rightarrow> (world, nat) cmd" where
  "write_response dmx_num header =
     bind_c (query (rdm_definition_get dmx_num (h_sub_device header) (h_pid header))) (\<lambda>definition.
     case definition of
       None \<Rightarrow> rdm_write_nack_reason dmx_num header RDM_NR_UNKNOWN_PID
     | Some def \<Rightarrow>
         if (h_sub_device header \<ge> RDM_SUB_DEVICE_MAX \<and> h_sub_device header \<noteq> RDM_SUB_DEVICE_ALL) \<or>
            unat (h_pdl header) \<ge> RDM_PD_SIZE_MAX then
           rdm_write_nack_reason dmx_num header RDM_NR_FORMAT_ERROR
         else if def_pid_cc def = RDM_CC_DISC \<and> h_cc header \<noteq> RDM_CC_DISC_COMMAND then ret 0
         else if unsupported_class (def_pid_cc def) (h_cc header) then
           rdm_write_nack_reason dmx_num header RDM_NR_UNSUPPORTED_COMMAND_CLASS
         else handled_response dmx_num def header)"

text \<open>Broadcast requests other than discovery are not answered.\<close>

definition silenced :: "rdm_header_t \<Rightarrow> nat \<Rightarrow> nat" where
  "silenced header packet_size =
     (if rdm_uid_is_broadcast (h_dest_uid header) \<and> h_pid header \<noteq> RDM_PID_DISC_UNIQUE_BRANCH
      then 0 else packet_size)"

definition send_packet :: "nat \<Rightarrow> nat \<Rightarrow> (world, unit) cmd" where
  "send_packet dmx_num packet_size =
     (if packet_size > 0 then
        bind_c (dmx_send_num dmx_num (of_nat packet_size)) (\<lambda>sent.
        if sent = 0 then
          then_c (rdm_set_boot_loader dmx_num)
         (then_c dmx_timer_get_micros_since_boot (ret ()))
        else
          bind_c (gets_c (dmx_ms_to_ticks 23)) (\<lambda>ticks.
          then_c (dmx_wait_sent dmx_num ticks)
         (then_c (upd_drv dmx_num (\<lambda>d. d\<lparr>d_head := DMX_HEAD_WAITING_FOR_BREAK\<rparr>))
            (dmx_uart_set_rts dmx_num True))))
      else ret ())"

definition after_response :: "user_callback \<Rightarrow> nat \<Rightarrow> rdm_header_t \<Rightarrow> (world, unit) cmd" where
  "after_response user_cb dmx_num header =
     bind_c (query (dmx_parameter_get_entry dmx_num (h_sub_device header) (h_pid header))) (\<lambda>entry.
     case entry of
       None \<Rightarrow> ret ()
     | Some ptr \<Rightarrow>
         bind_c (query (entry_at dmx_num ptr)) (\<lambda>p.
         case p_callback p of
           None \<Rightarrow> ret ()
         | Some cb \<Rightarrow>
             bind_c (query (rdm_read_header dmx_num)) (\<lambda>response.
             call_callback user_cb dmx_num cb header
               (case response of None \<Rightarrow> null_header | Some r \<Rightarrow> r) (p_context p))))"

text \<open>
  The mutex is given back only when the packet is not for this device; on the way through a response
  it is kept.
\<close>

definition rdm_send_response :: "user_callback \<Rightarrow> nat \<Rightarrow> (world, bool) cmd" where
  "rdm_send_response user_cb dmx_num = check_port dmx_num False
     (bind_c (blocking (Mutex_Take dmx_num 0)) (\<lambda>taken.
      if taken = 0 then ret False
      else bind_c (critical dmx_num (query (rdm_read_header dmx_num))) (\<lambda>headerp.
      bind_c (gets_c (rdm_uid_get dmx_num)) (\<lambda>this_uid.
      bind_c (deref_c this_uid) (\<lambda>uid.
      case headerp of
        None \<Rightarrow> then_c (give_mutex dmx_num) (ret False)
      | Some header \<Rightarrow>
          if \<not> rdm_cc_is_valid (h_cc header) \<or> \<not> rdm_uid_is_target uid (h_dest_uid header) then
            then_c (give_mutex dmx_num) (ret False)
          else
            then_c (upd_drv dmx_num (note_request header))
           (bind_c (write_response dmx_num header) (\<lambda>packet_size.
            then_c (send_packet dmx_num (silenced header packet_size))
           (then_c (after_response user_cb dmx_num header)
             (ret (silenced header packet_size > 0))))))))))"

section \<open>A request is answered with the value of the parameter\<close>

lemma response_header_ok:
  assumes "h_sub_device h < RDM_SUB_DEVICE_MAX" "h_cc h = RDM_CC_GET_COMMAND" "k < 231" "t = RDM_RESPONSE_TYPE_ACK \<or> t = RDM_RESPONSE_TYPE_NACK_REASON"
  shows "header_ok (response_header h uid t c k)" "\<not> is_disc_response (response_header h uid t c k)"
    "unat (h_pdl (response_header h uid t c k)) = k"
proof -
  have k: "unat (of_nat k :: u8) = k" "unat (of_nat (24 + k) :: u8) = 24 + k" using assms(3) by (simp_all add: unat_of_nat del: of_nat_add)
  then show "header_ok (response_header h uid t c k)"
    using assms by (auto simp: header_ok_def response_header_def word_less_nat_alt rdm_cc_is_valid_def rdm_cc_is_request_def
        rdm_response_type_is_valid_def simp del: of_nat_add)
  show "\<not> is_disc_response (response_header h uid t c k)"
    using assms(2) by (simp add: is_disc_response_def response_header_def)
  show "unat (h_pdl (response_header h uid t c k)) = k" using k by (simp add: response_header_def)
qed

lemma ack_is_read:
  assumes port: "n < DMX_NUM_MAX" "drv w n = Some d" "length (d_data d) = DMX_PACKET_SIZE_MAX" "rdm_queue_size n w = Inr (c, w)"
    and h: "h_sub_device h < RDM_SUB_DEVICE_MAX" "h_cc h = RDM_CC_GET_COMMAND"
    and f: "plain f" "0 < record_size f" "record_size f < 231" "length pd = record_size f"
  shows "\<exists>w'. rdm_write_ack n h (Some (f @ ''$'')) (Some pd) (length pd) w = Inr (26 + length pd, w') \<and>
    rdm_read_header n w' = Inr (Some (response_header h (d_uid d) RDM_RESPONSE_TYPE_ACK c (length pd))) \<and>
    rdm_read_pd n (Some (f @ ''$'')) (Some (length pd)) (length pd) w' = Inr (length pd, pd)"
proof -
  have f231: "record_size f \<le> 231" using f(3) by simp
  note ok = response_header_ok [OF h, of "length pd" RDM_RESPONSE_TYPE_ACK "d_uid d" c]
  have "rdm_write_ack n h (Some (f @ ''$'')) (Some pd) (length pd) w =
      rdm_write n (Some (response_header h (d_uid d) RDM_RESPONSE_TYPE_ACK c (length pd))) (Some (f @ ''$'')) (Some pd) w"
    using port h f plain_valid(2) [OF f(1,2) f231]
    by (simp add: rdm_write_ack_def rdm_cc_is_request_def dmx_driver_is_installed_def rdm_uid_get_def)
  then show ?thesis
    using terminated_round_trip [OF port(1-3) _ _ _ f(1,2) f231 f(4)] ok f by simp
qed


text \<open>A device that serves its start address.\<close>

definition demo_definition :: rdm_parameter_definition_t where
  "demo_definition = parameter_definition RDM_CC_GET_SET RDM_DS_UNSIGNED_WORD
     (command Rhd_Simple None (Some ''w$'')) (command Rhd_Simple (Some ''w$'') None) 2 512 1"

definition demo_serving_parameter :: dmx_parameter_t where
  "demo_serving_parameter = blank_parameter\<lparr>p_pid := RDM_PID_DMX_START_ADDRESS, p_size := 2, p_data := Some 0,
     p_definition := Some demo_definition\<rparr>"

definition demo_serving_driver :: dmx_driver_t where
  "demo_serving_driver = (demo_driver 1)\<lparr>d_devices := [\<lparr>dev_num = 0, dev_parameters = [demo_serving_parameter]\<rparr>]\<rparr>"

definition demo_serving_world :: world where
  "demo_serving_world = (demo_world 1)\<lparr>heap := [0 \<mapsto> [7, 1]], next_addr := 1, drv := (\<lambda>_. None)(0 \<mapsto> demo_serving_driver)\<rparr>"




end
