(* ===== verification/Rdm_Controller.thy ===== *)
theory Rdm_Controller
  imports Dmx_Io
begin

text \<open>
  The controller, \<^verbatim>\<open>rdm/controller/\<close>: sending a request and reading its response, the requests of the
  API, and the discovery of the devices on the bus. The results of a request are its return value, the
  bytes written to the caller's object for parameter data, and the contents of the caller's \<^verbatim>\<open>rdm_ack_t\<close>
  if the function has written it.
\<close>

section \<open>Requests\<close>

record rdm_request_t =
  rq_dest_uid :: "rdm_uid_t option"
  rq_sub_device :: u16
  rq_cc :: u8
  rq_pid :: u16
  rq_format :: "string option"
  rq_pd :: "bytes option"
  rq_pdl :: nat

text \<open>\<open>ak_data\<close> is the union of \<^verbatim>\<open>pdl\<close>, \<^verbatim>\<open>timer\<close> and \<^verbatim>\<open>nack_reason\<close>.\<close>

record rdm_ack_t =
  ak_err :: int
  ak_size :: u32
  ak_src_uid :: rdm_uid_t
  ak_pid :: u16
  ak_type :: u8
  ak_message_count :: int
  ak_data :: u32

type_synonym reply = "nat \<times> bytes \<times> rdm_ack_t option"

definition no_response :: "int \<Rightarrow> u32 \<Rightarrow> u8 \<Rightarrow> rdm_ack_t" where
  "no_response err sz type = \<lparr>ak_err = err, ak_size = sz, ak_src_uid = Rdm_Uid 0 0, ak_pid = 0,
     ak_type = type, ak_message_count = 0, ak_data = 0\<rparr>"

definition rdm_get_transaction_num :: "nat \<Rightarrow> (world, u32) cmd" where
  "rdm_get_transaction_num dmx_num =
     then_c (assert_c (dmx_num < DMX_NUM_MAX))
    (bind_c (gets_c (dmx_driver_is_installed dmx_num)) (\<lambda>installed.
     then_c (assert_c installed)
    (critical dmx_num (bind_c (query (get_drv dmx_num)) (\<lambda>d. ret (ucast (d_tn d)))))))"

text \<open>The asserts at the start of \<^verbatim>\<open>rdm_send_request\<close>.\<close>

definition request_ok :: "rdm_request_t \<Rightarrow> bool" where
  "request_ok rq \<longleftrightarrow>
     rq_dest_uid rq \<noteq> None \<and>
     (rq_sub_device rq < RDM_SUB_DEVICE_MAX \<or> rq_sub_device rq = RDM_SUB_DEVICE_ALL) \<and>
     rq_pid rq > 0 \<and>
     rdm_cc_is_valid (rq_cc rq) \<and> rdm_cc_is_request (rq_cc rq) \<and>
     (rq_sub_device rq \<noteq> RDM_SUB_DEVICE_ALL \<or> rq_cc rq = RDM_CC_SET_COMMAND) \<and>
     (rq_format rq \<noteq> None \<or> rq_pd rq = None) \<and>
     (rq_pd rq \<noteq> None \<or> rq_pdl rq = 0) \<and>
     rq_pdl rq < RDM_PD_SIZE_MAX"

definition request_header :: "nat \<Rightarrow> rdm_request_t \<Rightarrow> rdm_uid_t \<Rightarrow> rdm_uid_t \<Rightarrow> u32 \<Rightarrow> rdm_header_t" where
  "request_header dmx_num rq dest src tn = \<lparr>
     h_message_len = of_nat (24 + rq_pdl rq), h_dest_uid = dest, h_src_uid = src, h_tn = ucast tn,
     h_port_id = of_nat (dmx_num + 1), h_message_count = 0, h_sub_device = rq_sub_device rq,
     h_cc = rq_cc rq, h_pid = rq_pid rq, h_pdl = of_nat (rq_pdl rq)\<rparr>"

text \<open>
  A local \<^verbatim>\<open>dmx_packet_t\<close>, of which only the error code and the size are read; it is uninitialised when
  \<^verbatim>\<open>dmx_receive\<close> has not written it.
\<close>

definition packet_or_junk :: "dmx_packet_t option \<Rightarrow> world \<Rightarrow> int \<times> u32" where
  "packet_or_junk p w = (case p of
     Some k \<Rightarrow> (pk_err k, pk_size k)
   | None \<Rightarrow> (sint (of_le32 (slice 0 4 (uninit_bytes 16 w))), of_le32 (slice 8 4 (uninit_bytes 16 w))))"

text \<open>
  The parameter data and the acknowledgement of a response. Without an \<^verbatim>\<open>ack\<close> the data is read only
  when there is no object for it, that is, not at all.
\<close>

definition read_response :: "nat \<Rightarrow> rdm_header_t \<Rightarrow> string option \<Rightarrow> nat option \<Rightarrow> nat \<Rightarrow> bool \<Rightarrow> int \<Rightarrow> u32 \<Rightarrow>
    (world, bytes \<times> rdm_ack_t option) cmd" where
  "read_response dmx_num header format room sz want_ack err received =
     then_c (if h_response_type header = RDM_RESPONSE_TYPE_ACK \<and>
                h_pid header \<noteq> RDM_PID_DISC_UNIQUE_BRANCH \<and> room = None
             then query (rdm_read_pd dmx_num format room sz) else ret (0, []))
    (if \<not> want_ack then ret ([], None)
     else
       (let ack = \<lparr>ak_err = err, ak_size = received, ak_src_uid = h_src_uid header, ak_pid = h_pid header,
          ak_type = h_response_type header, ak_message_count = uint (h_message_count header),
          ak_data = ucast (h_pdl header)\<rparr> in
        if \<not> rdm_response_type_is_valid (h_response_type header) then
          ret ([], Some (ack\<lparr>ak_type := RDM_RESPONSE_TYPE_INVALID\<rparr>))
        else if h_response_type header = RDM_RESPONSE_TYPE_ACK_TIMER then
          bind_c (read_local dmx_num (Some ''w'') 2 2) (\<lambda>(_, timer).
          bind_c (gets_c (dmx_ms_to_ticks (unat (of_le16 timer) * 10))) (\<lambda>ticks.
          ret ([], Some (ack\<lparr>ak_data := of_nat ticks\<rparr>))))
        else if h_response_type header = RDM_RESPONSE_TYPE_NACK_REASON then
          bind_c (read_local dmx_num (Some ''w'') 2 2) (\<lambda>(_, nack_reason).
          ret ([], Some (ack\<lparr>ak_data := ucast (of_le16 nack_reason)\<rparr>)))
        else bind_c (query (rdm_read_pd dmx_num format room sz)) (\<lambda>(_, bs). ret (bs, Some ack))))"

text \<open>The slots that the request overwrites are restored on every way out.\<close>

definition restore :: "nat \<Rightarrow> bytes \<Rightarrow> u32 \<Rightarrow> 'a \<Rightarrow> (world, 'a) cmd" where
  "restore dmx_num old_data packet_size r =
     then_c (dmx_write dmx_num (Some old_data) packet_size) (then_c (give_mutex dmx_num) (ret r))"

definition opt_ack :: "bool \<Rightarrow> rdm_ack_t \<Rightarrow> rdm_ack_t option" where
  "opt_ack want_ack ack = (if want_ack then Some ack else None)"

text \<open>The response, after the request has been sent.\<close>

definition receive_response :: "nat \<Rightarrow> string option \<Rightarrow> nat option \<Rightarrow> nat \<Rightarrow> bool \<Rightarrow> bytes \<Rightarrow> u32 \<Rightarrow>
    (world, reply) cmd" where
  "receive_response dmx_num format room sz want_ack old_data packet_size =
     bind_c (gets_c (dmx_ms_to_ticks 23)) (\<lambda>ticks.
     bind_c (dmx_receive dmx_num ticks) (\<lambda>(_, packet).
     bind_c (gets_c (packet_or_junk packet)) (\<lambda>(err, received).
     if received = 0 then
       restore dmx_num old_data packet_size
         (0, [], opt_ack want_ack (no_response err received RDM_RESPONSE_TYPE_NONE))
     else bind_c (query (rdm_read_header dmx_num)) (\<lambda>headerp.
     case headerp of
       None \<Rightarrow> restore dmx_num old_data packet_size
         (0, [], opt_ack want_ack (no_response err received RDM_RESPONSE_TYPE_INVALID))
     | Some header \<Rightarrow>
         bind_c (read_response dmx_num header format room sz want_ack err received) (\<lambda>(bs, ack).
         restore dmx_num old_data packet_size
           (if h_response_type header = RDM_RESPONSE_TYPE_ACK
            then (if h_pdl header = 0 then 1 else unat (h_pdl header)) else 0, bs, ack))))))"

definition portMAX_DELAY :: nat where "portMAX_DELAY = 0xffffffff"

definition rdm_send_request :: "nat \<Rightarrow> rdm_request_t \<Rightarrow> string option \<Rightarrow> nat option \<Rightarrow> nat \<Rightarrow> bool \<Rightarrow>
    (world, reply) cmd" where
  "rdm_send_request dmx_num rq format room sz want_ack =
     then_c (assert_c (dmx_num < DMX_NUM_MAX))
    (bind_c (lift_c (rdm_format_is_valid (rq_format rq))) (\<lambda>request_valid.
     bind_c (lift_c (rdm_format_is_valid format)) (\<lambda>response_valid.
     then_c (assert_c (request_ok rq \<and> request_valid \<and> response_valid))
    (bind_c (gets_c (dmx_driver_is_installed dmx_num)) (\<lambda>installed.
     then_c (assert_c installed)
    (bind_c (blocking (Mutex_Take dmx_num portMAX_DELAY)) (\<lambda>taken.
     if taken = 0 then ret (0, [], None)
     else bind_c (gets_c (dmx_ms_to_ticks 23)) (\<lambda>ticks.
     bind_c (dmx_wait_sent dmx_num ticks) (\<lambda>idle.
     if \<not> idle then then_c (give_mutex dmx_num) (ret (0, [], None))
     else bind_c (rdm_get_transaction_num dmx_num) (\<lambda>tn.
     bind_c (deref_c (rq_dest_uid rq)) (\<lambda>dest.
     bind_c (gets_c (rdm_uid_get dmx_num)) (\<lambda>this_uid.
     bind_c (deref_c this_uid) (\<lambda>uid.
     (let header = request_header dmx_num rq dest uid tn;
          packet_size = ucast (h_message_len header) + 2 in
      bind_c (dmx_read dmx_num packet_size) (\<lambda>bs.
      bind_c (gets_c (local_object 257 bs)) (\<lambda>old_data.
      then_c (rdm_write dmx_num (Some header) (rq_format rq) (rq_pd rq))
     (bind_c (dmx_send dmx_num) (\<lambda>sent.
      if sent = 0 then
        restore dmx_num old_data packet_size
          (0, [], opt_ack want_ack (no_response DMX_OK 0 RDM_RESPONSE_TYPE_NONE))
      else if rdm_uid_is_broadcast dest \<and> rq_pid rq \<noteq> RDM_PID_DISC_UNIQUE_BRANCH then
        bind_c (gets_c (dmx_ms_to_ticks 23)) (\<lambda>ticks.
        then_c (dmx_wait_sent dmx_num ticks)
          (restore dmx_num old_data packet_size
            (0, [], opt_ack want_ack (no_response DMX_OK 0 RDM_RESPONSE_TYPE_NONE))))
      else receive_response dmx_num format room sz want_ack old_data packet_size))))))))))))))))))"

section \<open>The requests of the API\<close>

text \<open>A request without parameter data.\<close>

definition get_request :: "rdm_uid_t \<Rightarrow> u16 \<Rightarrow> u8 \<Rightarrow> u16 \<Rightarrow> rdm_request_t" where
  "get_request dest_uid sub_device cc pid = \<lparr>rq_dest_uid = Some dest_uid, rq_sub_device = sub_device,
     rq_cc = cc, rq_pid = pid, rq_format = None, rq_pd = None, rq_pdl = 0\<rparr>"

definition no_reply :: reply where "no_reply = (0, [], None)"

definition rdm_send_get_identify_device :: "nat \<Rightarrow> rdm_uid_t option \<Rightarrow> u16 \<Rightarrow> bool \<Rightarrow> bool \<Rightarrow>
    (world, reply) cmd" where
  "rdm_send_get_identify_device dmx_num destp sub_device has_object want_ack =
     (if \<not> dmx_num < DMX_NUM_MAX then ret no_reply
      else case destp of
        None \<Rightarrow> ret no_reply
      | Some dest_uid \<Rightarrow>
          if rdm_uid_is_broadcast dest_uid then ret no_reply
          else if \<not> sub_device < RDM_SUB_DEVICE_MAX then ret no_reply
          else if \<not> has_object then ret no_reply
          else check_port dmx_num no_reply
            (rdm_send_request dmx_num (get_request dest_uid sub_device RDM_CC_GET_COMMAND RDM_PID_IDENTIFY_DEVICE)
               (Some ''b$'') (Some 1) 1 want_ack))"

definition rdm_send_set_identify_device :: "nat \<Rightarrow> rdm_uid_t option \<Rightarrow> u16 \<Rightarrow> u8 \<Rightarrow> bool \<Rightarrow>
    (world, reply) cmd" where
  "rdm_send_set_identify_device dmx_num destp sub_device identify want_ack =
     (if \<not> dmx_num < DMX_NUM_MAX then ret no_reply
      else case destp of
        None \<Rightarrow> ret no_reply
      | Some dest_uid \<Rightarrow>
          if \<not> (sub_device < RDM_SUB_DEVICE_MAX \<or> sub_device = RDM_SUB_DEVICE_ALL) then ret no_reply
          else if \<not> (identify = 0 \<or> identify = 1) then ret no_reply
          else check_port dmx_num no_reply
            (rdm_send_request dmx_num
               ((get_request dest_uid sub_device RDM_CC_SET_COMMAND RDM_PID_IDENTIFY_DEVICE)
                  \<lparr>rq_pd := Some [identify], rq_pdl := 1, rq_format := Some ''b$''\<rparr>)
               None None 0 want_ack))"

definition rdm_send_get_dmx_start_address :: "nat \<Rightarrow> rdm_uid_t option \<Rightarrow> u16 \<Rightarrow> bool \<Rightarrow> bool \<Rightarrow>
    (world, reply) cmd" where
  "rdm_send_get_dmx_start_address dmx_num destp sub_device has_object want_ack =
     (if \<not> dmx_num < DMX_NUM_MAX then ret no_reply
      else case destp of
        None \<Rightarrow> ret no_reply
      | Some dest_uid \<Rightarrow>
          if rdm_uid_is_broadcast dest_uid then ret no_reply
          else if \<not> sub_device < RDM_SUB_DEVICE_MAX then ret no_reply
          else if \<not> has_object then ret no_reply
          else check_port dmx_num no_reply
            (rdm_send_request dmx_num (get_request dest_uid sub_device RDM_CC_GET_COMMAND RDM_PID_DMX_START_ADDRESS)
               (Some ''w$'') (Some 2) 2 want_ack))"

definition rdm_send_set_dmx_start_address :: "nat \<Rightarrow> rdm_uid_t option \<Rightarrow> u16 \<Rightarrow> u16 \<Rightarrow> bool \<Rightarrow>
    (world, reply) cmd" where
  "rdm_send_set_dmx_start_address dmx_num destp sub_device dmx_start_address want_ack =
     (if \<not> dmx_num < DMX_NUM_MAX then ret no_reply
      else case destp of
        None \<Rightarrow> ret no_reply
      | Some dest_uid \<Rightarrow>
          if \<not> (sub_device < RDM_SUB_DEVICE_MAX \<or> sub_device = RDM_SUB_DEVICE_ALL) then ret no_reply
          else if \<not> dmx_start_address < 513 then ret no_reply
          else check_port dmx_num no_reply
            (rdm_send_request dmx_num
               ((get_request dest_uid sub_device RDM_CC_SET_COMMAND RDM_PID_DMX_START_ADDRESS)
                  \<lparr>rq_pd := Some (le16 dmx_start_address), rq_pdl := 2, rq_format := Some ''w$''\<rparr>)
               None None 0 want_ack))"

definition rdm_send_get_device_info :: "nat \<Rightarrow> rdm_uid_t option \<Rightarrow> u16 \<Rightarrow> bool \<Rightarrow> bool \<Rightarrow>
    (world, reply) cmd" where
  "rdm_send_get_device_info dmx_num destp sub_device has_object want_ack =
     (if \<not> dmx_num < DMX_NUM_MAX then ret no_reply
      else case destp of
        None \<Rightarrow> ret no_reply
      | Some dest_uid \<Rightarrow>
          if rdm_uid_is_broadcast dest_uid then ret no_reply
          else if \<not> sub_device < RDM_SUB_DEVICE_MAX then ret no_reply
          else if \<not> has_object then ret no_reply
          else check_port dmx_num no_reply
            (rdm_send_request dmx_num (get_request dest_uid sub_device RDM_CC_GET_COMMAND RDM_PID_DEVICE_INFO)
               (Some ''x01x00wwdwbbwwb$'') (Some 19) 19 want_ack))"

definition rdm_send_get_software_version_label :: "nat \<Rightarrow> rdm_uid_t option \<Rightarrow> u16 \<Rightarrow> nat option \<Rightarrow> nat \<Rightarrow>
    bool \<Rightarrow> (world, reply) cmd" where
  "rdm_send_get_software_version_label dmx_num destp sub_device room sz want_ack =
     (if \<not> dmx_num < DMX_NUM_MAX then ret no_reply
      else case destp of
        None \<Rightarrow> ret no_reply
      | Some dest_uid \<Rightarrow>
          if \<not> (sub_device < RDM_SUB_DEVICE_MAX \<or> sub_device = RDM_SUB_DEVICE_ALL) then ret no_reply
          else if room = None then ret no_reply
          else check_port dmx_num no_reply
            (rdm_send_request dmx_num
               (get_request dest_uid sub_device RDM_CC_GET_COMMAND RDM_PID_SOFTWARE_VERSION_LABEL)
               (Some ''a$'') room sz want_ack))"

section \<open>Discovery requests\<close>

definition rdm_send_disc_unique_branch :: "nat \<Rightarrow> rdm_disc_unique_branch_t \<Rightarrow> bool \<Rightarrow> (world, reply) cmd" where
  "rdm_send_disc_unique_branch dmx_num branch want_ack = check_port dmx_num no_reply
     (rdm_send_request dmx_num
        ((get_request RDM_UID_BROADCAST_ALL RDM_SUB_DEVICE_ROOT RDM_CC_DISC_COMMAND RDM_PID_DISC_UNIQUE_BRANCH)
           \<lparr>rq_format := Some ''uu$'', rq_pd := Some (disc_unique_branch_bytes branch), rq_pdl := 12\<rparr>)
        None None 0 want_ack)"

text \<open>
  The parameter data of the response goes to the address of the pointer variable \<^verbatim>\<open>mute\<close>, an object of
  four bytes, and not to the object it points to.
\<close>

definition send_mute_request :: "nat \<Rightarrow> rdm_uid_t \<Rightarrow> u16 \<Rightarrow> bool \<Rightarrow> (world, reply) cmd" where
  "send_mute_request dmx_num dest_uid pid want_ack = check_port dmx_num no_reply
     (rdm_send_request dmx_num (get_request dest_uid RDM_SUB_DEVICE_ROOT RDM_CC_DISC_COMMAND pid)
        (Some ''wv'') (Some 4) 8 want_ack)"

definition rdm_send_disc_mute :: "nat \<Rightarrow> rdm_uid_t \<Rightarrow> bool \<Rightarrow> (world, reply) cmd" where
  "rdm_send_disc_mute dmx_num dest_uid want_ack = send_mute_request dmx_num dest_uid RDM_PID_DISC_MUTE want_ack"

definition rdm_send_disc_un_mute :: "nat \<Rightarrow> rdm_uid_t \<Rightarrow> bool \<Rightarrow> (world, reply) cmd" where
  "rdm_send_disc_un_mute dmx_num dest_uid want_ack =
     send_mute_request dmx_num dest_uid RDM_PID_DISC_UN_MUTE want_ack"

end
