(* ===== verification/Rdm_Discovery.thy ===== *)
theory Rdm_Discovery
  imports Rdm_Controller
begin

text \<open>
  Discovery, \<^verbatim>\<open>rdm_discover_with_callback\<close> and \<^verbatim>\<open>rdm_discover_devices_simple\<close> of
  \<^verbatim>\<open>rdm/controller/discovery.c\<close>: a depth-first search of the address space with a stack of 49 branches.
  The search, \<open>disc_loop\<close>, takes the two requests and the report of a device as arguments, so that its
  properties do not depend on how a request travels over the bus; \<open>rdm_discover_with_callback\<close> passes
  the library's own requests. \<open>None\<close> is a search that does not end.

  The state of the search is the stack (top first), the local variable \<^verbatim>\<open>ack\<close> and the number of devices
  found. The program state is a pair of the library's state and of the caller's state, which only the
  callback changes.
\<close>

section \<open>The address space\<close>

definition uid64 :: "rdm_uid_t \<Rightarrow> u64" where
  "uid64 u = push_bit 32 (ucast (man_id u)) OR ucast (dev_id u)"

definition uid_of64 :: "u64 \<Rightarrow> rdm_uid_t" where
  "uid_of64 x = Rdm_Uid (ucast (drop_bit 32 x)) (ucast x)"

text \<open>The two halves of a branch.\<close>

definition mid_uid :: "rdm_disc_unique_branch_t \<Rightarrow> u64" where
  "mid_uid b = (uid64 (lower_bound b) + uid64 (upper_bound b)) div 2"

definition lower_half :: "rdm_disc_unique_branch_t \<Rightarrow> rdm_disc_unique_branch_t" where
  "lower_half b = \<lparr>lower_bound = lower_bound b, upper_bound = uid_of64 (mid_uid b)\<rparr>"

definition upper_half :: "rdm_disc_unique_branch_t \<Rightarrow> rdm_disc_unique_branch_t" where
  "upper_half b = \<lparr>lower_bound = uid_of64 (mid_uid b + 1), upper_bound = upper_bound b\<rparr>"

section \<open>The search\<close>

type_synonym 's send = "rdm_ack_t \<Rightarrow> ('s, rdm_ack_t) cmd"
type_synonym disc_state = "rdm_disc_unique_branch_t list \<times> rdm_ack_t \<times> nat"

definition STACK_MAX :: nat where "STACK_MAX = 49"

text \<open>A request is repeated while \<open>again\<close> holds of its acknowledgement, at most \<open>k\<close> times in all.\<close>

fun retry :: "nat \<Rightarrow> (rdm_ack_t \<Rightarrow> bool) \<Rightarrow> 's send \<Rightarrow> 's send" where
  "retry 0 again send ack = ret ack"
| "retry (Suc k) again send ack =
     bind_c (send ack) (\<lambda>ack'. if again ack' then retry k again send ack' else ret ack')"

text \<open>One round of the loop, for the branch at the top of the stack.\<close>

definition disc_step :: "(rdm_disc_unique_branch_t \<Rightarrow> 's send) \<Rightarrow> (rdm_uid_t \<Rightarrow> 's send) \<Rightarrow>
    (rdm_uid_t \<Rightarrow> nat \<Rightarrow> ('s, unit) cmd) \<Rightarrow> rdm_disc_unique_branch_t \<Rightarrow> disc_state \<Rightarrow> ('s, disc_state) cmd" where
  "disc_step send_branch send_mute found branch st = (case st of (stack, ack, num_found) \<Rightarrow>
     if rdm_uid_is_eq (lower_bound branch) (upper_bound branch) then
       bind_c (retry 3 (\<lambda>a. ak_type a \<noteq> RDM_RESPONSE_TYPE_ACK) (send_mute (lower_bound branch)) ack) (\<lambda>ack.
       if ak_type ack = RDM_RESPONSE_TYPE_ACK then
         then_c (found (ak_src_uid ack) num_found) (ret (stack, ack, num_found + 1))
       else ret (stack, ack, num_found))
     else
       bind_c (retry 3 (\<lambda>a. ak_type a = RDM_RESPONSE_TYPE_NONE) (send_branch branch) ack) (\<lambda>ack.
       if ak_type ack \<noteq> RDM_RESPONSE_TYPE_NONE then
         (if length stack + 2 \<le> STACK_MAX
          then ret (lower_half branch # upper_half branch # stack, ack, num_found)
          else throw Out_Of_Bounds)
       else ret (stack, ack, num_found)))"

partial_function (option) disc_loop :: "(rdm_disc_unique_branch_t \<Rightarrow> 's send) \<Rightarrow> (rdm_uid_t \<Rightarrow> 's send) \<Rightarrow>
    (rdm_uid_t \<Rightarrow> nat \<Rightarrow> ('s, unit) cmd) \<Rightarrow> disc_state \<Rightarrow> 's \<Rightarrow> (nat \<times> 's) res option" where
  "disc_loop send_branch send_mute found st s =
     (case fst st of
        [] \<Rightarrow> Some (Inr (snd (snd st), s))
      | branch # stack \<Rightarrow>
          (case disc_step send_branch send_mute found branch (stack, snd st) s of
             Inl e \<Rightarrow> Some (Inl e)
           | Inr (st', s') \<Rightarrow> disc_loop send_branch send_mute found st' s'))"

declare disc_loop.simps [code]

definition whole_space :: rdm_disc_unique_branch_t where
  "whole_space = \<lparr>lower_bound = Rdm_Uid 0 0, upper_bound = RDM_UID_MAX\<rparr>"

section \<open>The functions of the API\<close>

definition on_world :: "(world, 'a) cmd \<Rightarrow> (world \<times> 'c, 'a) cmd" where
  "on_world m = (\<lambda>(w, c). case m w of Inl e \<Rightarrow> Inl e | Inr (a, w') \<Rightarrow> Inr (a, (w', c)))"

text \<open>The local variable \<^verbatim>\<open>ack\<close> after a request, which may have left it as it was.\<close>

definition ack_of :: "(world, reply) cmd \<Rightarrow> (world \<times> 'c) send" where
  "ack_of m ack = bind_c (on_world m) (\<lambda>(_, _, a). ret (case a of Some x \<Rightarrow> x | None \<Rightarrow> ack))"

definition uninit_ack :: "world \<Rightarrow> rdm_ack_t" where
  "uninit_ack w = (let bs = uninit_bytes 28 w in
     \<lparr>ak_err = sint (of_le32 (slice 0 4 bs)), ak_size = of_le32 (slice 4 4 bs),
      ak_src_uid = uid_of_bytes (slice 8 6 bs), ak_pid = of_le16 (slice 14 2 bs), ak_type = bs ! 16,
      ak_message_count = sint (of_le32 (slice 20 4 bs)), ak_data = of_le32 (slice 24 4 bs)\<rparr>)"

text \<open>
  A callback gets the port, the UID, the number of devices found before and the mute parameters, which
  no request has written, and acts on both states.
\<close>

type_synonym 'c disc_cb = "nat \<Rightarrow> rdm_uid_t \<Rightarrow> nat \<Rightarrow> bytes \<Rightarrow> (world \<times> 'c, unit) cmd"

definition report :: "nat \<Rightarrow> 'c disc_cb \<Rightarrow> rdm_uid_t \<Rightarrow> nat \<Rightarrow> (world \<times> 'c, unit) cmd" where
  "report dmx_num cb uid num_found =
     then_c (on_world (give_mutex dmx_num))
    (bind_c (on_world (gets_c (uninit_bytes 8))) (\<lambda>mute.
     then_c (cb dmx_num uid num_found mute)
    (bind_c (on_world (blocking (Mutex_Take dmx_num portMAX_DELAY))) (\<lambda>_. ret ()))))"

definition run_discovery :: "nat \<Rightarrow> 'c disc_cb \<Rightarrow> (world \<times> 'c, nat) cmd" where
  "run_discovery dmx_num cb =
     bind_c (on_world (gets_c uninit_ack)) (\<lambda>ack.
     (\<lambda>s. case disc_loop (\<lambda>b. ack_of (rdm_send_disc_unique_branch dmx_num b True))
              (\<lambda>u. ack_of (rdm_send_disc_mute dmx_num u True)) (report dmx_num cb)
              ([whole_space], ack, 0) s of
        None \<Rightarrow> Inl Loops_Forever
      | Some r \<Rightarrow> r))"

definition rdm_discover_with_callback :: "nat \<Rightarrow> 'c disc_cb option \<Rightarrow> (world \<times> 'c, nat) cmd" where
  "rdm_discover_with_callback dmx_num cbp =
     (if \<not> dmx_num < DMX_NUM_MAX then ret 0
      else case cbp of
        None \<Rightarrow> ret 0
      | Some cb \<Rightarrow>
          bind_c (gets_c (\<lambda>s. dmx_driver_is_installed dmx_num (fst s))) (\<lambda>installed.
          if \<not> installed then ret 0
          else bind_c (on_world (malloc (12 * STACK_MAX))) (\<lambda>stack.
          if stack = None then ret 0
          else
            then_c (on_world (blocking (Mutex_Take dmx_num 0)))
           (then_c (on_world (rdm_send_disc_un_mute dmx_num RDM_UID_BROADCAST_ALL False))
           (bind_c (run_discovery dmx_num cb) (\<lambda>num_found.
            then_c (on_world (give_mutex dmx_num))
           (then_c (on_world (free stack)) (ret num_found))))))))"

text \<open>The callback of the simple form stores the UIDs in the caller's array while there is room.\<close>

definition rdm_disc_cb :: "nat \<Rightarrow> rdm_uid_t list option disc_cb" where
  "rdm_disc_cb num dmx_num uid num_found mute = (\<lambda>(w, uids). case uids of
     None \<Rightarrow> Inr ((), (w, uids))
   | Some xs \<Rightarrow>
       if num_found < num then
         (if num_found < length xs then Inr ((), (w, Some (xs[num_found := uid]))) else Inl Out_Of_Bounds)
       else Inr ((), (w, uids)))"

definition rdm_discover_devices_simple :: "nat \<Rightarrow> nat \<Rightarrow> (world \<times> rdm_uid_t list option, nat) cmd" where
  "rdm_discover_devices_simple dmx_num num =
     (if \<not> dmx_num < DMX_NUM_MAX then ret 0
      else bind_c (gets_c (\<lambda>s. dmx_driver_is_installed dmx_num (fst s))) (\<lambda>installed.
        if \<not> installed then ret 0
        else rdm_discover_with_callback dmx_num (Some (rdm_disc_cb num))))"

section \<open>The address space as numbers\<close>

definition uid_nat :: "rdm_uid_t \<Rightarrow> nat" where
  "uid_nat u = unat (man_id u) * 2 ^ 32 + unat (dev_id u)"

lemma uid_nat_less: "uid_nat u < 2 ^ 48"
proof -
  have "unat (man_id u) < 2 ^ 16" "unat (dev_id u) < 2 ^ 32"
    using unsigned_less [of "man_id u"] unsigned_less [of "dev_id u"] by simp_all
  then show ?thesis unfolding uid_nat_def by (simp add: algebra_simps)
qed

lemma bit_above_u32: "32 \<le> n \<Longrightarrow> \<not> bit (b :: u32) n"
  using bit_imp_le_length [of b n] by auto

lemma halves_disjoint: "push_bit 32 (ucast (m :: u16)) AND ucast (d :: u32) = (0 :: u64)"
  by (rule bit_eqI) (auto simp: bit_and_iff bit_push_bit_iff bit_unsigned_iff bit_above_u32)

lemma unat_uid64: "unat (uid64 u) = uid_nat u"
proof -
  have m: "unat (man_id u) < 2 ^ 16" and d: "unat (dev_id u) < 2 ^ 32"
    using unsigned_less [of "man_id u"] unsigned_less [of "dev_id u"] by simp_all
  have "uid64 u = push_bit 32 (ucast (man_id u)) + ucast (dev_id u)"
    using word_plus_and_or [of "push_bit 32 (ucast (man_id u)) :: u64" "ucast (dev_id u)"]
    by (simp add: uid64_def halves_disjoint)
  also have "unat \<dots> = unat (man_id u) * 2 ^ 32 + unat (dev_id u)"
    using m d by (simp add: unat_word_ariths push_bit_eq_mult unsigned_ucast_eq take_bit_nat_eq_self)
  finally show ?thesis by (simp add: uid_nat_def)
qed

lemma uid_nat_of64: "unat x < 2 ^ 48 \<Longrightarrow> uid_nat (uid_of64 x) = unat x"
proof -
  assume "unat x < 2 ^ 48"
  then have "unat x div 2 ^ 32 < 2 ^ 16" by simp
  then show ?thesis
    by (simp add: uid_nat_def uid_of64_def unsigned_ucast_eq drop_bit_eq_div unat_div take_bit_nat_eq_self take_bit_eq_mod)
qed

lemma uid_le_nat: "u \<le> v \<longleftrightarrow> uid_nat u \<le> uid_nat v"
proof -
  have d: "unat (dev_id x) < 2 ^ 32" for x using unsigned_less [of "dev_id x"] by simp
  show ?thesis
    using d [of u] d [of v]
    by (auto simp: less_eq_rdm_uid_t_def rdm_uid_is_le_def rdm_uid_is_gt_def uid_nat_def word_less_nat_alt
        word_unat_eq_iff)
qed

lemma uid_nat_inject [simp]: "uid_nat u = uid_nat v \<longleftrightarrow> u = v"
  by (metis uid_le_nat order.antisym order.refl)

lemma uid_less_nat: "u < v \<longleftrightarrow> uid_nat u < uid_nat v"
  by (simp add: less_le uid_le_nat)

lemma unat_mid_uid: "unat (mid_uid b) = (uid_nat (lower_bound b) + uid_nat (upper_bound b)) div 2"
proof -
  have "unat (uid64 (lower_bound b) + uid64 (upper_bound b)) =
      uid_nat (lower_bound b) + uid_nat (upper_bound b)"
    using uid_nat_less [of "lower_bound b"] uid_nat_less [of "upper_bound b"]
    by (simp add: unat_word_ariths(1) unat_uid64)
  then show ?thesis by (simp add: mid_uid_def unat_div)
qed

lemma uid_nat_halves:
  assumes "lower_bound b < upper_bound b"
  shows "uid_nat (upper_bound (lower_half b)) = (uid_nat (lower_bound b) + uid_nat (upper_bound b)) div 2"
    and "uid_nat (lower_bound (upper_half b)) = (uid_nat (lower_bound b) + uid_nat (upper_bound b)) div 2 + 1"
proof -
  let ?m = "(uid_nat (lower_bound b) + uid_nat (upper_bound b)) div 2"
  have less: "?m + 1 < 2 ^ 48"
    using assms uid_nat_less [of "upper_bound b"] by (simp add: uid_less_nat)
  have "unat (mid_uid b + 1) = ?m + 1"
    using less by (simp add: unat_word_ariths(1) unat_mid_uid)
  then show "uid_nat (lower_bound (upper_half b)) = ?m + 1"
    using less uid_nat_of64 [of "mid_uid b + 1"] by (simp add: upper_half_def)
  show "uid_nat (upper_bound (lower_half b)) = ?m"
    using less uid_nat_of64 [of "mid_uid b"] by (simp add: lower_half_def unat_mid_uid)
qed

lemma bounds_of_halves [simp]:
  "lower_bound (lower_half b) = lower_bound b" "upper_bound (upper_half b) = upper_bound b"
  by (simp_all add: lower_half_def upper_half_def)

lemma finite_uids [simp]: "finite (A :: rdm_uid_t set)"
proof -
  have "finite (uid_nat ` A)"
    by (rule finite_subset [of _ "{..<2 ^ 48}"]) (use uid_nat_less in auto)
  then show ?thesis by (rule finite_imageD) (simp add: inj_on_def)
qed

section \<open>The shape of the search\<close>

lemma retry_runs: "(\<And>ack. runs (\<lambda>_. True) (send ack)) \<Longrightarrow> runs (\<lambda>_. True) (retry k again send ack)"
proof (induction k arbitrary: ack)
  case (Suc k)
  then show ?case unfolding retry.simps by (auto intro!: runs_rules)
qed (simp add: runs_def)

text \<open>
  Induction over the branches. A round either ends the search of its branch, or faults, or puts the two
  halves on the stack. \<open>R lo hi\<close> relates the states before and after a branch has been searched and \<open>Q\<close>
  those before and after a branch has been split. A branch of fewer than \<open>2 ^ d\<close> addresses needs at
  most \<open>d\<close> more places on the stack, so the 49 places are enough for the 48 bits of the address space.
\<close>

definition round_ok :: "(rdm_disc_unique_branch_t \<Rightarrow> 's send) \<Rightarrow> (rdm_uid_t \<Rightarrow> 's send) \<Rightarrow>
    (rdm_uid_t \<Rightarrow> nat \<Rightarrow> ('s, unit) cmd) \<Rightarrow> (fault \<Rightarrow> bool) \<Rightarrow>
    (rdm_uid_t \<Rightarrow> rdm_uid_t \<Rightarrow> 's \<times> nat \<Rightarrow> 's \<times> nat \<Rightarrow> bool) \<Rightarrow> ('s \<times> nat \<Rightarrow> 's \<times> nat \<Rightarrow> bool) \<Rightarrow>
    rdm_disc_unique_branch_t \<Rightarrow> rdm_disc_unique_branch_t list \<Rightarrow> rdm_ack_t \<Rightarrow> nat \<Rightarrow> 's \<Rightarrow> bool" where
  "round_ok sb sm fd F R Q b stack ack n s \<longleftrightarrow>
     (\<exists>e. disc_step sb sm fd b (stack, ack, n) s = Inl e \<and> F e) \<or>
     (\<exists>ack' n' s'. disc_step sb sm fd b (stack, ack, n) s = Inr ((stack, ack', n'), s') \<and>
        R (lower_bound b) (upper_bound b) (s, n) (s', n')) \<or>
     (lower_bound b < upper_bound b \<and>
      (\<exists>ack' n' s'. disc_step sb sm fd b (stack, ack, n) s =
         Inr ((lower_half b # upper_half b # stack, ack', n'), s') \<and> Q (s, n) (s', n')))"

definition rounds_ok where
  "rounds_ok sb sm fd F R Q \<longleftrightarrow> (\<forall>b stack ack n s. lower_bound b \<le> upper_bound b \<and>
     (lower_bound b = upper_bound b \<or> length stack + 2 \<le> STACK_MAX) \<longrightarrow>
     round_ok sb sm fd F R Q b stack ack n s)"

definition joins :: "(rdm_uid_t \<Rightarrow> rdm_uid_t \<Rightarrow> 's \<Rightarrow> 's \<Rightarrow> bool) \<Rightarrow> ('s \<Rightarrow> 's \<Rightarrow> bool) \<Rightarrow> bool" where
  "joins R Q \<longleftrightarrow> (\<forall>b x y z v. lower_bound b < upper_bound b \<longrightarrow> Q x y \<longrightarrow>
     R (lower_bound b) (upper_bound (lower_half b)) y z \<longrightarrow>
     R (lower_bound (upper_half b)) (upper_bound b) z v \<longrightarrow>
     R (lower_bound b) (upper_bound b) x v)"

lemma disc_branch:
  assumes rounds: "rounds_ok sb sm fd F R Q" and joins: "joins R Q"
    and "lower_bound b \<le> upper_bound b" "uid_nat (upper_bound b) - uid_nat (lower_bound b) < 2 ^ d"
    and "length stack + d + 1 \<le> STACK_MAX"
  shows "(\<exists>e. disc_loop sb sm fd (b # stack, ack, n) s = Some (Inl e) \<and> F e) \<or>
    (\<exists>ack' n' s'. disc_loop sb sm fd (b # stack, ack, n) s = disc_loop sb sm fd (stack, ack', n') s' \<and>
       R (lower_bound b) (upper_bound b) (s, n) (s', n'))"
  using assms(3-)
proof (induction d arbitrary: b stack ack n s)
  case 0
  then have "lower_bound b = upper_bound b" by (simp add: uid_le_nat flip: uid_nat_inject)
  with rounds have "round_ok sb sm fd F R Q b stack ack n s"
    unfolding rounds_ok_def by simp
  with \<open>lower_bound b = upper_bound b\<close> consider (fault) e where "disc_step sb sm fd b (stack, ack, n) s = Inl e" "F e"
    | (ended) ack' n' s' where "disc_step sb sm fd b (stack, ack, n) s = Inr ((stack, ack', n'), s')"
        "R (lower_bound b) (upper_bound b) (s, n) (s', n')"
    unfolding round_ok_def by auto
  then show ?case by cases (auto simp: disc_loop.simps [of sb sm fd "(b # stack, ack, n)"])
next
  case (Suc d)
  let ?m = "(uid_nat (lower_bound b) + uid_nat (upper_bound b)) div 2"
  have "round_ok sb sm fd F R Q b stack ack n s"
    using rounds Suc.prems unfolding rounds_ok_def by simp
  then consider (fault) e where "disc_step sb sm fd b (stack, ack, n) s = Inl e" "F e"
    | (ended) ack' n' s' where "disc_step sb sm fd b (stack, ack, n) s = Inr ((stack, ack', n'), s')"
        "R (lower_bound b) (upper_bound b) (s, n) (s', n')"
    | (halved) ack' n' s' where "lower_bound b < upper_bound b"
        "disc_step sb sm fd b (stack, ack, n) s = Inr ((lower_half b # upper_half b # stack, ack', n'), s')"
        "Q (s, n) (s', n')"
    unfolding round_ok_def by blast
  then show ?case
  proof cases
    case halved
    note nats = uid_nat_halves [OF halved(1)]
    have le: "lower_bound (lower_half b) \<le> upper_bound (lower_half b)"
      "lower_bound (upper_half b) \<le> upper_bound (upper_half b)"
      using halved(1) nats by (auto simp: uid_le_nat uid_less_nat)
    have w: "uid_nat (upper_bound (lower_half b)) - uid_nat (lower_bound (lower_half b)) < 2 ^ d"
      "uid_nat (upper_bound (upper_half b)) - uid_nat (lower_bound (upper_half b)) < 2 ^ d"
      using Suc.prems(2) nats by auto
    have step: "disc_loop sb sm fd (b # stack, ack, n) s =
        disc_loop sb sm fd (lower_half b # upper_half b # stack, ack', n') s'"
      using halved(2) by (subst disc_loop.simps) simp
    have lower: "(\<exists>e. disc_loop sb sm fd (lower_half b # upper_half b # stack, ack', n') s' = Some (Inl e) \<and> F e) \<or>
      (\<exists>a2 n2 s2. disc_loop sb sm fd (lower_half b # upper_half b # stack, ack', n') s' =
           disc_loop sb sm fd (upper_half b # stack, a2, n2) s2 \<and>
         R (lower_bound b) (upper_bound (lower_half b)) (s', n') (s2, n2))"
      using Suc.IH [OF le(1) w(1), of "upper_half b # stack"] Suc.prems(3) by simp
    have upper: "(\<exists>e. disc_loop sb sm fd (upper_half b # stack, a2, n2) s2 = Some (Inl e) \<and> F e) \<or>
      (\<exists>a3 n3 s3. disc_loop sb sm fd (upper_half b # stack, a2, n2) s2 = disc_loop sb sm fd (stack, a3, n3) s3 \<and>
         R (lower_bound (upper_half b)) (upper_bound b) (s2, n2) (s3, n3))" for a2 n2 s2
      using Suc.IH [OF le(2) w(2), of stack] Suc.prems(3) by simp
    have join: "R (lower_bound b) (upper_bound b) (s, n) v"
      if "R (lower_bound b) (upper_bound (lower_half b)) (s', n') z"
        "R (lower_bound (upper_half b)) (upper_bound b) z v" for z v
      using joins halved(1,3) that unfolding joins_def by blast
    from lower show ?thesis unfolding step using upper join by metis
  qed (auto simp: disc_loop.simps [of sb sm fd "(b # stack, ack, n)"])
qed

lemma whole_space_width:
  "lower_bound whole_space \<le> upper_bound whole_space"
  "uid_nat (upper_bound whole_space) - uid_nat (lower_bound whole_space) < 2 ^ 48"
  using uid_nat_less [of RDM_UID_MAX] by (simp_all add: whole_space_def uid_le_nat uid_nat_def)

lemma disc_whole:
  assumes "rounds_ok sb sm fd F R Q" "joins R Q"
  shows "(\<exists>e. disc_loop sb sm fd ([whole_space], ack, n) s = Some (Inl e) \<and> F e) \<or>
    (\<exists>n' s'. disc_loop sb sm fd ([whole_space], ack, n) s = Some (Inr (n', s')) \<and>
       R (Rdm_Uid 0 0) RDM_UID_MAX (s, n) (s', n'))"
proof -
  have "disc_loop sb sm fd ([], a, k) t = Some (Inr (k, t))" for a k t
    by (simp add: disc_loop.simps)
  with disc_branch [OF assms whole_space_width, of "[]" ack n s] show ?thesis
    by (auto simp: STACK_MAX_def whole_space_def)
qed

section \<open>Properties\<close>

text \<open>A round of the loop, with its two kinds of branches.\<close>

lemma disc_step_leaf:
  "lower_bound b = upper_bound b \<Longrightarrow> disc_step sb sm fd b (stack, ack, n) =
     bind_c (retry 3 (\<lambda>a. ak_type a \<noteq> RDM_RESPONSE_TYPE_ACK) (sm (lower_bound b)) ack) (\<lambda>ack.
     if ak_type ack = RDM_RESPONSE_TYPE_ACK then
       then_c (fd (ak_src_uid ack) n) (ret (stack, ack, n + 1))
     else ret (stack, ack, n))"
  by (simp add: disc_step_def uid_eq_iff)

lemma disc_step_branch:
  "lower_bound b < upper_bound b \<Longrightarrow> length stack + 2 \<le> STACK_MAX \<Longrightarrow>
   disc_step sb sm fd b (stack, ack, n) =
     bind_c (retry 3 (\<lambda>a. ak_type a = RDM_RESPONSE_TYPE_NONE) (sb b) ack) (\<lambda>ack.
     if ak_type ack \<noteq> RDM_RESPONSE_TYPE_NONE then ret (lower_half b # upper_half b # stack, ack, n)
     else ret (stack, ack, n))"
  unfolding disc_step_def prod.case uid_eq_iff by (simp only: if_True) auto

lemma rounds_ok_any: "rounds_ok sb sm fd (\<lambda>_. True) (\<lambda>_ _ _ _. True) (\<lambda>_ _. True)"
proof -
  have "round_ok sb sm fd (\<lambda>_. True) (\<lambda>_ _ _ _. True) (\<lambda>_ _. True) b stack ack n s"
    if "lower_bound b < upper_bound b" "length stack + 2 \<le> STACK_MAX" for b stack ack n s
    unfolding round_ok_def disc_step_branch [OF that] using that(1)
    by (auto simp: bind_c_def split: sum.splits)
  moreover have "round_ok sb sm fd (\<lambda>_. True) (\<lambda>_ _ _ _. True) (\<lambda>_ _. True) b stack ack n s"
    if "lower_bound b = upper_bound b" for b stack ack n s
    unfolding round_ok_def disc_step_leaf [OF that]
    by (auto simp: bind_c_def then_c_def split: sum.splits)
  ultimately show ?thesis by (fastforce simp: rounds_ok_def le_less)
qed

lemma rounds_ok_runs:
  assumes "\<And>b ack. runs (\<lambda>_. True) (sb b ack)" "\<And>u ack. runs (\<lambda>_. True) (sm u ack)"
    "\<And>u n. runs (\<lambda>_. True) (fd u n)"
  shows "rounds_ok sb sm fd (\<lambda>_. False) (\<lambda>_ _ _ _. True) (\<lambda>_ _. True)"
proof -
  have "round_ok sb sm fd (\<lambda>_. False) (\<lambda>_ _ _ _. True) (\<lambda>_ _. True) b stack ack n s"
    if less: "lower_bound b < upper_bound b" "length stack + 2 \<le> STACK_MAX" for b stack ack n s
  proof -
    obtain ack' s' where "retry 3 (\<lambda>a. ak_type a = RDM_RESPONSE_TYPE_NONE) (sb b) ack s = Inr (ack', s')"
      using runsE [OF retry_runs [of "sb b", OF assms(1)]] by blast
    then show ?thesis
      unfolding round_ok_def disc_step_branch [OF less] using less(1) by auto
  qed
  moreover have "round_ok sb sm fd (\<lambda>_. False) (\<lambda>_ _ _ _. True) (\<lambda>_ _. True) b stack ack n s"
    if eq: "lower_bound b = upper_bound b" for b stack ack n s
  proof -
    obtain ack' s' where sent: "retry 3 (\<lambda>a. ak_type a \<noteq> RDM_RESPONSE_TYPE_ACK) (sm (lower_bound b)) ack s = Inr (ack', s')"
      using runsE [OF retry_runs [of "sm (lower_bound b)", OF assms(2)]] by blast
    obtain t where "fd (ak_src_uid ack') n s' = Inr ((), t)"
      using assms(3) [of "ak_src_uid ack'" n] by (auto simp: runs_def)
    with sent show ?thesis unfolding round_ok_def disc_step_leaf [OF eq] by auto
  qed
  ultimately show ?thesis by (fastforce simp: rounds_ok_def le_less)
qed

text \<open>
  C27. The discovery search always ends and its stack of 49 branches is large enough, whatever the devices
  on the bus answer: the loop returns for arbitrary requests, and when the requests and the callback
  themselves return, so does the search, without an access outside the stack.
\<close>

theorem discovery_terminates:
  assumes "\<And>b ack. runs (\<lambda>_. True) (send_branch b ack)" "\<And>u ack. runs (\<lambda>_. True) (send_mute u ack)"
    "\<And>u k. runs (\<lambda>_. True) (found u k)"
  shows "(\<exists>n s'. disc_loop send_branch send_mute found ([whole_space], ack, 0) s = Some (Inr (n, s'))) \<and>
    disc_loop send_branch' send_mute' found' ([whole_space], ack, 0) s \<noteq> None"
proof (rule conjI)
  have j: "joins (\<lambda>_ _ _ _. True) (\<lambda>_ _. True)" by (simp add: joins_def)
  have "rounds_ok send_branch send_mute found (\<lambda>_. False) (\<lambda>_ _ _ _. True) (\<lambda>_ _. True)"
    by (rule rounds_ok_runs) (rule assms)+
  from disc_whole [OF this j]
  show "\<exists>n s'. disc_loop send_branch send_mute found ([whole_space], ack, 0) s = Some (Inr (n, s'))"
    by blast
  show "disc_loop send_branch' send_mute' found' ([whole_space], ack, 0) s \<noteq> None"
    using disc_whole [OF rounds_ok_any j] by (metis option.distinct(1))
qed

text \<open>A bus whose devices all answer: every branch request is acknowledged, every mute as well.\<close>

definition babbling :: "rdm_ack_t \<Rightarrow> (unit, rdm_ack_t) cmd" where
  "babbling ack = ret (no_response DMX_OK 0 RDM_RESPONSE_TYPE_ACK)"

theorem discovery_terminates_witness:
  "(\<exists>n s'. disc_loop (\<lambda>_. babbling) (\<lambda>_. babbling) (\<lambda>_ _. ret ())
      ([whole_space], no_response 0 0 0, 0) () = Some (Inr (n, s'))) \<and>
   disc_loop (\<lambda>_ _. throw Assert_Failed) (\<lambda>_. babbling) (\<lambda>_ _. ret ())
      ([whole_space], no_response 0 0 0, 0) () \<noteq> None"
  by (rule discovery_terminates) (simp_all add: babbling_def runs_def)

text \<open>
  A bus on which requests are answered as the RDM standard prescribes: \<open>devs\<close> are the devices that are
  not muted, \<open>found_log\<close> the devices that have been reported.
\<close>

definition ideal_bus :: "('s \<Rightarrow> rdm_uid_t set) \<Rightarrow> ('s \<Rightarrow> rdm_uid_t list) \<Rightarrow> (rdm_disc_unique_branch_t \<Rightarrow> 's send) \<Rightarrow>
    (rdm_uid_t \<Rightarrow> 's send) \<Rightarrow> (rdm_uid_t \<Rightarrow> nat \<Rightarrow> ('s, unit) cmd) \<Rightarrow> bool" where
  "ideal_bus devs found_log send_branch send_mute found \<longleftrightarrow>
     (\<forall>b ack s. \<exists>ack'. send_branch b ack s = Inr (ack', s) \<and>
        (ak_type ack' = RDM_RESPONSE_TYPE_NONE \<longleftrightarrow> devs s \<inter> {lower_bound b..upper_bound b} = {})) \<and>
     (\<forall>u ack s. \<exists>ack' s'. send_mute u ack s = Inr (ack', s') \<and> found_log s' = found_log s \<and>
        devs s' = devs s - {u} \<and>
        (ak_type ack' = RDM_RESPONSE_TYPE_ACK \<longleftrightarrow> u \<in> devs s) \<and> (u \<in> devs s \<longrightarrow> ak_src_uid ack' = u)) \<and>
     (\<forall>u n s. \<exists>s'. found u n s = Inr ((), s') \<and> devs s' = devs s \<and> found_log s' = found_log s @ [u])"

text \<open>What a search of the addresses from \<open>lo\<close> to \<open>hi\<close> does.\<close>

definition searched :: "('s \<Rightarrow> rdm_uid_t set) \<Rightarrow> ('s \<Rightarrow> rdm_uid_t list) \<Rightarrow> rdm_uid_t \<Rightarrow> rdm_uid_t \<Rightarrow>
    's \<times> nat \<Rightarrow> 's \<times> nat \<Rightarrow> bool" where
  "searched devs found_log lo hi x y \<longleftrightarrow>
     devs (fst y) = devs (fst x) - {lo..hi} \<and>
     found_log (fst y) = found_log (fst x) @ sorted_list_of_set (devs (fst x) \<inter> {lo..hi}) \<and>
     snd y = snd x + card (devs (fst x) \<inter> {lo..hi})"

lemma sorted_list_of_halves:
  assumes "(lo :: 'a :: linorder) \<le> m" "m < m'" "finite A"
    and "\<And>x. x \<in> A \<Longrightarrow> lo \<le> x \<Longrightarrow> x \<le> hi \<Longrightarrow> x \<le> m \<or> m' \<le> x" "m \<le> hi"
  shows "sorted_list_of_set (A \<inter> {lo..hi}) =
      sorted_list_of_set (A \<inter> {lo..m}) @ sorted_list_of_set (A \<inter> {m'..hi})"
proof (rule sorted_distinct_set_unique)
  show "sorted (sorted_list_of_set (A \<inter> {lo..m}) @ sorted_list_of_set (A \<inter> {m'..hi}))"
    using assms by (auto simp: sorted_append)
  show "distinct (sorted_list_of_set (A \<inter> {lo..m}) @ sorted_list_of_set (A \<inter> {m'..hi}))"
    using assms by auto
  have "A \<inter> {lo..hi} = (A \<inter> {lo..m}) \<union> (A \<inter> {m'..hi})"
    using assms(1,2,5) assms(4) by fastforce
  then show "set (sorted_list_of_set (A \<inter> {lo..hi})) =
      set (sorted_list_of_set (A \<inter> {lo..m}) @ sorted_list_of_set (A \<inter> {m'..hi}))"
    using assms(3) by simp
qed (use assms in simp_all)

lemma halves_cover:
  assumes "lower_bound b < upper_bound b"
  shows "lower_bound b \<le> upper_bound (lower_half b)" "upper_bound (lower_half b) < lower_bound (upper_half b)"
    "upper_bound (lower_half b) \<le> upper_bound b" "x \<le> upper_bound (lower_half b) \<or> lower_bound (upper_half b) \<le> x"
    "lower_bound (upper_half b) \<le> upper_bound b"
  using assms uid_nat_halves [OF assms] by (auto simp: uid_le_nat uid_less_nat)

lemma joins_searched: "joins (searched devs found_log) (=)"
proof -
  have "searched devs found_log (lower_bound b) (upper_bound b) x v"
    if b: "lower_bound b < upper_bound b"
      and lower: "searched devs found_log (lower_bound b) (upper_bound (lower_half b)) x z"
      and upper: "searched devs found_log (lower_bound (upper_half b)) (upper_bound b) z v" for b x z v
  proof -
    let ?lo = "lower_bound b" and ?m = "upper_bound (lower_half b)"
      and ?m' = "lower_bound (upper_half b)" and ?hi = "upper_bound b"
    let ?A = "devs (fst x)"
    note cover = halves_cover [OF b]
    have list: "sorted_list_of_set (?A \<inter> {?lo..?hi}) =
        sorted_list_of_set (?A \<inter> {?lo..?m}) @ sorted_list_of_set (?A \<inter> {?m'..?hi})"
      by (rule sorted_list_of_halves) (use cover in auto)
    then have "length (sorted_list_of_set (?A \<inter> {?lo..?hi})) =
        length (sorted_list_of_set (?A \<inter> {?lo..?m})) + length (sorted_list_of_set (?A \<inter> {?m'..?hi}))"
      by simp
    then have "card (?A \<inter> {?lo..?hi}) = card (?A \<inter> {?lo..?m}) + card (?A \<inter> {?m'..?hi})"
      by simp
    moreover have "(?A - {?lo..?m}) \<inter> {?m'..?hi} = ?A \<inter> {?m'..?hi}" using cover(2) by auto
    moreover have "?A - {?lo..?m} - {?m'..?hi} = ?A - {?lo..?hi}" using cover by force
    ultimately show ?thesis using lower upper list by (simp add: searched_def)
  qed
  then show ?thesis by (auto simp: joins_def)
qed

lemma ideal_branch:
  assumes "ideal_bus devs found_log sb sm fd"
  obtains ack' where "sb b ack s = Inr (ack', s)"
    "ak_type ack' = RDM_RESPONSE_TYPE_NONE \<longleftrightarrow> devs s \<inter> {lower_bound b..upper_bound b} = {}"
  using assms [unfolded ideal_bus_def, THEN conjunct1, THEN spec, THEN spec, THEN spec, of b ack s] by blast

lemma ideal_mute:
  assumes "ideal_bus devs found_log sb sm fd"
  obtains ack' s' where "sm u ack s = Inr (ack', s')" "found_log s' = found_log s" "devs s' = devs s - {u}"
    "ak_type ack' = RDM_RESPONSE_TYPE_ACK \<longleftrightarrow> u \<in> devs s" "u \<in> devs s \<longrightarrow> ak_src_uid ack' = u"
  using assms [unfolded ideal_bus_def, THEN conjunct2, THEN conjunct1, THEN spec, THEN spec, THEN spec, of u ack s]
  by blast

lemma ideal_found:
  assumes "ideal_bus devs found_log sb sm fd"
  obtains s' where "fd u n s = Inr ((), s')" "devs s' = devs s" "found_log s' = found_log s @ [u]"
  using assms [unfolded ideal_bus_def, THEN conjunct2, THEN conjunct2, THEN spec, THEN spec, THEN spec, of u n s]
  by blast

lemma retry_branch:
  assumes "ideal_bus devs found_log sb sm fd"
  shows "\<exists>ack'. retry (Suc k) (\<lambda>a. ak_type a = RDM_RESPONSE_TYPE_NONE) (sb b) ack s = Inr (ack', s) \<and>
      (ak_type ack' = RDM_RESPONSE_TYPE_NONE \<longleftrightarrow> devs s \<inter> {lower_bound b..upper_bound b} = {})"
proof (induction k arbitrary: ack)
  case 0
  obtain ack' where "sb b ack s = Inr (ack', s)"
    "ak_type ack' = RDM_RESPONSE_TYPE_NONE \<longleftrightarrow> devs s \<inter> {lower_bound b..upper_bound b} = {}"
    by (rule ideal_branch [OF assms])
  then show ?case by simp
next
  case (Suc k)
  obtain ack' where ack': "sb b ack s = Inr (ack', s)"
    "ak_type ack' = RDM_RESPONSE_TYPE_NONE \<longleftrightarrow> devs s \<inter> {lower_bound b..upper_bound b} = {}"
    by (rule ideal_branch [OF assms])
  then show ?case
    using Suc [of ack'] by (cases "ak_type ack' = RDM_RESPONSE_TYPE_NONE") (simp_all only: retry.simps(2) [of "Suc k"] bind_c_Inr if_True if_False ret_apply, auto)
qed

lemma retry_mute:
  assumes "ideal_bus devs found_log sb sm fd"
  shows "\<exists>ack' s'. retry (Suc k) (\<lambda>a. ak_type a \<noteq> RDM_RESPONSE_TYPE_ACK) (sm u) ack s = Inr (ack', s') \<and>
      found_log s' = found_log s \<and> devs s' = devs s - {u} \<and>
      (ak_type ack' = RDM_RESPONSE_TYPE_ACK \<longleftrightarrow> u \<in> devs s) \<and> (u \<in> devs s \<longrightarrow> ak_src_uid ack' = u)"
proof (induction k arbitrary: ack s)
  case 0
  obtain ack' s' where "sm u ack s = Inr (ack', s')" "found_log s' = found_log s" "devs s' = devs s - {u}"
      "ak_type ack' = RDM_RESPONSE_TYPE_ACK \<longleftrightarrow> u \<in> devs s" "u \<in> devs s \<longrightarrow> ak_src_uid ack' = u"
    by (rule ideal_mute [OF assms])
  then show ?case by simp
next
  case (Suc k)
  obtain ack' s' where sent: "sm u ack s = Inr (ack', s')" "found_log s' = found_log s" "devs s' = devs s - {u}"
      "ak_type ack' = RDM_RESPONSE_TYPE_ACK \<longleftrightarrow> u \<in> devs s" "u \<in> devs s \<longrightarrow> ak_src_uid ack' = u"
    by (rule ideal_mute [OF assms])
  show ?case
  proof (cases "u \<in> devs s")
    case True
    with sent show ?thesis by (simp add: retry.simps(2) [of "Suc k"] del: retry.simps(2))
  next
    case False
    then have "devs s' = devs s" using sent(3) by simp
    with False sent Suc [of ack' s'] show ?thesis
      by (simp add: retry.simps(2) [of "Suc k"] del: retry.simps(2))
  qed
qed

lemma rounds_ok_ideal:
  assumes bus: "ideal_bus devs found_log sb sm fd"
  shows "rounds_ok sb sm fd (\<lambda>_. False) (searched devs found_log) (=)"
proof -
  have three: "(3 :: nat) = Suc 2" by simp
  have "round_ok sb sm fd (\<lambda>_. False) (searched devs found_log) (=) b stack ack n s"
    if less: "lower_bound b < upper_bound b" "length stack + 2 \<le> STACK_MAX" for b stack ack n s
  proof -
    obtain ack' where
      "retry 3 (\<lambda>a. ak_type a = RDM_RESPONSE_TYPE_NONE) (sb b) ack s = Inr (ack', s)"
      "ak_type ack' = RDM_RESPONSE_TYPE_NONE \<longleftrightarrow> devs s \<inter> {lower_bound b..upper_bound b} = {}"
      using retry_branch [OF bus, of 2 b ack s] unfolding three by blast
    moreover have "devs s - {lower_bound b..upper_bound b} = devs s"
      if "devs s \<inter> {lower_bound b..upper_bound b} = {}" using that by blast
    ultimately show ?thesis
      unfolding round_ok_def disc_step_branch [OF less] using less(1)
      by (cases "ak_type ack' = RDM_RESPONSE_TYPE_NONE") (auto simp: searched_def)
  qed
  moreover have "round_ok sb sm fd (\<lambda>_. False) (searched devs found_log) (=) b stack ack n s"
    if eq: "lower_bound b = upper_bound b" for b stack ack n s
  proof -
    let ?u = "lower_bound b"
    obtain ack' s' where sent:
      "retry 3 (\<lambda>a. ak_type a \<noteq> RDM_RESPONSE_TYPE_ACK) (sm ?u) ack s = Inr (ack', s')"
      "found_log s' = found_log s" "devs s' = devs s - {?u}"
      "ak_type ack' = RDM_RESPONSE_TYPE_ACK \<longleftrightarrow> ?u \<in> devs s" "?u \<in> devs s \<longrightarrow> ak_src_uid ack' = ?u"
      using retry_mute [OF bus, of 2 ?u ack s] unfolding three by blast
    obtain t where "fd ?u n s' = Inr ((), t)" "devs t = devs s'" "found_log t = found_log s' @ [?u]"
      by (rule ideal_found [OF bus])
    moreover have "devs s \<inter> {upper_bound b} = (if ?u \<in> devs s then {?u} else {})" using eq by auto
    ultimately show ?thesis
      unfolding round_ok_def disc_step_leaf [OF eq] using sent eq
      by (cases "?u \<in> devs s") (auto simp: searched_def)
  qed
  ultimately show ?thesis by (fastforce simp: rounds_ok_def le_less)
qed


text \<open>A bus with two devices, whose state is the devices that are not muted and the reports.\<close>

definition demo_bus :: "rdm_uid_t list \<times> rdm_uid_t list" where
  "demo_bus = ([Rdm_Uid 0x05e0 0x12345678, Rdm_Uid 1 2], [])"

definition demo_branch :: "rdm_disc_unique_branch_t \<Rightarrow> (rdm_uid_t list \<times> rdm_uid_t list) send" where
  "demo_branch b ack = (\<lambda>(us, fs). Inr (no_response DMX_OK 0
     (if list_ex (\<lambda>u. lower_bound b \<le> u \<and> u \<le> upper_bound b) us then RDM_RESPONSE_TYPE_ACK
      else RDM_RESPONSE_TYPE_NONE), (us, fs)))"

definition demo_mute :: "rdm_uid_t \<Rightarrow> (rdm_uid_t list \<times> rdm_uid_t list) send" where
  "demo_mute u ack = (\<lambda>(us, fs). Inr ((no_response DMX_OK 0
     (if u \<in> set us then RDM_RESPONSE_TYPE_ACK else RDM_RESPONSE_TYPE_NONE))\<lparr>ak_src_uid := u\<rparr>,
     (removeAll u us, fs)))"

definition demo_found :: "rdm_uid_t \<Rightarrow> nat \<Rightarrow> (rdm_uid_t list \<times> rdm_uid_t list, unit) cmd" where
  "demo_found u n = (\<lambda>(us, fs). Inr ((), (us, fs @ [u])))"


end
