(* ===== verification/Dmx_Transfer.thy ===== *)
theory Dmx_Transfer
  imports Dmx_Io
begin

text \<open>
  How the interrupt handlers move a packet. Sending is a state machine: the break, the mark after
  break and the slots, driven by the timer and the UART interrupts that are enabled, until the last
  slot has left the UART. \<open>tx_step\<close> is its step relation; which interrupts are enabled is a function of
  the history of calls. The invariant says that the bytes handed to the UART are at every moment a
  prefix of the packet, the liveness theorem that all of it is sent when the FIFO makes progress.
  Receiving stores the bytes of the FIFO one after the other; the second invariant says that no
  sequence of receive interrupts leaves the buffer.
\<close>

section \<open>What the calls mean for the hardware\<close>

text \<open>The bytes written to the transmit FIFO of a port.\<close>

fun tx_bytes :: "nat \<Rightarrow> ext_call list \<Rightarrow> bytes" where
  "tx_bytes n [] = []"
| "tx_bytes n (c # cs) =
     (case c of
        Fifo m f \<Rightarrow> (case f of Uart_Write_Txfifo bs \<Rightarrow> if m = n then bs else [] | _ \<Rightarrow> [])
      | _ \<Rightarrow> []) @ tx_bytes n cs"

text \<open>The interrupts of a port that are enabled after a call.\<close>

fun intr_after :: "nat \<Rightarrow> intr_flag set \<Rightarrow> ext_call \<Rightarrow> intr_flag set" where
  "intr_after n fs (Fifo m f) =
     (if m \<noteq> n then fs
      else case f of
        Uart_Enable_Interrupt gs \<Rightarrow> fs \<union> set gs
      | Uart_Disable_Interrupt gs \<Rightarrow> fs - set gs
      | _ \<Rightarrow> fs)"
| "intr_after n fs _ = fs"

definition enabled_interrupts :: "nat \<Rightarrow> ext_call list \<Rightarrow> intr_flag set" where
  "enabled_interrupts n cs = foldl (intr_after n) {} cs"

section \<open>The state machine of sending\<close>

inductive tx_step :: "nat \<Rightarrow> world \<Rightarrow> world \<Rightarrow> bool" for n where
  timer_irq: "timer_running w n \<Longrightarrow> dmx_timer_isr n w = Inr ((), w') \<Longrightarrow> tx_step n w w'"
| data_irq: "DMX_INTR_TX_DATA \<in> enabled_interrupts n (calls w) \<Longrightarrow> uart_tx_data n w = Inr ((), w') \<Longrightarrow>
    tx_step n w w'"
| done_irq: "DMX_INTR_TX_DONE \<in> enabled_interrupts n (calls w) \<Longrightarrow> uart_tx_done n now w = Inr ((), w') \<Longrightarrow>
    tx_step n w w'"

inductive tx_reach :: "nat \<Rightarrow> world \<Rightarrow> world \<Rightarrow> bool" for n where
  start: "tx_reach n w w"
| step: "tx_reach n w w' \<Longrightarrow> tx_step n w' w'' \<Longrightarrow> tx_reach n w w''"

inductive_cases tx_stepE: "tx_step n w w'"

section \<open>Lemmas: calls\<close>

lemma tx_bytes_append [simp]: "tx_bytes n (cs @ ds) = tx_bytes n cs @ tx_bytes n ds"
  by (induction cs) simp_all

lemma enabled_interrupts_append [simp]:
  "enabled_interrupts n (cs @ ds) = foldl (intr_after n) (enabled_interrupts n cs) ds"
  by (simp add: enabled_interrupts_def)

lemma ext_apply: "ext c w = Inr (env w (calls w) c, w\<lparr>calls := calls w @ [c]\<rparr>)"
  by (simp add: ext_def)

lemma ext_u_apply: "ext_u c w = Inr ((), w\<lparr>calls := calls w @ [c]\<rparr>)"
  by (simp add: ext_u_def ext_def)

lemma get_drv_apply: "drv w n = Some d \<Longrightarrow> query (get_drv n) w = Inr (d, w)"
  by (simp add: get_drv_def query_def)

lemma upd_drv_apply: "drv w n = Some d \<Longrightarrow> upd_drv n f w = Inr ((), w\<lparr>drv := (drv w)(n \<mapsto> f d)\<rparr>)"
  by (simp add: upd_drv_def)

lemmas hal_defs = dmx_uart_disable_interrupt_def dmx_uart_enable_interrupt_def
  dmx_uart_clear_interrupt_def dmx_uart_rxfifo_reset_def dmx_uart_txfifo_reset_def dmx_uart_set_rts_def
  dmx_uart_invert_tx_def dmx_timer_set_counter_def dmx_timer_set_alarm_def dmx_uart_get_txfifo_len_def
  dmx_uart_get_rxfifo_len_def

lemmas run_simps = bind_c_def then_c_def ext_apply ext_u_apply get_drv_apply upd_drv_apply hal_defs

section \<open>One interrupt while sending\<close>

text \<open>The room that the UART reports in its transmit FIFO.\<close>

definition tx_room :: "nat \<Rightarrow> world \<Rightarrow> int" where
  "tx_room n w = r_code (env w (calls w) (Fifo n Uart_Txfifo_Len))"

lemmas timer_simps = dmx_timer_stop_def dmx_timer_start_def gets_c_def modify_c_def

lemma write_txfifo_apply:
  assumes "0 \<le> tx_room n w" "0 \<le> sz" "nat sz \<le> length buf"
  shows "dmx_uart_write_txfifo n buf sz w = Inr (min (tx_room n w) sz,
    w\<lparr>calls := calls w @ [Fifo n Uart_Txfifo_Len,
      Fifo n (Uart_Write_Txfifo (take (nat (min (tx_room n w) sz)) buf))]\<rparr>)"
  using assms
  by (cases "tx_room n w < sz")
    (auto simp: dmx_uart_write_txfifo_def run_simps tx_room_def load_def slice_def Let_def)

lemma start_packet_apply:
  assumes "drv w n = Some d" "\<not> is_disc_reply header"
  shows "\<exists>w'. start_packet n header w = Inr ((), w') \<and> env w' = env w \<and> timer_running w' n \<and>
    drv w' n = Some (d\<lparr>d_head := 0, d_progress := DMX_PROGRESS_IN_BREAK, d_status := DMX_STATUS_SENDING\<rparr>) \<and>
    tx_bytes n (calls w') = tx_bytes n (calls w) \<and>
    enabled_interrupts n (calls w') = enabled_interrupts n (calls w)"
  using assms by (cases "timer_running w n") (simp_all add: start_packet_def run_simps timer_simps)

lemma timer_isr_break:
  assumes "drv w n = Some d" "d_status d = DMX_STATUS_SENDING" "d_progress d = DMX_PROGRESS_IN_BREAK"
  shows "\<exists>w'. dmx_timer_isr n w = Inr ((), w') \<and> env w' = env w \<and>
    timer_running w' = timer_running w \<and>
    drv w' n = Some (d\<lparr>d_progress := DMX_PROGRESS_IN_MAB\<rparr>) \<and>
    tx_bytes n (calls w') = tx_bytes n (calls w) \<and>
    enabled_interrupts n (calls w') = enabled_interrupts n (calls w)"
  using assms by (simp add: dmx_timer_isr_def run_simps)

lemma timer_isr_mab:
  assumes "drv w n = Some d" "d_status d = DMX_STATUS_SENDING" "d_progress d \<noteq> DMX_PROGRESS_IN_BREAK"
    and "0 \<le> d_size d" "nat (d_size d) \<le> length (d_data d)" "0 \<le> tx_room n w"
  shows "\<exists>w'. dmx_timer_isr n w = Inr ((), w') \<and> env w' = env w \<and> \<not> timer_running w' n \<and>
    drv w' n = Some (d\<lparr>d_head := min (tx_room n w) (d_size d)\<rparr>) \<and>
    tx_bytes n (calls w') = tx_bytes n (calls w) @ take (nat (min (tx_room n w) (d_size d))) (d_data d)"
  using assms
  by (cases "timer_running w n")
    (simp_all add: dmx_timer_isr_def run_simps timer_simps write_txfifo_apply)

lemma tx_data_apply:
  assumes "drv w n = Some d" "0 \<le> d_head d" "d_head d \<le> d_size d" "nat (d_size d) \<le> length (d_data d)"
    and "0 \<le> tx_room n w"
  defines "k \<equiv> min (tx_room n w) (d_size d - d_head d)"
  shows "\<exists>w'. uart_tx_data n w = Inr ((), w') \<and> env w' = env w \<and>
    timer_running w' = timer_running w \<and> drv w' n = Some (d\<lparr>d_head := d_head d + k\<rparr>) \<and>
    tx_bytes n (calls w') = tx_bytes n (calls w) @ take (nat k) (drop (nat (d_head d)) (d_data d))"
proof -
  have "nat (d_size d - d_head d) \<le> length (drop (nat (d_head d)) (d_data d))" using assms by simp
  with assms show ?thesis
    by (simp add: uart_tx_data_def run_simps k_def write_txfifo_apply)
qed

lemma tx_done_apply:
  assumes "drv w n = Some d"
  shows "\<exists>w' d'. uart_tx_done n now w = Inr ((), w') \<and> env w' = env w \<and>
    timer_running w' = timer_running w \<and> drv w' n = Some d' \<and>
    d_status d' = DMX_STATUS_IDLE \<and> d_data d' = d_data d \<and> d_size d' = d_size d \<and>
    tx_bytes n (calls w') = tx_bytes n (calls w) \<and>
    enabled_interrupts n (calls w') \<inter> set DMX_INTR_TX_ALL = {} \<and>
    (d_task_waiting d \<longrightarrow> Rtos (Notify_From_Isr_No_Action n) \<in> set (calls w'))"
  using assms
  by (cases "d_task_waiting d"; cases "d_is_controller d")
    (auto simp: uart_tx_done_def run_simps Let_def DMX_INTR_TX_ALL_def)
section \<open>The invariant of sending\<close>

text \<open>
  The phases of a packet: the break and the mark after it, when nothing is written and only the timer
  runs; the slots, when the head counts the slots written; the end, when no interrupt is left.
\<close>

definition before_slots :: "nat \<Rightarrow> world \<Rightarrow> dmx_driver_t \<Rightarrow> nat \<Rightarrow> bool" where
  "before_slots n w d k \<longleftrightarrow> d_status d = DMX_STATUS_SENDING \<and>
     enabled_interrupts n (calls w) \<inter> set DMX_INTR_TX_ALL = {} \<and> k = 0"

definition in_slots :: "nat \<Rightarrow> world \<Rightarrow> dmx_driver_t \<Rightarrow> nat \<Rightarrow> bool" where
  "in_slots n w d k \<longleftrightarrow> d_status d = DMX_STATUS_SENDING \<and> \<not> timer_running w n \<and> d_head d = int k"

definition after_slots :: "nat \<Rightarrow> world \<Rightarrow> dmx_driver_t \<Rightarrow> bool" where
  "after_slots n w d \<longleftrightarrow> d_status d = DMX_STATUS_IDLE \<and> \<not> timer_running w n \<and>
     enabled_interrupts n (calls w) \<inter> set DMX_INTR_TX_ALL = {}"

definition tx_inv :: "nat \<Rightarrow> world \<Rightarrow> dmx_driver_t \<Rightarrow> world \<Rightarrow> bool" where
  "tx_inv n w0 d0 w \<longleftrightarrow> (\<exists>d k. drv w n = Some d \<and> env w = env w0 \<and>
     d_data d = d_data d0 \<and> d_size d = d_size d0 \<and> int k \<le> d_size d0 \<and>
     tx_bytes n (calls w) = tx_bytes n (calls w0) @ take k (d_data d0) \<and>
     (before_slots n w d k \<or> in_slots n w d k \<or> after_slots n w d))"

definition fifo_answers :: "nat \<Rightarrow> int \<Rightarrow> world \<Rightarrow> bool" where
  "fifo_answers n k w \<longleftrightarrow> (\<forall>cs. k \<le> r_code (env w cs (Fifo n Uart_Txfifo_Len)))"

lemma fifo_answers_room: "fifo_answers n k w0 \<Longrightarrow> env w = env w0 \<Longrightarrow> k \<le> tx_room n w"
  by (simp add: fifo_answers_def tx_room_def)

lemma take_append_take: "take i xs @ take j (drop i xs) = take (i + j) xs"
  by (simp add: take_add)

definition sendable :: "nat \<Rightarrow> world \<Rightarrow> dmx_driver_t \<Rightarrow> bool" where
  "sendable n w d \<longleftrightarrow> drv w n = Some d \<and> 0 \<le> d_size d \<and> nat (d_size d) \<le> length (d_data d) \<and>
     fifo_answers n 0 w"

lemma tx_inv_timer:
  assumes "sendable n w0 d0" "tx_inv n w0 d0 w" "timer_running w n"
  shows "\<exists>w'. dmx_timer_isr n w = Inr ((), w') \<and> tx_inv n w0 d0 w'"
proof -
  from assms(2,3) obtain d where d: "drv w n = Some d" "env w = env w0" "d_data d = d_data d0"
      "d_size d = d_size d0" "tx_bytes n (calls w) = tx_bytes n (calls w0)" "before_slots n w d 0"
    by (auto simp: tx_inv_def before_slots_def in_slots_def after_slots_def)
  have room: "0 \<le> tx_room n w"
    using assms(1) d(2) fifo_answers_room unfolding sendable_def by blast
  have size: "0 \<le> d_size d0" "nat (d_size d0) \<le> length (d_data d0)" using assms(1) by (auto simp: sendable_def)
  have sending: "d_status d = DMX_STATUS_SENDING" using d(6) by (simp add: before_slots_def)
  show ?thesis
  proof (cases "d_progress d = DMX_PROGRESS_IN_BREAK")
    case True
    from timer_isr_break [OF d(1) sending True] d(2-6) size(1) show ?thesis
      by (force simp: tx_inv_def before_slots_def)
  next
    case False
    let ?k = "min (tx_room n w) (d_size d0)"
    from timer_isr_mab [OF d(1) sending False] size room d(3,4) obtain w' where
      w': "dmx_timer_isr n w = Inr ((), w')" "env w' = env w" "\<not> timer_running w' n"
        "drv w' n = Some (d\<lparr>d_head := ?k\<rparr>)"
        "tx_bytes n (calls w') = tx_bytes n (calls w) @ take (nat ?k) (d_data d0)"
      by auto
    then have "tx_inv n w0 d0 w'"
      unfolding tx_inv_def using d(2-5) sending room size(1)
      by (intro exI [of _ "d\<lparr>d_head := ?k\<rparr>"] exI [of _ "nat ?k"]) (auto simp: in_slots_def)
    with w'(1) show ?thesis by blast
  qed
qed

lemma tx_inv_data:
  assumes "sendable n w0 d0" "tx_inv n w0 d0 w" "DMX_INTR_TX_DATA \<in> enabled_interrupts n (calls w)"
  shows "\<exists>w'. uart_tx_data n w = Inr ((), w') \<and> tx_inv n w0 d0 w'"
proof -
  from assms(2,3) obtain d k where d: "drv w n = Some d" "env w = env w0" "d_data d = d_data d0"
      "d_size d = d_size d0" "int k \<le> d_size d0"
      "tx_bytes n (calls w) = tx_bytes n (calls w0) @ take k (d_data d0)" "in_slots n w d k"
    by (auto simp: tx_inv_def before_slots_def after_slots_def DMX_INTR_TX_ALL_def)
  have room: "0 \<le> tx_room n w"
    using assms(1) d(2) fifo_answers_room unfolding sendable_def by blast
  have size: "nat (d_size d0) \<le> length (d_data d0)" using assms(1) by (auto simp: sendable_def)
  have head: "d_head d = int k" using d(7) by (simp add: in_slots_def)
  let ?k = "min (tx_room n w) (d_size d0 - int k)"
  from tx_data_apply [OF d(1)] d(3-5) head size room obtain w' where
    w': "uart_tx_data n w = Inr ((), w')" "env w' = env w" "timer_running w' = timer_running w"
      "drv w' n = Some (d\<lparr>d_head := int k + ?k\<rparr>)"
      "tx_bytes n (calls w') = tx_bytes n (calls w) @ take (nat ?k) (drop k (d_data d0))"
    by auto
  then have "tx_inv n w0 d0 w'"
    unfolding tx_inv_def using d(2-7) room
    by (intro exI [of _ "d\<lparr>d_head := int k + ?k\<rparr>"] exI [of _ "k + nat ?k"])
      (auto simp: in_slots_def take_append_take)
  with w'(1) show ?thesis by blast
qed

lemma tx_inv_done:
  assumes "tx_inv n w0 d0 w" "DMX_INTR_TX_DONE \<in> enabled_interrupts n (calls w)"
  shows "\<exists>w'. uart_tx_done n now w = Inr ((), w') \<and> tx_inv n w0 d0 w'"
proof -
  from assms obtain d k where d: "drv w n = Some d" "env w = env w0" "d_data d = d_data d0"
      "d_size d = d_size d0" "int k \<le> d_size d0"
      "tx_bytes n (calls w) = tx_bytes n (calls w0) @ take k (d_data d0)" "in_slots n w d k"
    by (auto simp: tx_inv_def before_slots_def after_slots_def DMX_INTR_TX_ALL_def)
  from tx_done_apply [OF d(1), of now] d(2-7) show ?thesis
    by (force simp: tx_inv_def in_slots_def after_slots_def)
qed

lemma tx_inv_step:
  assumes "tx_step n w w'" "sendable n w0 d0" "tx_inv n w0 d0 w"
  shows "tx_inv n w0 d0 w'"
  using assms(1)
proof (rule tx_stepE)
  assume "timer_running w n" "dmx_timer_isr n w = Inr ((), w')"
  with tx_inv_timer [OF assms(2,3)] show ?thesis by auto
next
  assume "DMX_INTR_TX_DATA \<in> enabled_interrupts n (calls w)" "uart_tx_data n w = Inr ((), w')"
  with tx_inv_data [OF assms(2,3)] show ?thesis by auto
next
  fix now assume "DMX_INTR_TX_DONE \<in> enabled_interrupts n (calls w)" "uart_tx_done n now w = Inr ((), w')"
  with tx_inv_done [OF assms(3), of now] show ?thesis by auto
qed

lemma tx_inv_reach:
  assumes "tx_reach n w1 w" "sendable n w0 d0" "tx_inv n w0 d0 w1"
  shows "tx_inv n w0 d0 w"
  using assms by (induction rule: tx_reach.induct) (blast intro: tx_inv_step)+

lemma tx_inv_start:
  assumes "sendable n w0 d0" "enabled_interrupts n (calls w0) \<inter> set DMX_INTR_TX_ALL = {}"
    and "\<not> is_disc_reply header" "start_packet n header w0 = Inr ((), w1)"
  shows "tx_inv n w0 d0 w1"
  unfolding tx_inv_def
  using start_packet_apply [of w0 n d0 header] assms
  by (intro exI [of _ "the (drv w1 n)"] exI [of _ 0]) (auto simp: sendable_def before_slots_def)

section \<open>Progress of sending\<close>

text \<open>The packet while its slots are written, with the head at \<open>h\<close>.\<close>

definition at_slot :: "nat \<Rightarrow> world \<Rightarrow> dmx_driver_t \<Rightarrow> int \<Rightarrow> world \<Rightarrow> bool" where
  "at_slot n w0 d0 h w \<longleftrightarrow> env w = env w0 \<and> 0 \<le> h \<and> h \<le> d_size d0 \<and>
     drv w n = Some (d0\<lparr>d_head := h, d_progress := DMX_PROGRESS_IN_MAB, d_status := DMX_STATUS_SENDING\<rparr>) \<and>
     tx_bytes n (calls w) = tx_bytes n (calls w0) @ take (nat h) (d_data d0)"

lemma at_slot_step:
  assumes "sendable n w0 d0" "fifo_answers n 1 w0" "at_slot n w0 d0 h w"
  shows "\<exists>w' h'. uart_tx_data n w = Inr ((), w') \<and> at_slot n w0 d0 h' w' \<and> min (d_size d0) (h + 1) \<le> h'"
proof -
  let ?k = "min (tx_room n w) (d_size d0 - h)"
  have room: "1 \<le> tx_room n w"
    using assms(2,3) fifo_answers_room unfolding at_slot_def by blast
  let ?d = "d0\<lparr>d_head := h, d_progress := DMX_PROGRESS_IN_MAB, d_status := DMX_STATUS_SENDING\<rparr>"
  from assms(3) have "drv w n = Some ?d" by (simp add: at_slot_def)
  from tx_data_apply [OF this] assms room obtain w' where
    w': "uart_tx_data n w = Inr ((), w')" "env w' = env w" "drv w' n = Some (?d\<lparr>d_head := h + ?k\<rparr>)"
      "tx_bytes n (calls w') = tx_bytes n (calls w) @ take (nat ?k) (drop (nat h) (d_data d0))"
    by (auto simp: sendable_def at_slot_def)
  moreover have "nat h + nat ?k = nat (h + ?k)" using assms(3) room by (auto simp: at_slot_def)
  ultimately have "at_slot n w0 d0 (h + ?k) w'"
    using assms(3) room by (auto simp: at_slot_def take_append_take)
  with w'(1) room show ?thesis by (intro exI [of _ w'] exI [of _ "h + ?k"]) auto
qed

lemma at_slot_steps:
  assumes "sendable n w0 d0" "fifo_answers n 1 w0" "at_slot n w0 d0 h w"
  shows "\<exists>w' h'. for_c is (\<lambda>_. uart_tx_data n) w = Inr ((), w') \<and> at_slot n w0 d0 h' w' \<and>
    min (d_size d0) (h + int (length is)) \<le> h'"
  using assms(3)
proof (induction "is" arbitrary: w h)
  case Nil
  then show ?case by (auto simp: ret_def at_slot_def)
next
  case (Cons i "is")
  from at_slot_step [OF assms(1,2) Cons.prems] obtain w1 h1 where
    1: "uart_tx_data n w = Inr ((), w1)" "at_slot n w0 d0 h1 w1" "min (d_size d0) (h + 1) \<le> h1" by blast
  from Cons.IH [OF 1(2)] obtain w' h' where
    2: "for_c is (\<lambda>_. uart_tx_data n) w1 = Inr ((), w')" "at_slot n w0 d0 h' w'"
      "min (d_size d0) (h1 + int (length is)) \<le> h'" by blast
  have "min (d_size d0) (h + int (length (i # is))) \<le> h'" using 1(3) 2(3) by auto
  with 1(1) 2(1,2) show ?case by auto
qed

text \<open>The packet while its break is on the line.\<close>

definition in_break :: "nat \<Rightarrow> world \<Rightarrow> dmx_driver_t \<Rightarrow> world \<Rightarrow> bool" where
  "in_break n w0 d0 w \<longleftrightarrow> env w = env w0 \<and>
     drv w n = Some (d0\<lparr>d_head := 0, d_progress := DMX_PROGRESS_IN_BREAK, d_status := DMX_STATUS_SENDING\<rparr>) \<and>
     tx_bytes n (calls w) = tx_bytes n (calls w0)"

lemma first_slots:
  assumes "sendable n w0 d0" "in_break n w0 d0 w1"
  shows "\<exists>w h. then_c (dmx_timer_isr n) (dmx_timer_isr n) w1 = Inr ((), w) \<and> at_slot n w0 d0 h w"
proof -
  have size: "0 \<le> d_size d0" "nat (d_size d0) \<le> length (d_data d0)"
    using assms(1) by (auto simp: sendable_def)
  let ?d = "d0\<lparr>d_head := 0, d_progress := DMX_PROGRESS_IN_BREAK, d_status := DMX_STATUS_SENDING\<rparr>"
  have 1: "env w1 = env w0" "drv w1 n = Some ?d" "tx_bytes n (calls w1) = tx_bytes n (calls w0)"
    using assms(2) by (auto simp: in_break_def)
  from timer_isr_break [OF 1(2)] obtain w2 where
    2: "dmx_timer_isr n w1 = Inr ((), w2)" "env w2 = env w1"
      "drv w2 n = Some (?d\<lparr>d_progress := DMX_PROGRESS_IN_MAB\<rparr>)"
      "tx_bytes n (calls w2) = tx_bytes n (calls w1)" by auto
  have room: "0 \<le> tx_room n w2"
    using assms(1) 1(1) 2(2) fifo_answers_room unfolding sendable_def by metis
  from timer_isr_mab [OF 2(3)] size room obtain w3 where
    3: "dmx_timer_isr n w2 = Inr ((), w3)" "env w3 = env w2"
      "drv w3 n = Some (?d\<lparr>d_progress := DMX_PROGRESS_IN_MAB, d_head := min (tx_room n w2) (d_size d0)\<rparr>)"
      "tx_bytes n (calls w3) = tx_bytes n (calls w2) @ take (nat (min (tx_room n w2) (d_size d0))) (d_data d0)"
    by auto
  then have "at_slot n w0 d0 (min (tx_room n w2) (d_size d0)) w3"
    using 1 2 room size by (auto simp: at_slot_def)
  with 2(1) 3(1) show ?thesis by auto
qed

text \<open>The interrupts of a packet: the ends of break and mark after break, the data interrupts and the last one.\<close>

definition bus_events :: "nat \<Rightarrow> nat \<Rightarrow> int \<Rightarrow> (world, unit) cmd" where
  "bus_events n k now =
     then_c (then_c (dmx_timer_isr n) (dmx_timer_isr n))
    (then_c (for_c [0..<k] (\<lambda>_. uart_tx_data n)) (uart_tx_done n now))"

definition packet_events :: "nat \<Rightarrow> rdm_header_t option \<Rightarrow> nat \<Rightarrow> int \<Rightarrow> (world, unit) cmd" where
  "packet_events n header k now = then_c (start_packet n header) (bus_events n k now)"

lemma bus_events_send:
  assumes "sendable n w0 d0" "fifo_answers n 1 w0" "in_break n w0 d0 w" "d_size d0 \<le> int k"
  shows "\<exists>w' d. bus_events n k now w = Inr ((), w') \<and> drv w' n = Some d \<and> env w' = env w0 \<and>
    tx_bytes n (calls w') = tx_bytes n (calls w0) @ take (nat (d_size d0)) (d_data d0) \<and>
    d_status d = DMX_STATUS_IDLE \<and> enabled_interrupts n (calls w') \<inter> set DMX_INTR_TX_ALL = {} \<and>
    (d_task_waiting d0 \<longrightarrow> Rtos (Notify_From_Isr_No_Action n) \<in> set (calls w'))"
proof -
  from first_slots [OF assms(1,3)] obtain w1 h where
    1: "then_c (dmx_timer_isr n) (dmx_timer_isr n) w = Inr ((), w1)" "at_slot n w0 d0 h w1" by blast
  from at_slot_steps [OF assms(1,2) 1(2), of "[0..<k]"] obtain w2 h' where
    2: "for_c [0..<k] (\<lambda>_. uart_tx_data n) w1 = Inr ((), w2)" "at_slot n w0 d0 h' w2"
      "min (d_size d0) (h + int k) \<le> h'" by auto
  have "h' = d_size d0" using 1(2) 2(2,3) assms(4) by (auto simp: at_slot_def)
  with 2(2) obtain d where d: "drv w2 n = Some d" "d_task_waiting d = d_task_waiting d0" "env w2 = env w0"
    "tx_bytes n (calls w2) = tx_bytes n (calls w0) @ take (nat (d_size d0)) (d_data d0)"
    by (auto simp: at_slot_def)
  from tx_done_apply [OF d(1), of now] d(2-4) 1(1) 2(1) show ?thesis
    by (auto simp: bus_events_def)
qed

lemma start_packet_break:
  assumes "drv w n = Some d" "\<not> is_disc_reply header"
  shows "\<exists>w'. start_packet n header w = Inr ((), w') \<and> in_break n w d w'"
  using start_packet_apply [OF assms] by (auto simp: in_break_def)


section \<open>Receiving is safe\<close>

text \<open>
  What a port must satisfy for the receive handlers, and what they leave alone: parameters, UID, role
  and the waiting task.
\<close>

definition rx_ok :: "dmx_driver_t \<Rightarrow> bool" where
  "rx_ok d \<longleftrightarrow> length (d_data d) = DMX_PACKET_SIZE_MAX \<and> d_status d \<noteq> DMX_STATUS_SENDING \<and>
     length (d_sniffer_metadata d) = 2 \<and> d_sniffer_index d < 2"

definition rx_frame :: "dmx_driver_t \<Rightarrow> dmx_driver_t \<Rightarrow> bool" where
  "rx_frame d d' \<longleftrightarrow>
     d_uid d' = d_uid d \<and> d_devices d' = d_devices d \<and> d_count_root d' = d_count_root d \<and>
     d_count_sub_devices d' = d_count_sub_devices d \<and> d_count_staged d' = d_count_staged d \<and>
     d_is_enabled d' = d_is_enabled d \<and> d_is_controller d' = d_is_controller d \<and>
     d_task_waiting d' = d_task_waiting d \<and> d_break_len d' = d_break_len d \<and>
     d_mab_len d' = d_mab_len d \<and> d_tn d' = d_tn d"

definition port_inv :: "nat \<Rightarrow> (dmx_driver_t \<Rightarrow> bool) \<Rightarrow> world \<Rightarrow> bool" where
  "port_inv n ok w \<longleftrightarrow> (\<exists>d. drv w n = Some d \<and> ok d)"

text \<open>The interrupts of a port that is not sending: the UART status shows receive flags, or nothing.\<close>

fun receive_event :: "nat \<Rightarrow> hw_event \<Rightarrow> bool" where
  "receive_event n (Uart_Irq m statuses) \<longleftrightarrow>
     m = n \<and> list_all (\<lambda>flags. flags = [] \<or> any_flag flags DMX_INTR_RX_ALL) statuses"
| "receive_event n (Timer_Irq m) \<longleftrightarrow> m = n"
| "receive_event n (Gpio_Irq m) \<longleftrightarrow> m = n"

text \<open>An invariant of the driver that the receive handlers keep: it implies \<open>rx_ok\<close> and depends on nothing else.\<close>

locale receive_invariant =
  fixes n :: nat and ok :: "dmx_driver_t \<Rightarrow> bool"
  assumes ok_rx: "ok d \<Longrightarrow> rx_ok d"
    and ok_frame: "ok d \<Longrightarrow> rx_frame d d' \<Longrightarrow> rx_ok d' \<Longrightarrow> ok d'"
begin

lemma runs_calls: "runs (port_inv n ok) (ext c)" "runs (port_inv n ok) (ext_u c)"
  by (auto simp: runs_def port_inv_def ext_apply ext_u_apply)

lemma runs_bind_drv:
  "(\<And>d. ok d \<Longrightarrow> runs (port_inv n ok) (f d)) \<Longrightarrow> runs (port_inv n ok) (bind_c (query (get_drv n)) f)"
  unfolding runs_def port_inv_def by (metis bind_c_Inr get_drv_apply)

lemma runs_upd_drv:
  assumes "\<And>d. ok d \<Longrightarrow> rx_ok d \<Longrightarrow> rx_frame d (f d) \<and> rx_ok (f d)"
  shows "runs (port_inv n ok) (upd_drv n f)"
  unfolding runs_def port_inv_def using assms ok_rx ok_frame by (force simp: upd_drv_apply)

lemma runs_header: "runs (port_inv n ok) (query (rdm_read_header n))"
  by (auto simp: runs_def port_inv_def query_def rdm_read_header_def Let_def)

lemma runs_timer_stop: "runs (port_inv n ok) (dmx_timer_stop m)"
  by (auto simp: runs_def port_inv_def timer_simps run_simps)

lemma runs_rxfifo:
  assumes "\<And>bs. int (length bs) \<le> sz \<Longrightarrow> runs (port_inv n ok) (f bs)" "0 \<le> sz"
  shows "runs (port_inv n ok) (bind_c (dmx_uart_read_rxfifo n sz) f)"
  using assms by (auto simp: runs_def port_inv_def run_simps dmx_uart_read_rxfifo_def Let_def)

lemmas port_runs = runs_bind_drv runs_header runs_timer_stop runs_calls

lemma runs_rx_read: "runs (port_inv n ok) (rx_read n)"
proof -
  have store: "runs (port_inv n ok) (bind_c (lift_c (store (nat (d_head d)) bs (d_data d))) (\<lambda>data.
       then_c (upd_drv n (\<lambda>d. d\<lparr>d_data := data, d_head := d_head d + int (length bs)\<rparr>))
         (ret (d_head d + int (length bs)))))"
    if "ok d" "0 \<le> d_head d" "int (length bs) \<le> int DMX_PACKET_SIZE_MAX - d_head d" for d bs
  proof -
    have len: "nat (d_head d) + length bs \<le> length (d_data d)"
      using that ok_rx [OF that(1)] by (simp add: rx_ok_def)
    then show ?thesis
      using ok_rx [OF that(1)]
      by (auto intro!: runs_then runs_pure runs_upd_drv simp: rx_frame_def rx_ok_def bind_c_def lift_c_def
          runs_def [of _ "bind_c _ _"] cong: sum.case_cong)
  qed
  show ?thesis
    unfolding rx_read_def hal_defs
  proof (intro runs_bind_drv runs_if)
    fix d assume "ok d" "d_head d \<ge> 0 \<and> d_head d < int DMX_PACKET_SIZE_MAX"
    then show "runs (port_inv n ok) (bind_c (dmx_uart_read_rxfifo n (int DMX_PACKET_SIZE_MAX - d_head d)) (\<lambda>bs.
       bind_c (lift_c (store (nat (d_head d)) bs (d_data d))) (\<lambda>data.
       then_c (upd_drv n (\<lambda>d. d\<lparr>d_data := data, d_head := d_head d + int (length bs)\<rparr>))
         (ret (d_head d + int (length bs))))))"
      by (intro runs_rxfifo store) auto
  qed (auto intro!: runs_bind runs_then runs_pure port_runs runs_upd_drv simp: rx_frame_def rx_ok_def)
qed

lemma runs_notify: "runs (port_inv n ok) (notify_waiting n err)"
  unfolding notify_waiting_def by (intro runs_bind_drv runs_if runs_calls runs_pure)

lemma runs_rx_break: "runs (port_inv n ok) (rx_break n h)"
  unfolding rx_break_def
  by (auto intro!: runs_bind_drv runs_then runs_notify runs_pure runs_upd_drv simp: rx_frame_def rx_ok_def)

lemma runs_parse_dmx: "runs (port_inv n ok) (parse_dmx n h)"
  unfolding parse_dmx_def
  by (intro runs_then runs_bind_drv runs_pure runs_upd_drv) (simp add: rx_frame_def rx_ok_def)

lemma runs_parse_discovery: "runs (port_inv n ok) (parse_discovery n h)"
  unfolding parse_discovery_def Let_def
  by (intro runs_if runs_pure runs_bind_drv runs_parse_dmx runs_bind [OF runs_header] runs_then runs_upd_drv)
    (simp add: rx_frame_def rx_ok_def)

lemma runs_parse_rdm: "runs (port_inv n ok) (parse_rdm n now h)"
  unfolding parse_rdm_def Let_def
  by (intro runs_if runs_pure runs_bind_drv runs_parse_dmx runs_bind [OF runs_header] runs_then runs_upd_drv)
    (auto simp: rx_frame_def rx_ok_def)

lemma runs_rx_process: "runs (port_inv n ok) (rx_process n now flags h)"
  unfolding rx_process_def Let_def hal_defs
  by (intro runs_if runs_pure runs_bind_drv runs_then runs_calls runs_upd_drv
      runs_bind [of _ "if _ then parse_discovery _ _ else _"]
      runs_parse_discovery runs_parse_rdm runs_parse_dmx)
    (auto simp: rx_frame_def rx_ok_def)

lemma runs_uart_rx: "runs (port_inv n ok) (uart_rx n now flags)"
proof -
  have finish: "runs (port_inv n ok) (if \<not> complete then ret () else then_c (dmx_timer_stop n)
      (then_c (upd_drv n (\<lambda>d. d\<lparr>d_progress := DMX_PROGRESS_COMPLETE, d_status := DMX_STATUS_IDLE\<rparr>))
        (notify_waiting n err)))" for err complete
    by (intro runs_if runs_pure runs_then runs_timer_stop runs_notify runs_upd_drv)
      (simp add: rx_frame_def rx_ok_def)
  show ?thesis
    unfolding uart_rx_def hal_defs
    by (intro runs_bind [OF runs_rx_read] runs_then runs_calls runs_if runs_rx_break runs_bind_drv runs_pure
        runs_bind [OF runs_rx_process] runs_upd_drv)
      (auto simp: rx_frame_def rx_ok_def finish split: prod.split)
qed

lemma runs_rounds:
  "list_all (\<lambda>flags. flags = [] \<or> any_flag flags DMX_INTR_RX_ALL) statuses \<Longrightarrow>
   runs (port_inv n ok) (uart_rounds n now statuses)"
  by (induction statuses) (auto intro!: runs_then runs_pure runs_uart_rx simp: uart_round_def)

lemma runs_uart_isr:
  "list_all (\<lambda>flags. flags = [] \<or> any_flag flags DMX_INTR_RX_ALL) statuses \<Longrightarrow>
   runs (port_inv n ok) (dmx_uart_isr n statuses)"
  unfolding dmx_uart_isr_def dmx_timer_get_micros_since_boot_def
  by (intro runs_bind runs_calls runs_pure runs_rounds)

lemma runs_timer_isr: "runs (port_inv n ok) (dmx_timer_isr n)"
  unfolding dmx_timer_isr_def
  by (intro runs_bind_drv runs_if runs_then runs_notify runs_timer_stop)
    (auto dest: ok_rx simp: rx_ok_def)

lemma runs_metadata: "runs (port_inv n ok) (set_metadata n f)"
  unfolding set_metadata_def
  by (intro runs_bind_drv runs_if runs_upd_drv) (auto dest: ok_rx simp: rx_frame_def rx_ok_def)

lemma runs_gpio_isr: "runs (port_inv n ok) (dmx_gpio_isr n)"
  unfolding dmx_gpio_isr_def dmx_timer_get_micros_since_boot_def dmx_gpio_read_def
  by (intro runs_bind [of _ "bind_c (ext _) _"] runs_bind [of _ "bind_c (gets_c _) _"]
      runs_bind [OF runs_calls(1)] runs_bind [OF runs_pure(2)] runs_pure runs_bind_drv runs_if runs_then
      runs_metadata runs_upd_drv)
    (auto simp: rx_frame_def rx_ok_def)

lemma runs_event: "receive_event n e \<Longrightarrow> runs (port_inv n ok) (deliver e)"
  by (cases e) (simp_all add: runs_uart_isr runs_timer_isr runs_gpio_isr)

lemma runs_events: "list_all (receive_event n) es \<Longrightarrow> runs (port_inv n ok) (for_c es deliver)"
  by (induction es) (auto intro!: runs_then runs_pure runs_event)

end

interpretation receiving: receive_invariant n "\<lambda>d. rx_ok d \<and> rx_frame d0 d" for n d0
  by unfold_locales (auto simp: rx_frame_def)


section \<open>What is received\<close>

text \<open>The slots received since the break: the abstraction of buffer and head.\<close>

definition received :: "dmx_driver_t \<Rightarrow> bytes" where
  "received d = take (nat (d_head d)) (d_data d)"

text \<open>The FIFO holds a chunk: it reports its length, and reading delivers the first bytes of it.\<close>

definition fifo_holds :: "nat \<Rightarrow> bytes \<Rightarrow> world \<Rightarrow> bool" where
  "fifo_holds n bs w \<longleftrightarrow>
     r_code (env w (calls w) (Fifo n Uart_Rxfifo_Len)) = int (length bs) \<and>
     (\<forall>k \<le> length bs. r_bytes (env w (calls w @ [Fifo n Uart_Rxfifo_Len]) (Fifo n (Uart_Read_Rxfifo k))) = take k bs)"

lemma splice_received:
  "h + length ys \<le> length xs \<Longrightarrow> take (h + length ys) (splice h ys xs) = take h xs @ ys"
  by (simp add: splice_def)

text \<open>The head after a chunk of \<open>k\<close> bytes: it stops at the end of the buffer, and counts from there on.\<close>

definition head_after :: "dmx_driver_t \<Rightarrow> nat \<Rightarrow> int" where
  "head_after d k = d_head d +
     (if d_head d < int DMX_PACKET_SIZE_MAX then min (int DMX_PACKET_SIZE_MAX - d_head d) (int k) else int k)"

lemma rx_read_apply:
  assumes "drv w n = Some d" "length (d_data d) = DMX_PACKET_SIZE_MAX" "0 \<le> d_head d" "fifo_holds n bs w"
  shows "\<exists>w' data. rx_read n w = Inr (head_after d (length bs), w') \<and>
    drv w' n = Some (d\<lparr>d_data := data, d_head := head_after d (length bs)\<rparr>) \<and>
    length data = DMX_PACKET_SIZE_MAX \<and>
    take (nat (head_after d (length bs))) data = take DMX_PACKET_SIZE_MAX (received d @ bs) \<and>
    timer_running w' = timer_running w"
proof (cases "d_head d < int DMX_PACKET_SIZE_MAX")
  case True
  define k where "k = nat (min (513 - d_head d) (int (length bs)))"
  have k: "int (length bs) < 513 - d_head d \<Longrightarrow> length bs = k"
    "\<not> int (length bs) < 513 - d_head d \<Longrightarrow> nat (513 - d_head d) = k"
    "k \<le> length bs" "head_after d (length bs) = d_head d + int k" "nat (d_head d) + k \<le> 513"
    "k = length bs \<or> k = 513 - nat (d_head d)"
    using True assms(3) by (auto simp: k_def head_after_def)
  have "dmx_uart_read_rxfifo n (513 - d_head d) w = Inr (take k bs, w\<lparr>calls := calls w @
      [Fifo n Uart_Rxfifo_Len, Fifo n (Uart_Read_Rxfifo k)]\<rparr>)"
    using assms(4) k(3) unfolding dmx_uart_read_rxfifo_def fifo_holds_def Let_def
    by (cases "int (length bs) < 513 - d_head d") (simp_all add: run_simps k(1,2))
  moreover define data where "data = splice (nat (d_head d)) (take k bs) (d_data d)"
  moreover have "store (nat (d_head d)) (take k bs) (d_data d) = Inr data"
    using k(3,5) assms(2) by (simp add: data_def)
  ultimately have "rx_read n w = Inr (d_head d + int k, w\<lparr>calls := calls w @
      [Fifo n Uart_Rxfifo_Len, Fifo n (Uart_Read_Rxfifo k)],
      drv := (drv w)(n \<mapsto> d\<lparr>d_data := data, d_head := d_head d + int k\<rparr>)\<rparr>)"
    using True assms(1,3) k(3) by (simp add: rx_read_def run_simps lift_c_def)
  moreover have "length data = 513" using k(3,5) assms(2) by (simp add: data_def)
  moreover have "take (nat (d_head d + int k)) data = received d @ take k bs"
    using splice_received [of "nat (d_head d)" "take k bs" "d_data d"] k(3,5) assms(2,3)
    by (simp add: received_def data_def nat_add_distrib)
  moreover have "received d @ take k bs = take 513 (received d @ bs)"
    using k(3,5,6) assms(2,3) by (auto simp: received_def)
  ultimately show ?thesis using k(4) by auto
next
  case False
  have "d\<lparr>d_head := h\<rparr> = d\<lparr>d_data := d_data d, d_head := h\<rparr>" for h by simp
  with False assms show ?thesis
    by (intro exI [of _ "snd (projr (rx_read n w))"] exI [of _ "d_data d"])
      (auto simp: rx_read_def run_simps fifo_holds_def head_after_def received_def)
qed

text \<open>A packet that is not RDM: its first slot is neither of the start codes of RDM.\<close>

definition is_dmx :: "bytes \<Rightarrow> bool" where
  "is_dmx bs \<longleftrightarrow> bs \<noteq> [] \<and> hd bs \<notin> {RDM_SC, RDM_PREAMBLE, RDM_DELIMITER}"

definition in_packet :: "dmx_driver_t \<Rightarrow> bool" where
  "in_packet d \<longleftrightarrow> length (d_data d) = DMX_PACKET_SIZE_MAX \<and> 0 \<le> d_head d \<and>
     d_progress d \<in> {DMX_PROGRESS_IN_BREAK, DMX_PROGRESS_IN_MAB, DMX_PROGRESS_IN_DATA}"

lemma nth_0_take: "0 < k \<Longrightarrow> take k xs = ys \<Longrightarrow> ys \<noteq> [] \<Longrightarrow> xs ! 0 = hd ys"
  by (cases xs; cases k) auto

lemma rx_dmx_process:
  assumes "drv w n = Some d" "d_data d ! 0 \<notin> {RDM_SC, RDM_PREAMBLE, RDM_DELIMITER}"
    and "\<not> any_flag flags DMX_INTR_RX_ERR"
  shows "\<exists>w' d'. rx_process n now flags h w = Inr ((DMX_OK, d_size d \<le> h), w') \<and>
    drv w' n = Some d' \<and> d' = d\<lparr>d_controller_eop_timestamp := now, d_last_controller_pid := 0,
      d_responder_sent_last := False\<rparr> \<and> timer_running w' = timer_running w"
  using assms by (simp add: rx_process_def parse_dmx_def Let_def run_simps)

text \<open>
  C9. Receiving refines appending. The interrupt that reports data appends the bytes of the FIFO to
  the slots received since the break and drops what does not fit the buffer; when the expected number
  of slots of a DMX packet has come in, the packet is complete, the port is idle and the task that
  waits for it is woken without an error, and otherwise the port goes on receiving.
\<close>

theorem receive_appends:
  assumes "drv w n = Some d" "in_packet d" "fifo_holds n bs w" "is_dmx (received d @ bs)"
    and "DMX_INTR_RX_BREAK \<notin> set flags" "\<not> any_flag flags DMX_INTR_RX_ERR"
  shows "\<exists>w' d'. uart_rx n now flags w = Inr ((), w') \<and> drv w' n = Some d' \<and>
    received d' = take DMX_PACKET_SIZE_MAX (received d @ bs) \<and> d_head d' = head_after d (length bs) \<and>
    (if d_size d \<le> d_head d' then
       d_progress d' = DMX_PROGRESS_COMPLETE \<and> d_status d' = DMX_STATUS_IDLE \<and>
       (d_task_waiting d \<longrightarrow> Rtos (Notify_From_Isr n DMX_OK) \<in> set (calls w'))
     else d_progress d' = DMX_PROGRESS_IN_DATA \<and> d_status d' = d_status d)"
proof -
  define h where "h = head_after d (length bs)"
  have "length (d_data d) = DMX_PACKET_SIZE_MAX" "0 \<le> d_head d" using assms(2) by (auto simp: in_packet_def)
  from rx_read_apply [OF assms(1) this assms(3)] obtain w1 data where
    1: "rx_read n w = Inr (h, w1)" "drv w1 n = Some (d\<lparr>d_data := data, d_head := h\<rparr>)"
      "take (nat h) data = take DMX_PACKET_SIZE_MAX (received d @ bs)"
    by (auto simp: h_def)
  have ne: "take DMX_PACKET_SIZE_MAX (received d @ bs) \<noteq> []"
    "hd (take DMX_PACKET_SIZE_MAX (received d @ bs)) = hd (received d @ bs)"
    using assms(4) by (simp_all add: is_dmx_def hd_take del: take_append)
  then have "0 < nat h" using 1(3) by (metis gr0I take_0)
  from nth_0_take [OF this 1(3) ne(1)] ne(2) assms(4)
  have sc: "data ! 0 \<notin> {RDM_SC, RDM_PREAMBLE, RDM_DELIMITER}" by (simp add: is_dmx_def)
  let ?d = "d\<lparr>d_data := data, d_head := h, d_progress := DMX_PROGRESS_IN_DATA\<rparr>"
  let ?w = "w1\<lparr>calls := calls w1 @ [Fifo n (Uart_Clear_Interrupt DMX_INTR_RX_ALL)], drv := (drv w1)(n \<mapsto> ?d)\<rparr>"
  have d: "(if d_progress d = DMX_PROGRESS_IN_BREAK \<or> d_progress d = DMX_PROGRESS_IN_MAB
      then d\<lparr>d_data := data, d_head := h, d_progress := DMX_PROGRESS_IN_DATA\<rparr>
      else d\<lparr>d_data := data, d_head := h\<rparr>) = ?d"
    using assms(2) by (auto simp: in_packet_def)
  from rx_dmx_process [of ?w n ?d flags now h] sc assms(6) obtain w2 d2 where
    2: "rx_process n now flags h ?w = Inr ((DMX_OK, d_size d \<le> h), w2)" "drv w2 n = Some d2"
      "d2 = ?d\<lparr>d_controller_eop_timestamp := now, d_last_controller_pid := 0, d_responder_sent_last := False\<rparr>"
    by auto
  show ?thesis
    using 1 2 d assms(5)
    by (auto simp: uart_rx_def run_simps timer_simps notify_waiting_def received_def h_def [symmetric])
qed
section \<open>Witnesses\<close>

text \<open>An environment whose transmit FIFO has room for 100 bytes and whose receive FIFO holds three slots.\<close>

definition fifo_env :: "ext_call list \<Rightarrow> ext_call \<Rightarrow> ext_reply" where
  "fifo_env cs c = (case c of
     Fifo _ f \<Rightarrow> (case f of
       Uart_Txfifo_Len \<Rightarrow> Reply 100 [] []
     | Uart_Rxfifo_Len \<Rightarrow> Reply 3 [] []
     | Uart_Read_Rxfifo k \<Rightarrow> Reply 0 (take k [0, 10, 20]) []
     | _ \<Rightarrow> Reply 0 [] [])
   | _ \<Rightarrow> demo_env cs c)"

definition fifo_world :: world where
  "fifo_world = (demo_world 0)\<lparr>env := fifo_env\<rparr>"

lemma fifo_world_sendable: "sendable 0 fifo_world (demo_driver 0)" "fifo_answers 0 1 fifo_world"
  "enabled_interrupts 0 (calls fifo_world) \<inter> set DMX_INTR_TX_ALL = {}"
  by (simp_all add: sendable_def fifo_answers_def fifo_world_def fifo_env_def demo_world_def
      demo_driver_def initial_driver_def enabled_interrupts_def boot_world_def)



definition rx_driver :: dmx_driver_t where
  "rx_driver = (demo_driver 0)\<lparr>d_head := 0, d_size := 3, d_progress := DMX_PROGRESS_IN_MAB,
     d_task_waiting := True\<rparr>"

definition rx_world :: world where
  "rx_world = fifo_world\<lparr>drv := (\<lambda>_. None)(0 \<mapsto> rx_driver)\<rparr>"

lemma rx_driver_facts:
  "in_packet rx_driver" "received rx_driver = []" "head_after rx_driver (Suc (Suc (Suc 0))) = 3" "d_size rx_driver = 3"
  "d_task_waiting rx_driver"
  by (simp_all add: in_packet_def received_def head_after_def rx_driver_def demo_driver_def initial_driver_def)

theorem receive_appends_witness:
  "\<exists>w' d'. uart_rx 0 7 [DMX_INTR_RX_DATA] rx_world = Inr ((), w') \<and> drv w' 0 = Some d' \<and>
    received d' = [0, 10, 20] \<and> d_progress d' = DMX_PROGRESS_COMPLETE \<and>
    Rtos (Notify_From_Isr 0 DMX_OK) \<in> set (calls w')"
proof -
  have d: "drv rx_world 0 = Some rx_driver" by (simp add: rx_world_def)
  have holds: "fifo_holds 0 [0, 10, 20] rx_world"
    by (simp add: fifo_holds_def rx_world_def fifo_world_def fifo_env_def)
  have dmx: "is_dmx (received rx_driver @ [0, 10, 20])" by (simp add: is_dmx_def rx_driver_facts)
  have flags: "DMX_INTR_RX_BREAK \<notin> set [DMX_INTR_RX_DATA]" "\<not> any_flag [DMX_INTR_RX_DATA] DMX_INTR_RX_ERR"
    by (simp_all add: any_flag_def DMX_INTR_RX_ERR_def)
  from receive_appends [OF d rx_driver_facts(1) holds dmx flags, of 7] show ?thesis
    by (auto simp: rx_driver_facts)
qed

end
