(* ===== verification/Vizzz_Core.thy ===== *)
theory Vizzz_Core
  imports Prelude
begin

text \<open>
  The helpers of the firmware, \<^verbatim>\<open>include/vizzz_core.h\<close>: the Art-Net port address, the master dimmer, the
  level ceiling and the slew limiter of an output. Each is characterised by the numbers it computes,
  so that bounds and convergence are facts about natural numbers.
\<close>

section \<open>Operations\<close>

definition packUniverse :: "u8 \<Rightarrow> u8 \<Rightarrow> u8 \<Rightarrow> u16" where
  "packUniverse artNet artSubnet artUni =
     push_bit 8 (ucast artNet) OR push_bit 4 (ucast artSubnet) OR ucast (artUni AND 0x0f)"

definition applyMaster :: "u8 \<Rightarrow> u8 \<Rightarrow> u8" where
  "applyMaster level master =
     (if master \<ge> 255 then level else ucast (drop_bit 8 (ucast level * ucast master :: u32)))"

definition clampLevel :: "u8 \<Rightarrow> u8 \<Rightarrow> u8" where
  "clampLevel level ceiling = (if level > ceiling then ceiling else level)"

definition slewToward :: "u8 \<Rightarrow> u8 \<Rightarrow> u8 \<Rightarrow> u8" where
  "slewToward now target step =
     (if step = 0 \<or> now = target then target
      else if target > now then
        (let next = ucast now + ucast step :: u16 in
         if next > ucast target then target else ucast next)
      else
        (let down = ucast target + ucast step :: u16 in
         if down < ucast now then now - step else target))"

section \<open>Their values\<close>

lemma unat_u8_less: "unat (x :: u8) < 256"
  using unsigned_less [of x] by simp

lemma unat_u8_sum: "unat (ucast (x :: u8) + ucast (y :: u8) :: u16) = unat x + unat y"
  using unat_u8_less [of x] unat_u8_less [of y]
  by (simp add: unat_word_ariths(1) unsigned_ucast_eq take_bit_nat_eq_self)

lemma unat_ucast_small: "unat (w :: u16) < 256 \<Longrightarrow> unat (ucast w :: u8) = unat w"
  by (simp add: unsigned_ucast_eq take_bit_nat_eq_self)

lemma unat_ucast_up [simp]: "unat (ucast (x :: u8) :: u16) = unat x"
  using unat_u8_less [of x] by (simp add: unsigned_ucast_eq take_bit_nat_eq_self)

lemma unat_slewToward:
  "unat (slewToward now target step) =
     (if step = 0 then unat target
      else if unat now \<le> unat target then min (unat target) (unat now + unat step)
      else max (unat target) (unat now - unat step))"
proof (cases "step = 0 \<or> now = target")
  case True
  then show ?thesis by (auto simp: slewToward_def)
next
  case False
  show ?thesis
  proof (cases "now < target")
    case True
    have "unat (ucast (ucast now + ucast step :: u16) :: u8) = unat now + unat step"
      if "unat now + unat step \<le> unat target"
      using that unat_u8_less [of target] unat_u8_sum [of now step]
      by (subst unat_ucast_small) auto
    with False True show ?thesis
      by (auto simp: slewToward_def Let_def word_less_nat_alt unat_u8_sum)
  next
    case down: False
    have "unat (now - step) = unat now - unat step" if "unat target + unat step < unat now"
      using that by (intro unat_sub) (auto simp: word_le_nat_alt)
    with False down show ?thesis
      by (auto simp: slewToward_def Let_def word_less_nat_alt unat_u8_sum word_unat_eq_iff)
  qed
qed

lemma unat_applyMaster:
  "unat (applyMaster level master) =
     (if master = 255 then unat level else unat level * unat master div 256)"
proof (cases "master = 255")
  case True
  then show ?thesis by (simp add: applyMaster_def)
next
  case False
  have lt: "\<not> 255 \<le> master"
    using False unat_u8_less [of master] by (auto simp: word_le_nat_alt word_unat_eq_iff)
  have prod: "unat level * unat master \<le> 255 * 255"
    using unat_u8_less [of level] unat_u8_less [of master] by (intro mult_mono) auto
  have "unat (ucast level * ucast master :: u32) = unat level * unat master"
    using prod unat_u8_less [of level] unat_u8_less [of master]
    by (simp add: unat_word_ariths(2) unsigned_ucast_eq take_bit_nat_eq_self)
  moreover have "unat level * unat master div 256 < 256" using prod by simp
  ultimately show ?thesis
    using False lt
    by (simp add: applyMaster_def unsigned_ucast_eq drop_bit_eq_div unat_div take_bit_nat_eq_self)
qed

section \<open>Properties\<close>

text \<open>
  The master dimmer only dims: the result never exceeds the value, full master is the identity,
  and a higher value or a higher master never gives a lower result.
\<close>

lemma applyMaster_dims:
  assumes "v \<le> v'" "m \<le> m'"
  shows "applyMaster v m \<le> v \<and> applyMaster v 255 = v \<and> applyMaster v 0 = 0 \<and>
    applyMaster v m \<le> applyMaster v' m'"
proof -
  have le: "unat x * unat y div 256 \<le> unat x" for x y :: u8
  proof -
    have "unat x * unat y \<le> unat x * 256" using unat_u8_less [of y] by simp
    then show ?thesis using div_le_mono [of "unat x * unat y" "unat x * 256" 256] by simp
  qed
  have mono: "unat v * unat m div 256 \<le> unat v' * unat m' div 256"
    using assms by (intro div_le_mono mult_mono) (auto simp: word_le_nat_alt)
  have "applyMaster v m \<le> v" by (simp add: word_le_nat_alt unat_applyMaster le)
  moreover have "applyMaster v 255 = v" by (simp add: applyMaster_def)
  moreover have "applyMaster v 0 = 0" by (simp add: word_unat_eq_iff unat_applyMaster)
  moreover have "applyMaster v m \<le> applyMaster v' m'"
  proof (cases "m' = 255")
    case True
    have "unat v \<le> unat v'" using assms(1) by (simp add: word_le_nat_alt)
    then show ?thesis using True le [of v m] by (auto simp: word_le_nat_alt unat_applyMaster)
  next
    case False
    then have "m \<noteq> 255" using assms(2) unat_u8_less [of m']
      by (auto simp: word_le_nat_alt word_unat_eq_iff)
    with False mono show ?thesis by (simp add: word_le_nat_alt unat_applyMaster)
  qed
  ultimately show ?thesis by blast
qed

lemma applyMaster_dims_witness:
  "applyMaster 100 128 \<le> 100 \<and> applyMaster 100 255 = 100 \<and> applyMaster 100 0 = 0 \<and>
    applyMaster 100 128 \<le> applyMaster 200 128"
  using applyMaster_dims [of 100 200 128 128] by simp

lemma slew_up:
  assumes "step \<noteq> 0" "unat now \<le> unat target"
  shows "unat (((\<lambda>x. slewToward x target step) ^^ k) now) = min (unat target) (unat now + k * unat step)"
proof (induction k)
  case (Suc k)
  then show ?case using assms(1) by (simp add: unat_slewToward)
qed (use assms in simp)

lemma slew_down:
  assumes "step \<noteq> 0" "unat target \<le> unat now"
  shows "unat (((\<lambda>x. slewToward x target step) ^^ k) now) = max (unat target) (unat now - k * unat step)"
proof (induction k)
  case (Suc k)
  then show ?case using assms(1) by (auto simp: unat_slewToward)
qed (use assms in simp)

text \<open>
  The slew limiter reaches its target: with a step that is not zero, \<open>k\<close> calls bring the level to
  the target as soon as \<open>k\<close> steps cover the distance, until then the level moves by exactly one step
  per call, and it never leaves the interval between its start and the target.
\<close>

lemma slew_reaches_target:
  assumes "step \<noteq> 0"
  shows "unat (((\<lambda>x. slewToward x target step) ^^ k) now) =
      (if unat now \<le> unat target then min (unat target) (unat now + k * unat step)
       else max (unat target) (unat now - k * unat step)) \<and>
    ((\<lambda>x. slewToward x target step) ^^ 255) now = target"
proof (rule conjI)
  show "unat (((\<lambda>x. slewToward x target step) ^^ k) now) =
      (if unat now \<le> unat target then min (unat target) (unat now + k * unat step)
       else max (unat target) (unat now - k * unat step))"
    using slew_up [OF assms] slew_down [OF assms] by simp
  have "255 \<le> 255 * unat step" using assms by (simp add: unat_eq_0 Suc_le_eq unat_gt_0)
  then have "unat (((\<lambda>x. slewToward x target step) ^^ 255) now) = unat target"
    using slew_up [OF assms, of now target 255] slew_down [OF assms, of target now 255]
      unat_u8_less [of target] unat_u8_less [of now]
    by (cases "unat now \<le> unat target") auto
  then show "((\<lambda>x. slewToward x target step) ^^ 255) now = target" by (simp add: word_unat_eq_iff)
qed

lemma slew_reaches_target_witness:
  "unat (((\<lambda>x. slewToward x 200 10) ^^ 3) 100) =
     (if unat (100 :: u8) \<le> unat (200 :: u8) then min (unat (200 :: u8)) (unat (100 :: u8) + 3 * unat (10 :: u8))
      else max (unat (200 :: u8)) (unat (100 :: u8) - 3 * unat (10 :: u8))) \<and>
   ((\<lambda>x. slewToward x 200 10) ^^ 255) 100 = 200"
  by (rule slew_reaches_target) simp

end
