(* ===== verification/Vizzz_State.thy ===== *)
theory Vizzz_State
  imports Vizzz_Core
begin

text \<open>
  The state of the firmware \<^verbatim>\<open>src/main.cpp\<close> and its persistence. The file-scope variables are the fields
  of \<open>app\<close>, with the names of the source. An array is a list; a fixed array of structures with a count
  of valid entries (\<^verbatim>\<open>peers\<close>) is the list of the valid entries. Calls of the libraries the firmware is
  built on (FreeRTOS, the Arduino core, Preferences, WiFi, UDP, the web server) are recorded in
  \<open>app_calls\<close> and answered by \<open>app_env\<close>, which may be any function of the history; a handler that finds
  the mutex taken is the branch in which \<open>Sem_Take\<close> is answered with zero. The web server's callbacks
  run on another core: a handler is one step of the model, and two handlers exclude each other only
  where the source takes \<^verbatim>\<open>gLock\<close>.
\<close>

section \<open>Constants\<close>

definition MAX_CH :: nat where [simp]: "MAX_CH = 512"
definition DMX_PERIOD_MS :: u32 where [simp]: "DMX_PERIOD_MS = 23"
definition ARTNET_TIMEOUT_MS :: u32 where [simp]: "ARTNET_TIMEOUT_MS = 3000"
definition ARTNET_PORT :: u16 where [simp]: "ARTNET_PORT = 6454"
definition SACN_TIMEOUT_MS :: u32 where [simp]: "SACN_TIMEOUT_MS = 3000"
definition SACN_PORT :: u16 where [simp]: "SACN_PORT = 5568"
definition SAFE_MAX_LEVEL :: u8 where [simp]: "SAFE_MAX_LEVEL = 245"
definition SAFE_SLEW_STEP :: u8 where [simp]: "SAFE_SLEW_STEP = 18"
definition BURN_SAFE_MAX_LEVEL :: u8 where [simp]: "BURN_SAFE_MAX_LEVEL = 96"
definition BURN_SAFE_SLEW_STEP :: u8 where [simp]: "BURN_SAFE_SLEW_STEP = 8"
definition ARTNET_PKT_BUDGET :: nat where [simp]: "ARTNET_PKT_BUDGET = 10"
definition SACN_PKT_BUDGET :: nat where [simp]: "SACN_PKT_BUDGET = 10"
definition OSC_PKT_BUDGET :: nat where [simp]: "OSC_PKT_BUDGET = 14"
definition DISC_PKT_BUDGET :: nat where [simp]: "DISC_PKT_BUDGET = 4"
definition PAGE_SIZE :: nat where [simp]: "PAGE_SIZE = 32"
definition PAGE_COUNT :: nat where [simp]: "PAGE_COUNT = 16"
definition SCENE_COUNT :: nat where [simp]: "SCENE_COUNT = 8"
definition MAX_FIXTURES :: nat where [simp]: "MAX_FIXTURES = 12"
definition MAX_PEERS :: nat where [simp]: "MAX_PEERS = 4"
definition PEER_EXPIRE_MS :: u32 where [simp]: "PEER_EXPIRE_MS = 90000"
definition MAX_GROUPS :: nat where [simp]: "MAX_GROUPS = 8"
definition MAX_CUES :: nat where [simp]: "MAX_CUES = 16"
definition BCAST_PATH_LEN :: nat where [simp]: "BCAST_PATH_LEN = 72"
definition BCAST_IP_LEN :: nat where [simp]: "BCAST_IP_LEN = 16"
definition DISCOVERY_PORT :: u16 where [simp]: "DISCOVERY_PORT = 47777"
definition PRODUCT_NAME :: string where "PRODUCT_NAME = ''vizzz.di''"
definition AP_SSID_PREFIX :: string where "AP_SSID_PREFIX = ''vizzz.di''"

datatype Mode = MODE_WEB | MODE_ARTNET | MODE_HTP

definition mode_code :: "Mode \<Rightarrow> u8" where
  "mode_code m = (case m of MODE_WEB \<Rightarrow> 0 | MODE_ARTNET \<Rightarrow> 1 | MODE_HTP \<Rightarrow> 2)"

text \<open>A stored number above the last enumerator is replaced by \<^verbatim>\<open>MODE_HTP\<close>, as \<^verbatim>\<open>loadConfig\<close> does.\<close>

definition mode_of :: "u8 \<Rightarrow> Mode" where
  "mode_of c = (if c = 0 then MODE_WEB else if c = 1 then MODE_ARTNET else MODE_HTP)"

datatype NetMode = NET_AP_STA | NET_STA_ONLY | NET_AP_ONLY

definition net_mode_code :: "NetMode \<Rightarrow> u8" where
  "net_mode_code m = (case m of NET_AP_STA \<Rightarrow> 0 | NET_STA_ONLY \<Rightarrow> 1 | NET_AP_ONLY \<Rightarrow> 2)"

definition net_mode_of :: "u8 \<Rightarrow> NetMode" where
  "net_mode_of c = (if c = 1 then NET_STA_ONLY else if c = 2 then NET_AP_ONLY else NET_AP_STA)"

datatype FxMode =
    FX_NONE | FX_STROBE | FX_CHASE | FX_PULSE | FX_SINE | FX_SPARKLE | FX_COMET | FX_BARS
  | FX_GLITCH | FX_RADAR

definition fx_modes :: "FxMode list" where
  "fx_modes = [FX_NONE, FX_STROBE, FX_CHASE, FX_PULSE, FX_SINE, FX_SPARKLE, FX_COMET, FX_BARS,
     FX_GLITCH, FX_RADAR]"

section \<open>Structures\<close>

record PeerNode =
  pr_name :: string
  pr_ip :: string
  pr_mdns :: string
  pr_mac :: string
  pr_lastSeenMs :: u32

text \<open>The names are character arrays of 16 bytes; \<open>f_pad\<close> is the byte of padding at the end of a fixture.\<close>

record GroupDef =
  g_name :: bytes
  g_start :: u16
  g_end :: u16
  g_enabled :: bool

record FixtureDef =
  f_name :: bytes
  f_start :: u16
  f_end :: u16
  f_x :: u8
  f_y :: u8
  f_enabled :: bool
  f_pad :: u8

record CueStep =
  c_scene :: u8
  c_dwellMs :: u32
  c_fadeMs :: u32

section \<open>Calls of the libraries\<close>

datatype socket = Art_In | Art_Out | Sacn | Discover | Osc

datatype prefs_call =
    Prefs_Begin string bool | Prefs_End | Prefs_Clear
  | Is_Key string | Get_String string string | Get_UChar string u8 | Get_Bool string bool
  | Get_Bytes string nat | Put_String string string | Put_UChar string u8 | Put_Bool string bool
  | Put_Bytes string bytes

datatype net_call =
    Udp_Begin socket u16 | Udp_Stop socket | Udp_Multicast socket u32 | Udp_Parse socket
  | Udp_Read socket nat | Udp_Remote_Ip socket | Udp_Send socket u32 u16 bytes
  | Peer_Connect u32 | Peer_Write string | Peer_Stop | Http_Send nat string
  | Ws_Count | Ws_Text string | Ws_Cleanup

datatype wifi_call =
    Wifi_Status | Wifi_Local_Ip | Wifi_Subnet_Mask | Wifi_Mac | Wifi_Disconnect | Wifi_Scan_Delete
  | Wifi_Get_Mode | Wifi_Set_Mode int | Wifi_Set_Sleep bool | Wifi_Set_Hostname string
  | Wifi_Soft_Ap string string | Wifi_Join string string | Ip_From_String string
  | Mdns_End | Mdns_Begin string | Mdns_Add_Http
  | Wifi_Soft_Ap_Ip | Wifi_Ap_Clients | Wifi_Rssi | Wifi_Scan_Complete | Wifi_Scan_Start
  | Wifi_Scan_Ssid nat | Wifi_Scan_Rssi nat | Wifi_Scan_Auth nat

datatype app_call =
    Sem_Take nat | Sem_Give | Millis | Prefs prefs_call | Net net_call | Wifi wifi_call
  | Queue_Create | Task_Create | Queue_Delete | Queue_Send string string
  | Dmx_Install | Dmx_Set_Pin int int | Dmx_Write bytes | Dmx_Send | Dmx_Wait_Sent | Delay nat | Restart

datatype app_reply = Answer (a_code: int) (a_bytes: bytes) (a_text: string)

section \<open>The state\<close>

text \<open>The fields come in four groups: configuration, levels, show (groups, cues, effects) and the rest.\<close>

record node_config =
  nodeName :: string
  apSsid :: string
  apPass :: string
  staSSID :: string
  staPass :: string
  artNet :: u8
  artSubnet :: u8
  artUni :: u8
  mode :: Mode
  netMode :: NetMode
  artOutEnabled :: bool
  artOutPeerIp :: string
  webEnabled :: bool
  burnSafeMode :: bool
  artnetFallbackToWeb :: bool
  needSaveConfig :: bool

record node_levels = node_config +
  dmxFrame :: bytes
  webVals :: bytes
  artVals :: bytes
  sacnVals :: bytes
  outVals :: bytes
  lastArtnetMs :: u32
  lastSacnMs :: u32
  masterDimmer :: u8
  fadeActive :: bool
  fadeStartMs :: u32
  fadeTimeMs :: u32
  fadeFrom :: bytes
  fadeTo :: bytes

record node_show = node_levels +
  groups :: "GroupDef list"
  fixtures :: "FixtureDef list"
  fixtureCount :: nat
  cueList :: "CueStep list"
  cueCount :: nat
  cueIndex :: nat
  cueRunning :: bool
  cueNextMs :: u32
  fxMode :: FxMode
  fxEnabled :: bool
  fxBpm :: u16
  fxDepth :: u8
  colorR :: u8
  colorG :: u8
  colorB :: u8
  colorEnabled :: bool
  lastTapMs :: u32
  tapIntervals :: "u32 list"
  tapCount :: nat
  tapPos :: nat

record app = node_show +
  wifiScanActive :: bool
  wifiScanStartMs :: u32
  mdnsName :: string
  peers :: "PeerNode list"
  pendingReboot :: bool
  pendingWifiReconnect :: bool
  pendingWifiForget :: bool
  pendingFactoryReset :: bool
  bcastQueue :: bool
  artOutSeq :: u8
  lastDmx :: u32
  lastBeacon :: u32
  lastExpiry :: u32
  lastWs :: u32
  prevWiFiStatus :: int
  app_calls :: "app_call list"
  app_env :: "app_call list \<Rightarrow> app_call \<Rightarrow> app_reply"

text \<open>The static initialisers.\<close>

definition boot_app :: "(app_call list \<Rightarrow> app_call \<Rightarrow> app_reply) \<Rightarrow> app" where
  "boot_app e = \<lparr>
     nodeName = PRODUCT_NAME, apSsid = AP_SSID_PREFIX, apPass = ''Poghka888$'', staSSID = '''', staPass = '''',
     artNet = 0, artSubnet = 0, artUni = 0, mode = MODE_HTP, netMode = NET_AP_STA,
     artOutEnabled = False, artOutPeerIp = '''', webEnabled = True, burnSafeMode = False,
     artnetFallbackToWeb = True, needSaveConfig = False,
     dmxFrame = replicate (MAX_CH + 1) 0, webVals = replicate MAX_CH 0, artVals = replicate MAX_CH 0,
     sacnVals = replicate MAX_CH 0, outVals = replicate MAX_CH 0,
     lastArtnetMs = 0, lastSacnMs = 0, masterDimmer = 255,
     fadeActive = False, fadeStartMs = 0, fadeTimeMs = 1000, fadeFrom = replicate MAX_CH 0,
     fadeTo = replicate MAX_CH 0,
     groups = replicate MAX_GROUPS \<lparr>g_name = replicate 16 0, g_start = 0, g_end = 0, g_enabled = False\<rparr>,
     fixtures = replicate MAX_FIXTURES \<lparr>f_name = replicate 16 0, f_start = 0, f_end = 0, f_x = 0, f_y = 0,
       f_enabled = False, f_pad = 0\<rparr>,
     fixtureCount = 4,
     cueList = replicate MAX_CUES \<lparr>c_scene = 0, c_dwellMs = 0, c_fadeMs = 0\<rparr>,
     cueCount = 0, cueIndex = 0, cueRunning = False, cueNextMs = 0,
     fxMode = FX_NONE, fxEnabled = False, fxBpm = 120, fxDepth = 255,
     colorR = 255, colorG = 255, colorB = 255, colorEnabled = False,
     lastTapMs = 0, tapIntervals = replicate 4 0, tapCount = 0, tapPos = 0,
     wifiScanActive = False, wifiScanStartMs = 0, mdnsName = '''', peers = [],
     pendingReboot = False, pendingWifiReconnect = False, pendingWifiForget = False,
     pendingFactoryReset = False, bcastQueue = False, artOutSeq = 1,
     lastDmx = 0, lastBeacon = 0, lastExpiry = 0, lastWs = 0, prevWiFiStatus = 0,
     app_calls = [], app_env = e\<rparr>"

definition call :: "app_call \<Rightarrow> (app, app_reply) cmd" where
  "call c = (\<lambda>s. Inr (app_env s (app_calls s) c, s\<lparr>app_calls := app_calls s @ [c]\<rparr>))"

definition call_u :: "app_call \<Rightarrow> (app, unit) cmd" where
  "call_u c = bind_c (call c) (\<lambda>_. ret ())"

definition call_code :: "app_call \<Rightarrow> (app, int) cmd" where
  "call_code c = bind_c (call c) (\<lambda>r. ret (a_code r))"

definition call_text :: "app_call \<Rightarrow> (app, string) cmd" where
  "call_text c = bind_c (call c) (\<lambda>r. ret (a_text r))"

definition prefs_u :: "prefs_call \<Rightarrow> (app, unit) cmd" where
  "prefs_u c = call_u (Prefs c)"

definition millis :: "(app, u32) cmd" where
  "millis = bind_c (call_code Millis) (\<lambda>t. ret (of_int t))"

text \<open>
  A section that holds \<^verbatim>\<open>gLock\<close>: \<open>busy\<close> runs when the mutex is not taken in time.
\<close>

definition locked :: "nat \<Rightarrow> (app, 'a) cmd \<Rightarrow> (app, 'a) cmd \<Rightarrow> (app, 'a) cmd" where
  "locked ms busy m = bind_c (call_code (Sem_Take ms)) (\<lambda>taken.
     if taken = 0 then busy else bind_c m (\<lambda>a. then_c (call_u Sem_Give) (ret a)))"

lemma call_apply: "call c s = Inr (app_env s (app_calls s) c, s\<lparr>app_calls := app_calls s @ [c]\<rparr>)"
  by (simp add: call_def)

lemmas call_simps = bind_c_def then_c_def ret_def gets_c_def modify_c_def call_apply call_u_def call_code_def
  call_text_def millis_def prefs_u_def

section \<open>Helpers\<close>

text \<open>An element of a fixed array; an index outside of it is a fault.\<close>

definition at :: "nat \<Rightarrow> 'a list \<Rightarrow> 'a res" where
  "at i xs = (if i < length xs then Inr (xs ! i) else Inl Out_Of_Bounds)"

definition put_at :: "nat \<Rightarrow> 'a \<Rightarrow> 'a list \<Rightarrow> 'a list res" where
  "put_at i x xs = (if i < length xs then Inr (xs[i := x]) else Inl Out_Of_Bounds)"

text \<open>Arduino's \<^verbatim>\<open>constrain\<close>.\<close>

definition constrain :: "'a :: linorder \<Rightarrow> 'a \<Rightarrow> 'a \<Rightarrow> 'a" where
  "constrain x lo hi = (if x < lo then lo else if x > hi then hi else x)"

definition string_bytes :: "string \<Rightarrow> bytes" where
  "string_bytes s = map of_char s"

definition starts_with :: "string \<Rightarrow> string \<Rightarrow> bool" where
  "starts_with s p \<longleftrightarrow> take (length p) s = p"

definition universe :: "app \<Rightarrow> u16" where
  "universe s = packUniverse (artNet s) (artSubnet s) (artUni s)"

definition isGeneratedNodeName :: "string \<Rightarrow> bool" where
  "isGeneratedNodeName name \<longleftrightarrow> name = PRODUCT_NAME \<or> starts_with name (PRODUCT_NAME @ ''-'')"

definition effectiveSafeMaxLevel :: "app \<Rightarrow> u8" where
  "effectiveSafeMaxLevel s = (if burnSafeMode s then BURN_SAFE_MAX_LEVEL else SAFE_MAX_LEVEL)"

definition effectiveSafeSlewStep :: "app \<Rightarrow> u8" where
  "effectiveSafeSlewStep s = (if burnSafeMode s then BURN_SAFE_SLEW_STEP else SAFE_SLEW_STEP)"

text \<open>\<^verbatim>\<open>%02X\<close>.\<close>

definition hex_digit :: "nat \<Rightarrow> char" where
  "hex_digit n = ''0123456789ABCDEF'' ! (n mod 16)"

definition hex2 :: "u8 \<Rightarrow> string" where
  "hex2 b = [hex_digit (unat b div 16), hex_digit (unat b)]"

text \<open>\<^verbatim>\<open>%u\<close>.\<close>

function dec :: "nat \<Rightarrow> string" where
  "dec n = (if n < 10 then [''0123456789'' ! n] else dec (n div 10) @ [''0123456789'' ! (n mod 10)])"
  by pat_completeness auto

termination by (relation "measure id") auto

declare dec.simps [simp del]

definition macSuffix6 :: "(app, string) cmd" where
  "macSuffix6 = bind_c (call (Wifi Wifi_Mac)) (\<lambda>r.
     (let m = take 6 (a_bytes r @ replicate 6 0) in ret (hex2 (m ! 3) @ hex2 (m ! 4) @ hex2 (m ! 5))))"

definition makeNodeNameFromMac :: "(app, string) cmd" where
  "makeNodeNameFromMac = bind_c macSuffix6 (\<lambda>m. ret (PRODUCT_NAME @ ''-'' @ m))"

section \<open>Persistence\<close>

text \<open>\<open>fw_tag\<close> is the time of the build.\<close>

definition saveConfig :: "string \<Rightarrow> (app, unit) cmd" where
  "saveConfig fw_tag = bind_c (gets_c id) (\<lambda>s.
     for_c [Prefs_Begin ''cfg'' False,
       Put_String ''name'' (nodeName s), Put_String ''ap_ssid'' (apSsid s),
       Put_String ''ap_pass'' (apPass s), Put_String ''sta_ssid'' (staSSID s),
       Put_String ''sta_pass'' (staPass s),
       Put_UChar ''anet_net'' (artNet s), Put_UChar ''anet_sub'' (artSubnet s),
       Put_UChar ''anet_uni'' (artUni s),
       Put_UChar ''mode'' (mode_code (mode s)), Put_UChar ''net_mode'' (net_mode_code (netMode s)),
       Put_Bool ''ao_en'' (artOutEnabled s), Put_Bool ''web_en'' (webEnabled s),
       Put_Bool ''burn_safe'' (burnSafeMode s), Put_Bool ''anet_fb_web'' (artnetFallbackToWeb s),
       Put_String ''fw_tag'' fw_tag, Prefs_End] prefs_u)"

definition get_uchar :: "string \<Rightarrow> u8 \<Rightarrow> (app, u8) cmd" where
  "get_uchar key dflt = bind_c (call_code (Prefs (Get_UChar key dflt))) (\<lambda>c. ret (of_int c))"

definition get_bool :: "string \<Rightarrow> bool \<Rightarrow> (app, bool) cmd" where
  "get_bool key dflt = bind_c (call_code (Prefs (Get_Bool key dflt))) (\<lambda>c. ret (c \<noteq> 0))"

definition loadConfig :: "string \<Rightarrow> (app, unit) cmd" where
  "loadConfig fw_tag =
     then_c (prefs_u (Prefs_Begin ''cfg'' True))
    (bind_c (call_code (Prefs (Is_Key ''ap_ssid''))) (\<lambda>hasApSsid.
     bind_c (gets_c id) (\<lambda>s.
     bind_c (call_text (Prefs (Get_String ''name'' (nodeName s)))) (\<lambda>name.
     bind_c (call_text (Prefs (Get_String ''ap_ssid'' (apSsid s)))) (\<lambda>ssid.
     bind_c (call_text (Prefs (Get_String ''ap_pass'' (apPass s)))) (\<lambda>pass.
     bind_c (call_text (Prefs (Get_String ''sta_ssid'' ''''))) (\<lambda>sta.
     bind_c (call_text (Prefs (Get_String ''sta_pass'' ''''))) (\<lambda>stapass.
     bind_c (get_uchar ''anet_net'' (artNet s)) (\<lambda>net.
     bind_c (get_uchar ''anet_sub'' (artSubnet s)) (\<lambda>sub.
     bind_c (get_uchar ''anet_uni'' (artUni s)) (\<lambda>uni.
     bind_c (get_uchar ''mode'' (mode_code (mode s))) (\<lambda>m.
     bind_c (get_uchar ''net_mode'' (net_mode_code (netMode s))) (\<lambda>nm.
     bind_c (get_bool ''ao_en'' (artOutEnabled s)) (\<lambda>ao.
     bind_c (get_bool ''web_en'' (webEnabled s)) (\<lambda>web.
     bind_c (get_bool ''burn_safe'' (burnSafeMode s)) (\<lambda>burn.
     bind_c (get_bool ''anet_fb_web'' (artnetFallbackToWeb s)) (\<lambda>fb.
     bind_c (call_text (Prefs (Get_String ''fw_tag'' ''''))) (\<lambda>saved.
     then_c (prefs_u Prefs_End)
    (then_c (modify_c (\<lambda>s. s\<lparr>nodeName := name, apSsid := if hasApSsid = 0 then '''' else ssid,
        apPass := pass, staSSID := sta, staPass := stapass, artNet := net, artSubnet := sub,
        artUni := uni, mode := mode_of m, netMode := net_mode_of nm, artOutEnabled := ao,
        webEnabled := web, burnSafeMode := burn, artnetFallbackToWeb := fb\<rparr>))
    (if saved \<noteq> fw_tag then
       then_c (if name = '''' \<or> isGeneratedNodeName name then
                 bind_c makeNodeNameFromMac (\<lambda>n. modify_c (\<lambda>s. s\<lparr>nodeName := n\<rparr>))
               else ret ())
         (modify_c (\<lambda>s. s\<lparr>needSaveConfig := True\<rparr>))
     else ret ()))))))))))))))))))))"

text \<open>\<^verbatim>\<open>snprintf(name, 16, \"...\")\<close> and \<^verbatim>\<open>toCharArray(name, 16)\<close>: a truncated copy and a NUL; the rest stays.\<close>

definition set_name :: "string \<Rightarrow> bytes \<Rightarrow> bytes" where
  "set_name s old = (let t = take 15 (string_bytes s) in t @ 0 # drop (length t + 1) old)"

definition default_fixture :: "nat \<Rightarrow> FixtureDef \<Rightarrow> FixtureDef" where
  "default_fixture i f = f\<lparr>f_name := set_name (''F'' @ dec (i + 1)) (f_name f),
     f_start := [1, 4, 7, 10, 64, 67, 70, 73, 128, 131, 134, 137] ! i,
     f_end := [3, 6, 9, 12, 66, 69, 72, 75, 130, 133, 136, 139] ! i,
     f_x := [32, 96, 160, 224] ! (i mod 4), f_y := [32, 128, 224] ! (i div 4),
     f_enabled := i < 4\<rparr>"

definition initFixtureDefaults :: "(app, unit) cmd" where
  "initFixtureDefaults = modify_c (\<lambda>s. s\<lparr>fixtureCount := 4,
     fixtures := map (\<lambda>i. default_fixture i (fixtures s ! i)) [0..<MAX_FIXTURES]\<rparr>)"

text \<open>The array as it is stored: 24 bytes for each fixture.\<close>

definition fixture_bytes :: "FixtureDef \<Rightarrow> bytes" where
  "fixture_bytes f = f_name f @ le16 (f_start f) @ le16 (f_end f) @
     [f_x f, f_y f, if f_enabled f then 1 else 0, f_pad f]"

definition fixture_of :: "bytes \<Rightarrow> FixtureDef" where
  "fixture_of bs = \<lparr>f_name = take 16 bs, f_start = of_le16 (slice 16 2 bs), f_end = of_le16 (slice 18 2 bs),
     f_x = bs ! 20, f_y = bs ! 21, f_enabled = (bs ! 22 \<noteq> 0), f_pad = bs ! 23\<rparr>"

definition saveFixtures :: "(app, unit) cmd" where
  "saveFixtures = bind_c (gets_c id) (\<lambda>s.
     for_c [Prefs_Begin ''fixtures'' False, Put_UChar ''count'' (of_nat (fixtureCount s)),
       Put_Bytes ''items'' (concat (map fixture_bytes (fixtures s))), Prefs_End] prefs_u)"

text \<open>
  \<^verbatim>\<open>getBytes\<close> delivers the stored blob when it fits; its code is the number of bytes delivered, zero
  when there is none.
\<close>

definition loadFixtures :: "(app, unit) cmd" where
  "loadFixtures =
     then_c initFixtureDefaults
    (then_c (prefs_u (Prefs_Begin ''fixtures'' True))
    (bind_c (gets_c id) (\<lambda>s.
     bind_c (get_uchar ''count'' (of_nat (fixtureCount s))) (\<lambda>count.
     bind_c (call (Prefs (Get_Bytes ''items'' (24 * MAX_FIXTURES)))) (\<lambda>got.
     then_c (prefs_u Prefs_End)
    (if a_code got = int (24 * MAX_FIXTURES) then
       (let n = constrain (unat count) 1 MAX_FIXTURES;
            items = map (\<lambda>i. fixture_of (slice (24 * i) 24 (a_bytes got))) [0..<MAX_FIXTURES] in
        modify_c (\<lambda>s. s\<lparr>fixtureCount := n,
          fixtures := map (\<lambda>i. (items ! i)\<lparr>f_enabled := i < n \<and> f_enabled (items ! i)\<rparr>) [0..<MAX_FIXTURES]\<rparr>))
     else initFixtureDefaults))))))"

end
