(* ===== verification/Vizzz_Show.thy ===== *)
theory Vizzz_Show
  imports Vizzz_State
begin

text \<open>
  The show engine of \<^verbatim>\<open>src/main.cpp\<close>: scenes, fades, cues, effects, the colour wash and the computation of
  the DMX frame. The sweep of the radar effect is computed with \<^verbatim>\<open>float\<close> arithmetic and \<^verbatim>\<open>atan2f\<close>; it is the
  argument \<open>radar\<close>, the level for a fixture at a time within a beat, and nothing is assumed about it.
\<close>

section \<open>Scenes\<close>

text \<open>The key has room for three characters.\<close>

definition scene_key :: "u8 \<Rightarrow> string" where
  "scene_key n = take 3 (''s'' @ dec (unat n))"

definition loadScene :: "u8 \<Rightarrow> (app, bytes) cmd" where
  "loadScene n =
     then_c (prefs_u (Prefs_Begin ''scenes'' True))
    (bind_c (call (Prefs (Get_Bytes (scene_key n) MAX_CH))) (\<lambda>got.
     then_c (prefs_u Prefs_End)
       (ret (if a_code got \<noteq> int MAX_CH then replicate MAX_CH 0
             else take MAX_CH (a_bytes got @ replicate MAX_CH 0)))))"

definition saveScene :: "u8 \<Rightarrow> bytes \<Rightarrow> (app, unit) cmd" where
  "saveScene n src =
     then_c (prefs_u (Prefs_Begin ''scenes'' False))
    (then_c (prefs_u (Put_Bytes (scene_key n) (take MAX_CH src)))
       (prefs_u Prefs_End))"

section \<open>Fades\<close>

definition startFade_locked :: "bytes \<Rightarrow> u32 \<Rightarrow> (app, unit) cmd" where
  "startFade_locked target ms =
     bind_c millis (\<lambda>now.
     modify_c (\<lambda>s. s\<lparr>fadeFrom := webVals s, fadeTo := target, fadeStartMs := now,
       fadeTimeMs := if ms < 1 then 1 else ms, fadeActive := True\<rparr>))"

text \<open>\<^verbatim>\<open>delta * k >> 8\<close> is the arithmetic shift of a signed number.\<close>

definition fade_level :: "u32 \<Rightarrow> u8 \<Rightarrow> u8 \<Rightarrow> u8" where
  "fade_level k from to = of_int (uint from + ((uint to - uint from) * uint k) div 256)"

definition updateFade_locked :: "(app, unit) cmd" where
  "updateFade_locked =
     bind_c (gets_c id) (\<lambda>s.
     if \<not> fadeActive s then ret ()
     else bind_c millis (\<lambda>now.
       (let elapsed = now - fadeStartMs s in
        if elapsed \<ge> fadeTimeMs s then modify_c (\<lambda>s. s\<lparr>webVals := fadeTo s, fadeActive := False\<rparr>)
        else
          (let k = push_bit 8 elapsed div fadeTimeMs s in
           modify_c (\<lambda>s. s\<lparr>webVals := map2 (fade_level k) (fadeFrom s) (fadeTo s)\<rparr>)))))"

section \<open>Defaults\<close>

definition initVjDefaults :: "(app, unit) cmd" where
  "initVjDefaults =
     then_c (modify_c (\<lambda>s. s\<lparr>
       groups := map (\<lambda>i. (groups s ! i)\<lparr>g_name := set_name (''G'' @ dec (i + 1)) (g_name (groups s ! i)),
         g_start := of_nat (i * 64 + 1), g_end := min (of_nat MAX_CH) (of_nat (i * 64 + 1) + 63),
         g_enabled := True\<rparr>) [0..<MAX_GROUPS],
       cueList := map (\<lambda>i. \<lparr>c_scene = of_nat (i mod SCENE_COUNT), c_dwellMs = 1500, c_fadeMs = 500\<rparr>)
         [0..<MAX_CUES],
       cueCount := 4\<rparr>))
     initFixtureDefaults"

section \<open>Cues\<close>

definition triggerCueStep :: "nat \<Rightarrow> (app, unit) cmd" where
  "triggerCueStep idx =
     bind_c (locked 20 (ret None)
       (bind_c (gets_c id) (\<lambda>s.
        if idx \<ge> cueCount s then ret None
        else bind_c (lift_c (at idx (cueList s))) (\<lambda>c. ret (Some c))))) (\<lambda>step.
     case step of
       None \<Rightarrow> ret ()
     | Some c \<Rightarrow>
         bind_c (loadScene (c_scene c)) (\<lambda>target.
         locked 20 (ret ())
           (then_c (startFade_locked target (c_fadeMs c))
           (bind_c millis (\<lambda>now.
            modify_c (\<lambda>s. s\<lparr>cueNextMs := now + c_fadeMs c + c_dwellMs c\<rparr>))))))"

definition tickCueEngine :: "u32 \<Rightarrow> (app, unit) cmd" where
  "tickCueEngine now =
     bind_c (locked 5 (ret None)
       (bind_c (gets_c id) (\<lambda>s.
        if \<not> cueRunning s \<or> cueCount s = 0 \<or> now < cueNextMs s then ret None
        else (let i = (cueIndex s + 1) mod cueCount s in
              then_c (modify_c (\<lambda>s. s\<lparr>cueIndex := i\<rparr>)) (ret (Some i)))))) (\<lambda>next.
     case next of None \<Rightarrow> ret () | Some nextIdx \<Rightarrow> triggerCueStep nextIdx)"

section \<open>Effects\<close>

definition tri8 :: "u8 \<Rightarrow> u8" where
  "tri8 phase = (if phase < 128 then push_bit 1 phase else push_bit 1 (255 - phase))"

definition fxApplyDepth :: "u8 \<Rightarrow> u8 \<Rightarrow> u8" where
  "fxApplyDepth depth level =
     of_int (uint (255 - depth) + (uint level * uint depth + 127) div 255)"

definition fxLaneForChannel :: "u16 \<Rightarrow> u8 \<Rightarrow> u8" where
  "fxLaneForChannel ch lanes =
     (let size = (of_int ((int MAX_CH + uint lanes - 1) div uint lanes) :: u16);
          laneSize = (if size = 0 then 1 else size)
      in min (lanes - 1) (ucast (ch div laneSize)))"

text \<open>The fixture that covers a channel: the first enabled one.\<close>

definition covers :: "u16 \<Rightarrow> FixtureDef \<Rightarrow> bool" where
  "covers ch f \<longleftrightarrow> f_enabled f \<and>
     (let s = constrain (uint (f_start f)) 1 (int MAX_CH);
          e = constrain (uint (f_end f)) s (int MAX_CH)
      in uint ch + 1 \<ge> s \<and> uint ch + 1 \<le> e)"

definition fixtureForChannel :: "u16 \<Rightarrow> app \<Rightarrow> FixtureDef option" where
  "fixtureForChannel ch s = find (covers ch) (take (fixtureCount s) (fixtures s))"

definition fxHash :: "u32 \<Rightarrow> u32" where
  "fxHash x0 =
     (let x = x0 XOR drop_bit 16 x0; x = x * 0x7feb352d; x = x XOR drop_bit 15 x;
          x = x * 0x846ca68b in x XOR drop_bit 16 x)"

definition tailLevel :: "u8 \<Rightarrow> u8" where
  "tailLevel dist =
     (if dist = 0 then 255 else if dist = 1 then 190 else if dist = 2 then 110
      else if dist = 3 then 52 else 0)"

definition lane_dist :: "u8 \<Rightarrow> u8 \<Rightarrow> u8 \<Rightarrow> u8" where
  "lane_dist lane lanes activeLane = of_int ((uint lane + uint lanes - uint activeLane) mod uint lanes)"

text \<open>The length of a beat in milliseconds.\<close>

definition beat_ms :: "app \<Rightarrow> u32" where
  "beat_ms s = (let bpm = ucast (max 20 (fxBpm s)); beatMs = 60000 div bpm :: u32
                in if beatMs = 0 then 1 else beatMs)"

definition strobe_level :: "u32 \<Rightarrow> u32 \<Rightarrow> u8" where
  "strobe_level beatMs now =
     (let sl = max 18 (beatMs div 8) in if now mod sl < max 6 (sl div 3) then 255 else 0)"

definition beat_phase :: "u32 \<Rightarrow> u32 \<Rightarrow> u32" where
  "beat_phase beatMs now = ((now mod beatMs) * 255) div beatMs"

definition pulse_level :: "u8 \<Rightarrow> u8" where
  "pulse_level level = of_int ((uint level * uint level + 255) div 256)"

definition sparkle_level :: "u16 \<Rightarrow> u32 \<Rightarrow> u32 \<Rightarrow> u8" where
  "sparkle_level ch beatMs now =
     (let slot = now div max 18 (beatMs div 16);
          r = fxHash (push_bit 16 (ucast ch + 1) XOR slot) AND 0x1f
      in if r < 2 then 255 else if r < 5 then 150 else if r < 9 then 58 else 0)"

definition glitch_level :: "u8 \<Rightarrow> u32 \<Rightarrow> u32 \<Rightarrow> u8" where
  "glitch_level lane beatMs now =
     (let slot = now div max 16 (beatMs div 20);
          r = fxHash (slot XOR (ucast lane * 0x45d9f3b)) AND 0x0f
      in if r < 3 then 255 else if r < 6 then 0 else if r < 9 then 115 else 32)"

text \<open>The lane that is lit at a time, of \<open>lanes\<close> lanes that are lit for \<open>period\<close> milliseconds each.\<close>

definition active_lane :: "u32 \<Rightarrow> u8 \<Rightarrow> u32 \<Rightarrow> u8" where
  "active_lane period lanes now = ucast ((now div max 24 period) mod ucast lanes)"

definition fxLevelForChannel ::
  "(FixtureDef \<Rightarrow> u32 \<Rightarrow> u32 \<Rightarrow> u8) \<Rightarrow> u16 \<Rightarrow> u32 \<Rightarrow> app \<Rightarrow> u8" where
  "fxLevelForChannel radar ch now s =
     (if \<not> fxEnabled s \<or> fxMode s = FX_NONE then 255
      else
        (let beatMs = beat_ms s; depth = fxApplyDepth (fxDepth s) in
         case fxMode s of
           FX_STROBE \<Rightarrow> depth (strobe_level beatMs now)
         | FX_CHASE \<Rightarrow> depth (tailLevel (lane_dist (fxLaneForChannel ch 8) 8 (active_lane (beatMs div 2) 8 now)))
         | FX_PULSE \<Rightarrow> depth (pulse_level (tri8 (ucast (beat_phase beatMs now))))
         | FX_SINE \<Rightarrow> depth (tri8 (ucast (beat_phase beatMs now + ucast (fxLaneForChannel ch 16) * 16)))
         | FX_SPARKLE \<Rightarrow> depth (sparkle_level ch beatMs now)
         | FX_COMET \<Rightarrow> depth (tailLevel (lane_dist (fxLaneForChannel ch 16) 16 (active_lane (beatMs div 4) 16 now)))
         | FX_BARS \<Rightarrow> depth (if fxLaneForChannel ch 16 AND 1 = ucast ((now div max 24 (beatMs div 2)) AND 1)
                            then 255 else 18)
         | FX_GLITCH \<Rightarrow> depth (glitch_level (fxLaneForChannel ch 16) beatMs now)
         | FX_RADAR \<Rightarrow> (case fixtureForChannel ch s of
               None \<Rightarrow> 255
             | Some f \<Rightarrow> depth (radar f (now mod beatMs) beatMs))
         | FX_NONE \<Rightarrow> 255))"

section \<open>The colour wash\<close>

text \<open>The loop stops while three channels remain: the last two channels are not written.\<close>

definition washed :: "u8 \<Rightarrow> u8 \<Rightarrow> u8 \<Rightarrow> nat \<Rightarrow> u8 \<Rightarrow> u8" where
  "washed r g b i old =
     (if i div 3 * 3 + 2 < MAX_CH then (if i mod 3 = 0 then r else if i mod 3 = 1 then g else b) else old)"

definition applyColorWash :: "app \<Rightarrow> app" where
  "applyColorWash s =
     (if \<not> colorEnabled s then s
      else s\<lparr>webVals := map (\<lambda>i. washed (colorR s) (colorG s) (colorB s) i (webVals s ! i)) [0..<MAX_CH]\<rparr>)"

section \<open>Output\<close>

definition artnetActive :: "(app, bool) cmd" where
  "artnetActive = bind_c (gets_c lastArtnetMs) (\<lambda>last.
     if last = 0 then ret False
     else bind_c millis (\<lambda>now. ret (now - last < ARTNET_TIMEOUT_MS)))"

definition sacnActive :: "(app, bool) cmd" where
  "sacnActive = bind_c (gets_c lastSacnMs) (\<lambda>last.
     if last = 0 then ret False
     else bind_c millis (\<lambda>now. ret (now - last < SACN_TIMEOUT_MS)))"

definition net_input :: "bool \<Rightarrow> bool \<Rightarrow> nat \<Rightarrow> app \<Rightarrow> u8" where
  "net_input aActive sActive i s =
     (if aActive \<and> sActive then max (artVals s ! i) (sacnVals s ! i)
      else if aActive then artVals s ! i
      else if sActive then sacnVals s ! i
      else 0)"

text \<open>The level a channel is asked for, before the master and the limits.\<close>

definition merged :: "bool \<Rightarrow> bool \<Rightarrow> nat \<Rightarrow> app \<Rightarrow> u8" where
  "merged aActive sActive i s =
     (let netActive = aActive \<or> sActive; netIn = net_input aActive sActive i s in
      case mode s of
        MODE_WEB \<Rightarrow> webVals s ! i
      | MODE_ARTNET \<Rightarrow> if netActive then netIn
          else if artnetFallbackToWeb s then webVals s ! i else outVals s ! i
      | MODE_HTP \<Rightarrow> if netActive then max (webVals s ! i) netIn else webVals s ! i)"

definition output_target ::
  "(FixtureDef \<Rightarrow> u32 \<Rightarrow> u32 \<Rightarrow> u8) \<Rightarrow> bool \<Rightarrow> bool \<Rightarrow> u32 \<Rightarrow> nat \<Rightarrow> app \<Rightarrow> u8" where
  "output_target radar aActive sActive nowMs i s =
     (let v = merged aActive sActive i s;
          v = (if masterDimmer s < 255 then applyMaster v (masterDimmer s) else v);
          v = clampLevel v (effectiveSafeMaxLevel s);
          fxLevel = fxLevelForChannel radar (of_nat i) nowMs s
      in if fxLevel < 255 then applyMaster v fxLevel else v)"

definition computeOutput ::
  "(FixtureDef \<Rightarrow> u32 \<Rightarrow> u32 \<Rightarrow> u8) \<Rightarrow> bool \<Rightarrow> bool \<Rightarrow> u32 \<Rightarrow> app \<Rightarrow> app" where
  "computeOutput radar aActive sActive nowMs s =
     (let out = map (\<lambda>i. slewToward (outVals s ! i) (output_target radar aActive sActive nowMs i s)
                  (effectiveSafeSlewStep s)) [0..<MAX_CH]
      in s\<lparr>outVals := out, dmxFrame := take 1 (dmxFrame s) @ out\<rparr>)"

definition sendDMX :: "(app, unit) cmd" where
  "sendDMX = bind_c (gets_c dmxFrame) (\<lambda>frame.
     then_c (call_u (Dmx_Write frame)) (then_c (call_u Dmx_Send) (call_u Dmx_Wait_Sent)))"

section \<open>Lemmas: levels\<close>

lemma unat_clampLevel: "unat (clampLevel v c) = min (unat v) (unat c)"
  by (auto simp: clampLevel_def word_less_nat_alt)

lemma unat_applyMaster_le: "unat (applyMaster v m) \<le> unat v"
proof -
  have "unat v * unat m div 256 \<le> unat v * 256 div 256"
    using unat_u8_less [of m] by (intro div_le_mono mult_mono) auto
  then show ?thesis by (simp add: unat_applyMaster)
qed

lemma output_target_ceiling: "unat (output_target radar a sa now i s) \<le> unat (effectiveSafeMaxLevel s)"
  unfolding output_target_def Let_def
  by (auto intro: order_trans [OF unat_applyMaster_le] simp: unat_clampLevel)

lemma nth_computeOutput:
  "i < MAX_CH \<Longrightarrow> outVals (computeOutput radar a sa now s) ! i =
     slewToward (outVals s ! i) (output_target radar a sa now i s) (effectiveSafeSlewStep s)"
  by (simp add: computeOutput_def Let_def)

lemma length_computeOutput [simp]: "length (outVals (computeOutput radar a sa now s)) = MAX_CH"
  by (simp add: computeOutput_def Let_def)

lemma effectiveSafeSlewStep_pos: "effectiveSafeSlewStep s \<noteq> 0"
  by (simp add: effectiveSafeSlewStep_def)

text \<open>One frame: towards the ceiling when the level is above it, and never above it again.\<close>

lemma frame_level:
  assumes "i < MAX_CH"
  shows "unat (outVals (computeOutput radar a sa now s) ! i) \<le>
    max (unat (effectiveSafeMaxLevel s)) (unat (outVals s ! i) - unat (effectiveSafeSlewStep s))"
proof -
  have "unat (output_target radar a sa now i s) \<le> unat (effectiveSafeMaxLevel s)" by (rule output_target_ceiling)
  then show ?thesis
    using effectiveSafeSlewStep_pos [of s] by (auto simp: nth_computeOutput [OF assms] unat_slewToward)
qed

text \<open>
  A run of the output: each frame is computed from a state in which the inputs and settings may have
  changed, except the last output and the safety profile.
\<close>

inductive frames :: "(FixtureDef \<Rightarrow> u32 \<Rightarrow> u32 \<Rightarrow> u8) \<Rightarrow> bool \<Rightarrow> nat \<Rightarrow> bytes \<Rightarrow> bytes \<Rightarrow> bool"
  for radar :: "FixtureDef \<Rightarrow> u32 \<Rightarrow> u32 \<Rightarrow> u8" and burn :: bool where
  none: "frames radar burn 0 out out"
| frame: "frames radar burn k out (outVals s) \<Longrightarrow> burnSafeMode s = burn \<Longrightarrow>
    frames radar burn (Suc k) out (outVals (computeOutput radar a sa now s))"

definition ceiling_of :: "bool \<Rightarrow> nat" where
  "ceiling_of burn = (if burn then 96 else 245)"

definition step_of :: "bool \<Rightarrow> nat" where
  "step_of burn = (if burn then 8 else 18)"

lemma profile: "unat (effectiveSafeMaxLevel s) = ceiling_of (burnSafeMode s)"
  "unat (effectiveSafeSlewStep s) = step_of (burnSafeMode s)"
  by (simp_all add: effectiveSafeMaxLevel_def effectiveSafeSlewStep_def ceiling_of_def step_of_def)

lemma frames_level:
  "frames radar burn k out out' \<Longrightarrow> i < MAX_CH \<Longrightarrow>
   unat (out' ! i) \<le> max (ceiling_of burn) (unat (out ! i) - k * step_of burn)"
proof (induction rule: frames.induct)
  case (frame k out s a sa now)
  then show ?case
    using frame_level [of i radar a sa now s] by (auto simp: profile)
qed simp

text \<open>
  C6. The safety ceiling. Whatever the inputs, the mode, the master and the effects do from frame to
  frame, \<open>k\<close> frames bring every channel to the ceiling of the profile or down by \<open>k\<close> slew steps: after
  20 frames under the burn-safe profile no channel is above 96, after one frame under the normal
  profile none is above 245, and no frame moves a channel by more than the slew step.
\<close>

theorem output_safe:
  assumes "frames radar burn k out out'" "i < MAX_CH"
  shows "unat (out' ! i) \<le> max (ceiling_of burn) (unat (out ! i) - k * step_of burn) \<and>
    (burn \<and> 20 \<le> k \<longrightarrow> out' ! i \<le> BURN_SAFE_MAX_LEVEL) \<and>
    (\<not> burn \<and> 1 \<le> k \<longrightarrow> out' ! i \<le> SAFE_MAX_LEVEL) \<and>
    (k = 1 \<longrightarrow> unat (out' ! i) \<le> unat (out ! i) + step_of burn \<and> unat (out ! i) \<le> unat (out' ! i) + step_of burn)"
proof (intro conjI impI)
  show level: "unat (out' ! i) \<le> max (ceiling_of burn) (unat (out ! i) - k * step_of burn)"
    by (rule frames_level [OF assms])
  show "out' ! i \<le> BURN_SAFE_MAX_LEVEL" if "burn \<and> 20 \<le> k"
  proof -
    have "unat (out ! i) < 256" by (rule unat_u8_less)
    with level that show ?thesis by (auto simp: ceiling_of_def step_of_def word_le_nat_alt)
  qed
  show "out' ! i \<le> SAFE_MAX_LEVEL" if "\<not> burn \<and> 1 \<le> k"
  proof -
    have "unat (out ! i) < 256" by (rule unat_u8_less)
    with level that show ?thesis by (auto simp: ceiling_of_def step_of_def word_le_nat_alt)
  qed
  assume "k = 1"
  with assms(1) obtain s a sa now where
    "out = outVals s" "burnSafeMode s = burn" "out' = outVals (computeOutput radar a sa now s)"
    by (auto elim!: frames.cases)
  then show "unat (out' ! i) \<le> unat (out ! i) + step_of burn" "unat (out ! i) \<le> unat (out' ! i) + step_of burn"
    using effectiveSafeSlewStep_pos [of s] profile(2) [of s] assms(2)
    by (auto simp: nth_computeOutput unat_slewToward)
qed
theorem output_safe_witness:
  "let s = (boot_app (\<lambda>_ _. Answer 0 [] ''''))\<lparr>burnSafeMode := True, webVals := replicate 512 255\<rparr>;
       out' = outVals (computeOutput (\<lambda>_ _ _. 0) False False 0 s)
   in unat (out' ! 7) \<le> max (ceiling_of True) (unat (outVals s ! 7) - 1 * step_of True) \<and>
      unat (out' ! 7) \<le> unat (outVals s ! 7) + step_of True"
proof -
  define s where "s = (boot_app (\<lambda>_ _. Answer 0 [] ''''))\<lparr>burnSafeMode := True, webVals := replicate 512 255\<rparr>"
  have "burnSafeMode s" by (simp add: s_def)
  then have "frames (\<lambda>_ _ _. 0) True 1 (outVals s) (outVals (computeOutput (\<lambda>_ _ _. 0) False False 0 s))"
    using frames.frame [OF frames.none] by auto
  from output_safe [OF this, of 7] show ?thesis by (simp add: s_def [symmetric] Let_def)
qed

section \<open>Holding the last frame\<close>

text \<open>A channel whose input is lost while the mode says to hold it.\<close>

definition holding :: "app \<Rightarrow> bool" where
  "holding s \<longleftrightarrow> mode s = MODE_ARTNET \<and> \<not> artnetFallbackToWeb s"

lemma holding_target:
  assumes "holding s" "\<not> fxEnabled s"
  shows "unat (output_target radar False False now i s) =
    min (unat (applyMaster (outVals s ! i) (masterDimmer s))) (unat (effectiveSafeMaxLevel s))"
proof -
  have "fxLevelForChannel radar (of_nat i) now s = 255" using assms(2) by (simp add: fxLevelForChannel_def)
  moreover have "applyMaster v m = v" if "\<not> m < 255" for v m
    using that by (simp add: applyMaster_def not_less)
  ultimately show ?thesis
    using assms(1) by (auto simp: output_target_def merged_def net_input_def holding_def Let_def unat_clampLevel)
qed

lemma holding_level:
  assumes "holding s" "\<not> fxEnabled s" "i < MAX_CH" "outVals s ! i \<le> effectiveSafeMaxLevel s"
  shows "unat (outVals (computeOutput radar False False now s) ! i) =
    max (unat (applyMaster (outVals s ! i) (masterDimmer s)))
      (unat (outVals s ! i) - unat (effectiveSafeSlewStep s))"
  using assms effectiveSafeSlewStep_pos [of s] holding_target [OF assms(1,2), of radar now i]
    unat_applyMaster_le [of "outVals s ! i" "masterDimmer s"]
  by (auto simp: nth_computeOutput unat_slewToward word_le_nat_alt)

text \<open>
  C26. Holding the last frame. When the network input is lost in Art-Net mode without the fallback, a
  channel keeps its level only if the master dimmer is at full: the output is fed back through the
  master, so that with any lower master every channel that is lit gets darker with every frame, down
  to black.
\<close>

theorem hold_last_decays:
  assumes "holding s" "\<not> fxEnabled s" "i < MAX_CH" "outVals s ! i \<le> effectiveSafeMaxLevel s"
  shows "(masterDimmer s = 255 \<longrightarrow> outVals (computeOutput radar False False now s) ! i = outVals s ! i) \<and>
    (masterDimmer s < 255 \<and> 0 < outVals s ! i \<longrightarrow>
       outVals (computeOutput radar False False now s) ! i < outVals s ! i)"
proof (intro conjI impI)
  note level = holding_level [OF assms, of radar now]
  assume "masterDimmer s = 255"
  then have "unat (outVals (computeOutput radar False False now s) ! i) = unat (outVals s ! i)"
    by (simp add: level applyMaster_def)
  then show "outVals (computeOutput radar False False now s) ! i = outVals s ! i"
    by (simp add: word_unat_eq_iff)
next
  note level = holding_level [OF assms, of radar now]
  assume m: "masterDimmer s < 255 \<and> 0 < outVals s ! i"
  let ?v = "unat (outVals s ! i)" and ?m = "unat (masterDimmer s)"
  have pos: "0 < ?v" "?m < 255" using m by (simp_all add: word_less_nat_alt unat_gt_0 word_gt_0)
  then have "?v * ?m < ?v * 256" by simp
  then have "?v * ?m div 256 < ?v" by (simp add: div_less_iff_less_mult)
  moreover have "masterDimmer s \<noteq> 255" using m by auto
  ultimately show "outVals (computeOutput radar False False now s) ! i < outVals s ! i"
    using pos(1) effectiveSafeSlewStep_pos [of s]
    by (simp add: word_less_nat_alt level unat_applyMaster unat_gt_0)
qed

theorem hold_last_decays_witness:
  "let s = (boot_app (\<lambda>_ _. Answer 0 [] ''''))\<lparr>mode := MODE_ARTNET, artnetFallbackToWeb := False,
         masterDimmer := 250, outVals := replicate 512 200\<rparr>
   in outVals (computeOutput (\<lambda>_ _ _. 0) False False 0 s) ! 3 < outVals s ! 3"
  using hold_last_decays [of "(boot_app (\<lambda>_ _. Answer 0 [] ''''))\<lparr>mode := MODE_ARTNET, artnetFallbackToWeb := False,
         masterDimmer := 250, outVals := replicate 512 200\<rparr>" 3 "\<lambda>_ _ _. 0" 0]
  by (simp add: holding_def boot_app_def effectiveSafeMaxLevel_def)
section \<open>Fades\<close>

lemma fade_step_small: "e < t \<Longrightarrow> uint (push_bit 8 e div (t :: u32)) < 256"
proof -
  assume "e < t"
  then have e: "unat e < unat t" by (simp add: word_less_nat_alt)
  have "unat (push_bit 8 e) \<le> unat e * 256"
    by (simp add: push_bit_eq_mult unat_word_ariths(2))
  also have "\<dots> < 256 * unat t" using e by simp
  finally have "unat (push_bit 8 e) div unat t < 256"
    using e by (simp add: div_less_iff_less_mult)
  then have "unat (push_bit 8 e div t) < 256" by (simp add: unat_div)
  then have "int (unat (push_bit 8 e div t)) < 256" by linarith
  then show ?thesis by simp
qed

lemma shift_between:
  fixes d k :: int
  assumes "0 \<le> k" "k < 256"
  shows "min 0 d \<le> d * k div 256" "d * k div 256 \<le> max 0 d"
proof -
  show "min 0 d \<le> d * k div 256"
  proof (cases "0 \<le> d")
    case False
    then have "d * 256 \<le> d * k" using assms by (intro mult_left_mono_neg) auto
    then show ?thesis using zdiv_mono1 [of "d * 256" "d * k" 256] False by simp
  qed (use assms in \<open>simp add: pos_imp_zdiv_nonneg_iff\<close>)
  show "d * k div 256 \<le> max 0 d"
  proof (cases "0 \<le> d")
    case True
    then have "d * k \<le> d * 256" using assms by (intro mult_left_mono) auto
    then show ?thesis using zdiv_mono1 [of "d * k" "d * 256" 256] True by simp
  next
    case False
    then have "d * k \<le> 0" using assms by (simp add: mult_nonpos_nonneg)
    then show ?thesis using zdiv_mono1 [of "d * k" 0 256] False by simp
  qed
qed

lemma uint_fade_level:
  assumes "uint k < 256"
  shows "uint (fade_level k a b) = uint a + (uint b - uint a) * uint k div 256"
proof -
  have "min 0 (uint b - uint a) \<le> (uint b - uint a) * uint k div 256"
    "(uint b - uint a) * uint k div 256 \<le> max 0 (uint b - uint a)"
    using shift_between [of "uint k" "uint b - uint a"] assms by simp_all
  moreover have "0 \<le> uint a" "0 \<le> uint b" "uint a < 256" "uint b < 256"
    using uint_lt2p [of a] uint_lt2p [of b] by simp_all
  moreover define x where "x = uint a + (uint b - uint a) * uint k div 256"
  ultimately have "0 \<le> x" "x < 256" by linarith+
  then have "uint (of_int x :: u8) = x" by (simp add: uint_word_of_int_eq take_bit_int_eq_self)
  then show ?thesis by (simp only: fade_level_def x_def)
qed

lemma fade_level_between:
  assumes "uint k < 256"
  shows "min a b \<le> fade_level k a b \<and> fade_level k a b \<le> max a b"
  using shift_between [of "uint k" "uint b - uint a"] assms uint_fade_level [OF assms, of a b]
  by (auto simp: word_le_def min_def max_def split: if_splits)

lemma fade_level_mono:
  assumes "uint k' < 256" "k \<le> k'"
  shows "\<bar>uint b - uint (fade_level k' a b)\<bar> \<le> \<bar>uint b - uint (fade_level k a b)\<bar>"
proof -
  have k: "uint k \<le> uint k'" "uint k < 256" using assms by (auto simp: word_le_def)
  let ?d = "uint b - uint a"
  have up: "?d * uint k div 256 \<le> ?d * uint k' div 256" if "0 \<le> ?d"
    using k(1) that by (intro zdiv_mono1 mult_left_mono) simp_all
  have down: "?d * uint k' div 256 \<le> ?d * uint k div 256" if "?d \<le> 0"
    using k(1) that by (intro zdiv_mono1 mult_left_mono_neg) simp_all
  have eq: "uint (fade_level k' a b) = uint a + ?d * uint k' div 256" "uint (fade_level k a b) = uint a + ?d * uint k div 256"
    using assms(1) k(2) by (simp_all add: uint_fade_level)
  show ?thesis
    using up down shift_between [of "uint k" ?d] shift_between [of "uint k'" ?d] k assms(1)
    unfolding eq by (cases "uint a \<le> uint b") simp_all
qed

text \<open>
  C8. A fade reaches its target. When the time of the fade is over, the web layer is exactly the
  target and the fade ends; until then every channel lies between its start and its target, also
  when the clock wraps around; and for fades of up to 16777216 milliseconds (four and a half hours) no channel moves away from
  its target as time goes on.
\<close>

theorem fade_correct:
  fixes s :: app
  assumes "fadeActive s" "length (fadeFrom s) = MAX_CH" "length (fadeTo s) = MAX_CH"
  defines "e \<equiv> of_int (a_code (app_env s (app_calls s) Millis)) - fadeStartMs s"
  shows "\<exists>s'. updateFade_locked s = Inr ((), s') \<and>
    (if fadeTimeMs s \<le> e then webVals s' = fadeTo s \<and> \<not> fadeActive s'
     else fadeActive s' \<and> (\<forall>i < MAX_CH. min (fadeFrom s ! i) (fadeTo s ! i) \<le> webVals s' ! i \<and>
       webVals s' ! i \<le> max (fadeFrom s ! i) (fadeTo s ! i)) \<and>
       (\<forall>e0 \<le> e. fadeTimeMs s \<le> 0x1000000 \<longrightarrow> (\<forall>i < MAX_CH.
         \<bar>uint (fadeTo s ! i) - uint (webVals s' ! i)\<bar> \<le>
         \<bar>uint (fadeTo s ! i) - uint (fade_level (push_bit 8 e0 div fadeTimeMs s) (fadeFrom s ! i) (fadeTo s ! i))\<bar>)))"
proof (cases "fadeTimeMs s \<le> e")
  case True
  then show ?thesis using assms(1) by (simp add: updateFade_locked_def call_simps e_def Let_def)
next
  case False
  then have lt: "e < fadeTimeMs s" by simp
  let ?k = "push_bit 8 e div fadeTimeMs s"
  have k: "uint ?k < 256" by (rule fade_step_small [OF lt])
  have mono: "push_bit 8 e0 div fadeTimeMs s \<le> ?k" if "e0 \<le> e" "fadeTimeMs s \<le> 0x1000000" for e0
  proof -
    have "unat e < 0x1000000" "unat e0 \<le> unat e"
      using lt that by (auto simp: word_le_nat_alt word_less_nat_alt)
    then have "unat (push_bit 8 e0) \<le> unat (push_bit 8 e)"
      by (simp add: push_bit_eq_mult unat_word_ariths(2))
    then show ?thesis by (simp add: word_le_nat_alt unat_div div_le_mono)
  qed
  have "updateFade_locked s = Inr ((), s\<lparr>app_calls := app_calls s @ [Millis],
      webVals := map2 (fade_level ?k) (fadeFrom s) (fadeTo s)\<rparr>)"
    using False assms(1) by (simp add: updateFade_locked_def call_simps e_def [symmetric] Let_def)
  then show ?thesis
    using False assms(1-3) fade_level_between [OF k] fade_level_mono [OF k] mono by simp
qed

lemma fade_witness_facts:
  "length (fadeFrom (boot_app e)) = MAX_CH" "length (fadeTo (boot_app e)) = MAX_CH" "fadeTimeMs (boot_app e) = 1000"
  "fadeStartMs (boot_app e) = 0" "app_env (boot_app e) = e"
  by (simp_all add: boot_app_def)

theorem fade_correct_witness:
  "\<exists>s'. updateFade_locked ((boot_app (\<lambda>_ _. Answer 1000 [] ''''))\<lparr>fadeActive := True, fadeTo := replicate 512 200\<rparr>) =
      Inr ((), s') \<and> webVals s' = replicate 512 200 \<and> \<not> fadeActive s'"
  using fade_correct [of "(boot_app (\<lambda>_ _. Answer 1000 [] ''''))\<lparr>fadeActive := True, fadeTo := replicate 512 200\<rparr>"]
  by (simp add: fade_witness_facts)
section \<open>Effects\<close>

lemma unat_fxApplyDepth:
  "unat (fxApplyDepth depth level) = 255 - unat depth + (unat level * unat depth + 127) div 255"
proof -
  have l: "unat level < 256" "unat depth < 256" by (rule unat_u8_less)+
  have "(unat level * unat depth + 127) div 255 \<le> (255 * unat depth + 127) div 255"
    using l by (intro div_le_mono) simp
  also have "\<dots> = unat depth" by simp
  finally have bound: "255 - unat depth + (unat level * unat depth + 127) div 255 < 256" using l by simp
  have u: "uint x = int (unat x)" for x :: u8 by simp
  have sub: "unat (255 - depth) = 255 - unat depth"
    using l by (simp add: unat_sub word_le_nat_alt)
  have "uint (255 - depth) + (uint level * uint depth + 127) div 255 =
      int (255 - unat depth + (unat level * unat depth + 127) div 255)"
    unfolding u sub by (simp add: zdiv_int)
  then have "fxApplyDepth depth level = of_nat (255 - unat depth + (unat level * unat depth + 127) div 255)"
    unfolding fxApplyDepth_def by (simp only: of_int_of_nat_eq)
  moreover have "unat (of_nat x :: u8) = x" if "x < 256" for x
    using that by (simp add: unat_of_nat take_bit_nat_eq_self)
  ultimately show ?thesis using bound by (simp only:)
qed

text \<open>
  C31. Effects only dim. The depth of an effect is computed without wrap-around: depth 0 gives full
  level whatever the effect does, depth 255 the level of the effect, and the result grows with the
  level. A channel never asks for more light with an effect than without it, and with depth 0 the
  effect changes nothing.
\<close>

theorem effects_only_dim:
  "(\<forall>level. fxApplyDepth 0 level = 255 \<and> fxApplyDepth 255 level = level) \<and>
   (\<forall>depth level level'. level \<le> level' \<longrightarrow> fxApplyDepth depth level \<le> fxApplyDepth depth level') \<and>
   output_target radar a sa now i s \<le> output_target radar a sa now i (s\<lparr>fxEnabled := False\<rparr>) \<and>
   output_target radar a sa now i (s\<lparr>fxDepth := 0\<rparr>) = output_target radar a sa now i (s\<lparr>fxEnabled := False\<rparr>)"
proof (intro conjI allI impI)
  fix level level' depth :: u8
  show "fxApplyDepth 0 level = 255" "fxApplyDepth 255 level = level"
    by (simp_all add: word_unat_eq_iff unat_fxApplyDepth)
  assume "level \<le> level'"
  then show "fxApplyDepth depth level \<le> fxApplyDepth depth level'"
    by (auto simp: word_le_nat_alt unat_fxApplyDepth intro!: div_le_mono)
next
  have merged: "merged a sa i (s\<lparr>fxEnabled := False\<rparr>) = merged a sa i s"
    "merged a sa i (s\<lparr>fxDepth := 0\<rparr>) = merged a sa i s"
    by (simp_all add: merged_def net_input_def cong: Mode.case_cong)
  have off: "fxLevelForChannel radar ch now (s\<lparr>fxEnabled := False\<rparr>) = 255" for ch
    by (simp add: fxLevelForChannel_def)
  show "output_target radar a sa now i s \<le> output_target radar a sa now i (s\<lparr>fxEnabled := False\<rparr>)"
    unfolding output_target_def Let_def merged off
    using unat_applyMaster_le by (auto simp: word_le_nat_alt effectiveSafeMaxLevel_def)
  have zero: "fxApplyDepth 0 level = 255" for level by (simp add: word_unat_eq_iff unat_fxApplyDepth)
  have "fxLevelForChannel radar ch now (s\<lparr>fxDepth := 0\<rparr>) = 255" for ch
    by (simp add: fxLevelForChannel_def Let_def zero split: FxMode.splits option.splits)
  then show "output_target radar a sa now i (s\<lparr>fxDepth := 0\<rparr>) = output_target radar a sa now i (s\<lparr>fxEnabled := False\<rparr>)"
    unfolding output_target_def Let_def merged off by (simp add: effectiveSafeMaxLevel_def)
qed

theorem effects_only_dim_witness:
  "fxApplyDepth 100 20 \<le> fxApplyDepth 100 30"
  using effects_only_dim [of undefined False False 0 0 "boot_app (\<lambda>_ _. Answer 0 [] '''')"] by simp

end
