(* ===== verification/Vizzz_Text.thy ===== *)
theory Vizzz_Text
  imports Vizzz_State "HOL-Library.Sublist"
begin

text \<open>
  The text functions of \<^verbatim>\<open>src/main.cpp\<close>: numbers in requests, JSON strings, the paths that may be sent to
  a peer and the host name. A C string is the list of its characters before the NUL.
\<close>

section \<open>Numbers\<close>

definition is_space :: "char \<Rightarrow> bool" where
  "is_space c \<longleftrightarrow> c = CHR '' '' \<or> (9 \<le> (of_char c :: nat) \<and> (of_char c :: nat) \<le> 13)"

definition is_digit :: "char \<Rightarrow> bool" where
  "is_digit c \<longleftrightarrow> 48 \<le> (of_char c :: nat) \<and> (of_char c :: nat) \<le> 57"

definition digits_value :: "string \<Rightarrow> int" where
  "digits_value s = foldl (\<lambda>n c. 10 * n + (of_char c - 48)) 0 (takeWhile is_digit s)"

text \<open>
  \<^verbatim>\<open>atoi\<close>, \<^verbatim>\<open>atol\<close> and \<^verbatim>\<open>String::toInt\<close>: white space, a sign, digits. A number that does not fit 32 bits is
  the nearest one that does.
\<close>

definition saturate32 :: "int \<Rightarrow> int" where
  "saturate32 x = constrain x (- (2 ^ 31)) (2 ^ 31 - 1)"

definition atol :: "string \<Rightarrow> int" where
  "atol s = (case dropWhile is_space s of
     [] \<Rightarrow> 0
   | c # cs \<Rightarrow>
       if c = CHR ''-'' then saturate32 (- digits_value cs)
       else if c = CHR ''+'' then saturate32 (digits_value cs)
       else saturate32 (digits_value (c # cs)))"

section \<open>JSON strings\<close>

definition json_piece :: "nat \<Rightarrow> nat \<Rightarrow> char \<Rightarrow> string" where
  "json_piece n d c =
     (if c = CHR 0x22 then [CHR 0x5C, CHR 0x22]
      else if c = CHR 0x5C then [CHR 0x5C, CHR 0x5C]
      else if c = CHR 0x0A then [CHR 0x5C, CHR ''n'']
      else if c = CHR 0x0D then [CHR 0x5C, CHR ''r'']
      else if c = CHR 0x09 then [CHR 0x5C, CHR ''t'']
      else if (of_char c :: nat) < 0x20 then
        (if d + 6 \<ge> n then []
         else [CHR 0x5C, CHR ''u'', CHR ''0'', CHR ''0'', ''0123456789abcdef'' ! (of_char c div 16),
               ''0123456789abcdef'' ! (of_char c mod 16)])
      else [c])"

fun json_esc_loop :: "nat \<Rightarrow> string \<Rightarrow> string \<Rightarrow> string" where
  "json_esc_loop n dst [] = dst"
| "json_esc_loop n dst (c # cs) =
     (if length dst + 3 < n then json_esc_loop n (dst @ json_piece n (length dst) c) cs else dst)"

text \<open>The NUL at the end is written without a check.\<close>

definition jsonEsc :: "nat \<Rightarrow> string \<Rightarrow> string res" where
  "jsonEsc n src =
     (let dst = json_esc_loop n [] src in if length dst < n then Inr dst else Inl Out_Of_Bounds)"

fun strstr :: "string \<Rightarrow> string \<Rightarrow> string option" where
  "strstr [] key = (if key = [] then Some [] else None)"
| "strstr (c # cs) key =
     (if starts_with (c # cs) key then Some (c # cs) else strstr cs key)"

text \<open>The search string has room for 47 characters. \<open>None\<close>: the key is not there and nothing is written.\<close>

definition jsonExtract :: "string \<Rightarrow> string \<Rightarrow> nat \<Rightarrow> string option" where
  "jsonExtract json key dstLen =
     (let search = take 47 ([CHR 0x22] @ key @ [CHR 0x22, CHR '':'', CHR 0x22]) in
      case strstr json search of
        None \<Rightarrow> None
      | Some p \<Rightarrow> Some (take (dstLen - 1) (takeWhile (\<lambda>c. c \<noteq> CHR 0x22) (drop (length search) p))))"

section \<open>Paths of peers\<close>

definition c_str :: "string \<Rightarrow> string" where
  "c_str s = takeWhile (\<lambda>c. c \<noteq> CHR 0x00) s"

definition startsWithCStr :: "string \<Rightarrow> string \<Rightarrow> bool" where
  "startsWithCStr s p \<longleftrightarrow> starts_with s p"

fun clean_loop :: "nat \<Rightarrow> string \<Rightarrow> bool" where
  "clean_loop i [] \<longleftrightarrow> i < BCAST_PATH_LEN \<and> i > 1"
| "clean_loop i (c # cs) \<longleftrightarrow> i < BCAST_PATH_LEN \<and>
     \<not> ((of_char c :: nat) \<le> 0x20 \<or> (of_char c :: nat) \<ge> 0x7f \<or> c = CHR ''#'') \<and> clean_loop (i + 1) cs"

definition isCleanPeerPath :: "string \<Rightarrow> bool" where
  "isCleanPeerPath path =
     (if path = [] \<or> hd path \<noteq> CHR ''/'' then False
      else if starts_with (tl path) ''/'' then False
      else clean_loop 0 path)"

definition isAllowedPeerPath :: "string \<Rightarrow> bool" where
  "isAllowedPeerPath path =
     (if \<not> isCleanPeerPath path \<or> strstr path ''://'' \<noteq> None then False
      else path = ''/blackout'' \<or> path = ''/full'' \<or>
           startsWithCStr path ''/master?v='' \<or> startsWithCStr path ''/scene/recall?n='')"

definition crlf :: string where
  "crlf = [CHR 0x0D, CHR 0x0A]"

text \<open>The request that is sent to a peer.\<close>

definition peer_request :: "string \<Rightarrow> string \<Rightarrow> string" where
  "peer_request ip path = ''GET '' @ path @ '' HTTP/1.1'' @ crlf @ ''Host: '' @ ip @ crlf @
     ''Connection: close'' @ crlf @ crlf"

definition sendPeerGet :: "string \<Rightarrow> string \<Rightarrow> (app, bool) cmd" where
  "sendPeerGet ip path =
     bind_c (call_code (Wifi (Ip_From_String ip))) (\<lambda>addr.
     if addr < 0 \<or> \<not> isAllowedPeerPath path then ret False
     else bind_c (call_code (Net (Peer_Connect (of_int addr)))) (\<lambda>connected.
       if connected = 0 \<or> length (peer_request ip path) \<ge> 180 then
         then_c (call_u (Net Peer_Stop)) (ret False)
       else
         then_c (call_u (Net (Peer_Write (peer_request ip path))))
        (then_c (call_u (Net Peer_Stop)) (ret True))))"

section \<open>The host name\<close>

definition is_alnum :: "char \<Rightarrow> bool" where
  "is_alnum c \<longleftrightarrow> is_digit c \<or> (65 \<le> (of_char c :: nat) \<and> (of_char c :: nat) \<le> 90) \<or>
     (97 \<le> (of_char c :: nat) \<and> (of_char c :: nat) \<le> 122)"

definition mdns_name :: "string \<Rightarrow> string" where
  "mdns_name name =
     (let m = map (\<lambda>c. if \<not> is_alnum c \<and> c \<noteq> CHR ''-'' then CHR ''-'' else c) name;
          m = dropWhile (\<lambda>c. c = CHR ''-'') m;
          m = rev (dropWhile (\<lambda>c. c = CHR ''-'') (rev m))
      in if m = [] then ''vizzz-di'' else m)"

definition buildMdnsName :: "(app, unit) cmd" where
  "buildMdnsName = modify_c (\<lambda>s. s\<lparr>mdnsName := mdns_name (nodeName s)\<rparr>)"

definition startMdns :: "(app, unit) cmd" where
  "startMdns =
     then_c buildMdnsName
    (then_c (call_u (Wifi Mdns_End))
    (bind_c (gets_c mdnsName) (\<lambda>name.
     bind_c (call_code (Wifi (Mdns_Begin name))) (\<lambda>ok.
     if ok \<noteq> 0 then call_u (Wifi Mdns_Add_Http) else ret ()))))"

section \<open>What a JSON reader makes of an escaped string\<close>

definition hex_val :: "char \<Rightarrow> nat" where
  "hex_val c = the (find_index (\<lambda>x. x = c) ''0123456789abcdef'')"

text \<open>The reader of the body of a JSON string: \<open>None\<close> for a raw quote, a raw control character or an unknown escape.\<close>

function json_unescape :: "string \<Rightarrow> string option" where
  "json_unescape s = (case s of
     [] \<Rightarrow> Some []
   | c # cs \<Rightarrow>
       if c = CHR 0x5C then
         (if cs = [] then None
          else if hd cs = CHR 0x22 \<or> hd cs = CHR 0x5C then map_option ((#) (hd cs)) (json_unescape (tl cs))
          else if hd cs = CHR ''n'' then map_option ((#) (CHR 0x0A)) (json_unescape (tl cs))
          else if hd cs = CHR ''r'' then map_option ((#) (CHR 0x0D)) (json_unescape (tl cs))
          else if hd cs = CHR ''t'' then map_option ((#) (CHR 0x09)) (json_unescape (tl cs))
          else if hd cs = CHR ''u'' \<and> length cs \<ge> 5 then
            map_option ((#) (char_of (foldl (\<lambda>n x. 16 * n + hex_val x) 0 (take 4 (tl cs)))))
              (json_unescape (drop 5 cs))
          else None)
       else if c = CHR 0x22 \<or> (of_char c :: nat) < 0x20 then None
       else map_option ((#) c) (json_unescape cs))"
  by pat_completeness auto

termination by (relation "measure length") auto

declare json_unescape.simps [simp del]

text \<open>A piece that is written in full.\<close>

definition full_piece :: "char \<Rightarrow> string" where
  "full_piece c = json_piece 7 0 c"

lemma json_piece_cases: "json_piece n d c = full_piece c \<or> json_piece n d c = [] \<and> n \<le> d + 6"
  by (simp add: full_piece_def json_piece_def)

lemma length_full_piece: "length (full_piece c) \<le> 6"
  by (simp add: full_piece_def json_piece_def)

lemma hex_val_digit: "i < 16 \<Longrightarrow> hex_val (''0123456789abcdef'' ! i) = i"
  by (simp add: hex_val_def eval_nat_numeral less_Suc_eq) (elim disjE; simp)

lemma hex_val_0: "hex_val (CHR ''0'') = 0"
  by (simp add: hex_val_def)

lemma unescape_piece: "json_unescape (full_piece c @ rest) = map_option ((#) c) (json_unescape rest)"
proof (cases "(of_char c :: nat) < 0x20 \<and> c \<notin> {CHR 0x0A, CHR 0x0D, CHR 0x09}")
  case True
  let ?k = "of_char c :: nat"
  from True have piece: "full_piece c = [CHR 0x5C, CHR ''u'', CHR ''0'', CHR ''0'',
      ''0123456789abcdef'' ! (?k div 16), ''0123456789abcdef'' ! (?k mod 16)]"
    by (auto simp: full_piece_def json_piece_def)
  have "?k div 16 < 16" "?k mod 16 < 16" using True by auto
  then have "16 * (16 * (16 * hex_val (CHR ''0'') + hex_val (CHR ''0'')) + hex_val (''0123456789abcdef'' ! (?k div 16))) +
      hex_val (''0123456789abcdef'' ! (?k mod 16)) = ?k"
    by (simp add: hex_val_digit hex_val_0)
  then show ?thesis unfolding piece by (subst json_unescape.simps) simp
next
  case False
  then show ?thesis
    by (subst json_unescape.simps) (auto simp: full_piece_def json_piece_def)
qed

lemma unescape_pieces: "json_unescape (concat (map full_piece t)) = Some t"
proof (induction t)
  case Nil
  show ?case by (subst json_unescape.simps) simp
qed (simp add: unescape_piece)

lemma json_esc_loop_pieces:
  assumes "length (concat (map full_piece t)) < n"
  shows "\<exists>u. json_esc_loop n (concat (map full_piece t)) s = concat (map full_piece (t @ u)) \<and> subseq u s \<and>
    length (concat (map full_piece (t @ u))) < n \<and> (6 * (length t + length s) < n \<longrightarrow> u = s)"
  using assms
proof (induction s arbitrary: t)
  case Nil
  then show ?case by (intro exI [of _ "[]"]) auto
next
  case (Cons c s)
  let ?d = "length (concat (map full_piece t))"
  have len: "?d \<le> 6 * length t" by (induction t) (auto intro: add_mono length_full_piece)
  show ?case
  proof (cases "?d + 3 < n")
    case True
    show ?thesis
    proof (cases "json_piece n ?d c = full_piece c \<and> ?d + length (full_piece c) < n")
      case full: True
      then have "length (concat (map full_piece (t @ [c]))) < n" by simp
      from Cons.IH [OF this] obtain u where u:
        "json_esc_loop n (concat (map full_piece (t @ [c]))) s = concat (map full_piece ((t @ [c]) @ u))"
        "subseq u s" "length (concat (map full_piece ((t @ [c]) @ u))) < n"
        "6 * (length (t @ [c]) + length s) < n \<longrightarrow> u = s" by blast
      with True full show ?thesis by (intro exI [of _ "c # u"]) simp
    next
      case False
      have empty: "json_piece n ?d c = [] \<and> n \<le> ?d + 6"
        using False True json_piece_cases [of n ?d c]
        by (auto simp: full_piece_def json_piece_def split: if_splits)
      from Cons.IH [OF Cons.prems] obtain u where u:
        "json_esc_loop n (concat (map full_piece t)) s = concat (map full_piece (t @ u))"
        "subseq u s" "length (concat (map full_piece (t @ u))) < n" by blast
      with True empty len show ?thesis by (intro exI [of _ u]) auto
    qed
  next
    case False
    then show ?thesis using Cons.prems len by (intro exI [of _ "[]"]) auto
  qed
qed

text \<open>
  C32. Escaping for JSON. For a buffer of at least one byte \<^verbatim>\<open>jsonEsc\<close> never writes past its end, and a
  JSON reader accepts the result as the body of a string: it contains no raw quote, backslash or
  control character. What is read back is the source with some characters left out, and the source
  itself when the buffer has more than six bytes for each of its characters.
\<close>

theorem json_escape_round_trip:
  assumes "0 < n"
  shows "\<exists>d t. jsonEsc n src = Inr d \<and> length d < n \<and> json_unescape d = Some t \<and> subseq t src \<and>
    (6 * length src < n \<longrightarrow> t = src)"
proof -
  from json_esc_loop_pieces [of "[]" n src] assms obtain u where
    "json_esc_loop n [] src = concat (map full_piece u)" "subseq u src"
    "length (concat (map full_piece u)) < n" "6 * length src < n \<longrightarrow> u = src" by auto
  then show ?thesis by (auto simp: jsonEsc_def Let_def unescape_pieces)
qed

theorem json_escape_round_trip_witness:
  "\<exists>d t. jsonEsc 64 [CHR ''a'', CHR 0x22, CHR 0x01] = Inr d \<and> length d < 64 \<and> json_unescape d = Some t \<and>
     t = [CHR ''a'', CHR 0x22, CHR 0x01]"
  using json_escape_round_trip [of 64 "[CHR ''a'', CHR 0x22, CHR 0x01]"] by auto

section \<open>Requests to peers\<close>

definition visible :: "char \<Rightarrow> bool" where
  "visible c \<longleftrightarrow> 0x20 < (of_char c :: nat) \<and> (of_char c :: nat) < 0x7f"

lemma clean_loop_visible: "clean_loop i p \<Longrightarrow> list_all visible p \<and> i + length p < BCAST_PATH_LEN"
  by (induction i p rule: clean_loop.induct) (auto simp: visible_def)

lemma clean_path: "isCleanPeerPath p \<Longrightarrow> list_all visible p \<and> length p < BCAST_PATH_LEN"
  using clean_loop_visible [of 0 p] by (auto simp: isCleanPeerPath_def split: if_splits)

text \<open>
  C33. Requests to peers cannot be forged. A path that passes the filter is one of the four commands,
  has only visible characters and fits the queue entry; with it and the address of a peer the first
  line of the request is exactly the command, the request never exceeds the buffer, and no character
  of the path can end a line or start another request.
\<close>

theorem peer_request_safe:
  assumes "isAllowedPeerPath path" "list_all visible ip" "length ip < BCAST_IP_LEN"
  shows "(path = ''/blackout'' \<or> path = ''/full'' \<or> starts_with path ''/master?v='' \<or>
      starts_with path ''/scene/recall?n='') \<and>
    list_all visible path \<and> length path < BCAST_PATH_LEN \<and> length (peer_request ip path) < 180 \<and>
    takeWhile (\<lambda>c. c \<noteq> CHR 0x0D) (peer_request ip path) = ''GET '' @ path @ '' HTTP/1.1'' \<and>
    length (filter (\<lambda>c. c = CHR 0x0A) (peer_request ip path)) = 4"
proof -
  have clean: "isCleanPeerPath path" and cmds: "path = ''/blackout'' \<or> path = ''/full'' \<or>
      starts_with path ''/master?v='' \<or> starts_with path ''/scene/recall?n=''"
    using assms(1) by (auto simp: isAllowedPeerPath_def startsWithCStr_def split: if_splits)
  from clean_path [OF clean] have path: "list_all visible path" "length path < 72" by simp_all
  have no: "c \<noteq> CHR 0x0D \<and> c \<noteq> CHR 0x0A" if "visible c" for c using that by (auto simp: visible_def)
  have lines: "\<forall>c \<in> set path. c \<noteq> CHR 0x0D \<and> c \<noteq> CHR 0x0A" "\<forall>c \<in> set ip. c \<noteq> CHR 0x0D \<and> c \<noteq> CHR 0x0A"
    using path(1) assms(2) no by (auto simp: list_all_iff)
  then have "takeWhile (\<lambda>c. c \<noteq> CHR 0x0D) path = path" "filter (\<lambda>c. c = CHR 0x0A) path = []"
    "filter (\<lambda>c. c = CHR 0x0A) ip = []"
    by (auto simp: takeWhile_eq_all_conv filter_empty_conv)
  with lines cmds path assms(3) show ?thesis
    by (auto simp: peer_request_def crlf_def takeWhile_append)
qed

theorem peer_request_safe_witness:
  "length (peer_request ''10.0.0.7'' ''/master?v=128'') < 180 \<and>
   takeWhile (\<lambda>c. c \<noteq> CHR 0x0D) (peer_request ''10.0.0.7'' ''/master?v=128'') =
     ''GET '' @ ''/master?v=128'' @ '' HTTP/1.1''"
proof -
  have "isAllowedPeerPath ''/master?v=128''"
    by (simp add: isAllowedPeerPath_def isCleanPeerPath_def startsWithCStr_def starts_with_def)
  moreover have "list_all visible ''10.0.0.7''" "length ''10.0.0.7'' < BCAST_IP_LEN" by (simp_all add: visible_def)
  ultimately show ?thesis using peer_request_safe [of "''/master?v=128''" "''10.0.0.7''"] by blast
qed

end
