(* ===== verification/Vizzz_Net.thy ===== *)
theory Vizzz_Net
  imports Vizzz_Show Vizzz_Text
begin

text \<open>
  The network inputs and outputs of \<^verbatim>\<open>src/main.cpp\<close>: Art-Net in and out, sACN and OSC. A packet is the list of the bytes that \<^verbatim>\<open>read\<close> delivered; the rest of
  the buffer on the stack is not initialised, so that an access beyond the packet is a fault.
\<close>

section \<open>Polling\<close>

text \<open>The loop of every poll function: at most \<open>budget\<close> packets, until there is none.\<close>

fun poll_udp :: "socket \<Rightarrow> nat \<Rightarrow> nat \<Rightarrow> (bytes \<Rightarrow> (app, unit) cmd) \<Rightarrow> (app, unit) cmd" where
  "poll_udp sock cap 0 f = ret ()"
| "poll_udp sock cap (Suc budget) f =
     bind_c (call_code (Net (Udp_Parse sock))) (\<lambda>size.
     if size \<le> 0 then ret ()
     else bind_c (call (Net (Udp_Read sock (min cap (nat size))))) (\<lambda>r.
       then_c (f (take (min cap (nat size)) (a_bytes r))) (poll_udp sock cap budget f)))"

section \<open>Art-Net\<close>

definition artNetId :: bytes where
  "artNetId = [0x41, 0x72, 0x74, 0x2d, 0x4e, 0x65, 0x74, 0]"

text \<open>The levels of a packet that is accepted; channels beyond its length are zero.\<close>

definition artnet_levels :: "u16 \<Rightarrow> bytes \<Rightarrow> bytes option" where
  "artnet_levels uni pkt =
     (if length pkt < 18 then None
      else if take 8 pkt \<noteq> artNetId then None
      else if \<not> (pkt ! 8 = 0 \<and> pkt ! 9 = 0x50) then None
      else if ucast (pkt ! 14) OR push_bit 8 (ucast (pkt ! 15 AND 0x7f)) \<noteq> uni then None
      else
        (let len = push_bit 8 (ucast (pkt ! 16)) OR ucast (pkt ! 17) :: u16 in
         if len = 0 \<or> 18 + unat len > length pkt then None
         else (let dmxLen = min MAX_CH (unat len) in
               Some (slice 18 dmxLen pkt @ replicate (MAX_CH - dmxLen) 0))))"

definition artnet_packet :: "bytes \<Rightarrow> (app, unit) cmd" where
  "artnet_packet pkt =
     bind_c (gets_c universe) (\<lambda>uni.
     case artnet_levels uni pkt of
       None \<Rightarrow> ret ()
     | Some vals \<Rightarrow>
         then_c (modify_c (\<lambda>s. s\<lparr>artVals := vals\<rparr>))
        (bind_c millis (\<lambda>now. modify_c (\<lambda>s. s\<lparr>lastArtnetMs := now\<rparr>))))"

definition pollArtNet :: "(app, unit) cmd" where
  "pollArtNet = poll_udp Art_In (18 + MAX_CH) ARTNET_PKT_BUDGET artnet_packet"

definition WL_CONNECTED :: int where [simp]: "WL_CONNECTED = 3"

definition broadcast_ip :: "(app, u32) cmd" where
  "broadcast_ip =
     bind_c (call_code (Wifi Wifi_Local_Ip)) (\<lambda>ip.
     bind_c (call_code (Wifi Wifi_Subnet_Mask)) (\<lambda>m.
     ret ((of_int ip AND of_int m) OR NOT (of_int m))))"

text \<open>An \<^verbatim>\<open>IPAddress\<close> keeps its first octet in the lowest byte.\<close>

definition artOutTarget :: "(app, u32) cmd" where
  "artOutTarget =
     bind_c (gets_c artOutPeerIp) (\<lambda>peer.
     bind_c (if peer \<noteq> '''' then call_code (Wifi (Ip_From_String peer)) else ret (-1)) (\<lambda>addr.
     if addr \<ge> 0 then ret (of_int addr)
     else bind_c (call_code (Wifi Wifi_Status)) (\<lambda>st.
       if st = WL_CONNECTED then broadcast_ip else ret (of_le32 [10, 0, 0, 255]))))"

definition artnet_frame :: "app \<Rightarrow> bytes" where
  "artnet_frame s =
     artNetId @ [0, 0x50, 0, 0x0e] @
     [artOutSeq s, 0, push_bit 4 (artSubnet s) OR artUni s, artNet s, 2, 0] @
     slice 1 MAX_CH (dmxFrame s)"

definition sendArtNetOut :: "(app, unit) cmd" where
  "sendArtNetOut =
     bind_c (gets_c id) (\<lambda>s.
     if \<not> artOutEnabled s then ret ()
     else
       then_c (modify_c (\<lambda>s. s\<lparr>artOutSeq := artOutSeq s + 1\<rparr>))
      (bind_c artOutTarget (\<lambda>target.
       call_u (Net (Udp_Send Art_Out target ARTNET_PORT (artnet_frame s))))))"

section \<open>sACN\<close>

definition acnPid :: bytes where
  "acnPid = [0x41, 0x53, 0x43, 0x2d, 0x45, 0x31, 0x2e, 0x31, 0x37, 0, 0, 0]"

definition sacn_levels :: "u16 \<Rightarrow> bytes \<Rightarrow> bytes option" where
  "sacn_levels uni pkt =
     (if length pkt < 126 then None
      else if slice 4 12 pkt \<noteq> acnPid then None
      else if slice 18 4 pkt \<noteq> [0, 0, 0, 4] then None
      else if slice 40 4 pkt \<noteq> [0, 0, 0, 2] then None
      else if pkt ! 117 \<noteq> 2 then None
      else if push_bit 8 (ucast (pkt ! 113)) OR ucast (pkt ! 114) \<noteq> uni then None
      else
        (let propCount = push_bit 8 (ucast (pkt ! 123)) OR ucast (pkt ! 124) :: u16 in
         if propCount < 2 then None
         else if 125 + unat propCount > length pkt then None
         else if pkt ! 125 \<noteq> 0 then None
         else (let dmxLen = min MAX_CH (unat propCount - 1) in
               Some (slice 126 dmxLen pkt @ replicate (MAX_CH - dmxLen) 0))))"

definition sacn_packet :: "bytes \<Rightarrow> (app, unit) cmd" where
  "sacn_packet pkt =
     bind_c (gets_c universe) (\<lambda>uni.
     case sacn_levels uni pkt of
       None \<Rightarrow> ret ()
     | Some vals \<Rightarrow>
         then_c (modify_c (\<lambda>s. s\<lparr>sacnVals := vals\<rparr>))
        (bind_c millis (\<lambda>now. modify_c (\<lambda>s. s\<lparr>lastSacnMs := now\<rparr>))))"

definition pollSacn :: "(app, unit) cmd" where
  "pollSacn = poll_udp Sacn 638 SACN_PKT_BUDGET sacn_packet"

definition refreshArtNetSocket :: "(app, unit) cmd" where
  "refreshArtNetSocket = then_c (call_u (Net (Udp_Stop Art_In))) (call_u (Net (Udp_Begin Art_In ARTNET_PORT)))"

definition refreshSacnSocket :: "(app, unit) cmd" where
  "refreshSacnSocket =
     then_c (call_u (Net (Udp_Stop Sacn)))
    (then_c (call_u (Net (Udp_Begin Sacn SACN_PORT)))
    (bind_c (call_code (Wifi Wifi_Status)) (\<lambda>st.
     if st = WL_CONNECTED then
       bind_c (gets_c universe) (\<lambda>u.
       call_u (Net (Udp_Multicast Sacn (of_le32 [239, 255, ucast (drop_bit 8 u), ucast u]))))
     else ret ())))"

section \<open>OSC\<close>

function osc_align :: "nat \<Rightarrow> nat \<Rightarrow> nat" where
  "osc_align off n = (if off < n \<and> off mod 4 \<noteq> 0 then osc_align (off + 1) n else off)"
  by pat_completeness auto

termination by (relation "measure (\<lambda>(off, n). n - off)") auto

declare osc_align.simps [simp del]

text \<open>The string at an offset and the offset behind its padding; \<open>None\<close> when the function returns false.\<close>

definition oscReadPaddedString :: "bytes \<Rightarrow> nat \<Rightarrow> nat \<Rightarrow> (string \<times> nat) option" where
  "oscReadPaddedString pkt off outLen =
     (if off \<ge> length pkt \<or> outLen = 0 then None
      else
        (let field = takeWhile (\<lambda>b. b \<noteq> 0) (drop off pkt);
             out = map (\<lambda>b. char_of (unat b)) (take (outLen - 1) field);
             off1 = off + length field
         in if off1 \<ge> length pkt then None
            else if out = [] then None
            else Some (out, osc_align (off1 + 1) (length pkt))))"

definition osc_word :: "bytes \<Rightarrow> nat \<Rightarrow> u32 option" where
  "osc_word pkt off = (if off + 4 > length pkt then None else Some (of_le32 (rev (slice off 4 pkt))))"

definition oscReadInt :: "bytes \<Rightarrow> nat \<Rightarrow> int option" where
  "oscReadInt pkt off = map_option sint (osc_word pkt off)"

text \<open>
  The conversion of a \<^verbatim>\<open>float\<close>, given by its bits, to a 32-bit integer: truncation. The language leaves
  values that do not fit, infinities and NaN undefined; \<open>undef\<close> is what the processor makes of them.
\<close>

definition f32_to_int :: "(u32 \<Rightarrow> int) \<Rightarrow> u32 \<Rightarrow> int" where
  "f32_to_int undef w =
     (let e = unat (drop_bit 23 w AND 0xff); m = int (unat (w AND 0x7fffff)) + 0x800000;
          v = (if e < 127 then 0 else if e \<le> 150 then m div 2 ^ (150 - e) else m * 2 ^ (e - 150));
          x = (if bit w 31 then - v else v)
      in if e = 255 \<or> x < - (2 ^ 31) \<or> x \<ge> 2 ^ 31 then undef w else x)"

definition oscReadFloat :: "(u32 \<Rightarrow> int) \<Rightarrow> bytes \<Rightarrow> nat \<Rightarrow> int option" where
  "oscReadFloat undef pkt off = map_option (f32_to_int undef) (osc_word pkt off)"

text \<open>The address and the first argument of a message.\<close>

definition osc_message :: "(u32 \<Rightarrow> int) \<Rightarrow> bytes \<Rightarrow> (string \<times> int) option" where
  "osc_message undef pkt =
     (if length pkt < 8 then None
      else case oscReadPaddedString pkt 0 48 of
        None \<Rightarrow> None
      | Some (addr, off) \<Rightarrow>
          (case oscReadPaddedString pkt off 16 of
             None \<Rightarrow> None
           | Some (tags, off) \<Rightarrow>
               if hd tags \<noteq> CHR '','' then None
               else if starts_with (tl tags) ''i'' then map_option (Pair addr) (oscReadInt pkt off)
               else if starts_with (tl tags) ''f'' then map_option (Pair addr) (oscReadFloat undef pkt off)
               else None))"

definition level_of :: "int \<Rightarrow> u8" where
  "level_of v = of_int (constrain v 0 255)"

text \<open>The channels of a group or fixture, as positions.\<close>

definition channel_range :: "u16 \<Rightarrow> u16 \<Rightarrow> nat list" where
  "channel_range lo hi =
     (let s = constrain (uint lo) 1 (int MAX_CH); e = constrain (uint hi) s (int MAX_CH)
      in [nat s - 1..<nat e])"

definition set_channels :: "nat list \<Rightarrow> u8 \<Rightarrow> (app, unit) cmd" where
  "set_channels chs v = for_c chs (\<lambda>ch.
     bind_c (gets_c webVals) (\<lambda>vals.
     bind_c (lift_c (put_at ch v vals)) (\<lambda>vals. modify_c (\<lambda>s. s\<lparr>webVals := vals\<rparr>))))"

definition osc_color :: "(app \<Rightarrow> app) \<Rightarrow> (app, unit) cmd" where
  "osc_color f = locked 5 (ret ()) (modify_c (\<lambda>s. applyColorWash ((f s)\<lparr>colorEnabled := True\<rparr>)))"

definition osc_cue_run :: "int \<Rightarrow> (app, unit) cmd" where
  "osc_cue_run v =
     bind_c (locked 20 (ret False)
       (then_c (modify_c (\<lambda>s. s\<lparr>cueRunning := v \<noteq> 0 \<and> cueCount s > 0\<rparr>))
       (then_c (modify_c (\<lambda>s. if cueRunning s then s\<lparr>cueIndex := 0\<rparr> else s)) (gets_c cueRunning)))) (\<lambda>run.
     if run then triggerCueStep 0 else ret ())"

definition osc_dispatch :: "string \<Rightarrow> int \<Rightarrow> (app, unit) cmd" where
  "osc_dispatch addr v =
     (if starts_with addr ''/ch/'' then
        (let ch = atol (drop 4 addr) in
         if 1 \<le> ch \<and> ch \<le> int MAX_CH then locked 5 (ret ()) (set_channels [nat ch - 1] (level_of v)) else ret ())
      else if starts_with addr ''/group/'' then
        (let g = atol (drop 7 addr) in
         if 0 \<le> g \<and> g < int MAX_GROUPS then
           locked 5 (ret ())
             (bind_c (gets_c groups) (\<lambda>gs.
              bind_c (lift_c (at (nat g) gs)) (\<lambda>grp.
              if \<not> g_enabled grp then ret ()
              else set_channels (channel_range (g_start grp) (g_end grp)) (level_of v))))
         else ret ())
      else if addr = ''/master'' then modify_c (\<lambda>s. s\<lparr>masterDimmer := level_of v\<rparr>)
      else if addr = ''/scene/recall'' then
        bind_c (loadScene (of_int (constrain v 0 (int SCENE_COUNT - 1)))) (\<lambda>target.
        locked 20 (ret ()) (startFade_locked target 500))
      else if addr = ''/cue/run'' then osc_cue_run v
      else if addr = ''/fx/mode'' then
        locked 5 (ret ()) (modify_c (\<lambda>s.
          (let m = fx_modes ! nat (constrain v 0 9) in s\<lparr>fxMode := m, fxEnabled := (m \<noteq> FX_NONE)\<rparr>)))
      else if addr = ''/fx/bpm'' then
        locked 5 (ret ()) (modify_c (\<lambda>s. s\<lparr>fxBpm := of_int (constrain v 20 240)\<rparr>))
      else if addr = ''/color/r'' then osc_color (\<lambda>s. s\<lparr>colorR := level_of v\<rparr>)
      else if addr = ''/color/g'' then osc_color (\<lambda>s. s\<lparr>colorG := level_of v\<rparr>)
      else if addr = ''/color/b'' then osc_color (\<lambda>s. s\<lparr>colorB := level_of v\<rparr>)
      else ret ())"

definition osc_packet :: "(u32 \<Rightarrow> int) \<Rightarrow> bytes \<Rightarrow> (app, unit) cmd" where
  "osc_packet undef pkt =
     (case osc_message undef pkt of None \<Rightarrow> ret () | Some (addr, v) \<Rightarrow> osc_dispatch addr v)"

definition pollOsc :: "(u32 \<Rightarrow> int) \<Rightarrow> (app, unit) cmd" where
  "pollOsc undef = poll_udp Osc 256 OSC_PKT_BUDGET (osc_packet undef)"

section \<open>What one node sends, another one reads\<close>

lemma low_bits: "uint x < 2 ^ n \<Longrightarrow> bit x i \<Longrightarrow> i < n" for x :: u8
  using bit_take_bit_iff [of n "uint x" i] by (auto simp: bit_unsigned_iff bit_uint_iff take_bit_int_eq_self dest: bit_imp_le_length)

lemma universe_bytes:
  assumes "net < 128" "sub < 16" "uni < 16"
  shows "ucast (push_bit 4 sub OR uni) OR push_bit 8 (ucast (net AND 0x7f)) = packUniverse net sub uni"
proof -
  have bits: "bit net i \<Longrightarrow> i < 7" "bit sub i \<Longrightarrow> i < 4" "bit uni i \<Longrightarrow> i < 4" for i
    using low_bits [of net 7 i] low_bits [of sub 4 i] low_bits [of uni 4 i] assms by (simp_all add: word_less_def)
  have mask: "(0x7f :: u8) = mask 7" "(0x0f :: u8) = mask 4" by (simp_all add: mask_eq_exp_minus_1)
  show ?thesis
    unfolding packUniverse_def mask
    by (rule bit_word_eqI) (auto simp: bit_simps dest: bits)
qed

lemma artnet_frame_levels:
  assumes "length (dmxFrame s) = MAX_CH + 1" "artNet s < 128" "artSubnet s < 16" "artUni s < 16"
  shows "artnet_levels u (artnet_frame s) = (if u = universe s then Some (drop 1 (dmxFrame s)) else None)"
proof -
  have "slice 1 MAX_CH (dmxFrame s) = drop 1 (dmxFrame s)" using assms by (simp add: slice_def)
  then show ?thesis
    using universe_bytes [OF assms(2-4)] assms
    by (simp add: artnet_levels_def artnet_frame_def artNetId_def universe_def Let_def slice_def)
qed

lemma sendArtNetOut_frame:
  assumes "artOutEnabled s"
  shows "\<exists>s' cs target. sendArtNetOut s = Inr ((), s') \<and>
     app_calls s' = app_calls s @ cs @ [Net (Udp_Send Art_Out target ARTNET_PORT (artnet_frame s))]"
  using assms by (auto simp: sendArtNetOut_def artOutTarget_def broadcast_ip_def call_simps)

lemma artnet_packet_levels:
  "artnet_levels (universe r) pkt = Some vals \<Longrightarrow> \<exists>r'. artnet_packet pkt r = Inr ((), r') \<and> artVals r' = vals"
  "artnet_levels (universe r) pkt = None \<Longrightarrow> artnet_packet pkt r = Inr ((), r)"
  by (auto simp: artnet_packet_def call_simps)

text \<open>
  C10. Art-Net from node to node: when the output is enabled, the packet that a node sends carries its frame.
  A node on the same universe takes the 512 levels over as they are; a node on another universe
  ignores the packet.
\<close>

theorem artnet_round_trip:
  assumes "artOutEnabled s" "length (dmxFrame s) = MAX_CH + 1"
    and "artNet s < 128" "artSubnet s < 16" "artUni s < 16"
  shows "\<exists>s' cs target pkt. sendArtNetOut s = Inr ((), s') \<and>
     app_calls s' = app_calls s @ cs @ [Net (Udp_Send Art_Out target ARTNET_PORT pkt)] \<and>
     (if universe r = universe s then \<exists>r'. artnet_packet pkt r = Inr ((), r') \<and> artVals r' = drop 1 (dmxFrame s)
      else artnet_packet pkt r = Inr ((), r))"
  using sendArtNetOut_frame [OF assms(1)] artnet_frame_levels [OF assms(2-5), of "universe r"]
    artnet_packet_levels [of r "artnet_frame s"]
  by (auto split: if_splits)

lemma boot_fields:
  "dmxFrame (boot_app e) = replicate 513 0" "artNet (boot_app e) = 0" "artSubnet (boot_app e) = 0" "app_calls (boot_app e) = []"
  by (simp_all add: boot_app_def)

theorem artnet_round_trip_witness:
  "\<exists>s' cs target pkt. sendArtNetOut (boot_app (\<lambda>cs c. Answer 0 [] [])\<lparr>artOutEnabled := True, artUni := 3\<rparr>) = Inr ((), s') \<and>
     app_calls s' = cs @ [Net (Udp_Send Art_Out target ARTNET_PORT pkt)] \<and>
     (\<exists>r'. artnet_packet pkt (boot_app (\<lambda>cs c. Answer 0 [] [])\<lparr>artUni := 3\<rparr>) = Inr ((), r') \<and> artVals r' = replicate 512 0)"
  using artnet_round_trip [of "boot_app (\<lambda>cs c. Answer 0 [] [])\<lparr>artOutEnabled := True, artUni := 3\<rparr>"
      "boot_app (\<lambda>cs c. Answer 0 [] [])\<lparr>artUni := 3\<rparr>"]
  by (simp add: boot_fields universe_def)

end
