(* ===== verification/Vizzz_Peers.thy ===== *)
theory Vizzz_Peers
  imports Vizzz_Net
begin

text \<open>
  The fleet: the beacon that announces a node, the table of the peers that were heard, and the queue of
  commands for them. The table holds at most \<open>MAX_PEERS\<close> entries; a peer is identified by its MAC
  address, or by its IP address when a beacon has none.
\<close>

section \<open>Beacons\<close>

text \<open>\<^verbatim>\<open>%u.%u.%u.%u\<close> of an address whose first octet is its lowest byte.\<close>

definition ipStr :: "u32 \<Rightarrow> string" where
  "ipStr ip = (case map (\<lambda>b. dec (unat b)) (le32 ip) of
     [a, b, c, d] \<Rightarrow> a @ ''.'' @ b @ ''.'' @ c @ ''.'' @ d | _ \<Rightarrow> '''')"

definition quoted :: "string \<Rightarrow> string" where
  "quoted s = [CHR 0x22] @ s @ [CHR 0x22]"

definition json_field :: "string \<Rightarrow> string \<Rightarrow> string" where
  "json_field key val = quoted key @ '':'' @ quoted val"

definition beacon_text :: "string \<Rightarrow> string \<Rightarrow> string \<Rightarrow> string \<Rightarrow> string \<Rightarrow> string" where
  "beacon_text name ip ap_ssid mdns mac =
     ''{'' @ json_field ''name'' name @ '','' @ json_field ''ip'' ip @ '','' @
     json_field ''ap_ssid'' ap_ssid @ '','' @ json_field ''mdns'' (mdns @ ''.local'') @ '','' @
     json_field ''mac'' mac @ '','' @ json_field ''product'' ''vizzz.di'' @ ''}''"

text \<open>The text is cut to the buffer of 240 bytes.\<close>

definition sendBeacon :: "(app, unit) cmd" where
  "sendBeacon =
     bind_c (call_code (Wifi Wifi_Status)) (\<lambda>st.
     if st \<noteq> WL_CONNECTED then ret ()
     else bind_c broadcast_ip (\<lambda>bcast.
       bind_c (gets_c id) (\<lambda>s.
       bind_c (lift_c (jsonEsc 64 (nodeName s))) (\<lambda>eName.
       bind_c (lift_c (jsonEsc 64 (apSsid s))) (\<lambda>eApSsid.
       bind_c (call_text (Wifi Wifi_Mac)) (\<lambda>mac.
       bind_c (call_code (Wifi Wifi_Local_Ip)) (\<lambda>ip.
       (let buf = take 239 (c_str (beacon_text eName (ipStr (of_int ip)) eApSsid (mdnsName s) mac)) in
        call_u (Net (Udp_Send Discover bcast DISCOVERY_PORT (string_bytes buf)))))))))))"

section \<open>The table of peers\<close>

definition lower_case :: "char \<Rightarrow> char" where
  "lower_case c = (if 65 \<le> (of_char c :: nat) \<and> (of_char c :: nat) \<le> 90 then char_of ((of_char c :: nat) + 32) else c)"

definition same_nocase :: "string \<Rightarrow> string \<Rightarrow> bool" where
  "same_nocase a b \<longleftrightarrow> map lower_case a = map lower_case b"

text \<open>\<^verbatim>\<open>strlcpy\<close> into an array of \<open>n\<close> bytes.\<close>

definition strlcpy :: "nat \<Rightarrow> string \<Rightarrow> string" where
  "strlcpy n s = take (n - 1) s"

definition peer_entry :: "string \<Rightarrow> string \<Rightarrow> string \<Rightarrow> string \<Rightarrow> u32 \<Rightarrow> PeerNode" where
  "peer_entry name ip mdns mac now = \<lparr>pr_name = strlcpy 40 name, pr_ip = strlcpy 16 ip,
     pr_mdns = strlcpy 48 mdns, pr_mac = strlcpy 18 mac, pr_lastSeenMs = now\<rparr>"

definition peer_matches :: "string \<Rightarrow> string \<Rightarrow> PeerNode \<Rightarrow> bool" where
  "peer_matches ip mac p \<longleftrightarrow>
     (if mac \<noteq> '''' then same_nocase (pr_mac p) mac else pr_ip p = ip)"

text \<open>An entry that matches is overwritten; otherwise the peer is added while there is room.\<close>

definition update_peers :: "PeerNode \<Rightarrow> string \<Rightarrow> string \<Rightarrow> PeerNode list \<Rightarrow> PeerNode list" where
  "update_peers e ip mac ps =
     (case find_index (peer_matches ip mac) ps of
        Some i \<Rightarrow> ps[i := e]
      | None \<Rightarrow> if length ps < MAX_PEERS then ps @ [e] else ps)"

text \<open>
  \<open>junk\<close> is what the local array \<^verbatim>\<open>pMdns\<close> holds when the beacon has no \<^verbatim>\<open>mdns\<close> key: the code copies it all the
  same.
\<close>

definition beacon_packet :: "string \<Rightarrow> bytes \<Rightarrow> (app, unit) cmd" where
  "beacon_packet junk pkt =
     (let buf = c_str (map (\<lambda>b. char_of (unat b)) pkt) in
      if pkt = [] then ret ()
      else if strstr buf ''vizzz.di'' = None then ret ()
      else case (jsonExtract buf ''name'' 40, jsonExtract buf ''ip'' 16) of
        (Some pName, Some pIpJson) \<Rightarrow>
          if pName = '''' \<or> pIpJson = '''' then ret ()
          else
            (let pMdns = (case jsonExtract buf ''mdns'' 48 of None \<Rightarrow> junk | Some m \<Rightarrow> m);
                 pMac = (case jsonExtract buf ''mac'' 18 of None \<Rightarrow> '''' | Some m \<Rightarrow> m) in
             bind_c (call_code (Net (Udp_Remote_Ip Discover))) (\<lambda>remote.
             (let pIp = ipStr (of_int remote) in
              bind_c (call_text (Wifi Wifi_Mac)) (\<lambda>ownMac.
              bind_c (if pMac \<noteq> '''' then ret (same_nocase pMac ownMac)
                      else bind_c (call_code (Wifi Wifi_Status)) (\<lambda>st.
                        if st = WL_CONNECTED then
                          bind_c (call_code (Wifi Wifi_Local_Ip)) (\<lambda>ip. ret (ipStr (of_int ip) = pIp))
                        else ret False)) (\<lambda>own.
              if own then ret ()
              else bind_c millis (\<lambda>now.
                bind_c (locked 5 (ret False)
                  (then_c (modify_c (\<lambda>s. s\<lparr>peers :=
                       update_peers (peer_entry pName pIp pMdns pMac now) pIp pMac (peers s)\<rparr>))
                     (ret True))) (\<lambda>taken.
                if taken then sendBeacon else ret ())))))))
      | _ \<Rightarrow> ret ())"

definition pollDiscovery :: "string \<Rightarrow> (app, unit) cmd" where
  "pollDiscovery junk = poll_udp Discover 255 DISC_PKT_BUDGET (beacon_packet junk)"

text \<open>Peers that have not been heard for \<open>PEER_EXPIRE_MS\<close> are dropped, the others keep their order.\<close>

definition expire_peers :: "u32 \<Rightarrow> (app, unit) cmd" where
  "expire_peers now = locked 5 (ret ())
     (modify_c (\<lambda>s. s\<lparr>peers := filter (\<lambda>p. now - pr_lastSeenMs p < PEER_EXPIRE_MS) (peers s)\<rparr>))"

text \<open>The addresses of the table, without regard to case; no address may stand twice.\<close>

definition known_macs :: "PeerNode list \<Rightarrow> string list" where
  "known_macs ps = map (\<lambda>p. map lower_case (pr_mac p)) (filter (\<lambda>p. pr_mac p \<noteq> '''') ps)"

definition distinct_macs :: "PeerNode list \<Rightarrow> bool" where
  "distinct_macs ps \<longleftrightarrow> distinct (known_macs ps)"

section \<open>The queue of commands\<close>

text \<open>The replies of \<open>Queue_Create\<close> and \<open>Task_Create\<close> are zero when they fail.\<close>

definition startBcastTask :: "(app, bool) cmd" where
  "startBcastTask =
     bind_c (gets_c bcastQueue) (\<lambda>queue.
     if queue then ret True
     else bind_c (call_code Queue_Create) (\<lambda>q.
       if q = 0 then ret False
       else
         then_c (modify_c (\<lambda>s. s\<lparr>bcastQueue := True\<rparr>))
        (bind_c (call_code Task_Create) (\<lambda>ok.
         if ok = 0 then
           then_c (call_u Queue_Delete) (then_c (modify_c (\<lambda>s. s\<lparr>bcastQueue := False\<rparr>)) (ret False))
         else ret True))))"

text \<open>\<open>targetIp\<close> is empty for a command to all peers. The reply of \<open>Queue_Send\<close> is zero when the queue is full.\<close>

definition enqueueBcast :: "string \<Rightarrow> string \<Rightarrow> (app, bool) cmd" where
  "enqueueBcast path targetIp =
     bind_c (gets_c bcastQueue) (\<lambda>queue.
     if \<not> queue \<or> \<not> isAllowedPeerPath path then ret False
     else bind_c (call_code (Queue_Send (strlcpy BCAST_PATH_LEN path) (strlcpy BCAST_IP_LEN targetIp))) (\<lambda>sent.
       ret (sent \<noteq> 0)))"

text \<open>One round of the task that empties the queue, for an entry that it received.\<close>

definition bcastTask_entry :: "string \<Rightarrow> string \<Rightarrow> (app, unit) cmd" where
  "bcastTask_entry path targetIp =
     (if \<not> isAllowedPeerPath path then ret ()
      else if targetIp \<noteq> '''' then then_c (sendPeerGet targetIp path) (ret ())
      else
        bind_c (locked 10 (ret []) (gets_c (\<lambda>s. map (\<lambda>p. strlcpy BCAST_IP_LEN (pr_ip p)) (peers s)))) (\<lambda>ips.
        for_c ips (\<lambda>ip. then_c (sendPeerGet ip path) (call_u (Delay 1)))))"

section \<open>One entry for each address\<close>

lemma known_macs_append: "known_macs (ps @ qs) = known_macs ps @ known_macs qs"
  by (simp add: known_macs_def)

lemma known_macs_Cons: "known_macs (p # ps) = (if pr_mac p = '''' then known_macs ps else map lower_case (pr_mac p) # known_macs ps)"
  by (simp add: known_macs_def)

lemma distinct_update:
  assumes "distinct_macs ps" "length mac < 18"
  shows "distinct_macs (update_peers (peer_entry name ip mdns mac now) ip mac ps)" (is "distinct_macs (update_peers ?e ip mac ps)")
proof (cases "find_index (peer_matches ip mac) ps")
  case None
  then have "map lower_case mac \<notin> set (known_macs ps)" if "mac \<noteq> ''''"
    using that by (auto simp: find_index_None_iff peer_matches_def same_nocase_def known_macs_def)
  then show ?thesis
    using None assms
    by (auto simp: update_peers_def distinct_macs_def known_macs_append known_macs_Cons peer_entry_def strlcpy_def known_macs_def [of "[]"])
next
  case (Some i)
  then have i: "i < length ps" "peer_matches ip mac (ps ! i)" by (auto simp: find_index_Some_iff)
  have ps: "known_macs ps = known_macs (take i ps) @ known_macs (ps ! i # drop (Suc i) ps)"
    using id_take_nth_drop [OF i(1)] by (metis known_macs_append)
  have "known_macs (ps[i := ?e]) = known_macs (take i ps) @ known_macs (?e # drop (Suc i) ps)"
    using i(1) by (simp add: upd_conv_take_nth_drop known_macs_append)
  moreover have "distinct (known_macs (take i ps) @ known_macs (?e # drop (Suc i) ps))"
    using assms i(2) ps
    by (auto simp: distinct_macs_def known_macs_Cons peer_entry_def strlcpy_def peer_matches_def same_nocase_def split: if_splits)
  ultimately show ?thesis using Some by (simp add: update_peers_def distinct_macs_def)
qed

lemma distinct_filter: "distinct_macs ps \<Longrightarrow> distinct_macs (filter P ps)"
  by (induction ps) (auto simp: distinct_macs_def known_macs_Cons known_macs_def split: if_splits)

text \<open>With distinct addresses, an update leaves exactly one entry for the address.\<close>

lemma one_entry:
  assumes "distinct_macs ps" "length mac < 18" "mac \<noteq> ''''"
    "length ps < MAX_PEERS \<or> list_ex (peer_matches ip mac) ps"
  shows "filter (\<lambda>p. same_nocase (pr_mac p) mac) (update_peers (peer_entry name ip mdns mac now) ip mac ps) =
    [peer_entry name ip mdns mac now]" (is "filter ?P (update_peers ?e ip mac ps) = _")
proof -
  have e: "?P ?e" "pr_mac ?e = mac" using assms(2) by (simp_all add: peer_entry_def strlcpy_def same_nocase_def)
  have none: "filter ?P qs = []" if "map lower_case mac \<notin> set (known_macs qs)" for qs
    using that assms(3) by (auto simp: filter_empty_conv known_macs_def same_nocase_def image_iff)
  have dist: "distinct_macs (update_peers ?e ip mac ps)" by (rule distinct_update [OF assms(1,2)])
  have mem: "\<exists>qs rs. update_peers ?e ip mac ps = qs @ ?e # rs"
  proof (cases "find_index (peer_matches ip mac) ps")
    case None
    then have "\<not> list_ex (peer_matches ip mac) ps" by (simp add: find_index_None_iff list_ex_iff)
    then show ?thesis using None assms(4) by (auto simp: update_peers_def)
  next
    case (Some i)
    then have "i < length ps" by (simp add: find_index_Some_iff)
    then show ?thesis using Some by (auto simp: update_peers_def upd_conv_take_nth_drop)
  qed
  then obtain qs rs where u: "update_peers ?e ip mac ps = qs @ ?e # rs" by blast
  with dist have "map lower_case mac \<notin> set (known_macs qs)" "map lower_case mac \<notin> set (known_macs rs)"
    using e(2) assms(3) by (simp_all add: distinct_macs_def known_macs_append known_macs_Cons)
  then show ?thesis using none e(1) by (simp add: u)
qed

lemma extract_length: "jsonExtract json key n = Some v \<Longrightarrow> length v \<le> n - 1"
  by (auto simp: jsonExtract_def Let_def split: option.splits)

end
