(* ===== verification/Vizzz_Web.thy ===== *)
theory Vizzz_Web
  imports Vizzz_Peers
begin

text \<open>
  The routes of the web server in \<^verbatim>\<open>setupWeb\<close> that change the state. A request is the list of its
  arguments; the answer is the call \<open>Http_Send\<close> with the status code and the text. The routes that only
  report are in \<open>Vizzz_Report\<close>; the page of the console is not modelled. \<open>fw_tag\<close> is the time of the build
  that \<^verbatim>\<open>saveConfig\<close> stores.
\<close>

section \<open>Requests and answers\<close>

type_synonym request = "(string \<times> string) list"

definition hasArg :: "request \<Rightarrow> string \<Rightarrow> bool" where
  "hasArg r key \<longleftrightarrow> map_of r key \<noteq> None"

definition arg :: "request \<Rightarrow> string \<Rightarrow> string" where
  "arg r key = (case map_of r key of None \<Rightarrow> '''' | Some v \<Rightarrow> v)"

text \<open>\<^verbatim>\<open>r->arg(key).toInt()\<close>.\<close>

definition argInt :: "request \<Rightarrow> string \<Rightarrow> int" where
  "argInt r key = atol (c_str (arg r key))"

definition send :: "nat \<Rightarrow> string \<Rightarrow> (app, unit) cmd" where
  "send code body = call_u (Net (Http_Send code body))"

definition busy :: "(app, unit) cmd" where
  "busy = send 503 ''busy''"

text \<open>An update of the state by an argument, when the request has it.\<close>

definition if_arg :: "request \<Rightarrow> string \<Rightarrow> (app \<Rightarrow> app) \<Rightarrow> app \<Rightarrow> app" where
  "if_arg r key f s = (if hasArg r key then f s else s)"

section \<open>Levels\<close>

definition routeSet :: "request \<Rightarrow> (app, unit) cmd" where
  "routeSet r =
     (if \<not> hasArg r ''ch'' \<or> \<not> hasArg r ''v'' then send 400 ''missing arg''
      else
        (let ch = nat (constrain (argInt r ''ch'') 1 (int MAX_CH)) - 1; v = level_of (argInt r ''v'') in
         bind_c (locked 10 (ret False) (then_c (set_channels [ch] v) (ret True))) (\<lambda>ok.
         if ok then send 204 '''' else busy)))"

text \<open>\<^verbatim>\<open>memset(webVals, v, MAX_CH)\<close> and the end of a fade, the body of blackout and full.\<close>

definition flood :: "u8 \<Rightarrow> app \<Rightarrow> app" where
  "flood v s = s\<lparr>webVals := replicate MAX_CH v, fadeActive := False\<rparr>"

text \<open>A section under the lock, and the answer when the lock is busy.\<close>

definition under_lock :: "nat \<Rightarrow> (app \<Rightarrow> app) \<Rightarrow> (app, unit) cmd \<Rightarrow> (app, unit) cmd" where
  "under_lock ms f k =
     bind_c (locked ms (ret False) (then_c (modify_c f) (ret True))) (\<lambda>ok. if ok then k else busy)"

definition routeBlackout :: "request \<Rightarrow> (app, unit) cmd" where
  "routeBlackout r = under_lock 20 (flood 0) (send 204 '''')"

definition routeFull :: "request \<Rightarrow> (app, unit) cmd" where
  "routeFull r = under_lock 20 (flood 255) (send 204 '''')"

definition routeMaster :: "request \<Rightarrow> (app, unit) cmd" where
  "routeMaster r =
     (if hasArg r ''v'' then
        under_lock 10 (\<lambda>s. s\<lparr>masterDimmer := level_of (argInt r ''v'')\<rparr>) (send 204 '''')
      else send 204 '''')"

section \<open>Settings\<close>

definition routeArtNetSet :: "string \<Rightarrow> request \<Rightarrow> (app, unit) cmd" where
  "routeArtNetSet fw_tag r =
     under_lock 10
       (if_arg r ''uni'' (\<lambda>s. s\<lparr>artUni := of_int (constrain (argInt r ''uni'') 0 15)\<rparr>) \<circ>
        if_arg r ''subnet'' (\<lambda>s. s\<lparr>artSubnet := of_int (constrain (argInt r ''subnet'') 0 15)\<rparr>) \<circ>
        if_arg r ''net'' (\<lambda>s. s\<lparr>artNet := of_int (constrain (argInt r ''net'') 0 127)\<rparr>))
       (then_c (saveConfig fw_tag) (then_c refreshSacnSocket (send 204 '''')))"

definition routeArtOutSet :: "string \<Rightarrow> request \<Rightarrow> (app, unit) cmd" where
  "routeArtOutSet fw_tag r =
     (if hasArg r ''en'' then
        under_lock 10 (\<lambda>s. s\<lparr>artOutEnabled := argInt r ''en'' \<noteq> 0\<rparr>)
          (then_c (saveConfig fw_tag) (send 204 ''''))
      else then_c (saveConfig fw_tag) (send 204 ''''))"

definition routeModeSet :: "string \<Rightarrow> request \<Rightarrow> (app, unit) cmd" where
  "routeModeSet fw_tag r =
     (if \<not> hasArg r ''m'' then send 400 ''missing arg''
      else under_lock 10 (\<lambda>s. s\<lparr>mode := mode_of (of_int (constrain (argInt r ''m'') 0 2))\<rparr>)
        (then_c (saveConfig fw_tag) (send 204 '''')))"

definition routeModeFallback :: "string \<Rightarrow> request \<Rightarrow> (app, unit) cmd" where
  "routeModeFallback fw_tag r =
     (if \<not> hasArg r ''en'' then send 400 ''missing arg''
      else under_lock 10 (\<lambda>s. s\<lparr>artnetFallbackToWeb := argInt r ''en'' \<noteq> 0\<rparr>)
        (then_c (saveConfig fw_tag) (send 204 '''')))"

definition routeNetModeSet :: "string \<Rightarrow> request \<Rightarrow> (app, unit) cmd" where
  "routeNetModeSet fw_tag r =
     (if \<not> hasArg r ''m'' then send 400 ''missing arg''
      else under_lock 10 (\<lambda>s. s\<lparr>netMode := net_mode_of (of_int (constrain (argInt r ''m'') 0 2))\<rparr>)
        (then_c (saveConfig fw_tag)
        (then_c (send 200 ''ok,rebooting'') (modify_c (\<lambda>s. s\<lparr>pendingReboot := True\<rparr>)))))"

definition routeWebSet :: "string \<Rightarrow> request \<Rightarrow> (app, unit) cmd" where
  "routeWebSet fw_tag r =
     (if \<not> hasArg r ''en'' then send 400 ''missing arg''
      else under_lock 10 (\<lambda>s. s\<lparr>webEnabled := argInt r ''en'' \<noteq> 0\<rparr>)
        (then_c (saveConfig fw_tag)
        (then_c (send 200 ''ok,rebooting'') (modify_c (\<lambda>s. s\<lparr>pendingReboot := True\<rparr>)))))"

definition routeSafetySet :: "string \<Rightarrow> request \<Rightarrow> (app, unit) cmd" where
  "routeSafetySet fw_tag r =
     (if \<not> hasArg r ''burn'' then send 400 ''missing burn''
      else under_lock 10 (\<lambda>s. s\<lparr>burnSafeMode := argInt r ''burn'' \<noteq> 0\<rparr>)
        (then_c (saveConfig fw_tag) (send 204 '''')))"

section \<open>Scenes\<close>

definition scene_arg :: "request \<Rightarrow> u8" where
  "scene_arg r = of_int (constrain (argInt r ''n'') 0 (int SCENE_COUNT - 1))"

definition fade_arg :: "request \<Rightarrow> u32" where
  "fade_arg r = (if hasArg r ''fade'' then of_int (max 0 (argInt r ''fade'')) else 0)"

definition routeSceneSave :: "request \<Rightarrow> (app, unit) cmd" where
  "routeSceneSave r =
     (if \<not> hasArg r ''n'' then send 400 ''missing arg''
      else
        bind_c (locked 20 (ret None) (gets_c (\<lambda>s. Some (webVals s)))) (\<lambda>snap.
        case snap of
          None \<Rightarrow> busy
        | Some vals \<Rightarrow> then_c (saveScene (scene_arg r) vals) (send 204 '''')))"

text \<open>The recall of a scene, with what follows when the lock was taken.\<close>

definition recall :: "request \<Rightarrow> (app, unit) cmd \<Rightarrow> (app, unit) cmd" where
  "recall r k =
     bind_c (loadScene (scene_arg r)) (\<lambda>target.
     bind_c (locked 20 (ret False) (then_c (startFade_locked target (fade_arg r)) (ret True))) (\<lambda>ok.
     if ok then k else busy))"

definition routeSceneRecall :: "request \<Rightarrow> (app, unit) cmd" where
  "routeSceneRecall r =
     (if \<not> hasArg r ''n'' then send 400 ''missing arg'' else recall r (send 204 ''''))"

section \<open>WiFi and identity\<close>

definition routeWifiSet :: "string \<Rightarrow> request \<Rightarrow> (app, unit) cmd" where
  "routeWifiSet fw_tag r =
     (if \<not> hasArg r ''ssid'' then send 400 ''missing ssid''
      else under_lock 10 (\<lambda>s. s\<lparr>staSSID := arg r ''ssid'', staPass := arg r ''pass'',
          netMode := if netMode s = NET_AP_ONLY then NET_AP_STA else netMode s\<rparr>)
        (then_c (saveConfig fw_tag)
        (then_c (modify_c (\<lambda>s. s\<lparr>pendingWifiReconnect := True\<rparr>)) (send 204 ''''))))"

definition routeWifiForget :: "string \<Rightarrow> request \<Rightarrow> (app, unit) cmd" where
  "routeWifiForget fw_tag r =
     under_lock 10 (\<lambda>s. s\<lparr>staSSID := '''', staPass := ''''\<rparr>)
       (then_c (saveConfig fw_tag)
       (then_c (modify_c (\<lambda>s. s\<lparr>pendingWifiForget := True\<rparr>)) (send 204 '''')))"

definition routeNodeSet :: "string \<Rightarrow> request \<Rightarrow> (app, unit) cmd" where
  "routeNodeSet fw_tag r =
     under_lock 10
       (if_arg r ''ap_pass'' (\<lambda>s. s\<lparr>apPass := arg r ''ap_pass''\<rparr>) \<circ>
        if_arg r ''ap_ssid'' (\<lambda>s. s\<lparr>apSsid := arg r ''ap_ssid''\<rparr>) \<circ>
        if_arg r ''name'' (\<lambda>s. s\<lparr>nodeName := arg r ''name''\<rparr>))
       (then_c (saveConfig fw_tag) (then_c startMdns (send 204 '''')))"

definition routeReboot :: "request \<Rightarrow> (app, unit) cmd" where
  "routeReboot r = then_c (send 200 (''Rebooting'' @ [CHR 0xE2, CHR 0x80, CHR 0xA6])) (modify_c (\<lambda>s. s\<lparr>pendingReboot := True\<rparr>))"

definition routeFactoryReset :: "request \<Rightarrow> (app, unit) cmd" where
  "routeFactoryReset r = then_c (send 200 (''Factory reset '' @ [CHR 0xE2, CHR 0x80, CHR 0x94] @
     '' rebooting with defaults'' @ [CHR 0xE2, CHR 0x80, CHR 0xA6])) (modify_c (\<lambda>s. s\<lparr>pendingFactoryReset := True\<rparr>))"

definition routeArtOutPeer :: "request \<Rightarrow> (app, unit) cmd" where
  "routeArtOutPeer r = then_c (modify_c (\<lambda>s. s\<lparr>artOutPeerIp := arg r ''ip''\<rparr>)) (send 204 '''')"

section \<open>Fixtures and groups\<close>

text \<open>The fields are assigned one after the other: the end is limited by the start that was just set.\<close>

definition set_fixture :: "request \<Rightarrow> FixtureDef \<Rightarrow> FixtureDef" where
  "set_fixture r f =
     (let f = (if hasArg r ''name'' then f\<lparr>f_name := set_name (c_str (arg r ''name'')) (f_name f)\<rparr> else f);
          f = (if hasArg r ''start'' then f\<lparr>f_start := of_int (constrain (argInt r ''start'') 1 (int MAX_CH))\<rparr> else f);
          f = (if hasArg r ''end'' then
                 f\<lparr>f_end := of_int (constrain (argInt r ''end'') (uint (f_start f)) (int MAX_CH))\<rparr> else f);
          f = (if hasArg r ''x'' then f\<lparr>f_x := level_of (argInt r ''x'')\<rparr> else f);
          f = (if hasArg r ''y'' then f\<lparr>f_y := level_of (argInt r ''y'')\<rparr> else f)
      in if hasArg r ''en'' then f\<lparr>f_enabled := argInt r ''en'' \<noteq> 0\<rparr> else f)"

definition disable_from :: "nat \<Rightarrow> FixtureDef list \<Rightarrow> FixtureDef list" where
  "disable_from n fs = map (\<lambda>(i, f). f\<lparr>f_enabled := i < n \<and> f_enabled f\<rparr>) (enumerate 0 fs)"

definition routeFixtureSet :: "request \<Rightarrow> (app, unit) cmd" where
  "routeFixtureSet r =
     (if \<not> hasArg r ''i'' then send 400 ''missing i''
      else
        (let i = nat (constrain (argInt r ''i'') 0 (int MAX_FIXTURES - 1)) in
         bind_c (locked 20 (ret False)
           (bind_c (gets_c fixtures) (\<lambda>fs.
            bind_c (lift_c (at i fs)) (\<lambda>f.
            bind_c (lift_c (put_at i (set_fixture r f) fs)) (\<lambda>fs.
            then_c (modify_c (\<lambda>s.
              (let n = (if hasArg r ''count'' then nat (constrain (argInt r ''count'') 1 (int MAX_FIXTURES))
                        else fixtureCount s)
               in s\<lparr>fixtureCount := n, fixtures := disable_from n fs\<rparr>)))
              (ret True)))))) (\<lambda>ok.
         if ok then then_c saveFixtures (send 204 '''') else busy)))"

definition set_group :: "request \<Rightarrow> GroupDef \<Rightarrow> GroupDef" where
  "set_group r g =
     (let g = (if hasArg r ''name'' then g\<lparr>g_name := set_name (c_str (arg r ''name'')) (g_name g)\<rparr> else g);
          g = (if hasArg r ''start'' then g\<lparr>g_start := of_int (constrain (argInt r ''start'') 1 (int MAX_CH))\<rparr> else g);
          g = (if hasArg r ''end'' then
                 g\<lparr>g_end := of_int (constrain (argInt r ''end'') (uint (g_start g)) (int MAX_CH))\<rparr> else g)
      in if hasArg r ''en'' then g\<lparr>g_enabled := argInt r ''en'' \<noteq> 0\<rparr> else g)"

definition group_arg :: "request \<Rightarrow> nat" where
  "group_arg r = nat (constrain (argInt r ''g'') 0 (int MAX_GROUPS - 1))"

definition routeGroupSet :: "request \<Rightarrow> (app, unit) cmd" where
  "routeGroupSet r =
     (if \<not> hasArg r ''g'' then send 400 ''missing g''
      else
        bind_c (locked 20 (ret False)
          (bind_c (gets_c groups) (\<lambda>gs.
           bind_c (lift_c (at (group_arg r) gs)) (\<lambda>g.
           bind_c (lift_c (put_at (group_arg r) (set_group r g) gs)) (\<lambda>gs.
           then_c (modify_c (\<lambda>s. s\<lparr>groups := gs\<rparr>)) (ret True)))))) (\<lambda>ok.
        if ok then send 204 '''' else busy))"

definition routeGroupApply :: "request \<Rightarrow> (app, unit) cmd" where
  "routeGroupApply r =
     (if \<not> hasArg r ''g'' \<or> \<not> hasArg r ''v'' then send 400 ''missing arg''
      else
        bind_c (locked 20 (ret 503)
          (bind_c (gets_c groups) (\<lambda>gs.
           bind_c (lift_c (at (group_arg r) gs)) (\<lambda>g.
           if \<not> g_enabled g then ret (409 :: nat)
           else then_c (set_channels (channel_range (g_start g) (g_end g)) (level_of (argInt r ''v''))) (ret 204))))) (\<lambda>code.
        if code = 503 then busy else if code = 409 then send 409 ''group disabled'' else send 204 ''''))"

section \<open>Cues\<close>

definition routeCueCount :: "request \<Rightarrow> (app, unit) cmd" where
  "routeCueCount r =
     (if \<not> hasArg r ''c'' then send 400 ''missing c''
      else under_lock 20 (\<lambda>s.
          (let n = nat (constrain (argInt r ''c'') 1 (int MAX_CUES))
           in s\<lparr>cueCount := n, cueIndex := if cueIndex s \<ge> n then 0 else cueIndex s\<rparr>))
        (send 204 ''''))"

definition set_cue :: "request \<Rightarrow> CueStep \<Rightarrow> CueStep" where
  "set_cue r c =
     (let c = (if hasArg r ''scene'' then
                 c\<lparr>c_scene := of_int (constrain (argInt r ''scene'') 0 (int SCENE_COUNT - 1))\<rparr> else c);
          c = (if hasArg r ''dwell'' then c\<lparr>c_dwellMs := of_int (max 0 (argInt r ''dwell''))\<rparr> else c)
      in if hasArg r ''fade'' then c\<lparr>c_fadeMs := of_int (max 0 (argInt r ''fade''))\<rparr> else c)"

definition routeCueSet :: "request \<Rightarrow> (app, unit) cmd" where
  "routeCueSet r =
     (if \<not> hasArg r ''i'' then send 400 ''missing i''
      else
        (let i = nat (constrain (argInt r ''i'') 0 (int MAX_CUES - 1)) in
         bind_c (locked 20 (ret False)
           (bind_c (gets_c cueList) (\<lambda>cs.
            bind_c (lift_c (at i cs)) (\<lambda>c.
            bind_c (lift_c (put_at i (set_cue r c) cs)) (\<lambda>cs.
            then_c (modify_c (\<lambda>s. s\<lparr>cueList := cs\<rparr>)) (ret True)))))) (\<lambda>ok.
         if ok then send 204 '''' else busy)))"

definition routeCueRun :: "request \<Rightarrow> (app, unit) cmd" where
  "routeCueRun r =
     (if \<not> hasArg r ''en'' then send 400 ''missing en''
      else
        bind_c (locked 20 (ret None)
          (then_c (modify_c (\<lambda>s. s\<lparr>cueRunning := argInt r ''en'' \<noteq> 0 \<and> cueCount s > 0\<rparr>))
          (then_c (modify_c (\<lambda>s. if cueRunning s then s\<lparr>cueIndex := 0\<rparr> else s))
             (gets_c (\<lambda>s. Some (cueRunning s)))))) (\<lambda>run.
        case run of
          None \<Rightarrow> busy
        | Some True \<Rightarrow> then_c (triggerCueStep 0) (send 204 '''')
        | Some False \<Rightarrow> send 204 ''''))"

definition routeCueNext :: "request \<Rightarrow> (app, unit) cmd" where
  "routeCueNext r =
     bind_c (locked 20 (ret (Inl 503))
       (bind_c (gets_c id) (\<lambda>s.
        if cueCount s = 0 then ret (Inl (400 :: nat))
        else (let i = (cueIndex s + 1) mod cueCount s in
              then_c (modify_c (\<lambda>s. s\<lparr>cueIndex := i\<rparr>)) (ret (Inr i)))))) (\<lambda>next.
     case next of
       Inl code \<Rightarrow> if code = 503 then busy else send 400 ''no cues''
     | Inr i \<Rightarrow> then_c (triggerCueStep i) (send 204 ''''))"

section \<open>Effects and colour\<close>

definition fx_names :: "string list" where
  "fx_names = [''none'', ''strobe'', ''chase'', ''pulse'', ''sine'', ''sparkle'', ''comet'', ''bars'', ''glitch'', ''radar'']"

text \<open>The mode of a name or of its number; everything else is none.\<close>

definition fx_mode_arg :: "string \<Rightarrow> FxMode" where
  "fx_mode_arg m =
     (case find_index (\<lambda>i. m = fx_names ! i \<or> m = dec i) [1..<10] of
        None \<Rightarrow> FX_NONE | Some k \<Rightarrow> fx_modes ! (k + 1))"

definition routeFxSet :: "request \<Rightarrow> (app, unit) cmd" where
  "routeFxSet r =
     under_lock 20
       ((\<lambda>s. if fxMode s = FX_NONE then s\<lparr>fxEnabled := False\<rparr> else s) \<circ>
        if_arg r ''depth'' (\<lambda>s. s\<lparr>fxDepth := level_of (argInt r ''depth'')\<rparr>) \<circ>
        if_arg r ''bpm'' (\<lambda>s. s\<lparr>fxBpm := of_int (constrain (argInt r ''bpm'') 20 240)\<rparr>) \<circ>
        if_arg r ''en'' (\<lambda>s. s\<lparr>fxEnabled := argInt r ''en'' \<noteq> 0\<rparr>) \<circ>
        if_arg r ''mode'' (\<lambda>s. s\<lparr>fxMode := fx_mode_arg (arg r ''mode'')\<rparr>))
       (send 204 '''')"

text \<open>
  A tap between 150 and 2000 milliseconds after the last one is stored in a ring of four; the tempo is
  that of the average interval. A division by zero is a fault.
\<close>

definition tap_tempo :: "nat \<Rightarrow> u32 list \<Rightarrow> u16 \<Rightarrow> u16 res" where
  "tap_tempo n intervals bpm =
     (let sum = sum_list (take n intervals) in
      if sum > 0 then
        (let average = sum div of_nat n in
         if average = 0 then Inl Div_By_Zero else Inr (ucast (constrain (60000 div average) 20 240)))
      else Inr bpm)"

definition tap :: "u32 \<Rightarrow> (app, unit) cmd" where
  "tap now =
     bind_c (gets_c id) (\<lambda>s.
     (let dt = now - lastTapMs s in
      then_c (if lastTapMs s > 0 \<and> dt \<ge> 150 \<and> dt \<le> 2000 then
                bind_c (lift_c (put_at (tapPos s) dt (tapIntervals s))) (\<lambda>intervals.
                (let n = (if tapCount s < 4 then tapCount s + 1 else tapCount s) in
                 bind_c (lift_c (tap_tempo n intervals (fxBpm s))) (\<lambda>bpm.
                 modify_c (\<lambda>s. s\<lparr>tapIntervals := intervals, tapPos := (tapPos s + 1) mod 4, tapCount := n,
                   fxBpm := bpm\<rparr>))))
              else ret ())
        (modify_c (\<lambda>s. s\<lparr>lastTapMs := now\<rparr>))))"

definition routeFxTap :: "request \<Rightarrow> (app, unit) cmd" where
  "routeFxTap r =
     bind_c millis (\<lambda>now.
     bind_c (locked 20 (ret False) (then_c (tap now) (ret True))) (\<lambda>ok.
     if ok then send 204 '''' else busy))" 

definition routeColorSet :: "request \<Rightarrow> (app, unit) cmd" where
  "routeColorSet r =
     under_lock 20
       ((\<lambda>s. if colorEnabled s then applyColorWash s else s) \<circ>
        if_arg r ''en'' (\<lambda>s. s\<lparr>colorEnabled := argInt r ''en'' \<noteq> 0\<rparr>) \<circ>
        if_arg r ''b'' (\<lambda>s. s\<lparr>colorB := level_of (argInt r ''b'')\<rparr>) \<circ>
        if_arg r ''g'' (\<lambda>s. s\<lparr>colorG := level_of (argInt r ''g'')\<rparr>) \<circ>
        if_arg r ''r'' (\<lambda>s. s\<lparr>colorR := level_of (argInt r ''r'')\<rparr>))
       (send 204 '''')"

section \<open>The fleet\<close>

definition or_queue_full :: "(app, bool) cmd \<Rightarrow> (app, unit) cmd" where
  "or_queue_full m = bind_c m (\<lambda>ok. if ok then send 204 '''' else send 503 ''queue full'')"

definition routePeerCmd :: "request \<Rightarrow> (app, unit) cmd" where
  "routePeerCmd r =
     (if \<not> hasArg r ''ip'' \<or> \<not> hasArg r ''path'' then send 400 ''missing arg''
      else if \<not> isAllowedPeerPath (c_str (arg r ''path'')) then send 400 ''unsupported path''
      else
        bind_c (locked 10 (ret False) (gets_c (\<lambda>s. list_ex (\<lambda>p. arg r ''ip'' = pr_ip p) (peers s)))) (\<lambda>known.
        if \<not> known then send 403 ''unknown peer''
        else or_queue_full (enqueueBcast (c_str (arg r ''path'')) (c_str (arg r ''ip'')))))"

definition routeNetBlackout :: "request \<Rightarrow> (app, unit) cmd" where
  "routeNetBlackout r = under_lock 20 (flood 0) (or_queue_full (enqueueBcast ''/blackout'' ''''))"

definition routeNetFull :: "request \<Rightarrow> (app, unit) cmd" where
  "routeNetFull r = under_lock 20 (flood 255) (or_queue_full (enqueueBcast ''/full'' ''''))"

definition bcast_master :: "(app, unit) cmd" where
  "bcast_master = bind_c (gets_c masterDimmer) (\<lambda>m.
     or_queue_full (enqueueBcast (take 23 (''/master?v='' @ dec (unat m))) ''''))"

definition routeNetMaster :: "request \<Rightarrow> (app, unit) cmd" where
  "routeNetMaster r =
     (if hasArg r ''v'' then under_lock 10 (\<lambda>s. s\<lparr>masterDimmer := level_of (argInt r ''v'')\<rparr>) bcast_master
      else bcast_master)"

definition routeNetSceneRecall :: "request \<Rightarrow> (app, unit) cmd" where
  "routeNetSceneRecall r =
     (if \<not> hasArg r ''n'' then send 400 ''missing n''
      else recall r (or_queue_full (enqueueBcast
        (take 55 (''/scene/recall?n='' @ dec (unat (scene_arg r)) @ ''&fade='' @ dec (unat (fade_arg r)))) '''')))"

section \<open>The table of routes\<close>

definition routes :: "string \<Rightarrow> (string \<times> (request \<Rightarrow> (app, unit) cmd)) list" where
  "routes fw_tag = [
     (''/set'', routeSet), (''/blackout'', routeBlackout), (''/full'', routeFull), (''/master'', routeMaster),
     (''/artnet/set'', routeArtNetSet fw_tag), (''/artout/set'', routeArtOutSet fw_tag),
     (''/mode/set'', routeModeSet fw_tag), (''/mode/fallback'', routeModeFallback fw_tag),
     (''/netmode/set'', routeNetModeSet fw_tag), (''/web/set'', routeWebSet fw_tag),
     (''/safety/set'', routeSafetySet fw_tag), (''/scene/save'', routeSceneSave),
     (''/scene/recall'', routeSceneRecall), (''/wifi/set'', routeWifiSet fw_tag),
     (''/wifi/forget'', routeWifiForget fw_tag), (''/node/set'', routeNodeSet fw_tag),
     (''/reboot'', routeReboot), (''/factory-reset'', routeFactoryReset), (''/artout/peer'', routeArtOutPeer),
     (''/fixture/set'', routeFixtureSet), (''/group/set'', routeGroupSet), (''/group/apply'', routeGroupApply),
     (''/cue/count'', routeCueCount), (''/cue/set'', routeCueSet), (''/cue/run'', routeCueRun),
     (''/cue/next'', routeCueNext), (''/fx/set'', routeFxSet), (''/fx/tap'', routeFxTap),
     (''/color/set'', routeColorSet), (''/peer/cmd'', routePeerCmd), (''/net/blackout'', routeNetBlackout),
     (''/net/full'', routeNetFull), (''/net/master'', routeNetMaster), (''/net/scene/recall'', routeNetSceneRecall)]"

end
