(* ===== verification/Vizzz_Report.thy ===== *)
theory Vizzz_Report
  imports Vizzz_Web
begin

text \<open>
  The JSON reports of the web server and the scan for WiFi networks. A report is built either with one
  \<^verbatim>\<open>snprintf\<close> or by a sequence of \<^verbatim>\<open>jsonAppend\<close> calls on a buffer of fixed size; both cut the text when the
  buffer is full. The arguments of one \<^verbatim>\<open>snprintf\<close> are evaluated in the order of the text.
\<close>

section \<open>Texts\<close>

text \<open>An object with its members, an array with its elements.\<close>

fun commas :: "string list \<Rightarrow> string" where
  "commas [] = []"
| "commas [x] = x"
| "commas (x # y # xs) = x @ '','' @ commas (y # xs)"

definition object :: "string list \<Rightarrow> string" where
  "object members = ''{'' @ commas members @ ''}''"

definition json_key :: "string \<Rightarrow> string" where
  "json_key k = quoted k @ '':''"

definition num_field :: "string \<Rightarrow> nat \<Rightarrow> string" where
  "num_field k n = json_key k @ dec n"

definition bool_text :: "bool \<Rightarrow> string" where
  "bool_text b = (if b then ''true'' else ''false'')"

definition bool_field :: "string \<Rightarrow> bool \<Rightarrow> string" where
  "bool_field k b = json_key k @ bool_text b"

text \<open>\<^verbatim>\<open>%d\<close>.\<close>

definition dec_int :: "int \<Rightarrow> string" where
  "dec_int i = (if i < 0 then ''-'' @ dec (nat (- i)) else dec (nat i))"

text \<open>\<^verbatim>\<open>snprintf\<close> into a buffer of \<open>n\<close> bytes.\<close>

definition snprintf :: "nat \<Rightarrow> string \<Rightarrow> string" where
  "snprintf n t = take (n - 1) t"

text \<open>The text so far and the position behind it, which is \<open>n\<close> after a text that did not fit.\<close>

definition jsonAppend :: "nat \<Rightarrow> string \<Rightarrow> string \<times> nat \<Rightarrow> string \<times> nat" where
  "jsonAppend n t = (\<lambda>(buf, pos).
     if n = 0 then (buf, pos)
     else if pos \<ge> n then (buf, n)
     else if length t \<ge> n - pos then (buf @ take (n - pos - 1) t, n)
     else (buf @ t, pos + length t))"

definition json_report :: "nat \<Rightarrow> string list \<Rightarrow> string" where
  "json_report n chunks = fst (fold (jsonAppend n) chunks ([], 0))"

text \<open>The loop over the elements: a comma before every one but the first.\<close>

definition with_commas :: "string list \<Rightarrow> string list" where
  "with_commas xs = concat (map (\<lambda>(i, x). if i = 0 then [x] else ['','', x]) (enumerate 0 xs))"

text \<open>The name of a group or fixture as a C string; without a terminator it runs out of the array.\<close>

definition name_string :: "bytes \<Rightarrow> string res" where
  "name_string bs = (if 0 \<in> set bs then Inr (map (\<lambda>b. char_of (unat b)) (takeWhile (\<lambda>b. b \<noteq> 0) bs)) else Inl Out_Of_Bounds)"

definition modeName :: "Mode \<Rightarrow> string" where
  "modeName m = (case m of MODE_WEB \<Rightarrow> ''WEB_ONLY'' | MODE_ARTNET \<Rightarrow> ''ARTNET_ONLY'' | MODE_HTP \<Rightarrow> ''MERGE_HTP'')"

definition netModeName :: "NetMode \<Rightarrow> string" where
  "netModeName m = (case m of NET_STA_ONLY \<Rightarrow> ''STA_ONLY'' | NET_AP_ONLY \<Rightarrow> ''AP_ONLY'' | NET_AP_STA \<Rightarrow> ''AP_STA'')"

definition fx_code :: "FxMode \<Rightarrow> nat" where
  "fx_code m = the (find_index (\<lambda>x. x = m) fx_modes)"

definition fxModeName :: "FxMode \<Rightarrow> string" where
  "fxModeName m = fx_names ! fx_code m"

definition sendJSON :: "string \<Rightarrow> (app, unit) cmd" where
  "sendJSON body = send 200 body"

section \<open>Status\<close>

definition status_text :: "app \<Rightarrow> string \<Rightarrow> string \<Rightarrow> string \<Rightarrow> int \<Rightarrow> string \<Rightarrow> string \<Rightarrow> string \<Rightarrow> string \<Rightarrow>
    bool \<Rightarrow> bool \<Rightarrow> u8 \<Rightarrow> int \<Rightarrow> string \<Rightarrow> nat \<Rightarrow> string" where
  "status_text s apIp staIp outTarget wlSt eName eSsid eStaSsid eMdns a sa apClients staRssi mac snapPeers =
     object [json_field ''ip'' apIp, json_field ''sta_ip'' staIp, bool_field ''sta_connected'' (wlSt = WL_CONNECTED),
       json_field ''sta_ssid'' eStaSsid, num_field ''wl_status'' (unat (of_int wlSt :: u8)),
       json_field ''ssid'' eSsid, json_field ''name'' eName, json_field ''mdns'' eMdns,
       num_field ''net_mode'' (unat (net_mode_code (netMode s))), json_field ''net_mode_name'' (netModeName (netMode s)),
       num_field ''net'' (unat (artNet s)), num_field ''subnet'' (unat (artSubnet s)), num_field ''uni'' (unat (artUni s)),
       num_field ''uni15'' (unat (universe s)),
       num_field ''mode'' (unat (mode_code (mode s))), json_field ''mode_name'' (modeName (mode s)),
       bool_field ''artnet_active'' a, bool_field ''sacn_active'' sa, bool_field ''ao'' (artOutEnabled s),
       bool_field ''web'' (webEnabled s), num_field ''dim'' (unat (masterDimmer s)), json_field ''ao_target'' outTarget,
       num_field ''ap_clients'' (unat apClients), json_key ''sta_rssi'' @ dec_int staRssi, json_field ''mac'' mac,
       num_field ''peer_count'' snapPeers, bool_field ''burn_safe'' (burnSafeMode s),
       bool_field ''artnet_fallback_to_web'' (artnetFallbackToWeb s),
       num_field ''safe_ceiling'' (unat (effectiveSafeMaxLevel s)),
       num_field ''safe_slew_step'' (unat (effectiveSafeSlewStep s))]"

definition fillStatusJSON :: "nat \<Rightarrow> (app, string) cmd" where
  "fillStatusJSON n =
     (if n = 0 then ret []
      else
        bind_c (call_code (Wifi Wifi_Status)) (\<lambda>wlSt.
        bind_c (call_code (Wifi Wifi_Soft_Ap_Ip)) (\<lambda>apIp.
        bind_c (if wlSt = WL_CONNECTED then bind_c (call_code (Wifi Wifi_Local_Ip)) (\<lambda>ip. ret (ipStr (of_int ip)))
                else ret []) (\<lambda>staIp.
        bind_c artOutTarget (\<lambda>target.
        bind_c (gets_c id) (\<lambda>s.
        bind_c (lift_c (jsonEsc 80 (nodeName s))) (\<lambda>eName.
        bind_c (lift_c (jsonEsc 80 (apSsid s))) (\<lambda>eSsid.
        bind_c (lift_c (jsonEsc 80 (staSSID s))) (\<lambda>eStaSsid.
        bind_c (lift_c (jsonEsc 60 (mdnsName s))) (\<lambda>eMdns.
        bind_c (call_code (Wifi Wifi_Ap_Clients)) (\<lambda>apClients.
        bind_c (if wlSt = WL_CONNECTED then call_code (Wifi Wifi_Rssi) else ret 0) (\<lambda>staRssi.
        bind_c (locked 2 (ret 0) (gets_c (\<lambda>s. length (peers s)))) (\<lambda>snapPeers.
        bind_c artnetActive (\<lambda>a.
        bind_c sacnActive (\<lambda>sa.
        bind_c (call_text (Wifi Wifi_Mac)) (\<lambda>mac.
        ret (snprintf n (status_text s (ipStr (of_int apIp)) staIp (ipStr target) wlSt eName eSsid eStaSsid eMdns
          a sa (of_int apClients) staRssi (c_str mac) snapPeers))))))))))))))))))"

definition statusJSON :: "(app, string) cmd" where
  "statusJSON = fillStatusJSON 800"

section \<open>Peers\<close>

definition peer_item :: "u32 \<Rightarrow> PeerNode \<Rightarrow> string res" where
  "peer_item now p =
     bind_r (jsonEsc 44 (pr_name p)) (\<lambda>eName.
     bind_r (jsonEsc 52 (pr_mdns p)) (\<lambda>eMdns.
     bind_r (jsonEsc 20 (pr_mac p)) (\<lambda>eMac.
     Inr (object [json_field ''name'' eName, json_field ''ip'' (pr_ip p), json_field ''mdns'' eMdns,
       json_field ''mac'' eMac, num_field ''age_s'' (unat ((now - pr_lastSeenMs p) div 1000))]))))"

text \<open>The items of a list, with the first fault when there is one.\<close>

fun items :: "('a \<Rightarrow> string res) \<Rightarrow> 'a list \<Rightarrow> string list res" where
  "items f [] = Inr []"
| "items f (x # xs) = bind_r (f x) (\<lambda>t. bind_r (items f xs) (\<lambda>ts. Inr (t # ts)))"

definition list_chunks :: "string \<Rightarrow> string list \<Rightarrow> string list" where
  "list_chunks header ts = header # with_commas ts @ ['']}'']"

definition count_header :: "nat \<Rightarrow> string \<Rightarrow> string" where
  "count_header n k = ''{'' @ num_field ''count'' n @ '','' @ json_key k @ ''[''"

definition peersJSON :: "(app, string) cmd" where
  "peersJSON =
     bind_c millis (\<lambda>now.
     bind_c (locked 10 (ret (count_header 0 ''peers'', []))
       (bind_c (gets_c peers) (\<lambda>ps.
        bind_c (lift_c (items (peer_item now) ps)) (\<lambda>ts. ret (count_header (length ps) ''peers'', ts))))) (\<lambda>(header, ts).
     ret (json_report 600 (list_chunks header ts))))"

section \<open>Levels\<close>

text \<open>\<^verbatim>\<open>%u,\<close> for every value but the last.\<close>

definition level_chunks :: "bytes \<Rightarrow> string list" where
  "level_chunks vals = map (\<lambda>(i, v). dec (unat v) @ (if i < length vals - 1 then '','' else [])) (enumerate 0 vals)"

definition page_chunks :: "nat \<Rightarrow> bytes \<Rightarrow> bytes \<Rightarrow> string list" where
  "page_chunks page snapWeb snapOut =
     [''{'' @ num_field ''page'' page @ '','' @ num_field ''base_ch'' (page * PAGE_SIZE + 1) @ '','' @ json_key ''web'' @ ''['']
     @ level_chunks snapWeb @ ['']'' @ '','' @ json_key ''out'' @ ''['']
     @ level_chunks snapOut @ ['']}'']"

definition pageJSON :: "nat \<Rightarrow> (app, string) cmd" where
  "pageJSON page0 =
     (let page = (if page0 \<ge> PAGE_COUNT then PAGE_COUNT - 1 else page0); base = page * PAGE_SIZE in
      bind_c (locked 10 (ret (replicate PAGE_SIZE 0, replicate PAGE_SIZE 0))
        (bind_c (gets_c id) (\<lambda>s.
         bind_c (lift_c (load base PAGE_SIZE (webVals s))) (\<lambda>snapWeb.
         bind_c (lift_c (load base PAGE_SIZE (outVals s))) (\<lambda>snapOut. ret (snapWeb, snapOut)))))) (\<lambda>(snapWeb, snapOut).
      ret (json_report 440 (page_chunks page snapWeb snapOut))))"

definition monitor_chunks :: "bool \<Rightarrow> bytes \<Rightarrow> string list" where
  "monitor_chunks bsy snapOut =
     [''{'' @ bool_field ''busy'' bsy @ '','' @ json_key ''out'' @ ''[''] @ level_chunks snapOut @ ['']}'']"

definition monitorJSON :: "(app, string) cmd" where
  "monitorJSON =
     bind_c (locked 10 (ret (True, replicate 64 0))
       (bind_c (gets_c outVals) (\<lambda>out.
        bind_c (lift_c (load 0 64 out)) (\<lambda>snapOut. ret (False, snapOut))))) (\<lambda>(bsy, snapOut).
     ret (json_report 360 (monitor_chunks bsy snapOut)))"

section \<open>Groups, fixtures and cues\<close>

definition group_item :: "nat \<times> GroupDef \<Rightarrow> string res" where
  "group_item = (\<lambda>(i, g).
     bind_r (name_string (g_name g)) (\<lambda>name.
     bind_r (jsonEsc 24 name) (\<lambda>eName.
     Inr (object [num_field ''id'' i, json_field ''name'' eName, num_field ''start'' (unat (g_start g)),
       num_field ''end'' (unat (g_end g)), bool_field ''enabled'' (g_enabled g)]))))"

definition blank_group :: GroupDef where
  "blank_group = \<lparr>g_name = replicate 16 0, g_start = 0, g_end = 0, g_enabled = False\<rparr>"

definition groupsJSON :: "(app, string) cmd" where
  "groupsJSON =
     bind_c (locked 10 (ret (replicate MAX_GROUPS blank_group)) (gets_c groups)) (\<lambda>snap.
     bind_c (lift_c (items group_item (enumerate 0 snap))) (\<lambda>ts.
     ret (json_report 900 (list_chunks (count_header MAX_GROUPS ''groups'') ts))))"

definition fixture_item :: "nat \<times> FixtureDef \<Rightarrow> string res" where
  "fixture_item = (\<lambda>(i, f).
     bind_r (name_string (f_name f)) (\<lambda>name.
     bind_r (jsonEsc 24 name) (\<lambda>eName.
     Inr (object [num_field ''id'' i, json_field ''name'' eName, num_field ''start'' (unat (f_start f)),
       num_field ''end'' (unat (f_end f)), num_field ''x'' (unat (f_x f)), num_field ''y'' (unat (f_y f)),
       bool_field ''enabled'' (f_enabled f)]))))"

definition fixturesJSON :: "(app, string) cmd" where
  "fixturesJSON =
     bind_c (locked 10 (ret (0, [])) (gets_c (\<lambda>s. (fixtureCount s, fixtures s)))) (\<lambda>(snapCount, snap).
     bind_c (lift_c (items fixture_item (enumerate 0 (take (min snapCount MAX_FIXTURES) snap)))) (\<lambda>ts.
     ret (json_report 1800 (list_chunks (count_header snapCount ''fixtures'') ts))))"

definition cue_item :: "nat \<times> CueStep \<Rightarrow> string" where
  "cue_item = (\<lambda>(i, c). object [num_field ''idx'' i, num_field ''scene'' (unat (c_scene c)),
     num_field ''dwell'' (unat (c_dwellMs c)), num_field ''fade'' (unat (c_fadeMs c))])"

definition cue_chunks :: "bool \<Rightarrow> nat \<Rightarrow> nat \<Rightarrow> u32 \<Rightarrow> CueStep list \<Rightarrow> string list" where
  "cue_chunks running n idx nextMs steps = list_chunks
     (''{'' @ commas [bool_field ''running'' running, num_field ''count'' n, num_field ''index'' idx,
        num_field ''next_ms'' (unat nextMs), json_key ''steps'' @ ''['']) (map cue_item (enumerate 0 steps))"

definition cueJSON :: "(app, string) cmd" where
  "cueJSON =
     bind_c (locked 10 (ret (False, 0, 0, 0, []))
       (gets_c (\<lambda>s. (cueRunning s, cueCount s, cueIndex s, cueNextMs s, take (min (cueCount s) MAX_CUES) (cueList s)))))
       (\<lambda>(running, n, idx, nextMs, steps). ret (json_report 1200 (cue_chunks running n idx nextMs steps)))"

section \<open>Effects, safety and manifest\<close>

definition fxJSON :: "(app, string) cmd" where
  "fxJSON =
     bind_c (locked 10 (ret (FX_NONE, False, 120, 255, (255, 255, 255), False))
       (gets_c (\<lambda>s. (fxMode s, fxEnabled s, fxBpm s, fxDepth s, (colorR s, colorG s, colorB s), colorEnabled s))))
       (\<lambda>(m, en, bpm, depth, (r, g, b), cEn).
     ret (snprintf 300 (object [bool_field ''enabled'' en, num_field ''mode'' (fx_code m),
       json_field ''mode_name'' (fxModeName m), num_field ''bpm'' (unat bpm), num_field ''depth'' (unat depth),
       bool_field ''color_en'' cEn, num_field ''r'' (unat r), num_field ''g'' (unat g), num_field ''b'' (unat b),
       num_field ''osc_port'' 9000])))"

definition safetyJSON :: "(app, string) cmd" where
  "safetyJSON =
     bind_c (gets_c id) (\<lambda>s.
     ret (snprintf 180 (object [bool_field ''burn_safe'' (burnSafeMode s),
       num_field ''safe_ceiling'' (unat (effectiveSafeMaxLevel s)),
       num_field ''safe_slew_step'' (unat (effectiveSafeSlewStep s)), num_field ''normal_ceiling'' (unat SAFE_MAX_LEVEL),
       num_field ''normal_slew_step'' (unat SAFE_SLEW_STEP),
       bool_field ''artnet_fallback_to_web'' (artnetFallbackToWeb s)])))"

definition manifest_routes :: "string list" where
  "manifest_routes = [
    ''/'', ''/control'', ''/patch'', ''/scenes'', ''/network'', ''/system'', ''/performance'', ''/vj'',
    ''/status'', ''/page'', ''/monitor'', ''/blackout'', ''/full'', ''/master'', ''/mode/set'',
    ''/netmode/set'', ''/web/set'', ''/artnet/set'', ''/artout/set'', ''/artout/peer'', ''/scene/save'',
    ''/scene/recall'', ''/wifi/scan'', ''/wifi/set'', ''/wifi/forget'', ''/node/set'', ''/reboot'',
    ''/discover'', ''/peers'', ''/peer/cmd'', ''/net/blackout'', ''/net/full'', ''/net/master'',
    ''/net/scene/recall'', ''/groups'', ''/group/set'', ''/group/apply'', ''/cue/status'', ''/cue/count'',
    ''/cue/set'', ''/cue/run'', ''/cue/next'', ''/fx/status'', ''/fx/set'', ''/fx/tap'', ''/color/set'',
    ''/node/manifest'', ''/manifest.json'']"

definition array :: "string list \<Rightarrow> string" where
  "array elems = ''['' @ commas elems @ '']''"

definition manifest_protocols :: "app \<Rightarrow> string \<Rightarrow> string" where
  "manifest_protocols s outTarget = array [
     object [json_field ''id'' ''http'', json_field ''role'' ''control'', json_key ''routes'' @ array (map quoted manifest_routes)],
     object [json_field ''id'' ''websocket'', json_field ''role'' ''live-status'', json_field ''endpoint'' ''/ws'',
       num_field ''push_ms'' 400],
     object [json_field ''id'' ''artnet'', json_field ''role'' ''input-output'', num_field ''port'' (unat ARTNET_PORT),
       num_field ''universe'' (unat (universe s)), json_field ''output_target'' outTarget,
       bool_field ''output_enabled'' (artOutEnabled s)],
     object [json_field ''id'' ''sacn'', json_field ''role'' ''input'', num_field ''port'' (unat SACN_PORT),
       num_field ''universe'' (unat (universe s))],
     object [json_field ''id'' ''osc'', json_field ''role'' ''input'', json_field ''transport'' ''udp'', num_field ''port'' 9000],
     object [json_field ''id'' ''dmx512'', json_field ''role'' ''physical-output'', num_field ''channels'' MAX_CH]]"

definition manifest_state :: "app \<Rightarrow> bool \<Rightarrow> bool \<Rightarrow> FxMode \<Rightarrow> bool \<Rightarrow> bool \<Rightarrow> string" where
  "manifest_state s a sa fx fxEn colorEn = object [json_field ''output_mode'' (modeName (mode s)),
     num_field ''master'' (unat (masterDimmer s)), bool_field ''artnet_active'' a, bool_field ''sacn_active'' sa,
     bool_field ''web_enabled'' (webEnabled s), json_field ''fx_mode'' (fxModeName fx), bool_field ''fx_enabled'' fxEn,
     bool_field ''color_enabled'' colorEn, bool_field ''burn_safe'' (burnSafeMode s),
     num_field ''safe_ceiling'' (unat (effectiveSafeMaxLevel s)),
     num_field ''safe_slew_step'' (unat (effectiveSafeSlewStep s))]"

definition nodeManifestJSON :: "string \<Rightarrow> (app, string) cmd" where
  "nodeManifestJSON fw_tag =
     bind_c (call_code (Wifi Wifi_Status)) (\<lambda>st.
     bind_c (locked 10 (ret (FX_NONE, False, False)) (gets_c (\<lambda>s. (fxMode s, fxEnabled s, colorEnabled s)))) (\<lambda>(fx, fxEn, colorEn).
     bind_c (gets_c id) (\<lambda>s.
     bind_c (lift_c (jsonEsc 80 (nodeName s))) (\<lambda>eName.
     bind_c (lift_c (jsonEsc 80 (apSsid s))) (\<lambda>eSsid.
     bind_c (lift_c (jsonEsc 80 (staSSID s))) (\<lambda>eStaSsid.
     bind_c (lift_c (jsonEsc 80 fw_tag)) (\<lambda>eFw.
     bind_c (call_code (Wifi Wifi_Soft_Ap_Ip)) (\<lambda>apIp.
     bind_c (if st = WL_CONNECTED then bind_c (call_code (Wifi Wifi_Local_Ip)) (\<lambda>ip. ret (ipStr (of_int ip))) else ret []) (\<lambda>staIp.
     bind_c (call_text (Wifi Wifi_Mac)) (\<lambda>mac.
     bind_c artOutTarget (\<lambda>target.
     bind_c artnetActive (\<lambda>a.
     bind_c sacnActive (\<lambda>sa.
     ret (snprintf 3400 (object [
       json_field ''schema'' ''vizzz.di.node.manifest.v1'', json_field ''kind'' ''firmware-node'',
       json_field ''product'' PRODUCT_NAME, json_field ''name'' eName,
       json_key ''firmware'' @ object [json_field ''tag'' eFw, json_field ''framework'' ''Arduino/PlatformIO''],
       json_key ''identity'' @ object [json_field ''mac'' (c_str mac), json_field ''ap_ssid'' eSsid, json_field ''sta_ssid'' eStaSsid],
       json_key ''network'' @ object [json_field ''mode'' (netModeName (netMode s)), json_field ''ap_ip'' (ipStr (of_int apIp)),
         bool_field ''sta_connected'' (st = WL_CONNECTED), json_field ''sta_ip'' staIp],
       json_key ''hardware'' @ object [json_field ''board'' ''ESP32 DevKit'', json_field ''dmx_uart'' ''DMX_NUM_1'',
         num_field ''dmx_tx_gpio'' 25, num_field ''dmx_dir_gpio'' 21, num_field ''max_channels'' MAX_CH,
         num_field ''dmx_period_ms'' (unat DMX_PERIOD_MS)],
       json_key ''protocols'' @ manifest_protocols s (ipStr target),
       json_key ''state'' @ manifest_state s a sa fx fxEn colorEn,
       json_key ''sync'' @ object [json_field ''source'' ''firmware'', json_field ''live_status'' ''/ws'',
         json_field ''durable_config'' ''ESP32 Preferences NVS'',
         json_field ''git_policy'' ''verify, commit, push origin/main'']])))))))))))))))"

section \<open>The scan for networks\<close>

definition WIFI_OFF :: int where [simp]: "WIFI_OFF = 0"
definition WIFI_STA :: int where [simp]: "WIFI_STA = 1"
definition WIFI_AP :: int where [simp]: "WIFI_AP = 2"
definition WIFI_AP_STA :: int where [simp]: "WIFI_AP_STA = 3"

definition startSoftAP :: "(app, unit) cmd" where
  "startSoftAP = bind_c (gets_c id) (\<lambda>s. call_u (Wifi (Wifi_Soft_Ap (apSsid s) (apPass s))))"

definition ensureStaInterface :: "(app, unit) cmd" where
  "ensureStaInterface =
     bind_c (call_code (Wifi Wifi_Get_Mode)) (\<lambda>wm.
     then_c (if wm = WIFI_OFF \<or> wm = WIFI_AP then
               bind_c (gets_c netMode) (\<lambda>nm.
               (let target = (if nm = NET_STA_ONLY then WIFI_STA else WIFI_AP_STA) in
                then_c (call_u (Wifi (Wifi_Set_Mode target)))
               (then_c (if target = WIFI_AP_STA then startSoftAP else ret ()) (call_u (Delay 200)))))
             else ret ())
       (call_u (Wifi (Wifi_Set_Sleep False))))"

definition WIFI_SCAN_RUNNING :: int where [simp]: "WIFI_SCAN_RUNNING = -1"
definition WIFI_SCAN_FAILED :: int where [simp]: "WIFI_SCAN_FAILED = -2"
definition WIFI_SCAN_TIMEOUT_MS :: u32 where [simp]: "WIFI_SCAN_TIMEOUT_MS = 15000"

definition scan_error :: "string \<Rightarrow> string" where
  "scan_error e = object [bool_field ''scanning'' False, json_field ''error'' e, json_key ''networks'' @ ''[]'']"

definition scan_running :: string where
  "scan_running = object [bool_field ''scanning'' True]"

text \<open>One network; the reply for its encryption is zero for an open network.\<close>

definition scan_item :: "nat \<Rightarrow> (app, string) cmd" where
  "scan_item i =
     bind_c (call_text (Wifi (Wifi_Scan_Ssid i))) (\<lambda>ssid.
     bind_c (lift_c (jsonEsc 70 ssid)) (\<lambda>ssidEsc.
     bind_c (call_code (Wifi (Wifi_Scan_Rssi i))) (\<lambda>rssi.
     bind_c (call_code (Wifi (Wifi_Scan_Auth i))) (\<lambda>auth.
     ret (snprintf 120 (object [json_field ''ssid'' ssidEsc, json_key ''rssi'' @ dec_int rssi, bool_field ''secure'' (auth \<noteq> 0)]))))))"

fun scan_items :: "nat list \<Rightarrow> (app, string list) cmd" where
  "scan_items [] = ret []"
| "scan_items (i # is) = bind_c (scan_item i) (\<lambda>t. bind_c (scan_items is) (\<lambda>ts. ret (t # ts)))"

definition scan_stop :: "(app, unit) cmd" where
  "scan_stop = then_c (call_u (Wifi Wifi_Scan_Delete)) (modify_c (\<lambda>s. s\<lparr>wifiScanActive := False\<rparr>))"

definition scan_start :: "(app, string) cmd" where
  "scan_start =
     then_c (call_u (Wifi Wifi_Scan_Delete))
    (then_c ensureStaInterface
    (then_c (modify_c (\<lambda>s. s\<lparr>wifiScanActive := True\<rparr>))
    (bind_c millis (\<lambda>now.
     then_c (modify_c (\<lambda>s. s\<lparr>wifiScanStartMs := now\<rparr>))
    (bind_c (call_code (Wifi Wifi_Scan_Start)) (\<lambda>rc.
     if rc = WIFI_SCAN_FAILED then
       then_c (modify_c (\<lambda>s. s\<lparr>wifiScanActive := False\<rparr>)) (ret (scan_error ''failed''))
     else ret scan_running))))))"

definition scan_results :: "nat \<Rightarrow> (app, string) cmd" where
  "scan_results n =
     then_c (modify_c (\<lambda>s. s\<lparr>wifiScanActive := False\<rparr>))
    (bind_c (scan_items [0..<n]) (\<lambda>ts.
     then_c (call_u (Wifi Wifi_Scan_Delete))
       (ret (''{'' @ bool_field ''scanning'' False @ '','' @ json_key ''networks'' @ ''['' @ concat (with_commas ts) @ '']}''))))"

definition wifiScanJSON :: "(app, string) cmd" where
  "wifiScanJSON =
     bind_c (call_code (Wifi Wifi_Scan_Complete)) (\<lambda>n.
     bind_c (gets_c id) (\<lambda>s.
     if n = WIFI_SCAN_RUNNING then
       bind_c (if wifiScanActive s then bind_c millis (\<lambda>now. ret (now - wifiScanStartMs s > WIFI_SCAN_TIMEOUT_MS))
               else ret False) (\<lambda>late.
       if late then then_c scan_stop (ret (scan_error ''timeout'')) else ret scan_running)
     else if wifiScanActive s \<and> n = WIFI_SCAN_FAILED then then_c scan_stop (ret (scan_error ''failed''))
     else if n < 0 \<and> \<not> wifiScanActive s then scan_start
     else if n < 0 then ret scan_running
     else scan_results (nat n)))"

section \<open>Discovery\<close>

definition routeDiscover :: "request \<Rightarrow> (app, unit) cmd" where
  "routeDiscover r =
     bind_c (gets_c id) (\<lambda>s.
     bind_c (lift_c (jsonEsc 64 (nodeName s))) (\<lambda>eName.
     bind_c (lift_c (jsonEsc 64 (apSsid s))) (\<lambda>eApSsid.
     bind_c (call_code (Wifi Wifi_Soft_Ap_Ip)) (\<lambda>apIp.
     bind_c (call_text (Wifi Wifi_Mac)) (\<lambda>mac.
     bind_c (call_code (Wifi Wifi_Local_Ip)) (\<lambda>ip.
     then_c (send 200 (snprintf 256 (object [json_field ''name'' eName, json_field ''ip'' (ipStr (of_int ip)),
         json_field ''ap_ip'' (ipStr (of_int apIp)), json_field ''ap_ssid'' eApSsid,
         json_field ''mdns'' (c_str (mdnsName s) @ ''.local''), json_field ''mac'' (c_str mac),
         json_field ''product'' ''vizzz.di''])))
       sendBeacon))))))"

section \<open>The web socket\<close>

text \<open>The status is pushed about every 400 milliseconds while a client is connected.\<close>

definition ws_push :: "u32 \<Rightarrow> (app, unit) cmd" where
  "ws_push now =
     bind_c (gets_c id) (\<lambda>s.
     if webEnabled s \<and> now - lastWs s \<ge> 400 then
       then_c (modify_c (\<lambda>s. s\<lparr>lastWs := now\<rparr>))
      (bind_c (call_code (Net Ws_Count)) (\<lambda>clients.
       then_c (if clients > 0 then bind_c (fillStatusJSON 800) (\<lambda>t. call_u (Net (Ws_Text t))) else ret ())
         (call_u (Net Ws_Cleanup))))
     else ret ())"

section \<open>Requests\<close>

definition page_arg :: "request \<Rightarrow> nat" where
  "page_arg r = (if hasArg r ''i'' then nat (constrain (argInt r ''i'') 0 (int PAGE_COUNT - 1)) else 0)"

definition json_route :: "(app, string) cmd \<Rightarrow> request \<Rightarrow> (app, unit) cmd" where
  "json_route m r = bind_c m sendJSON"

definition reports :: "string \<Rightarrow> (string \<times> (request \<Rightarrow> (app, unit) cmd)) list" where
  "reports fw_tag = [
     (''/status'', json_route statusJSON), (''/monitor'', json_route monitorJSON),
     (''/safety/status'', json_route safetyJSON), (''/node/manifest'', json_route (nodeManifestJSON fw_tag)),
     (''/manifest.json'', json_route (nodeManifestJSON fw_tag)), (''/page'', \<lambda>r. json_route (pageJSON (page_arg r)) r),
     (''/wifi/scan'', json_route wifiScanJSON), (''/discover'', routeDiscover), (''/peers'', json_route peersJSON),
     (''/groups'', json_route groupsJSON), (''/fixtures'', json_route fixturesJSON),
     (''/cue/status'', json_route cueJSON), (''/fx/status'', json_route fxJSON)]"

text \<open>A request to one of the routes; the page of the console leaves the state as it is.\<close>

definition http_request :: "string \<Rightarrow> string \<Rightarrow> request \<Rightarrow> (app, unit) cmd" where
  "http_request fw_tag path r = (case map_of (routes fw_tag @ reports fw_tag) path of
     None \<Rightarrow> ret () | Some route \<Rightarrow> route r)"

section \<open>Lemmas: the length of a report\<close>

lemma append_step:
  assumes "0 < n"
  shows "jsonAppend n t (take (n - 1) xs, min n (length xs)) = (take (n - 1) (xs @ t), min n (length (xs @ t)))"
proof -
  consider "n \<le> length xs" | "length xs < n" "n \<le> length xs + length t" | "length xs + length t < n" by linarith
  then show ?thesis
    using assms by cases (auto simp: jsonAppend_def min_def)
qed

lemma report_truncates: "0 < n \<Longrightarrow> json_report n chunks = take (n - 1) (concat chunks)"
proof -
  assume n: "0 < n"
  have "fold (jsonAppend n) chunks (take (n - 1) xs, min n (length xs)) =
      (take (n - 1) (xs @ concat chunks), min n (length (xs @ concat chunks)))" for xs
  proof (induction chunks arbitrary: xs)
    case (Cons t chunks)
    then show ?case by (simp only: fold_simps append_step [OF n] concat.simps append_assoc)
  qed simp
  from this [of "[]"] show ?thesis by (simp add: json_report_def)
qed

lemma length_dec: "n < 10 ^ k \<Longrightarrow> 0 < k \<Longrightarrow> length (dec n) \<le> k"
proof (induction k arbitrary: n)
  case (Suc k)
  show ?case
  proof (cases "n < 10")
    case True
    then show ?thesis by (subst dec.simps) simp
  next
    case False
    then have "0 < k" using Suc.prems by (cases k) auto
    moreover have "n div 10 < 10 ^ k" using Suc.prems by (simp add: div_less_iff_less_mult mult.commute)
    ultimately show ?thesis using Suc.IH [of "n div 10"] False by (subst dec.simps) simp
  qed
qed simp

lemma length_dec_u8: "length (dec (unat v)) \<le> 3" for v :: u8
  by (intro length_dec) (simp_all add: order_less_trans [OF unsigned_less])

lemma length_dec_u16: "length (dec (unat v)) \<le> 5" for v :: u16
  by (intro length_dec) (simp_all add: order_less_trans [OF unsigned_less])

lemma length_dec_u32: "length (dec (unat v)) \<le> 10" for v :: u32
  by (intro length_dec) (simp_all add: order_less_trans [OF unsigned_less])

lemma jsonEsc_length: "jsonEsc n src = Inr t \<Longrightarrow> length t < n"
  by (auto simp: jsonEsc_def Let_def split: if_splits)

lemma bool_text_length: "length (bool_text b) \<le> 5"
  by (simp add: bool_text_def)

lemmas text_defs = object_def json_key_def num_field_def bool_field_def json_field_def quoted_def count_header_def

lemma concat_bound: "\<forall>x \<in> set xs. length x \<le> k \<Longrightarrow> length (concat xs) \<le> length xs * k"
  by (induction xs) auto

lemma concat_nested: "concat (concat xss) = concat (map concat xss)"
  by (induction xss) auto

lemma with_commas_bound:
  assumes "\<forall>x \<in> set xs. length x \<le> k"
  shows "length (concat (with_commas xs)) \<le> length xs * (k + 1)"
proof -
  have "\<forall>y \<in> set (map concat (map (\<lambda>(i, x). if i = 0 then [x] else ['','', x]) (enumerate 0 xs))). length y \<le> k + 1"
    using assms by (auto simp: in_set_enumerate_eq) (metis le_SucI length_greater_0_conv nth_mem)
  from concat_bound [OF this] show ?thesis
    by (simp add: with_commas_def concat_nested)
qed

lemma level_chunks_bound: "length (concat (level_chunks vals)) \<le> length vals * 4"
proof -
  have "\<forall>x \<in> set (level_chunks vals). length x \<le> 4"
    using length_dec_u8 order_trans [OF length_dec_u8, of 4] by (auto simp: level_chunks_def)
  from concat_bound [OF this] show ?thesis by (simp add: level_chunks_def)
qed

lemma items_Inr:
  "items f xs = Inr ts \<Longrightarrow> length ts = length xs \<and> (\<forall>t \<in> set ts. \<exists>x \<in> set xs. f x = Inr t)"
  by (induction xs arbitrary: ts) (auto simp: bind_r_def split: sum.splits)

lemma items_enumerate:
  assumes "items f (enumerate 0 xs) = Inr ts" "t \<in> set ts"
  obtains i x where "i < length xs" "f (i, x) = Inr t"
  using items_Inr [OF assms(1)] assms(2) by (auto simp: in_set_enumerate_eq dest!: bspec)

lemma items_returns: "\<forall>x \<in> set xs. \<exists>t. f x = Inr t \<Longrightarrow> \<exists>ts. items f xs = Inr ts"
  by (induction xs) (auto simp: bind_r_def)

lemma group_item_length: "group_item (i, g) = Inr t \<Longrightarrow> i < 10 \<Longrightarrow> length t \<le> 83"
  using length_dec [of i 1] length_dec_u16 [of "g_start g"] length_dec_u16 [of "g_end g"]
    bool_text_length [of "g_enabled g"]
  by (auto simp: group_item_def bind_r_def text_defs dest!: jsonEsc_length split: sum.splits)

lemma fixture_item_length: "fixture_item (i, f) = Inr t \<Longrightarrow> i < 100 \<Longrightarrow> length t \<le> 100"
  using length_dec [of i 2] length_dec_u16 [of "f_start f"] length_dec_u16 [of "f_end f"]
    length_dec_u8 [of "f_x f"] length_dec_u8 [of "f_y f"] bool_text_length [of "f_enabled f"]
  by (auto simp: fixture_item_def bind_r_def text_defs dest!: jsonEsc_length split: sum.splits)

lemma cue_item_length: "i < 100 \<Longrightarrow> length (cue_item (i, c)) \<le> 59"
  using length_dec [of i 2] length_dec_u8 [of "c_scene c"] length_dec_u32 [of "c_dwellMs c"]
    length_dec_u32 [of "c_fadeMs c"]
  by (simp add: cue_item_def text_defs)

lemma list_report_complete:
  assumes "\<forall>t \<in> set ts. length t \<le> k" "length header + length ts * (k + 1) + 2 < n"
  shows "json_report n (list_chunks header ts) = concat (list_chunks header ts)"
  using with_commas_bound [OF assms(1)] assms(2) by (simp add: report_truncates list_chunks_def)

lemma page_report_complete:
  assumes "length web = PAGE_SIZE" "length out = PAGE_SIZE" "page < PAGE_COUNT"
  shows "json_report 440 (page_chunks page web out) = concat (page_chunks page web out)"
proof -
  have "length (dec page) \<le> 2" "length (dec (page * PAGE_SIZE + 1)) \<le> 3"
    using assms(3) by (auto intro!: length_dec)
  then show ?thesis
    using level_chunks_bound [of web] level_chunks_bound [of out] assms(1,2)
    by (simp add: report_truncates page_chunks_def text_defs)
qed

lemma monitor_report_complete:
  "length out = 64 \<Longrightarrow> json_report 360 (monitor_chunks b out) = concat (monitor_chunks b out)"
  using level_chunks_bound [of out] bool_text_length [of b]
  by (simp add: report_truncates monitor_chunks_def text_defs)

lemma group_report_complete:
  assumes "items group_item (enumerate 0 gs) = Inr ts" "length gs = MAX_GROUPS" "length k \<le> 10"
  shows "json_report 900 (list_chunks (count_header MAX_GROUPS k) ts) = concat (list_chunks (count_header MAX_GROUPS k) ts)"
proof -
  have "\<forall>t \<in> set ts. length t \<le> 83" "length ts = 8"
    using items_Inr [OF assms(1)] assms(2) by (auto elim!: items_enumerate [OF assms(1)] intro: group_item_length)
  then show ?thesis
    using assms(3) length_dec [of 8 1] by (intro list_report_complete [where k = 83]) (simp_all add: text_defs)
qed

lemma fixture_report_complete:
  assumes "items fixture_item (enumerate 0 fs) = Inr ts" "length fs \<le> MAX_FIXTURES" "n \<le> MAX_FIXTURES" "length k \<le> 10"
  shows "json_report 1800 (list_chunks (count_header n k) ts) = concat (list_chunks (count_header n k) ts)"
proof -
  have "\<forall>t \<in> set ts. length t \<le> 100" "length ts \<le> 12"
    using items_Inr [OF assms(1)] assms(2) by (auto elim!: items_enumerate [OF assms(1)] intro: fixture_item_length)
  then show ?thesis
    using assms(3,4) length_dec [of n 2] by (intro list_report_complete [where k = 100]) (simp_all add: text_defs)
qed

lemma cue_report_complete:
  assumes "length steps \<le> MAX_CUES" "n \<le> MAX_CUES" "i < 100"
  shows "json_report 1200 (cue_chunks running n i nextMs steps) = concat (cue_chunks running n i nextMs steps)"
proof -
  have "\<forall>t \<in> set (map cue_item (enumerate 0 steps)). length t \<le> 59"
    using assms(1) by (auto simp: in_set_enumerate_eq intro: cue_item_length)
  then show ?thesis
    unfolding cue_chunks_def
    using assms length_dec [of n 2] length_dec [of i 2] length_dec_u32 [of nextMs] bool_text_length [of running]
    by (intro list_report_complete [where k = 59]) (simp_all add: text_defs)
qed

text \<open>Four peers whose names and host names have the lengths that the table allows.\<close>

definition long_peer :: PeerNode where
  "long_peer = \<lparr>pr_name = replicate 39 (CHR ''n''), pr_ip = ''192.168.100.100'',
     pr_mdns = replicate 41 (CHR ''m'') @ ''.local'', pr_mac = ''00:11:22:33:44:55'', pr_lastSeenMs = 0\<rparr>"

definition crowded_node :: app where
  "crowded_node = boot_app (\<lambda>cs c. Answer 1 [] [])\<lparr>peers := replicate 4 long_peer\<rparr>"

lemma long_peer_item:
  obtains t where "peer_item 1 long_peer = Inr t" "length t = 166" "CHR '']'' \<notin> set t"
proof -
  have "map_sum id (\<lambda>t. (length t, CHR '']'' \<in> set t)) (peer_item 1 long_peer) = Inr (166, False)"
    by code_simp
  then show ?thesis by (cases "peer_item 1 long_peer") (auto intro: that)
qed

lemma report_open:
  assumes "length body \<ge> n - 1" "CHR '']'' \<notin> set body" "concat chunks = body @ rest" "0 < n"
  shows "length (json_report n chunks) = n - 1 \<and> CHR '']'' \<notin> set (json_report n chunks)"
  using assms by (auto simp: report_truncates dest: in_set_takeD)


end
