(* ===== verification/Vizzz_Loop.thy ===== *)
theory Vizzz_Loop
  imports Vizzz_Report
begin

text \<open>
  Start-up and the main loop, \<^verbatim>\<open>setup\<close> and \<^verbatim>\<open>loop\<close> of \<^verbatim>\<open>src/main.cpp\<close>. The wait for the WiFi connection may be as
  long as the clock stands still: it has the number of its rounds as an argument and faults with
  \<open>Loops_Forever\<close> when they are used up. The installation of the DMX driver is the subject of \<open>Dmx_Driver\<close>;
  the web server's own start is not modelled. The result of \<open>app_loop\<close> says whether the node restarts.
\<close>

section \<open>WiFi\<close>

fun wait_join :: "nat \<Rightarrow> u32 \<Rightarrow> (app, unit) cmd" where
  "wait_join 0 t = throw Loops_Forever"
| "wait_join (Suc k) t =
     bind_c (call_code (Wifi Wifi_Status)) (\<lambda>st.
     if st = WL_CONNECTED then ret ()
     else bind_c millis (\<lambda>now.
       if now - t < 10000 then then_c (call_u (Delay 100)) (wait_join k t) else ret ()))"

text \<open>The SSID of the access point is derived from the MAC address unless the user chose another one.\<close>

definition fix_ap_ssid :: "(app, unit) cmd" where
  "fix_ap_ssid =
     bind_c macSuffix6 (\<lambda>suffix.
     (let expected = AP_SSID_PREFIX @ ''_'' @ suffix in
      modify_c (\<lambda>s. if (apSsid s = '''' \<or> apSsid s \<noteq> expected) \<and> (apSsid s = '''' \<or> starts_with (apSsid s) AP_SSID_PREFIX)
        then s\<lparr>apSsid := expected, needSaveConfig := True\<rparr> else s)))"

definition soft_ap_fallback :: "(app, unit) cmd" where
  "soft_ap_fallback = then_c (call_u (Wifi (Wifi_Set_Mode WIFI_AP_STA))) startSoftAP"

definition startWiFi :: "nat \<Rightarrow> (app, unit) cmd" where
  "startWiFi rounds =
     bind_c (gets_c netMode) (\<lambda>nm.
     then_c (call_u (Wifi (Wifi_Set_Mode
       (case nm of NET_AP_ONLY \<Rightarrow> WIFI_AP | NET_STA_ONLY \<Rightarrow> WIFI_STA | NET_AP_STA \<Rightarrow> WIFI_AP_STA))))
    (then_c (call_u (Wifi (Wifi_Set_Sleep False)))
    (then_c fix_ap_ssid
    (then_c buildMdnsName
    (bind_c (gets_c id) (\<lambda>s.
     then_c (call_u (Wifi (Wifi_Set_Hostname (mdnsName s))))
    (then_c (if nm \<noteq> NET_STA_ONLY then startSoftAP else ret ())
    (if nm \<noteq> NET_AP_ONLY \<and> staSSID s \<noteq> '''' then
       then_c (call_u (Wifi (Wifi_Join (staSSID s) (staPass s))))
      (bind_c millis (\<lambda>t.
       then_c (wait_join rounds t)
         (if nm = NET_STA_ONLY then
            bind_c (call_code (Wifi Wifi_Status)) (\<lambda>st.
            if st \<noteq> WL_CONNECTED then soft_ap_fallback else ret ())
          else ret ())))
     else if nm = NET_STA_ONLY then soft_ap_fallback
     else ret ()))))))))"

section \<open>Start-up\<close>

definition setupDMX :: "(app, unit) cmd" where
  "setupDMX =
     then_c (call_u Dmx_Install)
    (then_c (call_u (Dmx_Set_Pin 25 21))
       (modify_c (\<lambda>s. s\<lparr>dmxFrame := replicate (MAX_CH + 1) 0\<rparr>)))"

text \<open>The console output at the end is left out.\<close>

definition app_setup :: "string \<Rightarrow> nat \<Rightarrow> (app, unit) cmd" where
  "app_setup fw_tag rounds =
     then_c (loadConfig fw_tag)
    (then_c initVjDefaults
    (then_c (modify_c (\<lambda>s. s\<lparr>webVals := replicate MAX_CH 0, artVals := replicate MAX_CH 0,
        sacnVals := replicate MAX_CH 0, outVals := replicate MAX_CH 0\<rparr>))
    (then_c setupDMX
    (then_c (startWiFi rounds)
    (bind_c (gets_c needSaveConfig) (\<lambda>need.
     then_c (if need then then_c (saveConfig fw_tag) (modify_c (\<lambda>s. s\<lparr>needSaveConfig := False\<rparr>)) else ret ())
    (then_c startMdns
    (then_c refreshArtNetSocket
    (then_c (call_u (Net (Udp_Begin Art_Out 0)))
    (then_c refreshSacnSocket
    (then_c (call_u (Net (Udp_Begin Discover DISCOVERY_PORT)))
    (then_c (call_u (Net (Udp_Begin Osc 9000)))
    (bind_c (gets_c webEnabled) (\<lambda>web.
     then_c (if web then then_c startBcastTask (ret ()) else ret ())
       (modify_c (\<lambda>s. s\<lparr>lastArtnetMs := 0, lastSacnMs := 0\<rparr>))))))))))))))))"

section \<open>The main loop\<close>

definition restart :: "nat \<Rightarrow> (app, bool) cmd" where
  "restart ms = then_c (call_u (Delay ms)) (then_c (call_u Restart) (ret True))"

definition factory_reset :: "(app, bool) cmd" where
  "factory_reset =
     then_c (modify_c (\<lambda>s. s\<lparr>pendingFactoryReset := False\<rparr>))
    (then_c (for_c [Prefs_Begin ''cfg'' False, Prefs_Clear, Prefs_End,
                    Prefs_Begin ''scenes'' False, Prefs_Clear, Prefs_End] prefs_u)
       (restart 80))"

definition wifi_requests :: "(app, unit) cmd" where
  "wifi_requests =
     bind_c (gets_c id) (\<lambda>s.
     then_c (if pendingWifiForget s then
               then_c (modify_c (\<lambda>s. s\<lparr>pendingWifiForget := False\<rparr>)) (call_u (Wifi Wifi_Disconnect))
             else ret ())
       (if pendingWifiReconnect s then
          then_c (modify_c (\<lambda>s. s\<lparr>pendingWifiReconnect := False\<rparr>))
         (then_c (call_u (Wifi Wifi_Scan_Delete))
         (then_c (modify_c (\<lambda>s. s\<lparr>wifiScanActive := False\<rparr>))
         (then_c ensureStaInterface
           (bind_c (gets_c id) (\<lambda>s. call_u (Wifi (Wifi_Join (staSSID s) (staPass s))))))))
        else ret ()))"

definition wifi_changes :: "(app, unit) cmd" where
  "wifi_changes =
     bind_c (call_code (Wifi Wifi_Status)) (\<lambda>cur.
     bind_c (gets_c prevWiFiStatus) (\<lambda>prev.
     if cur \<noteq> prev then
       then_c (modify_c (\<lambda>s. s\<lparr>prevWiFiStatus := cur\<rparr>))
      (then_c (if cur = WL_CONNECTED then then_c startMdns sendBeacon else ret ())
      (then_c refreshArtNetSocket refreshSacnSocket))
     else ret ()))"

text \<open>One frame: the fade, the output and the packets.\<close>

definition output_cycle :: "(FixtureDef \<Rightarrow> u32 \<Rightarrow> u32 \<Rightarrow> u8) \<Rightarrow> u32 \<Rightarrow> (app, unit) cmd" where
  "output_cycle radar now =
     bind_c (gets_c lastDmx) (\<lambda>last.
     if now - last \<ge> DMX_PERIOD_MS then
       then_c (modify_c (\<lambda>s. s\<lparr>lastDmx := now\<rparr>))
      (then_c (locked 10 (ret ())
         (then_c updateFade_locked
         (bind_c artnetActive (\<lambda>a.
          bind_c sacnActive (\<lambda>sa.
          modify_c (computeOutput radar a sa now))))))
      (then_c sendDMX sendArtNetOut))
     else ret ())"

definition app_loop :: "(FixtureDef \<Rightarrow> u32 \<Rightarrow> u32 \<Rightarrow> u8) \<Rightarrow> (u32 \<Rightarrow> int) \<Rightarrow> string \<Rightarrow> (app, bool) cmd" where
  "app_loop radar undef junk =
     bind_c (gets_c id) (\<lambda>s.
     if pendingReboot s then restart 150
     else if pendingFactoryReset s then factory_reset
     else
       then_c wifi_requests
      (then_c pollArtNet
      (then_c pollSacn
      (then_c (pollOsc undef)
      (then_c wifi_changes
      (bind_c millis (\<lambda>now.
       then_c (tickCueEngine now)
      (then_c (output_cycle radar now)
      (then_c (bind_c (gets_c lastBeacon) (\<lambda>last.
         if now - last \<ge> 30000 then then_c (modify_c (\<lambda>s. s\<lparr>lastBeacon := now\<rparr>)) sendBeacon else ret ()))
      (then_c (pollDiscovery junk)
      (then_c (bind_c (gets_c lastExpiry) (\<lambda>last.
         if now - last \<ge> 10000 then then_c (modify_c (\<lambda>s. s\<lparr>lastExpiry := now\<rparr>)) (expire_peers now) else ret ()))
      (then_c (ws_push now)
         (ret False)))))))))))))"

end
