(* ===== verification/Vizzz_Invariant.thy ===== *)
theory Vizzz_Invariant
  imports Vizzz_Loop
begin

text \<open>
  The firmware never faults. \<open>wf_app\<close> collects the sizes of the arrays and the ranges of the counters
  and indices that address them; every route, every packet handler and the main loop run under it. The
  locale \<open>app_invariant\<close> holds what is true of the commands that only talk to the libraries, for every
  invariant that ignores the history of calls; it is interpreted for \<open>wf_app\<close> and for \<open>booting\<close>, the
  invariant of start-up. The last section shows that start-up ends when the clock runs.
\<close>

section \<open>Access to fixed arrays\<close>

lemma runs_at: "i < length xs \<Longrightarrow> runs I (f (xs ! i)) \<Longrightarrow> runs I (bind_c (lift_c (at i xs)) f)"
  by (simp add: at_def runs_def lift_c_def bind_c_def)

lemma runs_put_at: "i < length xs \<Longrightarrow> runs I (f (xs[i := x])) \<Longrightarrow> runs I (bind_c (lift_c (put_at i x xs)) f)"
  by (simp add: put_at_def runs_def lift_c_def bind_c_def)

lemma runs_load:
  "off + n \<le> length xs \<Longrightarrow> runs I (f (slice off n xs)) \<Longrightarrow> runs I (bind_c (lift_c (load off n xs)) f)"
  by (simp add: load_def runs_def lift_c_def bind_c_def)

lemma runs_prod: "(\<And>a b. runs I (f a b)) \<Longrightarrow> runs I (case p of (a, b) \<Rightarrow> f a b)"
  by (cases p) simp

lemma json_returns: "0 < n \<Longrightarrow> \<exists>t. jsonEsc n src = Inr t"
  using json_esc_loop_pieces [of "[]" n src] by (auto simp: jsonEsc_def Let_def)

text \<open>A command that runs under an invariant and whose result satisfies a predicate.\<close>

definition yields :: "('s \<Rightarrow> bool) \<Rightarrow> ('a \<Rightarrow> bool) \<Rightarrow> ('s, 'a) cmd \<Rightarrow> bool" where
  "yields I P m \<longleftrightarrow> (\<forall>s. I s \<longrightarrow> (\<exists>a s'. m s = Inr (a, s') \<and> I s' \<and> P a))"

lemma yields_runs: "yields I P m \<Longrightarrow> runs I m"
  unfolding yields_def runs_def by blast

lemma yields_ret: "P a \<Longrightarrow> yields I P (ret a)"
  by (simp add: yields_def)

lemma yields_bind: "yields I Q m \<Longrightarrow> (\<And>a. Q a \<Longrightarrow> yields I P (f a)) \<Longrightarrow> yields I P (bind_c m f)"
  unfolding yields_def by (metis bind_c_Inr)

lemma yields_call: "runs I m \<Longrightarrow> (\<And>a. yields I P (f a)) \<Longrightarrow> yields I P (bind_c m f)"
  unfolding yields_def runs_def by (metis bind_c_Inr)

lemma yields_then: "runs I m \<Longrightarrow> yields I P n \<Longrightarrow> yields I P (then_c m n)"
  unfolding then_c_def by (rule yields_call)

lemma yields_lift: "r = Inr a \<Longrightarrow> yields I P (f a) \<Longrightarrow> yields I P (bind_c (lift_c r) f)"
  by (simp add: yields_def lift_c_def bind_c_def)

lemma yields_get: "(\<And>s. I s \<Longrightarrow> P (g s)) \<Longrightarrow> yields I P (gets_c g)"
  by (simp add: yields_def)

lemma yields_bind_get: "(\<And>s. I s \<Longrightarrow> yields I P (f (g s))) \<Longrightarrow> yields I P (bind_c (gets_c g) f)"
  by (auto simp: yields_def gets_c_def bind_c_def)

lemma yields_load:
  "off + n \<le> length xs \<Longrightarrow> yields I P (f (slice off n xs)) \<Longrightarrow> yields I P (bind_c (lift_c (load off n xs)) f)"
  by (rule yields_lift) (simp_all add: load_def)

section \<open>Invariants of the state\<close>

text \<open>
  An invariant that does not depend on the history of calls. The rules say which commands run under
  it; the laws of the locale are all that they need.
\<close>

locale app_invariant =
  fixes I :: "app \<Rightarrow> bool"
  assumes history: "I s \<Longrightarrow> I (s\<lparr>app_calls := cs\<rparr>)"
begin

lemma runs_call: "runs I (call c)" "runs I (call_u c)" "runs I (call_code c)" "runs I (call_text c)"
  "runs I (prefs_u p)" "runs I millis"
  using history by (auto simp: runs_def call_simps)

lemma runs_get: "(\<And>s. I s \<Longrightarrow> runs I (f (g s))) \<Longrightarrow> runs I (bind_c (gets_c g) f)"
  by (auto simp: runs_def bind_c_def gets_c_def)

lemma runs_locked: "runs I b \<Longrightarrow> runs I m \<Longrightarrow> runs I (locked ms b m)"
  unfolding locked_def by (intro runs_bind runs_call runs_if runs_then runs_pure)

lemma runs_under_lock:
  "(\<And>s. I s \<Longrightarrow> I (f s)) \<Longrightarrow> runs I k \<Longrightarrow> runs I (under_lock ms f k)"
  unfolding under_lock_def busy_def send_def
  by (intro runs_bind runs_locked runs_then runs_if runs_call runs_pure runs_modify)

lemma runs_send: "runs I (send code body)" "runs I busy"
  by (simp_all add: send_def busy_def runs_call)

lemma runs_poll: "(\<And>pkt. runs I (f pkt)) \<Longrightarrow> runs I (poll_udp sock cap k f)"
  by (induction k) (auto intro!: runs_bind runs_call runs_then runs_pure)

lemma runs_option: "runs I n \<Longrightarrow> (\<And>x. runs I (f x)) \<Longrightarrow> runs I (case p of None \<Rightarrow> n | Some x \<Rightarrow> f x)"
  by (cases p) auto

text \<open>What only talks to the libraries.\<close>

lemma runs_quiet:
  "runs I (saveConfig fw)" "runs I saveFixtures" "runs I (saveScene n vals)" "runs I (loadScene n)"
  "runs I broadcast_ip" "runs I artOutTarget" "runs I refreshArtNetSocket" "runs I refreshSacnSocket"
  "runs I (sendPeerGet ip path)" "runs I (enqueueBcast path ip)" "runs I artnetActive" "runs I sacnActive"
  "runs I sendDMX" "runs I startSoftAP" "runs I ensureStaInterface" "runs I (restart ms)"
  unfolding saveConfig_def saveFixtures_def saveScene_def loadScene_def broadcast_ip_def artOutTarget_def
    refreshArtNetSocket_def refreshSacnSocket_def sendPeerGet_def enqueueBcast_def artnetActive_def
    sacnActive_def sendDMX_def startSoftAP_def ensureStaInterface_def restart_def Let_def
  by (intro runs_bind runs_then runs_call runs_pure runs_if runs_for)+

lemma runs_scene:
  "(\<And>target. length target = MAX_CH \<Longrightarrow> runs I (f target)) \<Longrightarrow> runs I (bind_c (loadScene n) f)"
  using history by (auto simp: runs_def loadScene_def call_simps)

lemma runs_json: "0 < n \<Longrightarrow> runs I (lift_c (jsonEsc n src))"
  using json_returns [of n src] by (auto intro: runs_pure)

lemma yields_locked: "yields I P b \<Longrightarrow> yields I P m \<Longrightarrow> yields I P (locked ms b m)"
  unfolding locked_def
  by (intro yields_call runs_call) (auto intro!: yields_bind [where Q = P] yields_then runs_call yields_ret)

lemma runs_sendBeacon: "runs I sendBeacon"
  unfolding sendBeacon_def Let_def
  by (intro runs_bind runs_call runs_if runs_pure runs_quiet runs_json) simp_all

lemma runs_bcast: "runs I (bcastTask_entry path ip)"
  unfolding bcastTask_entry_def
  by (intro runs_if runs_pure runs_then runs_quiet runs_bind runs_locked runs_for runs_call)

lemma runs_or_queue_full: "runs I m \<Longrightarrow> runs I (or_queue_full m)"
  unfolding or_queue_full_def by (intro runs_bind runs_if runs_send)

lemmas quiet = runs_call runs_send runs_quiet runs_pure

end
section \<open>Well-formed states\<close>

text \<open>
  The sizes of the arrays, the counters and indices that the code uses to address them, and the
  terminators of the names.
\<close>

definition wf_levels :: "app \<Rightarrow> bool" where
  "wf_levels s \<longleftrightarrow> length (webVals s) = MAX_CH \<and> length (artVals s) = MAX_CH \<and> length (sacnVals s) = MAX_CH \<and>
     length (outVals s) = MAX_CH \<and> length (dmxFrame s) = MAX_CH + 1 \<and> length (fadeFrom s) = MAX_CH \<and>
     length (fadeTo s) = MAX_CH \<and> 1 \<le> fadeTimeMs s"

definition wf_names :: "app \<Rightarrow> bool" where
  "wf_names s \<longleftrightarrow> list_all (\<lambda>g. 0 \<in> set (g_name g)) (groups s) \<and> list_all (\<lambda>f. 0 \<in> set (f_name f)) (fixtures s)"

definition wf_show :: "app \<Rightarrow> bool" where
  "wf_show s \<longleftrightarrow> wf_names s \<and> length (groups s) = MAX_GROUPS \<and> length (fixtures s) = MAX_FIXTURES \<and>
     fixtureCount s \<le> MAX_FIXTURES \<and> length (cueList s) = MAX_CUES \<and> cueCount s \<le> MAX_CUES \<and>
     (cueIndex s < cueCount s \<or> cueIndex s = 0) \<and> 20 \<le> fxBpm s \<and> fxBpm s \<le> 240 \<and>
     length (peers s) \<le> MAX_PEERS \<and> distinct_macs (peers s)"

text \<open>The ring of the taps: the first entries, as many as were stored, are plausible intervals.\<close>

definition interval_ok :: "u32 \<Rightarrow> bool" where
  "interval_ok dt \<longleftrightarrow> 150 \<le> dt \<and> dt \<le> 2000"

definition wf_ring :: "u32 list \<Rightarrow> nat \<Rightarrow> nat \<Rightarrow> bool" where
  "wf_ring intervals pos n \<longleftrightarrow> length intervals = 4 \<and> n \<le> 4 \<and> pos < 4 \<and> (n < 4 \<longrightarrow> pos = n) \<and>
     list_all interval_ok (take n intervals)"

definition wf_app :: "app \<Rightarrow> bool" where
  "wf_app s \<longleftrightarrow> wf_levels s \<and> wf_show s \<and> wf_ring (tapIntervals s) (tapPos s) (tapCount s)"

lemmas wf_defs = wf_app_def wf_levels_def wf_show_def wf_names_def

interpretation wf: app_invariant wf_app
  by unfold_locales (simp add: wf_defs)

lemma wf_set_channel: "ch < MAX_CH \<Longrightarrow> runs wf_app (set_channels [ch] v)"
  unfolding set_channels_def for_c.simps
  by (intro runs_then runs_pure wf.runs_get runs_put_at runs_modify) (auto simp: wf_defs)

lemma set_channels_Cons: "set_channels (ch # chs) v = then_c (set_channels [ch] v) (set_channels chs v)"
  by (simp add: set_channels_def then_c_def bind_c_def ret_def fun_eq_iff split: sum.splits)

lemma wf_set_channels: "\<forall>ch \<in> set chs. ch < MAX_CH \<Longrightarrow> runs wf_app (set_channels chs v)"
proof (induction chs)
  case Nil
  show ?case unfolding set_channels_def for_c.simps by (rule runs_pure)
next
  case (Cons ch chs)
  then show ?case by (subst set_channels_Cons) (intro runs_then wf_set_channel, auto)
qed

lemma constrain_bounds: "lo \<le> hi \<Longrightarrow> lo \<le> constrain x lo hi \<and> constrain x lo hi \<le> hi"
  for x :: "'a :: linorder"
  by (auto simp: constrain_def)

lemma channel_range_bound: "ch \<in> set (channel_range lo hi) \<Longrightarrow> ch < MAX_CH"
  using constrain_bounds [of 1 "int MAX_CH" "uint lo"]
    constrain_bounds [of "constrain (uint lo) 1 (int MAX_CH)" "int MAX_CH" "uint hi"]
  by (auto simp: channel_range_def Let_def)

lemma wf_bpm: "20 \<le> (of_int (constrain v 20 240) :: u16) \<and> (of_int (constrain v 20 240) :: u16) \<le> 240"
proof -
  have "20 \<le> constrain v 20 240 \<and> constrain v 20 240 \<le> 240" by (rule constrain_bounds) simp
  then obtain x where "constrain v 20 240 = x" "20 \<le> x" "x \<le> 240" by blast
  then show ?thesis by (simp add: word_le_def uint_word_of_int_eq take_bit_int_eq_self)
qed

lemma wf_colour: "wf_app s \<Longrightarrow> wf_app (applyColorWash s)"
  by (simp add: applyColorWash_def wf_defs)

lemma wf_startFade: "length target = MAX_CH \<Longrightarrow> runs wf_app (startFade_locked target ms)"
  unfolding startFade_locked_def
  by (intro runs_bind wf.quiet runs_modify) (simp add: wf_defs word_le_def word_less_def)
section \<open>Every operation keeps the state well-formed\<close>

lemmas wf_rules = wf.quiet wf.runs_locked wf.runs_under_lock wf.runs_or_queue_full runs_if runs_then runs_modify

lemma wf_trigger: "runs wf_app (triggerCueStep idx)"
proof -
  have start: "runs wf_app (locked 20 (ret ()) (then_c (startFade_locked target (c_fadeMs c))
      (bind_c millis (\<lambda>now. modify_c (\<lambda>s. s\<lparr>cueNextMs := now + c_fadeMs c + c_dwellMs c\<rparr>)))))"
    if "length target = MAX_CH" for target c
    using that by (intro wf.runs_locked runs_pure runs_then wf_startFade runs_bind wf.quiet runs_modify) (simp_all add: wf_defs)
  have read: "runs wf_app (locked 20 (ret None) (bind_c (gets_c id) (\<lambda>s.
      if idx \<ge> cueCount s then ret None else bind_c (lift_c (at idx (cueList s))) (\<lambda>c. ret (Some c)))))"
    by (intro wf.runs_locked runs_pure wf.runs_get runs_if runs_at) (auto simp: wf_defs)
  show ?thesis
    unfolding triggerCueStep_def
    by (intro runs_bind [OF read] wf.runs_option runs_pure wf.runs_scene start)
qed

lemma wf_cue_index: "wf_app s \<Longrightarrow> cueCount s \<noteq> 0 \<Longrightarrow> wf_app (s\<lparr>cueIndex := i mod cueCount s\<rparr>)"
  by (simp add: wf_defs)

text \<open>The next cue, as the engine and the web route choose it.\<close>

lemma wf_next_cue:
  "runs wf_app (bind_c (gets_c id) (\<lambda>s. if P s \<or> cueCount s = 0 \<or> Q s then ret a
     else (let i = (cueIndex s + 1) mod cueCount s in then_c (modify_c (\<lambda>s. s\<lparr>cueIndex := i\<rparr>)) (ret (b i)))))"
  by (auto simp: runs_def bind_c_def gets_c_def modify_c_def then_c_def ret_def Let_def wf_cue_index)

lemma wf_tick: "runs wf_app (tickCueEngine now)"
  unfolding tickCueEngine_def
  by (intro runs_bind wf.runs_locked runs_pure wf_next_cue [where P = "\<lambda>s. \<not> cueRunning s" and Q = "\<lambda>s. now < cueNextMs s"]
      wf.runs_option wf_trigger)

lemma artnet_levels_length: "artnet_levels u pkt = Some vals \<Longrightarrow> length vals = MAX_CH"
  by (auto simp: artnet_levels_def Let_def split: if_splits)

lemma sacn_levels_length: "sacn_levels u pkt = Some vals \<Longrightarrow> length vals = MAX_CH"
  by (auto simp: sacn_levels_def Let_def split: if_splits)

lemma wf_artnet: "runs wf_app pollArtNet"
  unfolding pollArtNet_def artnet_packet_def
  by (intro wf.runs_poll wf.runs_get)
    (auto intro!: runs_pure runs_then runs_bind wf.quiet runs_modify split: option.split
      dest!: artnet_levels_length simp: wf_defs)

lemma wf_sacn: "runs wf_app pollSacn"
  unfolding pollSacn_def sacn_packet_def
  by (intro wf.runs_poll wf.runs_get)
    (auto intro!: runs_pure runs_then runs_bind wf.quiet runs_modify split: option.split
      dest!: sacn_levels_length simp: wf_defs)

lemma wf_cue_start:
  "wf_app s \<Longrightarrow> wf_app (if cueRunning s then s\<lparr>cueIndex := 0\<rparr> else s)"
  "wf_app s \<Longrightarrow> wf_app (s\<lparr>cueRunning := b\<rparr>)"
  by (auto simp: wf_defs)

lemma wf_osc_group:
  assumes "g < MAX_GROUPS"
  shows "runs wf_app (bind_c (gets_c groups) (\<lambda>gs. bind_c (lift_c (at g gs)) (\<lambda>grp.
     if \<not> g_enabled grp then ret () else set_channels (channel_range (g_start grp) (g_end grp)) v)))"
  using assms
  by (intro wf.runs_get runs_at runs_if runs_pure wf_set_channels) (auto simp: wf_defs dest: channel_range_bound)

lemma wf_osc: "runs wf_app (pollOsc undef)"
proof -
  have run: "runs wf_app (osc_cue_run v)" for v
    unfolding osc_cue_run_def
    by (intro runs_bind wf.runs_locked runs_pure runs_then runs_modify wf_cue_start runs_if wf_trigger)
  have colour: "runs wf_app (osc_color f)" if "\<And>s. wf_app s \<Longrightarrow> wf_app (f s)" for f
    unfolding osc_color_def
    by (intro wf.runs_locked runs_pure runs_modify wf_colour) (use that in \<open>simp add: wf_defs\<close>)
  have "runs wf_app (osc_dispatch addr v)" for addr v
    unfolding osc_dispatch_def Let_def
    by (intro runs_if runs_pure wf.runs_locked wf_set_channel wf_osc_group wf.runs_scene wf_startFade run colour
        runs_modify) (auto simp: wf_defs wf_bpm)
  then show ?thesis
    unfolding pollOsc_def osc_packet_def by (intro wf.runs_poll) (auto intro!: runs_pure split: option.split)
qed

lemma wf_peers: "length ps \<le> MAX_PEERS \<Longrightarrow> length (update_peers e ip mac ps) \<le> MAX_PEERS"
  by (auto simp: update_peers_def split: option.split)

lemma wf_update_peers:
  "wf_app s \<Longrightarrow> length mac < 18 \<Longrightarrow> wf_app (s\<lparr>peers := update_peers (peer_entry name ip mdns mac now) ip mac (peers s)\<rparr>)"
  using wf_peers distinct_update by (auto simp: wf_defs simp del: MAX_PEERS_def)

lemma wf_beacon: "runs wf_app (pollDiscovery junk)"
proof -
  have "runs wf_app (beacon_packet junk pkt)" for pkt
    unfolding beacon_packet_def Let_def
    by (intro runs_if runs_pure)
      (auto intro!: runs_if runs_pure runs_bind wf.quiet wf.runs_locked runs_then runs_modify wf.runs_sendBeacon
        wf_update_peers split: option.split dest!: extract_length)
  then show ?thesis unfolding pollDiscovery_def by (rule wf.runs_poll)
qed
section \<open>The tempo\<close>

lemma interval_sum:
  "list_all interval_ok xs \<Longrightarrow> length xs \<le> 4 \<Longrightarrow>
     150 * length xs \<le> unat (sum_list xs) \<and> unat (sum_list xs) \<le> 2000 * length xs"
proof (induction xs)
  case (Cons x xs)
  then have *: "150 * length xs \<le> unat (sum_list xs)" "unat (sum_list xs) \<le> 2000 * length xs"
    "150 \<le> unat x" "unat x \<le> 2000" "length xs \<le> 3"
    by (auto simp: interval_ok_def word_le_nat_alt)
  then have "unat (x + sum_list xs) = unat x + unat (sum_list xs)"
    by (intro unat_add_lem [THEN iffD1]) simp
  then show ?case using * by simp
qed simp

lemma tap_tempo_ok:
  assumes "list_all interval_ok (take n intervals)" "0 < n" "n \<le> 4" "length intervals = 4"
  shows "\<exists>b. tap_tempo n intervals bpm = Inr b \<and> 20 \<le> b \<and> b \<le> 240"
proof -
  let ?sum = "sum_list (take n intervals)"
  let ?bpm = "constrain (60000 div (?sum div of_nat n)) 20 240"
  have sum: "150 * n \<le> unat ?sum" using interval_sum [of "take n intervals"] assms by simp
  have "n = 1 \<or> n = 2 \<or> n = 3 \<or> n = 4" using assms by auto
  then have n: "unat (of_nat n :: u32) = n" by auto
  have "150 \<le> unat ?sum div n" using sum assms by (simp add: less_eq_div_iff_mult_less_eq)
  then have avg: "?sum div of_nat n \<noteq> 0" using n by (auto simp: unat_div unat_eq_zero [symmetric] simp del: unat_eq_zero)
  have "0 < unat ?sum" using sum assms by linarith
  then have pos: "?sum > 0" by (simp add: word_less_nat_alt)
  have "20 \<le> ?bpm \<and> ?bpm \<le> 240" by (rule constrain_bounds) simp
  then obtain x :: u32 where x: "?bpm = x" "20 \<le> unat x" "unat x \<le> 240" by (auto simp: word_le_nat_alt)
  have "unat (ucast x :: u16) = unat x" using x by (simp add: unsigned_ucast_eq take_bit_nat_eq_self)
  then have "20 \<le> (ucast x :: u16) \<and> (ucast x :: u16) \<le> 240" using x by (simp add: word_le_nat_alt)
  then show ?thesis using avg pos x by (simp add: tap_tempo_def Let_def)
qed

lemma ring_push:
  assumes "wf_ring intervals pos n" "interval_ok dt"
  shows "wf_ring (intervals[pos := dt]) ((pos + 1) mod 4) (if n < 4 then n + 1 else n)"
proof -
  have n: "length intervals = 4" "n \<le> 4" "pos < 4" "n < 4 \<Longrightarrow> pos = n" "list_all interval_ok (take n intervals)"
    using assms by (auto simp: wf_ring_def)
  show ?thesis
  proof (cases "n < 4")
    case True
    then show ?thesis using n assms(2) by (auto simp: wf_ring_def take_Suc_conv_app_nth take_update_swap list_update_append)
  next
    case False
    then have "n = 4" using n by simp
    then show ?thesis using n assms(2) by (auto simp: wf_ring_def list_all_iff dest!: set_update_subset_insert [THEN subsetD])
  qed
qed

lemma wf_tap: "runs wf_app (tap now)"
proof (rule runsI)
  fix s assume wf: "wf_app s"
  let ?dt = "now - lastTapMs s" and ?n = "if tapCount s < 4 then tapCount s + 1 else tapCount s"
  let ?intervals = "(tapIntervals s)[tapPos s := ?dt]"
  show "\<exists>a s'. tap now s = Inr (a, s') \<and> wf_app s'"
  proof (cases "lastTapMs s > 0 \<and> ?dt \<ge> 150 \<and> ?dt \<le> 2000")
    case True
    then have ring: "wf_ring ?intervals ((tapPos s + 1) mod 4) ?n"
      using wf by (intro ring_push) (auto simp: wf_app_def interval_ok_def)
    have n_pos: "0 < ?n" by simp
    from ring obtain b where "tap_tempo ?n ?intervals (fxBpm s) = Inr b" "20 \<le> b" "b \<le> 240"
      using tap_tempo_ok [of ?n ?intervals "fxBpm s"] n_pos unfolding wf_ring_def by blast
    then show ?thesis
      using True ring wf
      by (auto simp: tap_def Let_def call_simps lift_c_def put_at_def wf_app_def wf_levels_def wf_show_def wf_names_def wf_ring_def [of "tapIntervals s"])
  next
    case False
    then show ?thesis using wf by (auto simp: tap_def Let_def call_simps wf_defs)
  qed
qed
section \<open>The routes\<close>

text \<open>Updates of fields that the invariant does not mention.\<close>

lemma wf_if_arg: "(\<And>s. wf_app s \<Longrightarrow> wf_app (f s)) \<Longrightarrow> wf_app s \<Longrightarrow> wf_app (if_arg r key f s)"
  by (simp add: if_arg_def)

lemma wf_comp: "(\<And>s. wf_app s \<Longrightarrow> wf_app (f s)) \<Longrightarrow> (\<And>s. wf_app s \<Longrightarrow> wf_app (g s)) \<Longrightarrow> wf_app s \<Longrightarrow> wf_app ((f \<circ> g) s)"
  by simp

lemma wf_flood: "wf_app s \<Longrightarrow> wf_app (flood v s)"
  by (simp add: flood_def wf_defs)

lemma wf_mdns: "runs wf_app startMdns"
  unfolding startMdns_def buildMdnsName_def
  by (intro runs_then runs_bind runs_if wf.quiet runs_modify) (simp add: wf_defs)

lemma nat_constrain: "lo \<le> hi \<Longrightarrow> 0 \<le> hi \<Longrightarrow> nat (constrain x lo hi) \<le> nat hi"
  using constrain_bounds [of lo hi x] by (simp add: nat_mono)

lemma wf_levels_routes:
  "runs wf_app (routeSet r)" "runs wf_app (routeBlackout r)" "runs wf_app (routeFull r)" "runs wf_app (routeMaster r)"
proof -
  have ch: "nat (constrain (argInt r ''ch'') 1 (int MAX_CH)) - 1 < MAX_CH"
    using nat_constrain [of 1 "int MAX_CH" "argInt r ''ch''"] by simp
  show "runs wf_app (routeSet r)"
    unfolding routeSet_def Let_def
    by (intro runs_if wf.quiet runs_bind wf.runs_locked runs_then wf_set_channel ch)
qed (unfold routeBlackout_def routeFull_def routeMaster_def,
    (intro wf_rules runs_if wf_flood | simp add: wf_defs)+)

lemma wf_settings_routes:
  "runs wf_app (routeArtNetSet fw r)" "runs wf_app (routeArtOutSet fw r)" "runs wf_app (routeModeSet fw r)"
  "runs wf_app (routeModeFallback fw r)" "runs wf_app (routeNetModeSet fw r)" "runs wf_app (routeWebSet fw r)"
  "runs wf_app (routeSafetySet fw r)" "runs wf_app (routeWifiSet fw r)" "runs wf_app (routeWifiForget fw r)"
  "runs wf_app (routeNodeSet fw r)" "runs wf_app (routeReboot r)" "runs wf_app (routeFactoryReset r)"
  "runs wf_app (routeArtOutPeer r)"
  unfolding routeArtNetSet_def routeArtOutSet_def routeModeSet_def routeModeFallback_def routeNetModeSet_def
    routeWebSet_def routeSafetySet_def routeWifiSet_def routeWifiForget_def routeNodeSet_def routeReboot_def
    routeFactoryReset_def routeArtOutPeer_def
  by ((intro runs_if wf_rules wf_mdns wf_comp wf_if_arg; simp add: wf_defs)+)

lemma wf_recall: "runs wf_app k \<Longrightarrow> runs wf_app (recall r k)"
  unfolding recall_def
  by (intro wf.runs_scene runs_bind wf.runs_locked runs_then runs_if wf.quiet wf_startFade)

lemma wf_scene_routes: "runs wf_app (routeSceneSave r)" "runs wf_app (routeSceneRecall r)"
  unfolding routeSceneSave_def routeSceneRecall_def
  by (intro runs_if wf.quiet wf_recall runs_bind wf.runs_locked wf.runs_option runs_then)+

text \<open>Names stay terminated.\<close>

lemma names_update: "list_all P xs \<Longrightarrow> i < length xs \<Longrightarrow> (P (xs ! i) \<Longrightarrow> P x) \<Longrightarrow> list_all P (xs[i := x])"
  by (auto simp: list_all_length nth_list_update)

lemma set_name_terminated: "0 \<in> set (set_name t old)"
  by (simp add: set_name_def Let_def)

lemma set_group_terminated: "0 \<in> set (g_name g) \<Longrightarrow> 0 \<in> set (g_name (set_group r g))"
  by (simp add: set_group_def Let_def set_name_terminated)

lemma set_fixture_terminated: "0 \<in> set (f_name f) \<Longrightarrow> 0 \<in> set (f_name (set_fixture r f))"
  by (simp add: set_fixture_def Let_def set_name_terminated)

lemma disable_from_terminated:
  "list_all (\<lambda>f. 0 \<in> set (f_name f)) fs \<Longrightarrow> list_all (\<lambda>f. 0 \<in> set (f_name f)) (disable_from n fs)"
  by (auto simp: disable_from_def list_all_iff in_set_enumerate_eq)

lemma length_disable_from: "length (disable_from n fs) = length fs"
  by (simp add: disable_from_def)

lemmas terminated = set_name_terminated set_group_terminated set_fixture_terminated disable_from_terminated names_update

lemma wf_fixture_route: "runs wf_app (routeFixtureSet r)"
proof -
  have i: "nat (constrain (argInt r ''i'') 0 (int MAX_FIXTURES - 1)) < MAX_FIXTURES"
    using nat_constrain [of 0 "int MAX_FIXTURES - 1" "argInt r ''i''"] by simp
  have n: "nat (constrain (argInt r ''count'') 1 (int MAX_FIXTURES)) \<le> MAX_FIXTURES"
    using nat_constrain [of 1 "int MAX_FIXTURES" "argInt r ''count''"] by simp
  show ?thesis
    unfolding routeFixtureSet_def Let_def
    using i n
    by (intro runs_if wf.quiet runs_bind wf.runs_locked wf.runs_get runs_at runs_put_at runs_then runs_modify)
      (auto simp: wf_defs terminated length_disable_from)
qed

lemma wf_group_routes: "runs wf_app (routeGroupSet r)" "runs wf_app (routeGroupApply r)"
proof -
  have g: "group_arg r < MAX_GROUPS"
    using nat_constrain [of 0 "int MAX_GROUPS - 1" "argInt r ''g''"] by (simp add: group_arg_def)
  show "runs wf_app (routeGroupSet r)"
    unfolding routeGroupSet_def using g
    by (intro runs_if wf.quiet runs_bind wf.runs_locked wf.runs_get runs_at runs_put_at runs_then runs_modify)
      (auto simp: wf_defs terminated)
  show "runs wf_app (routeGroupApply r)"
    unfolding routeGroupApply_def using g
    by (intro runs_if wf.quiet runs_bind wf.runs_locked wf.runs_get runs_at runs_then wf_set_channels)
      (auto simp: wf_defs dest: channel_range_bound)
qed

lemma wf_cue_routes:
  "runs wf_app (routeCueCount r)" "runs wf_app (routeCueSet r)" "runs wf_app (routeCueRun r)" "runs wf_app (routeCueNext r)"
proof -
  have i: "nat (constrain (argInt r ''i'') 0 (int MAX_CUES - 1)) < MAX_CUES"
    using nat_constrain [of 0 "int MAX_CUES - 1" "argInt r ''i''"] by simp
  have n: "nat (constrain (argInt r ''c'') 1 (int MAX_CUES)) \<le> MAX_CUES"
    using nat_constrain [of 1 "int MAX_CUES" "argInt r ''c''"] by simp
  show "runs wf_app (routeCueCount r)"
    unfolding routeCueCount_def Let_def using n
    by (intro runs_if wf.quiet wf.runs_under_lock) (auto simp: wf_defs)
  show "runs wf_app (routeCueSet r)"
    unfolding routeCueSet_def Let_def using i
    by (intro runs_if wf.quiet runs_bind wf.runs_locked wf.runs_get runs_at runs_put_at runs_then runs_modify)
      (auto simp: wf_defs)
  have "runs wf_app (case run of None \<Rightarrow> busy | Some True \<Rightarrow> then_c (triggerCueStep 0) (send 204 '''')
      | Some False \<Rightarrow> send 204 '''')" for run
    by (auto split: option.split bool.split intro!: wf.quiet runs_then wf_trigger)
  then show "runs wf_app (routeCueRun r)"
    unfolding routeCueRun_def
    by (intro runs_if wf.quiet runs_bind wf.runs_locked runs_then runs_modify wf_cue_start)
  have "runs wf_app (case next of Inl code \<Rightarrow> if code = 503 then busy else send 400 ''no cues''
      | Inr i \<Rightarrow> then_c (triggerCueStep i) (send 204 ''''))" for "next" :: "nat + nat"
    by (auto split: sum.split intro!: wf.quiet runs_then wf_trigger)
  moreover have "runs wf_app (bind_c (gets_c id) (\<lambda>s. if cueCount s = 0 then ret (Inl (400 :: nat))
      else (let i = (cueIndex s + 1) mod cueCount s in then_c (modify_c (\<lambda>s. s\<lparr>cueIndex := i\<rparr>)) (ret (Inr i)))))"
    using wf_next_cue [where P = "\<lambda>_. False" and Q = "\<lambda>_. False" and b = Inr] by simp
  ultimately show "runs wf_app (routeCueNext r)"
    unfolding routeCueNext_def by (rule runs_bind [OF wf.runs_locked [OF runs_pure(1)], rotated])
qed

lemma wf_fx_routes: "runs wf_app (routeFxSet r)" "runs wf_app (routeFxTap r)" "runs wf_app (routeColorSet r)"
proof -
  show "runs wf_app (routeFxSet r)"
    unfolding routeFxSet_def by (intro wf_rules wf_comp wf_if_arg) (simp_all add: wf_defs wf_bpm)
  show "runs wf_app (routeFxTap r)"
    unfolding routeFxTap_def by (intro runs_bind wf.quiet wf.runs_locked runs_then runs_if wf_tap)
  show "runs wf_app (routeColorSet r)"
    unfolding routeColorSet_def
    by (intro wf_rules wf_comp wf_if_arg) (auto simp: wf_colour, simp_all add: wf_defs)
qed

lemma wf_fleet_routes:
  "runs wf_app (routePeerCmd r)" "runs wf_app (routeNetBlackout r)" "runs wf_app (routeNetFull r)"
  "runs wf_app (routeNetMaster r)" "runs wf_app (routeNetSceneRecall r)"
proof -
  have m: "runs wf_app bcast_master"
    unfolding bcast_master_def by (intro runs_bind wf.quiet wf.runs_or_queue_full)
  show "runs wf_app (routeNetMaster r)"
    unfolding routeNetMaster_def by (intro runs_if m wf.runs_under_lock) (simp add: wf_defs)
qed (unfold routePeerCmd_def routeNetBlackout_def routeNetFull_def routeNetSceneRecall_def,
    (intro runs_if wf.quiet wf.runs_under_lock wf_flood wf.runs_or_queue_full wf_recall runs_bind wf.runs_locked; assumption?)+)

lemmas wf_routes = wf_levels_routes wf_settings_routes wf_scene_routes wf_fixture_route wf_group_routes
  wf_cue_routes wf_fx_routes wf_fleet_routes

section \<open>The reports\<close>

lemma name_item_returns:
  "0 \<in> set (g_name g) \<Longrightarrow> \<exists>t. group_item (i, g) = Inr t"
  "0 \<in> set (f_name f) \<Longrightarrow> \<exists>t. fixture_item (i, f) = Inr t"
  "\<exists>t. peer_item now p = Inr t"
  using json_returns [of 24] json_returns [of 44] json_returns [of 52] json_returns [of 20]
  by (auto simp: group_item_def fixture_item_def peer_item_def name_string_def bind_r_def split: sum.split)
    (metis Inr_Inl_False zero_less_numeral)+

lemma wf_group_items: "list_all (\<lambda>g. 0 \<in> set (g_name g)) gs \<Longrightarrow> \<exists>ts. items group_item (enumerate 0 gs) = Inr ts"
  by (rule items_returns) (auto simp: in_set_enumerate_eq list_all_iff intro!: name_item_returns)

lemma wf_fixture_items: "list_all (\<lambda>f. 0 \<in> set (f_name f)) fs \<Longrightarrow> \<exists>ts. items fixture_item (enumerate 0 fs) = Inr ts"
  by (rule items_returns) (auto simp: in_set_enumerate_eq list_all_iff intro!: name_item_returns)

lemma wf_page:
  "yields wf_app (\<lambda>t. \<exists>web out. length web = PAGE_SIZE \<and> length out = PAGE_SIZE \<and>
     t = concat (page_chunks (min page (PAGE_COUNT - 1)) web out)) (pageJSON page)"
proof -
  have page: "(if page \<ge> PAGE_COUNT then PAGE_COUNT - 1 else page) = min page (PAGE_COUNT - 1)" by auto
  show ?thesis
    unfolding pageJSON_def Let_def page
  proof (rule yields_bind [where Q = "\<lambda>(web, out). length web = PAGE_SIZE \<and> length out = PAGE_SIZE"])
    show "yields wf_app (\<lambda>(web, out). length web = PAGE_SIZE \<and> length out = PAGE_SIZE)
        (locked 10 (ret (replicate PAGE_SIZE 0, replicate PAGE_SIZE 0))
          (bind_c (gets_c id) (\<lambda>s.
           bind_c (lift_c (load (min page (PAGE_COUNT - 1) * PAGE_SIZE) PAGE_SIZE (webVals s))) (\<lambda>snapWeb.
           bind_c (lift_c (load (min page (PAGE_COUNT - 1) * PAGE_SIZE) PAGE_SIZE (outVals s))) (\<lambda>snapOut.
           ret (snapWeb, snapOut))))))"
      by (intro wf.yields_locked yields_ret yields_bind_get yields_load) (auto simp: wf_defs slice_def)
  next
    fix p :: "bytes \<times> bytes"
    assume p: "case p of (web, out) \<Rightarrow> length web = PAGE_SIZE \<and> length out = PAGE_SIZE"
    have "min page (PAGE_COUNT - 1) < PAGE_COUNT" by simp
    from page_report_complete [OF _ _ this, of "fst p" "snd p"] p
    show "yields wf_app (\<lambda>t. \<exists>web out. length web = PAGE_SIZE \<and> length out = PAGE_SIZE \<and>
        t = concat (page_chunks (min page (PAGE_COUNT - 1)) web out))
      (case p of (web, out) \<Rightarrow> ret (json_report 440 (page_chunks (min page (PAGE_COUNT - 1)) web out)))"
      unfolding split_def by (intro yields_ret exI [of _ "fst p"] exI [of _ "snd p"]) simp
  qed
qed

lemma wf_monitor:
  "yields wf_app (\<lambda>t. \<exists>b out. length out = 64 \<and> t = concat (monitor_chunks b out)) monitorJSON"
  unfolding monitorJSON_def
proof (rule yields_bind [where Q = "\<lambda>(b, out). length out = 64"])
  show "yields wf_app (\<lambda>(b, out). length out = 64) (locked 10 (ret (True, replicate 64 0))
      (bind_c (gets_c outVals) (\<lambda>out. bind_c (lift_c (load 0 64 out)) (\<lambda>snapOut. ret (False, snapOut)))))"
    by (intro wf.yields_locked yields_ret yields_bind_get yields_load) (auto simp: wf_defs slice_def)
qed (auto intro!: yields_ret monitor_report_complete exI)

lemma wf_groups_report:
  "yields wf_app (\<lambda>t. \<exists>ts. length ts = MAX_GROUPS \<and> t = concat (list_chunks (count_header MAX_GROUPS ''groups'') ts)) groupsJSON"
  unfolding groupsJSON_def
proof (rule yields_bind [where Q = "\<lambda>gs. length gs = MAX_GROUPS \<and> list_all (\<lambda>g. 0 \<in> set (g_name g)) gs"])
  show "yields wf_app (\<lambda>gs. length gs = MAX_GROUPS \<and> list_all (\<lambda>g. 0 \<in> set (g_name g)) gs)
      (locked 10 (ret (replicate MAX_GROUPS blank_group)) (gets_c groups))"
    by (intro wf.yields_locked yields_ret yields_get) (simp_all add: wf_defs list_all_length blank_group_def)
next
  fix gs :: "GroupDef list"
  assume gs: "length gs = MAX_GROUPS \<and> list_all (\<lambda>g. 0 \<in> set (g_name g)) gs"
  then obtain ts where ts: "items group_item (enumerate 0 gs) = Inr ts" using wf_group_items by blast
  show "yields wf_app (\<lambda>t. \<exists>ts. length ts = MAX_GROUPS \<and> t = concat (list_chunks (count_header MAX_GROUPS ''groups'') ts))
      (bind_c (lift_c (items group_item (enumerate 0 gs)))
        (\<lambda>ts. ret (json_report 900 (list_chunks (count_header MAX_GROUPS ''groups'') ts))))"
    using gs items_Inr [OF ts] group_report_complete [OF ts]
    by (intro yields_lift [OF ts] yields_ret exI [of _ ts]) simp
qed

lemma wf_fixtures_report:
  "yields wf_app (\<lambda>t. \<exists>n ts. length ts \<le> n \<and> t = concat (list_chunks (count_header n ''fixtures'') ts)) fixturesJSON"
  unfolding fixturesJSON_def
proof (rule yields_bind [where Q = "\<lambda>(n, fs). n \<le> MAX_FIXTURES \<and> list_all (\<lambda>f. 0 \<in> set (f_name f)) fs"])
  show "yields wf_app (\<lambda>(n, fs). n \<le> MAX_FIXTURES \<and> list_all (\<lambda>f. 0 \<in> set (f_name f)) fs)
      (locked 10 (ret (0, [])) (gets_c (\<lambda>s. (fixtureCount s, fixtures s))))"
    by (intro wf.yields_locked yields_ret yields_get) (simp_all add: wf_defs)
next
  fix p :: "nat \<times> FixtureDef list"
  assume p: "case p of (n, fs) \<Rightarrow> n \<le> MAX_FIXTURES \<and> list_all (\<lambda>f. 0 \<in> set (f_name f)) fs"
  obtain n fs where nfs: "p = (n, fs)" by (cases p)
  let ?fs = "take (min n MAX_FIXTURES) fs"
  have "list_all (\<lambda>f. 0 \<in> set (f_name f)) ?fs" using p nfs by (auto simp: list_all_iff dest: in_set_takeD)
  then obtain ts where ts: "items fixture_item (enumerate 0 ?fs) = Inr ts" using wf_fixture_items by blast
  have "length ts \<le> n" "length ?fs \<le> MAX_FIXTURES" "n \<le> MAX_FIXTURES" using items_Inr [OF ts] p nfs by auto
  then show "yields wf_app (\<lambda>t. \<exists>n ts. length ts \<le> n \<and> t = concat (list_chunks (count_header n ''fixtures'') ts))
      (case p of (n, fs) \<Rightarrow> bind_c (lift_c (items fixture_item (enumerate 0 (take (min n MAX_FIXTURES) fs))))
        (\<lambda>ts. ret (json_report 1800 (list_chunks (count_header n ''fixtures'') ts))))"
    unfolding nfs prod.case using fixture_report_complete [OF ts]
    by (intro yields_lift [OF ts] yields_ret exI [of _ n] exI [of _ ts]) simp
qed

lemma wf_cue_report:
  "yields wf_app (\<lambda>t. \<exists>b n i ms steps. t = concat (cue_chunks b n i ms steps)) cueJSON"
  unfolding cueJSON_def
  by (rule yields_bind [where Q = "\<lambda>(b, n, i, ms, steps). length steps \<le> MAX_CUES \<and> n \<le> MAX_CUES \<and> i < 100"])
    (auto intro!: wf.yields_locked yields_ret yields_get exI cue_report_complete simp: wf_defs)

lemma wf_peers_report: "runs wf_app peersJSON"
proof -
  have "runs wf_app (lift_c (items (peer_item now) ps))" for now ps
    using items_returns [of ps "peer_item now"] name_item_returns(3) by (auto intro: runs_pure)
  then show ?thesis
    unfolding peersJSON_def by (intro runs_bind runs_prod wf.runs_locked wf.quiet)
qed

lemma wf_status: "runs wf_app (fillStatusJSON n)"
  unfolding fillStatusJSON_def
  by (intro runs_if runs_bind wf.runs_locked wf.quiet wf.runs_json) simp_all

lemma wf_manifest: "runs wf_app (nodeManifestJSON fw)"
  unfolding nodeManifestJSON_def
  by (intro runs_if runs_bind runs_prod wf.runs_locked wf.quiet wf.runs_json) simp_all

lemma wf_scan: "runs wf_app wifiScanJSON"
proof -
  have "runs wf_app (scan_item i)" for i
    unfolding scan_item_def by (intro runs_bind wf.quiet wf.runs_json) simp
  then have "runs wf_app (scan_items is)" for "is"
    by (induction "is") (auto intro!: runs_bind runs_pure)
  then show ?thesis
    unfolding wifiScanJSON_def scan_stop_def scan_start_def scan_results_def
    by (intro runs_if runs_bind runs_then runs_modify wf.quiet; simp add: wf_defs)
qed

lemma wf_push: "runs wf_app (ws_push now)"
  unfolding ws_push_def
  by (intro runs_if runs_bind runs_then runs_modify wf.quiet wf_status) (simp add: wf_defs)

lemma wf_json_route: "runs wf_app m \<Longrightarrow> runs wf_app (json_route m r)"
  unfolding json_route_def sendJSON_def by (intro runs_bind wf.quiet)

lemma wf_other_reports: "runs wf_app statusJSON" "runs wf_app safetyJSON" "runs wf_app fxJSON" "runs wf_app (routeDiscover r)"
proof -
  show "runs wf_app (routeDiscover r)"
    unfolding routeDiscover_def by (intro runs_bind runs_then wf.quiet wf.runs_json wf.runs_sendBeacon) simp_all
qed (unfold statusJSON_def safetyJSON_def fxJSON_def split_def, (intro wf_status runs_bind wf.runs_locked wf.quiet)+)

lemmas wf_reports = wf_page [THEN yields_runs] wf_monitor [THEN yields_runs] wf_groups_report [THEN yields_runs]
  wf_fixtures_report [THEN yields_runs] wf_cue_report [THEN yields_runs] wf_peers_report wf_manifest wf_scan
  wf_other_reports wf_json_route

lemma wf_http: "runs wf_app (http_request fw path r)"
proof -
  have "list_all (\<lambda>(p, route). runs wf_app (route r)) (routes fw @ reports fw)"
    by (simp add: routes_def wf_routes reports_def wf_reports)
  then show ?thesis
    by (auto simp: http_request_def list_all_iff runs_pure split: option.split dest!: map_of_SomeD)
qed
section \<open>The main loop\<close>

lemma wf_fade: "runs wf_app updateFade_locked"
  unfolding updateFade_locked_def Let_def
  by (intro runs_bind runs_if wf.quiet runs_modify) (auto simp: wf_defs)

lemma wf_output: "wf_app s \<Longrightarrow> wf_app (computeOutput radar a sa now s)"
  by (simp add: computeOutput_def wf_defs Let_def)

lemma wf_cycle: "runs wf_app (output_cycle radar now)"
proof -
  have "runs wf_app sendArtNetOut"
    unfolding sendArtNetOut_def by (intro runs_bind runs_if runs_then wf.quiet runs_modify) (simp add: wf_defs)
  then show ?thesis
    unfolding output_cycle_def
    by (intro runs_bind runs_if wf.quiet runs_then wf.runs_locked wf_fade runs_modify wf_output) (simp add: wf_defs)
qed

lemma wf_wifi: "runs wf_app wifi_requests" "runs wf_app wifi_changes"
  unfolding wifi_requests_def wifi_changes_def
  by (intro runs_bind runs_if wf.quiet runs_then runs_modify wf_mdns wf.runs_sendBeacon; simp add: wf_defs)+

lemma wf_expire: "runs wf_app (expire_peers now)"
  unfolding expire_peers_def
  by (intro wf.runs_locked runs_pure runs_modify) (auto simp: wf_defs distinct_filter intro: order_trans [OF length_filter_le])

lemma wf_loop: "runs wf_app (app_loop radar undef junk)"
  unfolding app_loop_def factory_reset_def
  by (intro runs_bind runs_if wf.quiet runs_then runs_modify runs_for wf_wifi wf_artnet wf_sacn wf_osc wf_tick
      wf_cycle wf.runs_sendBeacon wf_beacon wf_expire wf_push; simp add: wf_defs)

section \<open>The node under any load\<close>

lemma wf_boot: "wf_app (boot_app e)"
  by (simp add: wf_defs wf_ring_def boot_app_def list_all_length distinct_macs_def known_macs_def)


text \<open>
  What may happen to a running node, in any order: a request to its web server, an entry that its task
  takes from the queue, an iteration of the main loop. The answers of the libraries, packets included,
  are whatever \<open>app_env\<close> says.
\<close>

datatype node_event =
    Http string request
  | Bcast string string
  | Iterate

fun node_step :: "(FixtureDef \<Rightarrow> u32 \<Rightarrow> u32 \<Rightarrow> u8) \<Rightarrow> (u32 \<Rightarrow> int) \<Rightarrow> string \<Rightarrow> string \<Rightarrow> node_event \<Rightarrow> (app, unit) cmd" where
  "node_step radar undef junk fw (Http path r) = http_request fw path r"
| "node_step radar undef junk fw (Bcast path ip) = bcastTask_entry path ip"
| "node_step radar undef junk fw Iterate = then_c (app_loop radar undef junk) (ret ())"

definition node_run :: "(FixtureDef \<Rightarrow> u32 \<Rightarrow> u32 \<Rightarrow> u8) \<Rightarrow> (u32 \<Rightarrow> int) \<Rightarrow> string \<Rightarrow> string \<Rightarrow> node_event list \<Rightarrow> (app, unit) cmd" where
  "node_run radar undef junk fw evs = for_c evs (node_step radar undef junk fw)"

lemma wf_step: "runs wf_app (node_step radar undef junk fw ev)"
  by (cases ev) (auto intro!: wf_http wf.runs_bcast runs_then wf_loop runs_pure)




section \<open>Start-up ends\<close>

text \<open>
  What the clock of the board does: a call takes no more than a thousand seconds, and \<^verbatim>\<open>delay(n)\<close> takes
  \<open>n\<close> milliseconds more. Nothing else is assumed of the libraries.
\<close>

definition passes :: "app_call \<Rightarrow> int" where
  "passes c = (case c of Delay n \<Rightarrow> int n | _ \<Rightarrow> 0)"

definition clock :: "app \<Rightarrow> int" where
  "clock s = a_code (app_env s (app_calls s) Millis)"

definition clock_advances :: "(app_call list \<Rightarrow> app_call \<Rightarrow> app_reply) \<Rightarrow> bool" where
  "clock_advances e \<longleftrightarrow> (\<forall>cs c.
     a_code (e cs Millis) + passes c \<le> a_code (e (cs @ [c]) Millis) \<and>
     a_code (e (cs @ [c]) Millis) \<le> a_code (e cs Millis) + passes c + 1000000)"

definition booting :: "app \<Rightarrow> bool" where
  "booting s \<longleftrightarrow> wf_app s \<and> cueIndex s = 0 \<and> clock_advances (app_env s)"

interpretation booting: app_invariant booting
  by unfold_locales (simp add: booting_def wf_defs)

lemma clock_call:
  assumes "clock_advances (app_env s)"
  shows "clock s + passes c \<le> clock (s\<lparr>app_calls := app_calls s @ [c]\<rparr>)"
    and "clock (s\<lparr>app_calls := app_calls s @ [c]\<rparr>) \<le> clock s + passes c + 1000000"
  using assms by (auto simp: clock_def clock_advances_def)

lemma clock_difference:
  "0 \<le> d \<Longrightarrow> d < 2 ^ 32 \<Longrightarrow> uint (of_int (t + d) - of_int t :: u32) = d"
  by (simp add: uint_word_of_int_eq take_bit_int_eq_self)

lemma wait_join_returns:
  assumes "booting s" "t \<le> clock s" "clock s < t + 3000000" "10000 \<le> 100 * (int k - 1) + (clock s - t)" "0 < k"
  shows "\<exists>s'. wait_join k (of_int t) s = Inr ((), s') \<and> booting s'"
  using assms
proof (induction k arbitrary: s)
  case (Suc k)
  define s1 where "s1 = s\<lparr>app_calls := app_calls s @ [Wifi Wifi_Status]\<rparr>"
  define s2 where "s2 = s1\<lparr>app_calls := app_calls s1 @ [Millis]\<rparr>"
  define s3 where "s3 = s2\<lparr>app_calls := app_calls s2 @ [Delay 100]\<rparr>"
  have booting: "booting s1" "booting s2" "booting s3"
    using Suc.prems(1) by (auto simp: s1_def s2_def s3_def intro: booting.history)
  have adv: "clock_advances (app_env s)" "clock_advances (app_env s1)" "clock_advances (app_env s2)"
    using booting Suc.prems(1) by (auto simp: booting_def)
  have c: "clock s \<le> clock s1" "clock s1 \<le> clock s + 1000000" "clock s1 \<le> clock s2" "clock s2 \<le> clock s1 + 1000000"
    "clock s2 + 100 \<le> clock s3" "clock s3 \<le> clock s2 + 1000100"
    using clock_call [OF adv(1), of "Wifi Wifi_Status"] clock_call [OF adv(2), of Millis]
      clock_call [OF adv(3), of "Delay 100"]
    by (simp_all add: s1_def s2_def s3_def passes_def)
  let ?now = "of_int (clock s1) :: u32"
  have now: "uint (?now - of_int t) = clock s1 - t"
    using clock_difference [of "clock s1 - t" t] c Suc.prems by simp
  have unfolded: "wait_join (Suc k) (of_int t) s =
     (if a_code (app_env s (app_calls s) (Wifi Wifi_Status)) = WL_CONNECTED then Inr ((), s1)
      else if ?now - of_int t < 10000 then wait_join k (of_int t) s3 else Inr ((), s2))"
    by (simp add: call_simps s1_def s2_def s3_def clock_def)
  show ?case
  proof (cases "clock s1 - t < 10000")
    case True
    then have "0 < k" using c Suc.prems by (cases k) auto
    then have "\<exists>s'. wait_join k (of_int t) s3 = Inr ((), s') \<and> booting s'"
      using Suc.IH [OF booting(3)] True c Suc.prems by simp
    then show ?thesis unfolding unfolded using booting by auto
  next
    case False
    then have "\<not> ?now - of_int t < 10000" by (simp add: word_less_def now)
    then show ?thesis unfolding unfolded using booting by auto
  qed
qed simp

lemma runs_wait:
  assumes "101 \<le> rounds" "runs booting k"
  shows "runs booting (bind_c millis (\<lambda>t. then_c (wait_join rounds t) k))"
proof (rule runsI)
  fix s assume s: "booting s"
  let ?s = "s\<lparr>app_calls := app_calls s @ [Millis]\<rparr>"
  have "booting ?s" using s by (rule booting.history)
  moreover have "clock_advances (app_env s)" using s by (simp add: booting_def)
  note clock_call [OF this, of Millis, unfolded passes_def, simplified]
  ultimately obtain s' where "wait_join rounds (of_int (clock s)) ?s = Inr ((), s')" "booting s'"
    using wait_join_returns [of ?s "clock s" rounds] assms(1) by auto
  moreover obtain a s'' where "k s' = Inr (a, s'')" "booting s''"
    using runsD [OF assms(2) \<open>booting s'\<close>] by blast
  ultimately show "\<exists>a s''. bind_c millis (\<lambda>t. then_c (wait_join rounds t) k) s = Inr (a, s'') \<and> booting s''"
    by (simp add: call_simps clock_def)
qed

lemma booting_modify:
  "(\<And>s. wf_app s \<Longrightarrow> cueIndex s = 0 \<Longrightarrow> wf_app (f s) \<and> cueIndex (f s) = 0) \<Longrightarrow> (\<And>s. app_env (f s) = app_env s) \<Longrightarrow>
     runs booting (modify_c f)"
  by (intro runs_modify) (simp add: booting_def)

lemma booting_config: "runs booting (loadConfig fw)"
  unfolding loadConfig_def makeNodeNameFromMac_def macSuffix6_def get_uchar_def get_bool_def Let_def
  by (intro runs_bind runs_then runs_if booting.quiet booting_modify; simp add: wf_defs)

lemma booting_defaults: "runs booting initVjDefaults" "runs booting setupDMX"
  unfolding initVjDefaults_def initFixtureDefaults_def setupDMX_def default_fixture_def
  by (intro runs_then booting.quiet booting_modify; auto simp: wf_defs terminated list_all_iff)+

lemma booting_mdns: "runs booting startMdns" "runs booting buildMdnsName" "runs booting fix_ap_ssid"
  unfolding startMdns_def buildMdnsName_def fix_ap_ssid_def macSuffix6_def Let_def
  by (intro runs_then runs_bind runs_if booting.quiet booting_modify; simp add: wf_defs)+

lemma booting_wifi: "101 \<le> rounds \<Longrightarrow> runs booting (startWiFi rounds)"
  unfolding startWiFi_def soft_ap_fallback_def
  by (intro runs_then runs_wait runs_bind runs_if booting.quiet booting_mdns) assumption+

lemma booting_task: "runs booting startBcastTask"
  unfolding startBcastTask_def
  by (intro runs_then runs_bind runs_if booting.quiet booting_modify; simp add: wf_defs)

lemma booting_setup: "101 \<le> rounds \<Longrightarrow> runs booting (app_setup fw rounds)"
  unfolding app_setup_def
  by (intro runs_then runs_bind runs_if booting.quiet booting_modify booting_config booting_defaults booting_mdns booting_wifi booting_task;
      simp add: wf_defs)

text \<open>
  C17. Start-up ends: whatever is stored and whatever the network does, and as long as the clock runs,
  \<^verbatim>\<open>setup\<close> returns after at most 101 rounds of the wait for the WiFi connection, and the state it
  leaves is well-formed.
\<close>

theorem startup_completes:
  assumes "clock_advances e" "101 \<le> rounds"
  shows "\<exists>s'. app_setup fw rounds (boot_app e) = Inr ((), s') \<and> wf_app s'"
proof -
  have "booting (boot_app e)" using assms wf_boot by (simp add: booting_def boot_app_def)
  then show ?thesis using booting_setup [OF assms(2), of fw] by (auto simp: runs_def booting_def)
qed

text \<open>A board whose network never answers and whose clock counts the delays and nothing else.\<close>


definition idle_board :: "app_call list \<Rightarrow> app_call \<Rightarrow> app_reply" where
  "idle_board cs c = Answer (if c = Millis then sum_list (map passes cs) else 0) [] ''net''"

lemma idle_board_clock: "clock_advances idle_board"
  by (simp add: clock_advances_def idle_board_def)

theorem startup_completes_witness:
  "\<exists>s'. app_setup ''tag'' 101 (boot_app idle_board) = Inr ((), s') \<and> wf_app s'"
  by (rule startup_completes [OF idle_board_clock]) simp

end
