(* ===== verification/Vizzz_Wire.thy ===== *)
theory Vizzz_Wire
  imports Dmx_Transfer Vizzz_Invariant
begin

text \<open>
  The firmware on top of the driver: the calls of \<^verbatim>\<open>sendDMX\<close> are run by the model of the DMX driver, on a
  port at rest, and the bytes that the UART gets are those of the frame that the show engine computed.
\<close>

unbundle bit_operations_syntax

section \<open>A port at rest\<close>

definition idle_port :: "nat \<Rightarrow> world \<Rightarrow> dmx_driver_t \<Rightarrow> bool" where
  "idle_port n w d \<longleftrightarrow> n < DMX_NUM_MAX \<and> drv w n = Some d \<and> d_is_enabled d \<and>
     d_status d \<noteq> DMX_STATUS_SENDING \<and> length (d_data d) = DMX_PACKET_SIZE_MAX"

text \<open>The port's mutex is free and no wait times out.\<close>

definition mutex_free :: "nat \<Rightarrow> world \<Rightarrow> bool" where
  "mutex_free n w \<longleftrightarrow>
     (\<forall>cs k. r_code (env w cs (Rtos (Mutex_Take n k))) \<noteq> 0 \<and> r_events (env w cs (Rtos (Mutex_Take n k))) = []) \<and>
     (\<forall>cs k. \<not> r_code (env w cs (Rtos (Check_Timeout k))) < 0)"

text \<open>
  The last packet of a controller ended 5.8 milliseconds ago, the longest spacing that \<^verbatim>\<open>dmx_send_num\<close>
  waits for, and the transmit FIFO has room.
\<close>

definition quiet_bus :: "nat \<Rightarrow> world \<Rightarrow> dmx_driver_t \<Rightarrow> bool" where
  "quiet_bus n w d \<longleftrightarrow> mutex_free n w \<and> fifo_answers n 1 w \<and>
     (\<forall>cs. d_controller_eop_timestamp d + 5800 \<le> r_code (env w cs (Rtos Get_Time)))"

lemma send_spacing_bound: "send_spacing d \<le> 5800"
  by (simp add: send_spacing_def RDM_TIMING_CONTROLLER_REQUEST_TO_REQUEST_MIN_def
      RDM_TIMING_CONTROLLER_RESPONSE_LOST_MIN_def RDM_TIMING_CONTROLLER_DISCOVERY_TRANSACTION_MIN_def
      RDM_TIMING_CONTROLLER_DISCOVERY_TO_REQUEST_MIN_def RDM_TIMING_RESPONDER_MIN_def)

lemma no_header:
  assumes "n < DMX_NUM_MAX" "drv w n = Some d" "length (d_data d) = DMX_PACKET_SIZE_MAX" "d_data d ! 0 = 0"
  shows "rdm_read_header n w = Inr None"
proof -
  obtain b bs where "d_data d = 0 # b # bs"
    using assms(3,4) by (cases "d_data d" rule: remdups_adj.cases) auto
  moreover have "push_bit 8 x \<noteq> (460 :: u16)" for x
  proof
    assume "push_bit 8 x = (460 :: u16)"
    moreover have "\<not> bit (push_bit 8 x :: u16) 2" by (simp add: bit_push_bit_iff)
    ultimately show False by simp
  qed
  ultimately show ?thesis
    using assms by (simp add: rdm_read_header_def of_le16_def Let_def)
qed

lemma write_frame:
  assumes "idle_port n w d" "length frame = DMX_PACKET_SIZE_MAX"
  shows "\<exists>w'. dmx_write n (Some frame) 513 w = Inr (513, w') \<and> env w' = env w \<and> tick_rate w' = tick_rate w \<and>
    drv w' n = Some (d\<lparr>d_data := frame\<rparr>) \<and> tx_bytes n (calls w') = tx_bytes n (calls w)"
  using assms
  by (auto simp: dmx_write_def dmx_write_offset_def check_port_def idle_port_def dmx_driver_is_installed_def
      clamp_size_def critical_def run_simps gets_c_def ret_def dmx_uart_get_rts_def load_def store_def splice_def
      slice_def lift_c_def Let_def)

text \<open>The driver record when the packet starts.\<close>

definition sending_driver :: "dmx_driver_t \<Rightarrow> dmx_driver_t" where
  "sending_driver d = record_sent None (d\<lparr>d_is_controller := True, d_size := 513\<rparr>)"

lemma sending_driver_fields: "d_data (sending_driver d) = d_data d" "d_size (sending_driver d) = 513"
  by (simp_all add: sending_driver_def record_sent_def set_last_request_was_broadcast_def Let_def)

lemma wait_sent_idle:
  assumes "n < DMX_NUM_MAX" "drv w n = Some d" "d_status d \<noteq> DMX_STATUS_SENDING" "mutex_free n w"
  shows "\<exists>w'. dmx_wait_sent n ticks w = Inr (True, w') \<and> env w' = env w \<and> drv w' n = Some d \<and>
    tx_bytes n (calls w') = tx_bytes n (calls w)"
  using assms
  by (auto simp: dmx_wait_sent_def check_port_def dmx_driver_is_installed_def mutex_free_def
      take_mutex_def check_timeout_def blocking_def critical_def give_mutex_def run_simps gets_c_def ret_def
      split: option.split)

lemma transmit_starts:
  assumes "drv w n = Some d" "d_is_controller d"
  shows "\<exists>w0 w'. transmit n None 513 w = Inr (513, w') \<and> in_break n w0 (sending_driver d) w' \<and>
    env w0 = env w \<and> drv w0 n = Some (sending_driver d) \<and> tx_bytes n (calls w0) = tx_bytes n (calls w)"
proof -
  let ?cs = "if r_code (env w (calls w) (Uart n Uart_Get_Rts)) = 1
     then [Uart n Uart_Get_Rts, Uart n (Uart_Set_Rts False)] else [Uart n Uart_Get_Rts]"
  define w0 where "w0 = w\<lparr>calls := calls w @ ?cs, drv := (drv w)(n \<mapsto> sending_driver d)\<rparr>"
  have d: "record_sent None (d\<lparr>d_size := 513\<rparr>) = sending_driver d"
    using assms(2) by (cases d) (simp add: sending_driver_def)
  have "drv w0 n = Some (sending_driver d)" "\<not> is_disc_reply None"
    by (simp_all add: w0_def is_disc_reply_def)
  from start_packet_break [OF this] obtain w1 where
    1: "start_packet n None w0 = Inr ((), w1)" "in_break n w0 (sending_driver d) w1" by blast
  have "transmit n None 513 w = Inr (513, w1\<lparr>calls := calls w1 @ [Rtos (Mutex_Give n)]\<rparr>)"
    using assms(1) 1(1)
    by (simp add: transmit_def run_simps dmx_uart_get_rts_def ret_def send_size_def give_mutex_def d w0_def split: if_splits)
  moreover have "in_break n w0 (sending_driver d) (w1\<lparr>calls := calls w1 @ [Rtos (Mutex_Give n)]\<rparr>)"
    using 1(2) by (simp add: in_break_def)
  ultimately show ?thesis by (auto simp: w0_def)
qed

lemma send_starts:
  assumes "idle_port n w d" "quiet_bus n w d" "d_data d ! 0 = 0"
  shows "\<exists>w0 w'. dmx_send n w = Inr (513, w') \<and> in_break n w0 (sending_driver d) w' \<and>
    env w0 = env w \<and> drv w0 n = Some (sending_driver d) \<and> tx_bytes n (calls w0) = tx_bytes n (calls w)"
proof -
  have port: "n < DMX_NUM_MAX" "drv w n = Some d" "d_is_enabled d" "length (d_data d) = DMX_PACKET_SIZE_MAX"
    using assms(1) by (auto simp: idle_port_def)
  define w1 where "w1 = w\<lparr>calls := calls w @ [Rtos (Mutex_Take n 0)]\<rparr>"
  have "drv w1 n = Some d" "d_status d \<noteq> DMX_STATUS_SENDING" "mutex_free n w1"
    using assms by (simp_all add: w1_def idle_port_def quiet_bus_def mutex_free_def)
  from wait_sent_idle [OF port(1) this, of "dmx_ms_to_ticks 23 w1"] obtain w2 where
    2: "dmx_wait_sent n (dmx_ms_to_ticks 23 w1) w1 = Inr (True, w2)" "env w2 = env w" "drv w2 n = Some d"
      "tx_bytes n (calls w2) = tx_bytes n (calls w)" by (auto simp: w1_def)
  have header: "rdm_read_header n w2 = Inr None" using no_header [OF port(1) 2(3) port(4) assms(3)] .
  let ?d = "d\<lparr>d_is_controller := True\<rparr>"
  define w3 where "w3 = w2\<lparr>drv := (drv w2)(n \<mapsto> ?d), calls := calls w2 @ [Rtos Get_Time]\<rparr>"
  have time: "send_spacing ?d \<le> r_code (env w cs (Rtos Get_Time)) - d_controller_eop_timestamp d" for cs
    using assms(2) send_spacing_bound [of ?d] unfolding quiet_bus_def by (metis add_le_imp_le_diff add.commute order_trans)
  have "drv w3 n = Some ?d" "d_is_controller ?d" by (simp_all add: w3_def)
  from transmit_starts [OF this] obtain w0 w' where
    3: "transmit n None 513 w3 = Inr (513, w')" "in_break n w0 (sending_driver ?d) w'" "env w0 = env w3"
      "drv w0 n = Some (sending_driver ?d)" "tx_bytes n (calls w0) = tx_bytes n (calls w3)" by blast
  have "dmx_send n w = Inr (513, w')"
    using port assms(2) 2 3(1) header time
    by (simp add: dmx_send_def dmx_send_num_def check_port_def dmx_driver_is_installed_def dmx_driver_is_enabled_def
        blocking_def quiet_bus_def mutex_free_def sent_rdm_header_def critical_def await_spacing_def dmx_timer_get_micros_since_boot_def
        run_simps gets_c_def ret_def query_def get_drv_def w1_def w3_def Let_def not_less [symmetric])
  moreover have "sending_driver ?d = sending_driver d" by (simp add: sending_driver_def)
  ultimately show ?thesis using 3 2 by (auto simp: w3_def)
qed

section \<open>From the firmware to the wire\<close>

text \<open>
  What the driver does for the calls of \<^verbatim>\<open>sendDMX\<close>. The interrupts of the packet, with \<open>k\<close> data interrupts,
  have all arrived when the firmware waits for the end of the packet.
\<close>

fun driver_call :: "nat \<Rightarrow> nat \<Rightarrow> int \<Rightarrow> nat \<Rightarrow> app_call \<Rightarrow> (world, unit) cmd" where
  "driver_call n k now ticks (Dmx_Write frame) = then_c (dmx_write n (Some frame) 513) (ret ())"
| "driver_call n k now ticks Dmx_Send = then_c (dmx_send n) (ret ())"
| "driver_call n k now ticks Dmx_Wait_Sent = then_c (bus_events n k now) (then_c (dmx_wait_sent n ticks) (ret ()))"
| "driver_call n k now ticks _ = ret ()"

lemma frame_on_wire:
  assumes "idle_port n w d" "quiet_bus n w d" "length frame = DMX_PACKET_SIZE_MAX" "frame ! 0 = 0" "513 \<le> k"
  shows "\<exists>w' d'. for_c [Dmx_Write frame, Dmx_Send, Dmx_Wait_Sent] (driver_call n k now ticks) w = Inr ((), w') \<and>
    tx_bytes n (calls w') = tx_bytes n (calls w) @ frame \<and> drv w' n = Some d' \<and> d_status d' = DMX_STATUS_IDLE"
proof -
  let ?d = "d\<lparr>d_data := frame\<rparr>"
  from write_frame [OF assms(1,3)] obtain w1 where
    1: "dmx_write n (Some frame) 513 w = Inr (513, w1)" "env w1 = env w" "drv w1 n = Some ?d"
      "tx_bytes n (calls w1) = tx_bytes n (calls w)" by blast
  have "idle_port n w1 ?d" "quiet_bus n w1 ?d" "d_data ?d ! 0 = 0" "n < DMX_NUM_MAX"
    using assms 1 by (simp_all add: idle_port_def quiet_bus_def mutex_free_def fifo_answers_def)
  from send_starts [OF this(1-3)] obtain w0 w2 where
    2: "dmx_send n w1 = Inr (513, w2)" "in_break n w0 (sending_driver ?d) w2" "env w0 = env w1"
      "drv w0 n = Some (sending_driver ?d)" "tx_bytes n (calls w0) = tx_bytes n (calls w1)" by blast
  have "sendable n w0 (sending_driver ?d)" "fifo_answers n 1 w0" "d_size (sending_driver ?d) \<le> int k"
    using assms 1 2 unfolding sendable_def quiet_bus_def fifo_answers_def
    by (auto simp: sending_driver_fields intro: order_trans [OF zero_le_one])
  from bus_events_send [OF this(1,2) 2(2) this(3), of now] obtain w3 d' where
    3: "bus_events n k now w2 = Inr ((), w3)" "drv w3 n = Some d'" "env w3 = env w0"
      "tx_bytes n (calls w3) = tx_bytes n (calls w0) @ frame" "d_status d' = DMX_STATUS_IDLE"
    using assms(3) by (auto simp: sending_driver_fields)
  have "mutex_free n w3" "d_status d' \<noteq> DMX_STATUS_SENDING"
    using assms(2) 1 2 3 by (simp_all add: quiet_bus_def mutex_free_def)
  from wait_sent_idle [OF \<open>n < DMX_NUM_MAX\<close> 3(2) this(2,1), of ticks] obtain w4 where
    "dmx_wait_sent n ticks w3 = Inr (True, w4)" "drv w4 n = Some d'" "tx_bytes n (calls w4) = tx_bytes n (calls w3)"
    by blast
  then show ?thesis using 1 2 3 by (simp add: then_c_def bind_c_def ret_def)
qed

lemma output_frame:
  assumes "wf_app s" "dmxFrame s ! 0 = 0"
  shows "dmxFrame (computeOutput radar a sa now s) = 0 # outVals (computeOutput radar a sa now s)"
proof -
  obtain bs where "dmxFrame s = 0 # bs"
    using assms by (cases "dmxFrame s") (auto simp: wf_defs)
  then show ?thesis by (simp add: computeOutput_def Let_def)
qed

lemma sendDMX_calls: "\<exists>s'. sendDMX s = Inr ((), s') \<and> app_calls s' = app_calls s @ [Dmx_Write (dmxFrame s), Dmx_Send, Dmx_Wait_Sent]"
  by (simp add: sendDMX_def call_simps)


text \<open>A port at rest whose mutex is free; ten milliseconds have passed.\<close>

definition bus_env :: "ext_call list \<Rightarrow> ext_call \<Rightarrow> ext_reply" where
  "bus_env cs c = (case c of Rtos _ \<Rightarrow> Reply 10000 [] [] | _ \<Rightarrow> fifo_env cs c)"

definition bus_world :: world where
  "bus_world = (demo_world 0)\<lparr>env := bus_env\<rparr>"

lemma bus_world_idle: "idle_port 0 bus_world (demo_driver 0)" "quiet_bus 0 bus_world (demo_driver 0)"
  by (simp_all add: idle_port_def quiet_bus_def mutex_free_def fifo_answers_def bus_world_def bus_env_def fifo_env_def
      demo_world_def demo_driver_def initial_driver_def)

lemma boot_levels: "dmxFrame (boot_app e) ! 0 = 0" "\<forall>v \<in> set (outVals (boot_app e)). v \<le> effectiveSafeMaxLevel (boot_app e)"
  by (simp_all add: boot_app_def effectiveSafeMaxLevel_def)


end
