(* ===== verification/Vizzz_Flash.thy ===== *)
theory Vizzz_Flash
  imports Vizzz_Invariant
begin

text \<open>
  The Preferences library as the firmware uses it, and what keeps its contents. The library is not part
  of the sources: \<open>replay\<close> turns the history of its calls into the contents of the \<open>flash\<close>. The locale
  \<open>storage\<close> holds, for every relation between the running configuration and the flash that saving the
  configuration establishes, that no request, packet or iteration of the main loop breaks it.
\<close>

section \<open>The flash\<close>

text \<open>A value of the library; \<^verbatim>\<open>putBool\<close> stores a byte.\<close>

datatype pref = P_String string | P_UChar u8 | P_Bytes bytes

text \<open>The namespace that is open, with the flag that it is read-only, and what is stored in each namespace.\<close>

record flash =
  opened :: "(string \<times> bool) option"
  contents :: "string \<Rightarrow> string \<rightharpoonup> pref"

definition flash_put :: "string \<Rightarrow> pref \<Rightarrow> flash \<Rightarrow> flash" where
  "flash_put key v st = (case opened st of
     Some (ns, False) \<Rightarrow> st\<lparr>contents := (contents st)(ns := (contents st ns)(key \<mapsto> v))\<rparr>
   | _ \<Rightarrow> st)"

definition flash_prefs :: "prefs_call \<Rightarrow> flash \<Rightarrow> flash" where
  "flash_prefs c st = (case c of
     Prefs_Begin ns ro \<Rightarrow> if opened st = None then st\<lparr>opened := Some (ns, ro)\<rparr> else st
   | Prefs_End \<Rightarrow> st\<lparr>opened := None\<rparr>
   | Prefs_Clear \<Rightarrow> (case opened st of
       Some (ns, False) \<Rightarrow> st\<lparr>contents := (contents st)(ns := Map.empty)\<rparr> | _ \<Rightarrow> st)
   | Put_String key v \<Rightarrow> flash_put key (P_String (c_str v)) st
   | Put_UChar key v \<Rightarrow> flash_put key (P_UChar v) st
   | Put_Bool key v \<Rightarrow> flash_put key (P_UChar (if v then 1 else 0)) st
   | Put_Bytes key v \<Rightarrow> flash_put key (P_Bytes v) st
   | _ \<Rightarrow> st)"

definition flash_step :: "flash \<Rightarrow> app_call \<Rightarrow> flash" where
  "flash_step st c = (case c of Prefs p \<Rightarrow> flash_prefs p st | _ \<Rightarrow> st)"

text \<open>The flash after a history of calls; \<open>stored\<close> is what it held when the node was switched on.\<close>

definition replay :: "(string \<Rightarrow> string \<rightharpoonup> pref) \<Rightarrow> app_call list \<Rightarrow> flash" where
  "replay stored cs = foldl flash_step \<lparr>opened = None, contents = stored\<rparr> cs"

definition flash_lookup :: "flash \<Rightarrow> string \<Rightarrow> pref option" where
  "flash_lookup st key = (case opened st of None \<Rightarrow> None | Some (ns, _) \<Rightarrow> contents st ns key)"

text \<open>The answers to the reads. A value of another type counts as missing; a blob that is too long is not delivered.\<close>

definition flash_answer :: "flash \<Rightarrow> prefs_call \<Rightarrow> app_reply" where
  "flash_answer st c = (case c of
     Is_Key key \<Rightarrow> Answer (if flash_lookup st key = None then 0 else 1) [] ''''
   | Get_String key dflt \<Rightarrow> Answer 0 [] (case flash_lookup st key of Some (P_String v) \<Rightarrow> v | _ \<Rightarrow> dflt)
   | Get_UChar key dflt \<Rightarrow> Answer (uint (case flash_lookup st key of Some (P_UChar v) \<Rightarrow> v | _ \<Rightarrow> dflt)) [] ''''
   | Get_Bool key dflt \<Rightarrow> Answer (case flash_lookup st key of
       Some (P_UChar v) \<Rightarrow> if v = 0 then 0 else 1 | _ \<Rightarrow> if dflt then 1 else 0) [] ''''
   | Get_Bytes key n \<Rightarrow> (case flash_lookup st key of
       Some (P_Bytes v) \<Rightarrow> if length v \<le> n then Answer (int (length v)) v '''' else Answer 0 [] ''''
     | _ \<Rightarrow> Answer 0 [] '''')
   | _ \<Rightarrow> Answer 1 [] '''')"

fun is_read :: "prefs_call \<Rightarrow> bool" where
  "is_read (Is_Key _) \<longleftrightarrow> True"
| "is_read (Get_String _ _) \<longleftrightarrow> True"
| "is_read (Get_UChar _ _) \<longleftrightarrow> True"
| "is_read (Get_Bool _ _) \<longleftrightarrow> True"
| "is_read (Get_Bytes _ _) \<longleftrightarrow> True"
| "is_read _ \<longleftrightarrow> False"

fun is_prefs :: "app_call \<Rightarrow> bool" where
  "is_prefs (Prefs _) \<longleftrightarrow> True"
| "is_prefs _ \<longleftrightarrow> False"

section \<open>What is stored\<close>

text \<open>
  The configuration, without the target of the Art-Net output and the flag that it must be saved, which
  are not stored. A string is stored up to its first NUL.
\<close>

type_synonym node_settings = "string list \<times> u8 list \<times> Mode \<times> NetMode \<times> bool list"

definition settings :: "app \<Rightarrow> node_settings" where
  "settings s = ([nodeName s, apSsid s, apPass s, staSSID s, staPass s], [artNet s, artSubnet s, artUni s],
     mode s, netMode s, [artOutEnabled s, webEnabled s, burnSafeMode s, artnetFallbackToWeb s])"

definition cut_settings :: "node_settings \<Rightarrow> node_settings" where
  "cut_settings cfg = (case cfg of (texts, rest) \<Rightarrow> (map c_str texts, rest))"

definition config_entries :: "string \<Rightarrow> node_settings \<Rightarrow> (string \<times> pref) list" where
  "config_entries fw_tag cfg = (case cut_settings cfg of (texts, net, m, nm, flags) \<Rightarrow>
     zip [''name'', ''ap_ssid'', ''ap_pass'', ''sta_ssid'', ''sta_pass''] (map P_String texts) @
     zip [''anet_net'', ''anet_sub'', ''anet_uni''] (map P_UChar net) @
     [(''mode'', P_UChar (mode_code m)), (''net_mode'', P_UChar (net_mode_code nm))] @
     zip [''ao_en'', ''web_en'', ''burn_safe'', ''anet_fb_web''] (map (\<lambda>b. P_UChar (if b then 1 else 0)) flags) @
     [(''fw_tag'', P_String (c_str fw_tag))])"

definition holds_config :: "string \<Rightarrow> node_settings \<Rightarrow> (string \<rightharpoonup> pref) \<Rightarrow> bool" where
  "holds_config fw_tag cfg vals \<longleftrightarrow> list_all (\<lambda>(key, v). vals key = Some v) (config_entries fw_tag cfg)"

text \<open>
  An invariant of the running configuration and the contents of the flash, which holds between two
  handlers until the node restarts.
\<close>

definition kept :: "(app_call list \<Rightarrow> app_call \<Rightarrow> app_reply) \<Rightarrow> (string \<Rightarrow> string \<rightharpoonup> pref) \<Rightarrow> (node_settings \<Rightarrow> (string \<Rightarrow> string \<rightharpoonup> pref) \<Rightarrow> bool) \<Rightarrow> app \<Rightarrow> bool" where
  "kept e stored P s \<longleftrightarrow> app_env s = e \<and> (Restart \<in> set (app_calls s) \<or>
     opened (replay stored (app_calls s)) = None \<and> P (settings s) (contents (replay stored (app_calls s))))"

section \<open>Replaying\<close>

lemma replay_snoc [simp]: "replay stored (cs @ [c]) = flash_step (replay stored cs) c"
  by (simp add: replay_def)

lemma replay_Nil [simp]: "replay stored [] = \<lparr>opened = None, contents = stored\<rparr>"
  by (simp add: replay_def)

lemma flash_step_other [simp]: "\<not> is_prefs c \<Longrightarrow> flash_step st c = st"
  by (cases c) (simp_all add: flash_step_def)

lemma flash_step_read [simp]: "is_read p \<Longrightarrow> flash_step st (Prefs p) = st"
  by (cases p) (simp_all add: flash_step_def flash_prefs_def)

lemma flash_step_prefs:
  "flash_step st (Prefs (Prefs_Begin ns ro)) = (if opened st = None then st\<lparr>opened := Some (ns, ro)\<rparr> else st)"
  "flash_step st (Prefs Prefs_End) = st\<lparr>opened := None\<rparr>"
  "flash_step st (Prefs Prefs_Clear) = (case opened st of
       Some (ns, False) \<Rightarrow> st\<lparr>contents := (contents st)(ns := Map.empty)\<rparr> | _ \<Rightarrow> st)"
  "flash_step st (Prefs (Put_String key t)) = flash_put key (P_String (c_str t)) st"
  "flash_step st (Prefs (Put_UChar key u)) = flash_put key (P_UChar u) st"
  "flash_step st (Prefs (Put_Bool key b)) = flash_put key (P_UChar (if b then 1 else 0)) st"
  "flash_step st (Prefs (Put_Bytes key v)) = flash_put key (P_Bytes v) st"
  by (simp_all add: flash_step_def flash_prefs_def)

lemma flash_put_open:
  "opened st = Some (ns, False) \<Longrightarrow>
     flash_put key v st = st\<lparr>contents := (contents st)(ns := (contents st ns)(key \<mapsto> v))\<rparr>"
  by (simp add: flash_put_def)

lemmas flash_simps = flash_step_prefs flash_put_def

lemma replay_append: "replay stored (cs @ ds) = foldl flash_step (replay stored cs) ds"
  by (simp add: replay_def)

lemma for_prefs: "for_c ps prefs_u s = Inr ((), s\<lparr>app_calls := app_calls s @ map Prefs ps\<rparr>)"
  by (induction ps arbitrary: s) (simp_all add: call_simps)

text \<open>The effect of each operation on the flash.\<close>

abbreviation flash_of :: "(string \<Rightarrow> string \<rightharpoonup> pref) \<Rightarrow> app \<Rightarrow> flash" where
  "flash_of stored s \<equiv> replay stored (app_calls s)"

lemma save_config_effect:
  assumes "opened (flash_of stored s) = None"
  shows "\<exists>u. saveConfig fw s = Inr ((), u) \<and> settings u = settings s \<and> app_env u = app_env s \<and>
    set (app_calls s) \<subseteq> set (app_calls u) \<and> opened (flash_of stored u) = None \<and> holds_config fw (settings s) (contents (flash_of stored u) ''cfg'') \<and>
    (\<forall>ns. ns \<noteq> ''cfg'' \<longrightarrow> contents (flash_of stored u) ns = contents (flash_of stored s) ns)"
  using assms
  by (simp add: saveConfig_def for_prefs call_simps replay_append flash_simps settings_def holds_config_def config_entries_def
      cut_settings_def) blast

lemma save_fixtures_effect:
  assumes "opened (flash_of stored s) = None" "saveFixtures s = Inr (a, u)"
  shows "settings u = settings s \<and> app_env u = app_env s \<and> opened (flash_of stored u) = None \<and> set (app_calls s) \<subseteq> set (app_calls u) \<and>
    (\<forall>ns. ns \<noteq> ''fixtures'' \<longrightarrow> contents (flash_of stored u) ns = contents (flash_of stored s) ns)"
  using assms
  by (auto simp: saveFixtures_def for_prefs call_simps replay_append flash_simps settings_def)

lemma save_scene_effect:
  assumes "opened (flash_of stored s) = None" "saveScene n vals s = Inr (a, u)"
  shows "settings u = settings s \<and> app_env u = app_env s \<and> opened (flash_of stored u) = None \<and> set (app_calls s) \<subseteq> set (app_calls u) \<and>
    contents (flash_of stored u) = (contents (flash_of stored s))
      (''scenes'' := (contents (flash_of stored s) ''scenes'')(scene_key n \<mapsto> P_Bytes (take MAX_CH vals)))"
  using assms
  by (auto simp: saveScene_def call_simps replay_append flash_simps settings_def)

lemma load_scene_effect:
  assumes "opened (flash_of stored s) = None" "loadScene n s = Inr (a, u)"
  shows "settings u = settings s \<and> app_env u = app_env s \<and> opened (flash_of stored u) = None \<and> set (app_calls s) \<subseteq> set (app_calls u) \<and>
    contents (flash_of stored u) = contents (flash_of stored s)"
  using assms
  by (auto simp: loadScene_def call_simps replay_append flash_simps settings_def)

lemma factory_reset_restarts: "factory_reset s = Inr (a, u) \<Longrightarrow> Restart \<in> set (app_calls u) \<and> app_env u = app_env s"
  by (auto simp: factory_reset_def restart_def for_prefs call_simps)

section \<open>Invariants of the storage\<close>

locale storage =
  fixes P :: "node_settings \<Rightarrow> (string \<Rightarrow> string \<rightharpoonup> pref) \<Rightarrow> bool" and fw :: string
  assumes fixtures: "P cfg c \<Longrightarrow> P cfg (c(''fixtures'' := vals))"
    and config: "P cfg c \<Longrightarrow> holds_config fw cfg' (c' ''cfg'') \<Longrightarrow> (\<And>ns. ns \<noteq> ''cfg'' \<Longrightarrow> c' ns = c ns) \<Longrightarrow> P cfg' c'"
begin

lemma preserves_kept_modify:
  "(\<And>s. app_calls (f s) = app_calls s) \<Longrightarrow> (\<And>s. settings (f s) = settings s) \<Longrightarrow> (\<And>s. app_env (f s) = app_env s) \<Longrightarrow>
     preserves (kept e stored P) (modify_c f)"
  by (rule preserves_modify) (simp add: kept_def)

lemma preserves_kept_call:
  assumes "\<not> is_prefs c"
  shows "preserves (kept e stored P) (call c)" "preserves (kept e stored P) (call_u c)"
    "preserves (kept e stored P) (call_code c)" "preserves (kept e stored P) (call_text c)"
  using assms by (auto intro!: preservesI simp: call_simps kept_def settings_def)

lemma preserves_kept_fixtures: "preserves (kept e stored P) saveFixtures"
proof (rule preservesI)
  fix s a u assume k: "kept e stored P s" and run: "saveFixtures s = Inr (a, u)"
  show "kept e stored P u"
  proof (cases "Restart \<in> set (app_calls s)")
    case True
    then show ?thesis using k run by (auto simp: kept_def saveFixtures_def call_simps)
  next
    case False
    with k have s: "opened (flash_of stored s) = None" "P (settings s) (contents (flash_of stored s))"
      by (auto simp: kept_def)
    from save_fixtures_effect [OF s(1) run] have "contents (flash_of stored u) =
        (contents (flash_of stored s))(''fixtures'' := contents (flash_of stored u) ''fixtures'')"
      by (auto simp: fun_eq_iff)
    with save_fixtures_effect [OF s(1) run] fixtures [OF s(2)] k show ?thesis unfolding kept_def by metis
  qed
qed

lemma preserves_kept_load: "preserves (kept e stored P) (loadScene n)"
proof (rule preservesI)
  fix s a u assume k: "kept e stored P s" and run: "loadScene n s = Inr (a, u)"
  then show "kept e stored P u"
    using load_scene_effect [of stored s n a u]
    by (auto simp: kept_def loadScene_def call_simps)
qed

text \<open>Whatever the configuration was changed to: once it is saved, the invariant holds again.\<close>

lemma kept_saved:
  assumes k: "kept e stored P s" and t: "flash_of stored t = flash_of stored s" "set (app_calls s) \<subseteq> set (app_calls t)" "app_env t = e"
    and run: "saveConfig fw t = Inr (a, u)"
  shows "kept e stored P u"
proof (cases "Restart \<in> set (app_calls s)")
  case True
  then have "Restart \<in> set (app_calls t)" using t by auto
  moreover have "set (app_calls t) \<subseteq> set (app_calls u)" "app_env u = app_env t"
    using run by (auto simp: saveConfig_def for_prefs simp del: for_c.simps)
  ultimately show ?thesis using t by (auto simp: kept_def)
next
  case False
  with k have s: "opened (flash_of stored t) = None" "P (settings s) (contents (flash_of stored t))"
    by (auto simp: kept_def t)
  from save_config_effect [OF s(1), of fw] run have u: "settings u = settings t" "app_env u = app_env t"
    "opened (flash_of stored u) = None" "holds_config fw (settings t) (contents (flash_of stored u) ''cfg'')"
    "\<And>ns. ns \<noteq> ''cfg'' \<Longrightarrow> contents (flash_of stored u) ns = contents (flash_of stored t) ns"
    by auto
  have "P (settings t) (contents (flash_of stored u))" by (rule config [where c' = "contents (flash_of stored u)", OF s(2) u(4,5)])
  then show ?thesis using u t by (simp add: kept_def)
qed

lemma preserves_kept_config: "preserves (kept e stored P) (saveConfig fw)"
  by (rule preservesI, rule kept_saved) (auto simp: kept_def)

lemma preserves_kept_save:
  assumes calls: "\<And>s. app_calls (f s) = app_calls s" and env: "\<And>s. app_env (f s) = app_env s" and k: "preserves (kept e stored P) k"
  shows "preserves (kept e stored P) (under_lock ms f (then_c (saveConfig fw) k))"
proof (rule preservesI)
  fix s a v assume s: "kept e stored P s" and run: "under_lock ms f (then_c (saveConfig fw) k) s = Inr (a, v)"
  let ?s = "s\<lparr>app_calls := app_calls s @ [Sem_Take ms]\<rparr>"
  let ?t = "(f ?s)\<lparr>app_calls := app_calls s @ [Sem_Take ms, Sem_Give]\<rparr>"
  have flash: "flash_of stored ?t = flash_of stored s" by (simp add: replay_append)
  consider (busy) "busy ?s = Inr (a, v)" | (saved) u where "saveConfig fw ?t = Inr ((), u)" "k u = Inr (a, v)"
    using run calls by (auto simp: under_lock_def locked_def call_apply call_u_def call_code_def cmd_Inr_iff split: if_splits)
  then show "kept e stored P v"
  proof cases
    case busy
    have "preserves (kept e stored P) busy" unfolding busy_def send_def by (rule preserves_kept_call) simp
    moreover have "kept e stored P ?s" using s by (auto simp: kept_def settings_def)
    ultimately show ?thesis using busy by (rule preservesD)
  next
    case saved
    from kept_saved [OF s flash _ _ saved(1)] env s have "kept e stored P u" by (auto simp: kept_def)
    then show ?thesis by (rule preservesD [OF k]) (rule saved)
  qed
qed

lemma preserves_kept_scene_save:
  assumes "\<And>cfg c v. P cfg c \<Longrightarrow> P cfg (c(''scenes'' := (c ''scenes'')(scene_key (scene_arg r) \<mapsto> v)))"
  shows "preserves (kept e stored P) (saveScene (scene_arg r) vals)"
proof (rule preservesI)
  fix s a u assume k: "kept e stored P s" and run: "saveScene (scene_arg r) vals s = Inr (a, u)"
  show "kept e stored P u"
  proof (cases "Restart \<in> set (app_calls s)")
    case True
    then show ?thesis using k run by (auto simp: kept_def saveScene_def call_simps)
  next
    case False
    with k have s: "opened (flash_of stored s) = None" "P (settings s) (contents (flash_of stored s))"
      by (auto simp: kept_def)
    from save_scene_effect [OF s(1) run] assms [OF s(2)] k show ?thesis by (simp add: kept_def)
  qed
qed

lemma preserves_kept_reset: "preserves (kept e stored P) factory_reset"
  by (auto intro!: preservesI dest!: factory_reset_restarts simp: kept_def)

lemma preserves_kept_locked:
  "preserves (kept e stored P) b \<Longrightarrow> preserves (kept e stored P) m \<Longrightarrow> preserves (kept e stored P) (locked ms b m)"
  unfolding locked_def by (intro preserves_rules preserves_kept_call) simp_all

lemma preserves_kept_send: "preserves (kept e stored P) (send code body)" "preserves (kept e stored P) busy"
  "preserves (kept e stored P) millis"
  unfolding send_def busy_def millis_def by (intro preserves_rules preserves_kept_call; simp)+

lemma preserves_kept_lock:
  assumes "\<And>s. app_calls (f s) = app_calls s" "\<And>s. settings (f s) = settings s" "\<And>s. app_env (f s) = app_env s"
    "preserves (kept e stored P) k"
  shows "preserves (kept e stored P) (under_lock ms f k)"
  unfolding under_lock_def
  by (intro preserves_rules preserves_kept_locked preserves_kept_send preserves_kept_modify) (simp_all add: assms)

lemma preserves_kept_poll:
  "(\<And>pkt. preserves (kept e stored P) (f pkt)) \<Longrightarrow> preserves (kept e stored P) (poll_udp sock cap k f)"
  by (induction k) (auto intro!: preserves_rules preserves_kept_call)

lemmas kept_rules = preserves_rules preserves_kept_call preserves_kept_locked preserves_kept_send
  preserves_kept_lock preserves_kept_poll preserves_kept_modify preserves_kept_fixtures preserves_kept_load preserves_kept_config

lemma kept_libraries:
  "preserves (kept e stored P) broadcast_ip" "preserves (kept e stored P) artOutTarget"
  "preserves (kept e stored P) refreshArtNetSocket" "preserves (kept e stored P) refreshSacnSocket"
  "preserves (kept e stored P) (sendPeerGet ip path)" "preserves (kept e stored P) (enqueueBcast path ip)"
  "preserves (kept e stored P) artnetActive" "preserves (kept e stored P) sacnActive" "preserves (kept e stored P) sendDMX"
  "preserves (kept e stored P) startSoftAP" "preserves (kept e stored P) ensureStaInterface"
  "preserves (kept e stored P) (restart ms)" "preserves (kept e stored P) startMdns"
  unfolding broadcast_ip_def artOutTarget_def refreshArtNetSocket_def refreshSacnSocket_def sendPeerGet_def
    enqueueBcast_def artnetActive_def sacnActive_def sendDMX_def startSoftAP_def ensureStaInterface_def restart_def
    startMdns_def buildMdnsName_def
  by (intro kept_rules; simp add: settings_def)+

lemma kept_beacon: "preserves (kept e stored P) sendBeacon" "preserves (kept e stored P) (bcastTask_entry path ip)"
  unfolding sendBeacon_def bcastTask_entry_def by (intro kept_rules kept_libraries; simp)+

lemma kept_levels:
  "preserves (kept e stored P) (set_channels chs v)" "preserves (kept e stored P) (startFade_locked target t)"
  "preserves (kept e stored P) updateFade_locked" "preserves (kept e stored P) (triggerCueStep i)"
  "preserves (kept e stored P) (tickCueEngine now)" "preserves (kept e stored P) (tap now)"
  unfolding set_channels_def startFade_locked_def updateFade_locked_def triggerCueStep_def tickCueEngine_def tap_def
  by (intro kept_rules; simp add: settings_def)+

text \<open>The routes that only change levels and the show.\<close>

lemma kept_recall: "preserves (kept e stored P) k \<Longrightarrow> preserves (kept e stored P) (recall r k)"
  unfolding recall_def by (intro kept_rules kept_levels; simp)

lemma kept_queue: "preserves (kept e stored P) m \<Longrightarrow> preserves (kept e stored P) (or_queue_full m)" "preserves (kept e stored P) bcast_master"
  unfolding or_queue_full_def bcast_master_def by (intro kept_rules kept_libraries; assumption?)+

lemma kept_show_routes:
  "preserves (kept e stored P) (routeSet r)" "preserves (kept e stored P) (routeBlackout r)" "preserves (kept e stored P) (routeFull r)"
  "preserves (kept e stored P) (routeMaster r)" "preserves (kept e stored P) (routeSceneRecall r)"
  "preserves (kept e stored P) (routeReboot r)" "preserves (kept e stored P) (routeFactoryReset r)"
  "preserves (kept e stored P) (routeArtOutPeer r)" "preserves (kept e stored P) (routeFixtureSet r)"
  "preserves (kept e stored P) (routeGroupSet r)" "preserves (kept e stored P) (routeGroupApply r)"
  "preserves (kept e stored P) (routeCueCount r)" "preserves (kept e stored P) (routeCueSet r)"
  "preserves (kept e stored P) (routeFxTap r)"
  unfolding routeSet_def routeBlackout_def routeFull_def routeMaster_def routeSceneRecall_def routeReboot_def
    routeFactoryReset_def routeArtOutPeer_def routeFixtureSet_def routeGroupSet_def routeGroupApply_def
    routeCueCount_def routeCueSet_def routeFxTap_def
  by (intro kept_rules kept_levels kept_recall; simp add: settings_def flood_def Let_def)+

lemma kept_more_routes:
  "preserves (kept e stored P) (routeCueRun r)" "preserves (kept e stored P) (routeCueNext r)"
  "preserves (kept e stored P) (routeFxSet r)" "preserves (kept e stored P) (routeColorSet r)"
  unfolding routeCueRun_def routeCueNext_def routeFxSet_def routeColorSet_def
  by (intro kept_rules kept_levels; auto split: option.split bool.split sum.split simp: settings_def if_arg_def applyColorWash_def
     intro!: kept_rules kept_levels)+

lemma kept_fleet_routes:
  "preserves (kept e stored P) (routePeerCmd r)" "preserves (kept e stored P) (routeNetBlackout r)"
  "preserves (kept e stored P) (routeNetFull r)" "preserves (kept e stored P) (routeNetMaster r)"
  "preserves (kept e stored P) (routeNetSceneRecall r)"
  unfolding routePeerCmd_def routeNetBlackout_def routeNetFull_def routeNetMaster_def routeNetSceneRecall_def
  by (intro kept_rules kept_libraries kept_recall kept_queue; simp add: settings_def flood_def)+

text \<open>The routes that change the configuration save it.\<close>

lemma kept_config_routes:
  "preserves (kept e stored P) (routeArtNetSet fw r)" "preserves (kept e stored P) (routeArtOutSet fw r)"
  "preserves (kept e stored P) (routeModeSet fw r)" "preserves (kept e stored P) (routeModeFallback fw r)"
  "preserves (kept e stored P) (routeNetModeSet fw r)" "preserves (kept e stored P) (routeWebSet fw r)"
  "preserves (kept e stored P) (routeSafetySet fw r)" "preserves (kept e stored P) (routeWifiSet fw r)"
  "preserves (kept e stored P) (routeWifiForget fw r)" "preserves (kept e stored P) (routeNodeSet fw r)"
  unfolding routeArtNetSet_def routeArtOutSet_def routeModeSet_def routeModeFallback_def routeNetModeSet_def
    routeWebSet_def routeSafetySet_def routeWifiSet_def routeWifiForget_def routeNodeSet_def
  by (intro preserves_kept_save preserves_rules preserves_kept_send kept_libraries preserves_kept_modify preserves_kept_config;
      simp add: settings_def if_arg_def)+

lemma kept_reports:
  "preserves (kept e stored P) (fillStatusJSON n)" "preserves (kept e stored P) statusJSON" "preserves (kept e stored P) peersJSON"
  "preserves (kept e stored P) (pageJSON page)" "preserves (kept e stored P) monitorJSON" "preserves (kept e stored P) groupsJSON"
  "preserves (kept e stored P) fixturesJSON" "preserves (kept e stored P) cueJSON" "preserves (kept e stored P) fxJSON"
  "preserves (kept e stored P) safetyJSON" "preserves (kept e stored P) (nodeManifestJSON fw)"
  "preserves (kept e stored P) (routeDiscover r)"
  unfolding statusJSON_def fillStatusJSON_def peersJSON_def pageJSON_def monitorJSON_def groupsJSON_def fixturesJSON_def
    cueJSON_def fxJSON_def safetyJSON_def nodeManifestJSON_def routeDiscover_def split_def
  by (intro kept_rules kept_libraries kept_beacon; simp)+

lemma kept_scan: "preserves (kept e stored P) wifiScanJSON"
proof -
  have items: "preserves (kept e stored P) (scan_items is)" for "is"
    by (induction "is") (simp_all only: scan_items.simps scan_item_def, (intro kept_rules; simp)+)
  show ?thesis
    unfolding wifiScanJSON_def scan_stop_def scan_start_def scan_results_def
    by (intro kept_rules kept_libraries items; simp add: settings_def)
qed

lemma kept_json: "preserves (kept e stored P) m \<Longrightarrow> preserves (kept e stored P) (json_route m r)"
  unfolding json_route_def sendJSON_def by (intro kept_rules)

lemma kept_polls:
  "preserves (kept e stored P) pollArtNet" "preserves (kept e stored P) pollSacn" "preserves (kept e stored P) (pollOsc undef)"
  "preserves (kept e stored P) (pollDiscovery junk)"
  unfolding pollArtNet_def artnet_packet_def pollSacn_def sacn_packet_def pollOsc_def osc_packet_def osc_dispatch_def
    osc_color_def osc_cue_run_def pollDiscovery_def beacon_packet_def
  by (intro kept_rules kept_levels; auto split: option.split simp: settings_def applyColorWash_def Let_def
      intro!: kept_rules kept_levels kept_beacon)+

lemma kept_loop: "preserves (kept e stored P) (app_loop radar undef junk)"
proof -
  have "preserves (kept e stored P) sendArtNetOut" "preserves (kept e stored P) wifi_requests" "preserves (kept e stored P) wifi_changes"
    "preserves (kept e stored P) (expire_peers now)" "preserves (kept e stored P) (ws_push now)" for now
    unfolding sendArtNetOut_def wifi_requests_def wifi_changes_def expire_peers_def ws_push_def
    by (intro kept_rules kept_libraries kept_beacon kept_reports; simp add: settings_def)+
  then show ?thesis
    unfolding app_loop_def output_cycle_def
    by (intro kept_rules preserves_kept_reset kept_libraries kept_polls kept_levels kept_beacon;
        simp add: settings_def computeOutput_def Let_def)
qed

lemmas kept_routes = kept_show_routes kept_more_routes kept_fleet_routes kept_config_routes

lemma kept_http:
  assumes "path = ''/scene/save'' \<Longrightarrow> preserves (kept e stored P) (routeSceneSave r)"
  shows "preserves (kept e stored P) (http_request fw path r)"
proof -
  have "list_all (\<lambda>(p, route). p = ''/scene/save'' \<or> preserves (kept e stored P) (route r)) (routes fw @ reports fw)"
    by (simp add: routes_def kept_routes reports_def kept_reports kept_scan kept_json)
  with assms show ?thesis
    by (auto simp: http_request_def list_all_iff routes_def intro!: preserves_kept_send preserves_pure split: option.split dest!: map_of_SomeD)
qed

lemma kept_scene_save:
  assumes "\<And>cfg c v. P cfg c \<Longrightarrow> P cfg (c(''scenes'' := (c ''scenes'')(scene_key (scene_arg r) \<mapsto> v)))"
  shows "preserves (kept e stored P) (routeSceneSave r)"
  unfolding routeSceneSave_def by (intro kept_rules preserves_kept_scene_save assms)

lemma kept_step:
  assumes "\<And>r. ev = Http ''/scene/save'' r \<Longrightarrow> preserves (kept e stored P) (routeSceneSave r)"
  shows "preserves (kept e stored P) (node_step radar undef junk fw ev)"
proof (cases ev)
  case (Http path r)
  then show ?thesis using assms by (auto intro!: kept_http)
qed (auto intro!: kept_beacon kept_loop preserves_rules)

lemma kept_run:
  assumes "\<And>r. Http ''/scene/save'' r \<in> set evs \<Longrightarrow> preserves (kept e stored P) (routeSceneSave r)"
  shows "preserves (kept e stored P) (node_run radar undef junk fw evs)"
  using assms unfolding node_run_def
proof (induction evs)
  case (Cons ev evs)
  then have "preserves (kept e stored P) (node_step radar undef junk fw ev)" by (intro kept_step) auto
  with Cons show ?case by (auto intro!: preserves_then)
qed (simp only: for_c.simps preserves_pure)

end

end
