(* ===== verification/Vizzz_Store.thy ===== *)
theory Vizzz_Store
  imports Vizzz_Flash
begin

text \<open>
  Persistence. The locale \<open>preferences\<close> states what the firmware relies on, that a read returns the value
  of the last write. The locale \<open>storage\<close> is interpreted for \<open>config_kept\<close>, by which the stored
  configuration is always the running one, and for \<open>scene_kept\<close>, by which a scene stays as it was saved.
\<close>

section \<open>Reading back\<close>

text \<open>
  What the firmware relies on: a read answers with what the history of calls left in the flash. Nothing
  is assumed about the replies to the other calls. Writes that the library refuses, for a value of more
  than 4000 bytes or when the partition is full, are not covered.
\<close>

locale preferences =
  fixes stored :: "string \<Rightarrow> string \<rightharpoonup> pref" and e :: "app_call list \<Rightarrow> app_call \<Rightarrow> app_reply"
  assumes reads: "is_read p \<Longrightarrow> e cs (Prefs p) = flash_answer (replay stored cs) p"
begin

lemma load_scene:
  assumes "app_env s = e" "opened (flash_of stored s) = None"
    "contents (flash_of stored s) ''scenes'' (scene_key n) = Some (P_Bytes vals)" "length vals = MAX_CH"
  shows "\<exists>u. loadScene n s = Inr (vals, u)"
  using assms by (simp add: loadScene_def call_simps reads replay_append flash_simps flash_answer_def flash_lookup_def)

lemma load_scene_blank:
  assumes "app_env s = e" "opened (flash_of stored s) = None" "contents (flash_of stored s) ''scenes'' (scene_key n) = None"
  shows "\<exists>u. loadScene n s = Inr (replicate MAX_CH 0, u)"
  using assms by (simp add: loadScene_def call_simps reads replay_append flash_simps flash_answer_def flash_lookup_def)

end

lemma mode_codes: "mode_of (mode_code m) = m" "net_mode_of (net_mode_code nm) = nm"
  by (cases m; simp add: mode_of_def mode_code_def) (cases nm; simp add: net_mode_of_def net_mode_code_def)

context preferences
begin

lemma load_config:
  assumes "app_env s = e" "opened (flash_of stored s) = None"
    "holds_config fw (settings s0) (contents (flash_of stored s) ''cfg'')" "c_str fw = fw"
  shows "\<exists>t. loadConfig fw s = Inr ((), t) \<and> settings t = cut_settings (settings s0) \<and> app_env t = e \<and>
    needSaveConfig t = needSaveConfig s \<and> flash_of stored t = flash_of stored s"
  using assms
  by (simp add: loadConfig_def call_simps get_uchar_def get_bool_def reads replay_append flash_simps flash_answer_def
      flash_lookup_def holds_config_def config_entries_def cut_settings_def settings_def mode_codes)

end

section \<open>The stored configuration is the running one\<close>

definition config_kept :: "string \<Rightarrow> node_settings \<Rightarrow> (string \<Rightarrow> string \<rightharpoonup> pref) \<Rightarrow> bool" where
  "config_kept fw_tag cfg c \<longleftrightarrow> holds_config fw_tag cfg (c ''cfg'')"

interpretation config: storage "config_kept fw" fw
  by unfold_locales (simp_all add: config_kept_def)

text \<open>
  During start-up the configuration may differ from the stored one as long as the flag says that it must
  be saved.
\<close>

definition pending :: "(app_call list \<Rightarrow> app_call \<Rightarrow> app_reply) \<Rightarrow> (string \<Rightarrow> string \<rightharpoonup> pref) \<Rightarrow> string \<Rightarrow> app \<Rightarrow> bool" where
  "pending e stored fw s \<longleftrightarrow> app_env s = e \<and> opened (flash_of stored s) = None \<and>
     (needSaveConfig s \<or> holds_config fw (settings s) (contents (flash_of stored s) ''cfg''))"

lemma pending_modify:
  "(\<And>s. app_calls (f s) = app_calls s \<and> app_env (f s) = app_env s \<and> (settings (f s) = settings s \<and> needSaveConfig (f s) = needSaveConfig s \<or> needSaveConfig (f s))) \<Longrightarrow>
     preserves (pending e stored fw) (modify_c f)"
  by (rule preserves_modify) (metis pending_def)

lemma pending_call:
  assumes "\<not> is_prefs c"
  shows "preserves (pending e stored fw) (call c)" "preserves (pending e stored fw) (call_u c)"
    "preserves (pending e stored fw) (call_code c)" "preserves (pending e stored fw) (call_text c)"
  using assms by (auto intro!: preservesI simp: call_simps pending_def settings_def)

lemma pending_wait: "preserves (pending e stored fw) (wait_join k t)"
  by (induction k) (simp_all only: wait_join.simps millis_def, (intro preserves_rules pending_call; simp)+)

lemma pending_wifi: "preserves (pending e stored fw) (startWiFi rounds)"
proof -
  have "preserves (pending e stored fw) fix_ap_ssid"
    unfolding fix_ap_ssid_def macSuffix6_def
    by (intro preserves_rules pending_call pending_modify; simp add: settings_def)
  then show ?thesis
    unfolding startWiFi_def soft_ap_fallback_def startSoftAP_def buildMdnsName_def millis_def
    by (intro preserves_rules pending_call pending_modify pending_wait; simp add: settings_def)
qed

lemma pending_defaults: "preserves (pending e stored fw) initVjDefaults" "preserves (pending e stored fw) setupDMX"
  unfolding initVjDefaults_def initFixtureDefaults_def setupDMX_def
  by (intro preserves_rules pending_call pending_modify; simp add: settings_def)+

lemma cut_cut: "cut_settings (cut_settings cfg) = cut_settings cfg"
  by (auto simp: cut_settings_def c_str_def comp_def split: prod.splits)

text \<open>A flash that holds the tag of this build holds the whole configuration that came with it.\<close>

definition saved_whole :: "string \<Rightarrow> (string \<Rightarrow> string \<rightharpoonup> pref) \<Rightarrow> bool" where
  "saved_whole fw stored \<longleftrightarrow>
     (stored ''cfg'' ''fw_tag'' = Some (P_String fw) \<longrightarrow> (\<exists>s. holds_config fw (settings s) (stored ''cfg'')))"

context preferences
begin

lemma load_blank:
  assumes "stored ''cfg'' = Map.empty" "fw \<noteq> ''''"
  shows "\<exists>t m. loadConfig fw (boot_app e) = Inr ((), t) \<and> nodeName t = PRODUCT_NAME @ ''-'' @ m \<and>
    settings t = settings ((boot_app e)\<lparr>nodeName := nodeName t, apSsid := ''''\<rparr>) \<and> needSaveConfig t"
  using assms
  by (simp add: loadConfig_def boot_app_def call_simps get_uchar_def get_bool_def reads replay_append flash_simps flash_answer_def
      flash_lookup_def makeNodeNameFromMac_def macSuffix6_def Let_def isGeneratedNodeName_def settings_def mode_codes replay_def)

lemma load_tag_differs:
  assumes "app_env s = e" "opened (flash_of stored s) = None"
    "a_text (flash_answer ((flash_of stored s)\<lparr>opened := Some (''cfg'', True)\<rparr>) (Get_String ''fw_tag'' '''')) \<noteq> fw"
  shows "\<exists>t. loadConfig fw s = Inr ((), t) \<and> app_env t = e \<and> opened (flash_of stored t) = None \<and> needSaveConfig t"
  using assms
  by (simp add: loadConfig_def call_simps get_uchar_def get_bool_def reads replay_append flash_simps
      makeNodeNameFromMac_def macSuffix6_def Let_def)

lemma load_pending:
  assumes "saved_whole fw stored" "c_str fw = fw" "fw \<noteq> ''''" "loadConfig fw (boot_app e) = Inr (a, t)"
  shows "pending e stored fw t"
proof (cases "stored ''cfg'' ''fw_tag'' = Some (P_String fw)")
  case True
  then obtain s0 where "holds_config fw (settings s0) (stored ''cfg'')" using assms by (auto simp: saved_whole_def)
  then have "holds_config fw (settings s0) (contents (flash_of stored (boot_app e)) ''cfg'')"
    "app_env (boot_app e) = e" "opened (flash_of stored (boot_app e)) = None" by (simp_all add: boot_app_def)
  from load_config [OF this(2,3,1) assms(2)] this assms(4)
  have "settings t = cut_settings (settings s0)" "app_env t = e" "flash_of stored t = flash_of stored (boot_app e)" by auto
  then show ?thesis
    using \<open>holds_config fw (settings s0) (stored ''cfg'')\<close>
    by (simp add: pending_def boot_app_def holds_config_def config_entries_def cut_cut)
next
  case False
  then have tag: "a_text (flash_answer ((flash_of stored (boot_app e))\<lparr>opened := Some (''cfg'', True)\<rparr>) (Get_String ''fw_tag'' '''')) \<noteq> fw"
    using assms(3) by (auto simp: boot_app_def flash_answer_def flash_lookup_def split: option.split pref.split)
  have "app_env (boot_app e) = e" "opened (flash_of stored (boot_app e)) = None" by (simp_all add: boot_app_def)
  from load_tag_differs [OF this tag] assms(4) show ?thesis by (auto simp: pending_def)
qed

end

text \<open>The first save of start-up: what is pending is stored.\<close>

lemma pending_saved:
  assumes "pending e stored fw s"
    "(if needSaveConfig s then then_c (saveConfig fw) (modify_c (\<lambda>s. s\<lparr>needSaveConfig := False\<rparr>)) else ret ()) s = Inr (a, t)"
  shows "kept e stored (config_kept fw) t"
proof -
  have s: "opened (flash_of stored s) = None" "app_env s = e" using assms by (simp_all add: pending_def)
  show ?thesis
    using save_config_effect [OF s(1), of fw] assms s
    by (auto simp: kept_def config_kept_def pending_def then_c_Inr_iff settings_def split: if_splits)
qed

lemma then_c_assoc: "then_c (then_c m n) k = then_c m (then_c n k)"
  by (simp add: then_c_def bind_c_def fun_eq_iff split: sum.splits)

lemma thenE: "then_c m n s = Inr (b, t) \<Longrightarrow> (\<And>a s'. m s = Inr (a, s') \<Longrightarrow> n s' = Inr (b, t) \<Longrightarrow> R) \<Longrightarrow> R"
  by (auto simp: then_c_Inr_iff)

lemma bind_c_gets: "bind_c (gets_c f) k s = k (f s) s"
  by (simp add: bind_c_def)

lemma setup_keeps:
  assumes "preferences stored e" "saved_whole fw stored" "c_str fw = fw" "fw \<noteq> ''''"
    "app_setup fw rounds (boot_app e) = Inr (a, u)"
  shows "kept e stored (config_kept fw) u"
proof -
  let ?need = "\<lambda>need. if need then then_c (saveConfig fw) (modify_c (\<lambda>s. s\<lparr>needSaveConfig := False\<rparr>)) else ret ()"
  let ?boot = "then_c initVjDefaults (then_c (modify_c (\<lambda>s. s\<lparr>webVals := replicate MAX_CH 0, artVals := replicate MAX_CH 0,
        sacnVals := replicate MAX_CH 0, outVals := replicate MAX_CH 0\<rparr>)) (then_c setupDMX (startWiFi rounds)))"
  let ?rest = "then_c startMdns (then_c refreshArtNetSocket (then_c (call_u (Net (Udp_Begin Art_Out 0)))
      (then_c refreshSacnSocket (then_c (call_u (Net (Udp_Begin Discover DISCOVERY_PORT))) (then_c (call_u (Net (Udp_Begin Osc 9000)))
      (bind_c (gets_c webEnabled) (\<lambda>web. then_c (if web then then_c startBcastTask (ret ()) else ret ())
         (modify_c (\<lambda>s. s\<lparr>lastArtnetMs := 0, lastSacnMs := 0\<rparr>)))))))))"
  have "app_setup fw rounds = then_c (loadConfig fw) (then_c ?boot (bind_c (gets_c needSaveConfig) (\<lambda>need. then_c (?need need) ?rest)))"
    by (simp only: app_setup_def then_c_assoc)
  from thenE [OF assms(5) [unfolded this]] obtain x1 t1 where load: "loadConfig fw (boot_app e) = Inr (x1, t1)" and
    "then_c ?boot (bind_c (gets_c needSaveConfig) (\<lambda>need. then_c (?need need) ?rest)) t1 = Inr (a, u)" by blast
  from thenE [OF this(2)] obtain x2 t2 where boot: "?boot t1 = Inr (x2, t2)" and
    "then_c (?need (needSaveConfig t2)) ?rest t2 = Inr (a, u)" by (auto simp only: bind_c_gets)
  from thenE [OF this(2)] obtain x3 t3 where save: "?need (needSaveConfig t2) t2 = Inr (x3, t3)" and rest: "?rest t3 = Inr (a, u)" by blast
  have "preserves (pending e stored fw) ?boot"
    by (intro preserves_rules pending_defaults pending_wifi pending_modify) (simp add: settings_def)
  from preservesD [OF this preferences.load_pending [OF assms(1-4) load] boot]
  have t3: "kept e stored (config_kept fw) t3" using save by (rule pending_saved)
  have "preserves (kept e stored (config_kept fw)) ?rest"
    unfolding startBcastTask_def
    by (intro preserves_rules config.kept_libraries config.kept_rules; simp add: settings_def)
  then show ?thesis by (rule preservesD [of _ ?rest t3 a u]) (fact t3, fact rest)
qed

section \<open>A scene stays as it was saved\<close>

definition scene_kept :: "u8 \<Rightarrow> bytes \<Rightarrow> node_settings \<Rightarrow> (string \<Rightarrow> string \<rightharpoonup> pref) \<Rightarrow> bool" where
  "scene_kept n vals cfg c \<longleftrightarrow> c ''scenes'' (scene_key n) = Some (P_Bytes vals)"

interpretation scene: storage "scene_kept n vals" fw
  by unfold_locales (simp_all add: scene_kept_def)

section \<open>Fixtures\<close>

lemma slice_concat:
  "\<forall>xs \<in> set xss. length xs = k \<Longrightarrow> i < length xss \<Longrightarrow> slice (k * i) k (concat xss) = xss ! i"
proof (induction xss arbitrary: i)
  case (Cons xs xss)
  then show ?case by (cases i) (auto simp: slice_def)
qed simp

lemma length_fixture_bytes: "length (f_name f) = 16 \<Longrightarrow> length (fixture_bytes f) = 24"
  by (simp add: fixture_bytes_def)

lemma fixture_round_trip: "length (f_name f) = 16 \<Longrightarrow> fixture_of (fixture_bytes f) = f"
  by (cases f) (simp add: fixture_of_def fixture_bytes_def slice_def nth_append)

context preferences
begin

lemma load_fixtures:
  assumes s: "app_env s = e" "opened (flash_of stored s) = None"
    "contents (flash_of stored s) ''fixtures'' ''count'' = Some (P_UChar c)"
    "contents (flash_of stored s) ''fixtures'' ''items'' = Some (P_Bytes (concat (map fixture_bytes fs)))"
    and fs: "length fs = MAX_FIXTURES" "\<forall>f \<in> set fs. length (f_name f) = 16"
  shows "\<exists>t. loadFixtures s = Inr ((), t) \<and> fixtureCount t = constrain (unat c) 1 MAX_FIXTURES \<and>
    fixtures t = disable_from (constrain (unat c) 1 MAX_FIXTURES) fs"
proof -
  let ?n = "constrain (unat c) 1 MAX_FIXTURES" and ?blob = "concat (map fixture_bytes fs)"
  have "map (length \<circ> fixture_bytes) fs = replicate 12 24"
    using fs by (intro nth_equalityI) (simp_all add: length_fixture_bytes)
  then have blob: "length ?blob = 24 * MAX_FIXTURES" by (simp add: length_concat sum_list_replicate)
  have item: "fixture_of (slice (24 * i) 24 ?blob) = fs ! i" if "i < MAX_FIXTURES" for i
    using that fs slice_concat [of "map fixture_bytes fs" 24 i] by (simp add: length_fixture_bytes fixture_round_trip)
  have "map (\<lambda>i. (map (\<lambda>i. fixture_of (slice (24 * i) 24 ?blob)) [0..<MAX_FIXTURES] ! i)\<lparr>f_enabled := i < ?n \<and>
      f_enabled (map (\<lambda>i. fixture_of (slice (24 * i) 24 ?blob)) [0..<MAX_FIXTURES] ! i)\<rparr>) [0..<MAX_FIXTURES] = disable_from ?n fs"
    using fs(1) item by (intro nth_equalityI) (simp_all add: disable_from_def nth_enumerate_eq)
  then show ?thesis
    using s blob
    by (simp add: loadFixtures_def initFixtureDefaults_def call_simps get_uchar_def reads replay_append flash_simps
        flash_answer_def flash_lookup_def Let_def)
qed

end

section \<open>The theorems\<close>

lemma scene_keys:
  assumes "m < 8" "n < 8" "scene_key m = scene_key n"
  shows "m = n"
proof -
  have "unat m < 8" "unat n < 8" using assms(1,2) by (simp_all add: word_less_nat_alt)
  then have "unat m = unat n"
    using assms(3) by (simp add: scene_key_def dec.simps [of "unat m"] dec.simps [of "unat n"] eval_nat_numeral less_Suc_eq)
      (elim disjE; simp)
  then show ?thesis by (rule unsigned_word_eqI)
qed

lemma scene_arg_bound: "scene_arg r < 8"
proof -
  have "0 \<le> constrain (argInt r ''n'') 0 7 \<and> constrain (argInt r ''n'') 0 7 \<le> 7" by (rule constrain_bounds) simp
  then show ?thesis by (simp add: scene_arg_def word_less_def uint_word_of_int_eq take_bit_int_eq_self)
qed

lemma run_env: "kept e stored P s \<Longrightarrow> app_env s = e"
  by (simp add: kept_def)


text \<open>A board that keeps its flash, grants the lock and counts the delays.\<close>

definition flash_board :: "(string \<Rightarrow> string \<rightharpoonup> pref) \<Rightarrow> app_call list \<Rightarrow> app_call \<Rightarrow> app_reply" where
  "flash_board stored cs c = (case c of
     Prefs p \<Rightarrow> flash_answer (replay stored cs) p
   | Millis \<Rightarrow> Answer (sum_list (map passes cs)) [] ''''
   | Sem_Take _ \<Rightarrow> Answer 1 [] ''''
   | _ \<Rightarrow> Answer 0 [] ''net'')"

interpretation board: preferences stored "flash_board stored"
  by unfold_locales (simp add: flash_board_def)

lemma board_clock: "clock_advances (flash_board stored)"
  by (simp add: clock_advances_def flash_board_def)

text \<open>Start-up and a change of the mode do not restart the node.\<close>

definition no_restart :: "app \<Rightarrow> bool" where
  "no_restart s \<longleftrightarrow> Restart \<notin> set (app_calls s)"

lemma no_restart_call:
  assumes "c \<noteq> Restart"
  shows "preserves no_restart (call c)" "preserves no_restart (call_u c)" "preserves no_restart (call_code c)"
    "preserves no_restart (call_text c)"
  using assms by (auto intro!: preservesI simp: call_simps no_restart_def)

lemma no_restart_modify: "(\<And>s. app_calls (f s) = app_calls s) \<Longrightarrow> preserves no_restart (modify_c f)"
  by (rule preserves_modify) (simp add: no_restart_def)

lemmas no_restart_rules = preserves_rules no_restart_call no_restart_modify

lemma no_restart_config: "preserves no_restart (saveConfig fw)" "preserves no_restart (loadConfig fw)"
  unfolding saveConfig_def loadConfig_def prefs_u_def get_uchar_def get_bool_def makeNodeNameFromMac_def macSuffix6_def
  by (intro no_restart_rules; simp)+

lemma no_restart_wifi: "preserves no_restart (startWiFi rounds)" "preserves no_restart startMdns"
proof -
  have "preserves no_restart (wait_join k t)" for k t
    by (induction k) (simp_all only: wait_join.simps millis_def, (intro no_restart_rules; simp)+)
  then show "preserves no_restart (startWiFi rounds)"
    unfolding startWiFi_def soft_ap_fallback_def startSoftAP_def buildMdnsName_def millis_def fix_ap_ssid_def macSuffix6_def
    by (intro no_restart_rules; simp)
  show "preserves no_restart startMdns"
    unfolding startMdns_def buildMdnsName_def by (intro no_restart_rules; simp)
qed

lemma no_restart_setup: "preserves no_restart (app_setup fw rounds)"
  unfolding app_setup_def initVjDefaults_def initFixtureDefaults_def setupDMX_def refreshArtNetSocket_def refreshSacnSocket_def
    startBcastTask_def
  by (intro no_restart_rules no_restart_config no_restart_wifi; simp)

lemma no_restart_mode: "preserves no_restart (http_request fw ''/mode/set'' r)"
proof -
  have "http_request fw ''/mode/set'' r = routeModeSet fw r" by (simp add: http_request_def routes_def)
  then show ?thesis
    unfolding routeModeSet_def under_lock_def locked_def busy_def send_def
    by (simp only:) (intro no_restart_rules no_restart_config; simp)
qed


text \<open>
  C14. A saved scene stays. After \<^verbatim>\<open>saveScene\<close>, whatever the node does short of a restart, and unless the
  same scene is saved again, recalling the scene delivers the levels that were saved, on the running
  node and after a loss of power.
\<close>

theorem scene_survives:
  assumes "preferences stored e" "app_env s = e" "wf_app s" "opened (replay stored (app_calls s)) = None"
    "n < 8" "length vals = MAX_CH" "\<forall>r. Http ''/scene/save'' r \<in> set evs \<longrightarrow> scene_arg r \<noteq> n"
  shows "\<exists>s1 s2. saveScene n vals s = Inr ((), s1) \<and> node_run radar undef junk fw evs s1 = Inr ((), s2) \<and>
    (Restart \<in> set (app_calls s2) \<or>
     (\<exists>u. loadScene n s2 = Inr (vals, u)) \<and>
     (\<forall>e'. preferences (contents (replay stored (app_calls s2))) e' \<longrightarrow> (\<exists>u. loadScene n (boot_app e') = Inr (vals, u))))"
proof -
  obtain s1 where s1: "saveScene n vals s = Inr ((), s1)" "wf_app s1"
    using wf.runs_quiet(3) [of n vals] assms(3) by (auto simp: runs_def)
  have "runs wf_app (node_run radar undef junk fw evs)" unfolding node_run_def by (intro runs_for wf_step)
  then obtain s2 where s2: "node_run radar undef junk fw evs s1 = Inr ((), s2)" using s1(2) by (auto simp: runs_def)
  have k1: "kept e stored (scene_kept n vals) s1"
    using save_scene_effect [OF assms(4) s1(1)] assms(2,6) by (auto simp: kept_def scene_kept_def)
  have keys: "scene_key (scene_arg r) \<noteq> scene_key n" if "Http ''/scene/save'' r \<in> set evs" for r
    using scene_keys [OF scene_arg_bound assms(5), of r] that assms(7) by blast
  have "preserves (kept e stored (scene_kept n vals)) (node_run radar undef junk fw evs)"
    by (intro scene.kept_run scene.kept_scene_save) (simp add: scene_kept_def keys [THEN not_sym])
  from preservesD [OF this k1 s2] have k2: "app_env s2 = e"
    "Restart \<in> set (app_calls s2) \<or> opened (flash_of stored s2) = None \<and>
       contents (flash_of stored s2) ''scenes'' (scene_key n) = Some (P_Bytes vals)"
    by (auto simp: kept_def scene_kept_def)
  have "\<exists>u. loadScene n (boot_app e') = Inr (vals, u)"
    if "preferences (contents (flash_of stored s2)) e'" "contents (flash_of stored s2) ''scenes'' (scene_key n) = Some (P_Bytes vals)" for e'
    using preferences.load_scene [OF that(1), of "boot_app e'" n vals] that(2) assms(6) by (simp add: boot_app_def)
  with k2 s1(1) s2 preferences.load_scene [OF assms(1) k2(1) _ _ assms(6)] show ?thesis by blast
qed

theorem scene_survives_witness:
  "\<exists>s1 s2. saveScene 3 (replicate 512 77) (boot_app (flash_board (\<lambda>_ _. None))) = Inr ((), s1) \<and>
     node_run (\<lambda>_ _ _. 0) (\<lambda>_. 0) '''' ''tag'' [Http ''/scene/save'' [(''n'', ''4'')], Iterate] s1 = Inr ((), s2) \<and>
     (Restart \<in> set (app_calls s2) \<or> (\<exists>u. loadScene 3 s2 = Inr (replicate 512 77, u)))"
proof -
  have env: "app_env (boot_app (flash_board (\<lambda>_ _. None))) = flash_board (\<lambda>_ _. None)"
    "opened (replay (\<lambda>_ _. None) (app_calls (boot_app (flash_board (\<lambda>_ _. None))))) = None"
    by (simp_all add: boot_app_def)
  have "scene_arg [(''n'', ''4'')] = 4"
    by (simp add: scene_arg_def argInt_def arg_def c_str_def atol_def is_space_def is_digit_def digits_value_def saturate32_def constrain_def)
  then have evs: "\<forall>r. Http ''/scene/save'' r \<in> set [Http ''/scene/save'' [(''n'', ''4'')], Iterate] \<longrightarrow> scene_arg r \<noteq> 3"
    by simp
  from scene_survives [OF board.preferences_axioms env(1) wf_boot env(2) _ _ evs, of "replicate 512 77" "\<lambda>_ _ _. 0" "\<lambda>_. 0" "''''" "''tag''"]
  show ?thesis by fastforce
qed

text \<open>
  C20. A factory reset forgets the configuration and the scenes, and nothing else: the namespaces are
  cleared before the restart, the node comes up with the configuration of the build and a name from
  its MAC address, and every scene is dark. What is stored about the fixtures stays.
\<close>

theorem factory_reset_forgets:
  assumes "opened (replay stored (app_calls s)) = None" "c_str fw = fw" "fw \<noteq> ''''"
  shows "\<exists>u. factory_reset s = Inr (True, u) \<and> last (app_calls u) = Restart \<and>
    (\<forall>ns. contents (replay stored (app_calls u)) ns =
       (if ns \<in> {''cfg'', ''scenes''} then Map.empty else contents (replay stored (app_calls s)) ns)) \<and>
    (\<forall>e'. preferences (contents (replay stored (app_calls u))) e' \<longrightarrow>
       (\<forall>n. \<exists>v. loadScene n (boot_app e') = Inr (replicate MAX_CH 0, v)) \<and>
       (\<exists>t m. loadConfig fw (boot_app e') = Inr ((), t) \<and> nodeName t = PRODUCT_NAME @ ''-'' @ m \<and>
          settings t = settings ((boot_app e')\<lparr>nodeName := nodeName t, apSsid := ''''\<rparr>) \<and> needSaveConfig t))"
proof -
  obtain u where u: "factory_reset s = Inr (True, u)" "last (app_calls u) = Restart"
    "\<forall>ns. contents (flash_of stored u) ns = (if ns \<in> {''cfg'', ''scenes''} then Map.empty else contents (flash_of stored s) ns)"
    using assms(1) by (simp add: factory_reset_def restart_def call_simps replay_append flash_simps)
  have "\<exists>v. loadScene n (boot_app e') = Inr (replicate MAX_CH 0, v)" if "preferences (contents (flash_of stored u)) e'" for e' n
    using preferences.load_scene_blank [OF that, of "boot_app e'" n] u(3) by (simp add: boot_app_def)
  moreover have "\<exists>t m. loadConfig fw (boot_app e') = Inr ((), t) \<and> nodeName t = PRODUCT_NAME @ ''-'' @ m \<and>
      settings t = settings ((boot_app e')\<lparr>nodeName := nodeName t, apSsid := ''''\<rparr>) \<and> needSaveConfig t"
    if "preferences (contents (flash_of stored u)) e'" for e'
    using preferences.load_blank [OF that, of fw] u(3) assms(3) by simp
  ultimately show ?thesis using u by blast
qed

theorem factory_reset_forgets_witness:
  "\<exists>u. factory_reset (boot_app (flash_board (\<lambda>_ _. Some (P_UChar 1)))) = Inr (True, u) \<and>
     contents (replay (\<lambda>_ _. Some (P_UChar 1)) (app_calls u)) ''cfg'' = Map.empty \<and>
     contents (replay (\<lambda>_ _. Some (P_UChar 1)) (app_calls u)) ''fixtures'' = (\<lambda>_. Some (P_UChar 1))"
proof -
  have "opened (replay (\<lambda>_ _. Some (P_UChar 1)) (app_calls (boot_app (flash_board (\<lambda>_ _. Some (P_UChar 1)))))) = None"
    "c_str ''tag'' = ''tag''" by (simp_all add: boot_app_def c_str_def)
  from factory_reset_forgets [OF this] show ?thesis by (fastforce simp: boot_app_def)
qed

text \<open>
  C40. The stored fixtures can be read back. What \<^verbatim>\<open>saveFixtures\<close> writes, the count and the image of the
  array in memory, \<^verbatim>\<open>loadFixtures\<close> turns back into the same fixtures, name, channels, position and flag;
  a fixture beyond the count is disabled, and the count is at least one.
\<close>

theorem fixtures_survive:
  assumes "opened (replay stored (app_calls s)) = None" "wf_app s" "\<forall>f \<in> set (fixtures s). length (f_name f) = 16"
  shows "\<exists>u. saveFixtures s = Inr ((), u) \<and>
    (\<forall>e'. preferences (contents (replay stored (app_calls u))) e' \<longrightarrow>
       (\<exists>t. loadFixtures (boot_app e') = Inr ((), t) \<and> fixtureCount t = max 1 (fixtureCount s) \<and>
          fixtures t = disable_from (max 1 (fixtureCount s)) (fixtures s)))"
proof -
  have count: "fixtureCount s \<le> 12" "length (fixtures s) = MAX_FIXTURES" using assms(2) by (simp_all add: wf_defs)
  then have n: "constrain (unat (of_nat (fixtureCount s) :: u8)) 1 MAX_FIXTURES = max 1 (fixtureCount s)"
    by (auto simp: constrain_def unat_of_nat)
  obtain u where u: "saveFixtures s = Inr ((), u)"
    "contents (flash_of stored u) ''fixtures'' ''count'' = Some (P_UChar (of_nat (fixtureCount s)))"
    "contents (flash_of stored u) ''fixtures'' ''items'' = Some (P_Bytes (concat (map fixture_bytes (fixtures s))))"
    using assms(1) by (simp add: saveFixtures_def call_simps replay_append flash_simps)
  have "\<exists>t. loadFixtures (boot_app e') = Inr ((), t) \<and> fixtureCount t = max 1 (fixtureCount s) \<and>
      fixtures t = disable_from (max 1 (fixtureCount s)) (fixtures s)"
    if "preferences (contents (flash_of stored u)) e'" for e'
    using preferences.load_fixtures [OF that, of "boot_app e'" "of_nat (fixtureCount s)" "fixtures s"] u(2,3) count(2) assms(3) n
    by (simp add: boot_app_def)
  with u(1) show ?thesis by blast
qed

theorem fixtures_survive_witness:
  "\<exists>u t. saveFixtures (boot_app (flash_board (\<lambda>_ _. None))) = Inr ((), u) \<and>
     loadFixtures (boot_app (flash_board (contents (replay (\<lambda>_ _. None) (app_calls u))))) = Inr ((), t) \<and> fixtureCount t = 4"
proof -
  have s: "opened (replay (\<lambda>_ _. None) (app_calls (boot_app (flash_board (\<lambda>_ _. None))))) = None"
    "\<forall>f \<in> set (fixtures (boot_app (flash_board (\<lambda>_ _. None)))). length (f_name f) = 16"
    by (simp_all add: boot_app_def)
  have "max 1 (fixtureCount (boot_app (flash_board (\<lambda>_ _. None)))) = 4" by (simp add: boot_app_def)
  with fixtures_survive [OF s(1) wf_boot s(2)] show ?thesis using board.preferences_axioms by metis
qed

section \<open>Two tasks\<close>

text \<open>The calls that store one setting.\<close>

fun is_put :: "prefs_call \<Rightarrow> bool" where
  "is_put (Put_String _ _) \<longleftrightarrow> True"
| "is_put (Put_UChar _ _) \<longleftrightarrow> True"
| "is_put (Put_Bool _ _) \<longleftrightarrow> True"
| "is_put _ \<longleftrightarrow> False"

lemma put_effect:
  assumes "is_put p"
  shows "opened (flash_step st (Prefs p)) = opened st" "opened st = None \<Longrightarrow> flash_step st (Prefs p) = st"
  using assms by (cases p; auto simp: flash_simps split: option.split bool.split)+

lemma puts_effect:
  assumes "list_all is_put ps"
  shows "opened (foldl flash_step st (map Prefs ps)) = opened st" "opened st = None \<Longrightarrow> foldl flash_step st (map Prefs ps) = st"
  using assms by (induction ps arbitrary: st) (simp_all add: put_effect)

lemma list_all_parts: "list_all P xs \<Longrightarrow> list_all P (take k xs) \<and> list_all P (drop k xs)"
  by (metis append_take_drop_id list_all_append)

text \<open>
  C25. Two tasks share the preferences object without a lock. When a task that saves the configuration is
  interrupted by one that loads a scene (the main loop does so for a cue or an OSC message), the load
  does not get the namespace of the scenes and then closes that of the configuration: whatever the
  moment, the settings that were not yet written are lost without an error.
\<close>

theorem interrupted_save_loses_settings:
  assumes "opened (replay stored (app_calls s)) = None"
  shows "\<exists>puts. saveConfig fw s = Inr ((), s\<lparr>app_calls := app_calls s @ map Prefs (Prefs_Begin ''cfg'' False # puts @ [Prefs_End])\<rparr>) \<and>
    length puts = 15 \<and>
    (\<forall>k t. app_calls t = app_calls s @ map Prefs (Prefs_Begin ''cfg'' False # take k puts) \<longrightarrow>
       (\<exists>vals u. loadScene n t = Inr (vals, u) \<and>
          contents (replay stored (app_calls u @ map Prefs (drop k puts @ [Prefs_End]))) ''cfg'' =
          contents (replay stored (app_calls t)) ''cfg''))"
proof -
  let ?puts = "[Put_String ''name'' (nodeName s), Put_String ''ap_ssid'' (apSsid s),
       Put_String ''ap_pass'' (apPass s), Put_String ''sta_ssid'' (staSSID s), Put_String ''sta_pass'' (staPass s),
       Put_UChar ''anet_net'' (artNet s), Put_UChar ''anet_sub'' (artSubnet s), Put_UChar ''anet_uni'' (artUni s),
       Put_UChar ''mode'' (mode_code (mode s)), Put_UChar ''net_mode'' (net_mode_code (netMode s)),
       Put_Bool ''ao_en'' (artOutEnabled s), Put_Bool ''web_en'' (webEnabled s),
       Put_Bool ''burn_safe'' (burnSafeMode s), Put_Bool ''anet_fb_web'' (artnetFallbackToWeb s), Put_String ''fw_tag'' fw]"
  define ps where "ps = ?puts"
  have "list_all is_put ps" by (simp add: ps_def)
  then have parts: "list_all is_put (take k ps)" "list_all is_put (drop k ps)" for k
    using list_all_parts by blast+
  have open_cfg: "opened (replay stored (app_calls s @ map Prefs (Prefs_Begin ''cfg'' False # take k ps))) = Some (''cfg'', False)" for k
    using assms puts_effect(1) [OF parts(1) [of k]] by (simp add: replay_append flash_simps)
  have "\<exists>vals u. loadScene n t = Inr (vals, u) \<and>
      contents (replay stored (app_calls u @ map Prefs (drop k ps @ [Prefs_End]))) ''cfg'' = contents (replay stored (app_calls t)) ''cfg''"
    if "app_calls t = app_calls s @ map Prefs (Prefs_Begin ''cfg'' False # take k ps)" for k t
  proof -
    have "opened (flash_of stored t) = Some (''cfg'', False)" using open_cfg [of k] by (simp only: that)
    moreover obtain vals where "loadScene n t = Inr (vals, t\<lparr>app_calls := app_calls t @
        map Prefs [Prefs_Begin ''scenes'' True, Get_Bytes (scene_key n) MAX_CH, Prefs_End]\<rparr>)"
      by (simp add: loadScene_def call_simps)
    ultimately show ?thesis using puts_effect(2) [OF parts(2) [of k]] by (simp add: replay_append flash_simps)
  qed
  moreover have "saveConfig fw s = Inr ((), s\<lparr>app_calls := app_calls s @ map Prefs (Prefs_Begin ''cfg'' False # ps @ [Prefs_End])\<rparr>)"
    by (simp add: saveConfig_def call_simps ps_def)
  moreover have "length ps = 15" by (simp add: ps_def)
  ultimately show ?thesis by blast
qed

theorem interrupted_save_loses_settings_witness:
  "\<exists>puts. saveConfig ''tag'' (boot_app (flash_board (\<lambda>_ _. None))) = Inr ((), (boot_app (flash_board (\<lambda>_ _. None)))\<lparr>app_calls :=
      map Prefs (Prefs_Begin ''cfg'' False # puts @ [Prefs_End])\<rparr>) \<and>
    (\<exists>vals u. loadScene 0 ((boot_app (flash_board (\<lambda>_ _. None)))\<lparr>app_calls := map Prefs (Prefs_Begin ''cfg'' False # take 3 puts)\<rparr>) = Inr (vals, u) \<and>
       contents (replay (\<lambda>_ _. None) (app_calls u @ map Prefs (drop 3 puts @ [Prefs_End]))) ''cfg'' =
       contents (replay (\<lambda>_ _. None) (map Prefs (Prefs_Begin ''cfg'' False # take 3 puts))) ''cfg'')"
proof -
  have boot: "app_calls (boot_app (flash_board (\<lambda>_ _. None))) = []" by (simp add: boot_app_def)
  have "opened (replay (\<lambda>_ _. None) (app_calls (boot_app (flash_board (\<lambda>_ _. None))))) = None" by (simp add: boot)
  from interrupted_save_loses_settings [OF this, of "''tag''" 0] show ?thesis unfolding boot by fastforce
qed

end
