(* ===== verification/Vizzz_Fleet.thy ===== *)
theory Vizzz_Fleet
  imports Vizzz_Invariant
begin

text \<open>
  The fleet finds itself: the beacon that one node sends is read by another one, which lists the sender
  under its name and address. The first part shows that the search for a key in a beacon finds the
  field with that key and no other place of the text.
\<close>

section \<open>What a beacon says\<close>

definition quote_free :: "string \<Rightarrow> bool" where
  "quote_free s \<longleftrightarrow> CHR 0x22 \<notin> set s"

definition search_key :: "string \<Rightarrow> string" where
  "search_key key = CHR 0x22 # key @ [CHR 0x22, CHR '':'', CHR 0x22]"

lemma starts_prefix: "starts_with s p \<longleftrightarrow> prefix p s"
  by (auto simp: starts_with_def prefix_def) (metis append_take_drop_id)

lemma strstr_skip: "quote_free v \<Longrightarrow> strstr (v @ ys) (search_key key) = strstr ys (search_key key)"
  by (induction v) (auto simp: quote_free_def search_key_def starts_with_def)

lemma starts_quoted:
  assumes "quote_free v" "quote_free key"
  shows "starts_with (CHR 0x22 # v @ CHR 0x22 # ys) (search_key key) \<longleftrightarrow> v = key \<and> starts_with ys [CHR '':'', CHR 0x22]"
proof -
  have "prefix (key @ CHR 0x22 # zs) (v @ CHR 0x22 # ys) \<longleftrightarrow> v = key \<and> prefix zs ys" for zs
    using assms
  proof (induction v arbitrary: key)
    case Nil
    then show ?case by (cases key) (auto simp: quote_free_def)
  next
    case (Cons c v)
    then show ?case by (cases key) (auto simp: quote_free_def)
  qed
  from this [of "[CHR '':'', CHR 0x22]"] show ?thesis by (simp add: starts_prefix search_key_def)
qed

lemma field_search:
  assumes "quote_free k" "quote_free v" "quote_free key" "key \<noteq> '':''" "\<not> starts_with ys '':''"
  shows "strstr (json_field k v @ ys) (search_key key) =
    (if k = key then Some (json_field k v @ ys) else strstr (CHR 0x22 # ys) (search_key key))"
proof -
  let ?S = "search_key key"
  have skip: "strstr (CHR 0x22 # w @ CHR 0x22 # zs) ?S = strstr (CHR 0x22 # zs) ?S"
    if "quote_free w" "\<not> (w = key \<and> starts_with zs [CHR '':'', CHR 0x22])" for w zs
  proof -
    have "\<not> starts_with (CHR 0x22 # w @ CHR 0x22 # zs) ?S" using that starts_quoted [OF that(1) assms(3), of zs] by blast
    then show ?thesis using strstr_skip [OF that(1), of "CHR 0x22 # zs" key] by simp
  qed
  have field: "json_field k v @ ys = CHR 0x22 # k @ CHR 0x22 # CHR '':'' # CHR 0x22 # v @ CHR 0x22 # ys"
    by (simp add: json_field_def quoted_def)
  show ?thesis
  proof (cases "k = key")
    case True
    then have "starts_with (json_field k v @ ys) ?S"
      unfolding field
      using starts_quoted [OF assms(1,3), of "CHR '':'' # CHR 0x22 # v @ CHR 0x22 # ys"] by (simp add: starts_prefix)
    then show ?thesis using True unfolding field by simp
  next
    case False
    have "\<not> starts_with ys [CHR '':'', CHR 0x22]" using assms(5) by (auto simp: starts_prefix prefix_def)
    then show ?thesis
      using False skip [OF assms(1), of "CHR '':'' # CHR 0x22 # v @ CHR 0x22 # ys"]
        skip [of "'':''" "v @ CHR 0x22 # ys"] skip [OF assms(2), of ys] assms(4)
      by (simp add: field quote_free_def)
  qed
qed

lemma field_extract:
  assumes "quote_free k" "quote_free v" "length k < 44"
  shows "strstr json (search_key k) = Some (json_field k v @ ys) \<Longrightarrow> jsonExtract json k n = Some (take (n - 1) v)"
proof -
  have "takeWhile (\<lambda>c. c \<noteq> CHR 0x22) (v @ CHR 0x22 # ys) = v" 
    using assms(2) by (simp add: takeWhile_append quote_free_def takeWhile_eq_all_conv)
  then show "strstr json (search_key k) = Some (json_field k v @ ys) \<Longrightarrow> jsonExtract json k n = Some (take (n - 1) v)"
    using assms(3) by (simp add: jsonExtract_def Let_def search_key_def json_field_def quoted_def)
qed

lemma extract_here: "quote_free k \<Longrightarrow> quote_free v \<Longrightarrow> quote_free key \<Longrightarrow> key \<noteq> '':'' \<Longrightarrow> key \<noteq> '','' \<Longrightarrow>
    quote_free k' \<Longrightarrow> k \<noteq> key \<Longrightarrow>
  strstr (json_field k v @ '','' @ json_field k' v' @ ys) (search_key key) = strstr (json_field k' v' @ ys) (search_key key)"
proof -
  assume a: "quote_free k" "quote_free v" "quote_free key" "key \<noteq> '':''" "key \<noteq> '',''" "quote_free k'" "k \<noteq> key"
  let ?zs = "k' @ CHR 0x22 # CHR '':'' # quoted v' @ ys"
  have f: "json_field k' v' @ ys = CHR 0x22 # ?zs" by (simp add: json_field_def quoted_def)
  have "\<not> starts_with (CHR 0x22 # '','' @ CHR 0x22 # ?zs) (search_key key)"
    using starts_quoted [of "'',''" key ?zs] a by (auto simp: quote_free_def)
  then have "strstr (CHR 0x22 # '','' @ json_field k' v' @ ys) (search_key key) = strstr (json_field k' v' @ ys) (search_key key)"
    using strstr_skip [of "'',''" "json_field k' v' @ ys" key] by (simp add: f quote_free_def)
  moreover have "\<not> starts_with ('','' @ json_field k' v' @ ys) '':''" by (simp add: starts_with_def)
  ultimately show ?thesis using field_search [OF a(1-4)] a(7) by simp
qed

text \<open>The fields of a beacon are found by their keys when no text contains a quote.\<close>

lemma beacon_fields:
  assumes "quote_free name" "quote_free ip" "quote_free ssid" "quote_free mdns" "quote_free mac"
  shows "jsonExtract (beacon_text name ip ssid mdns mac) ''name'' n = Some (take (n - 1) name)"
    "jsonExtract (beacon_text name ip ssid mdns mac) ''ip'' n = Some (take (n - 1) ip)"
    "jsonExtract (beacon_text name ip ssid mdns mac) ''mdns'' n = Some (take (n - 1) (mdns @ ''.local''))"
    "jsonExtract (beacon_text name ip ssid mdns mac) ''mac'' n = Some (take (n - 1) mac)"
proof -
  have keys: "quote_free ''name''" "quote_free ''ip''" "quote_free ''ap_ssid''" "quote_free ''mdns''" "quote_free ''mac''"
    "quote_free ''product''" "quote_free ''{''" "quote_free (mdns @ ''.local'')" using assms(4) by (simp_all add: quote_free_def)
  let ?f6 = "json_field ''product'' ''vizzz.di'' @ ''}''"
  let ?f5 = "json_field ''mac'' mac @ '','' @ ?f6"
  let ?f4 = "json_field ''mdns'' (mdns @ ''.local'') @ '','' @ ?f5"
  let ?f3 = "json_field ''ap_ssid'' ssid @ '','' @ ?f4"
  let ?f2 = "json_field ''ip'' ip @ '','' @ ?f3"
  let ?f1 = "json_field ''name'' name @ '','' @ ?f2"
  have brace: "strstr (beacon_text name ip ssid mdns mac) (search_key key) = strstr ?f1 (search_key key)" for key
    using strstr_skip [OF keys(7), of ?f1 key] by (simp add: beacon_text_def)
  have here: "strstr (json_field k v @ '','' @ ys) (search_key k) = Some (json_field k v @ '','' @ ys)"
    if "quote_free k" "quote_free v" "k \<noteq> '':''" for k v ys
    using field_search [OF that(1,2,1,3), of "'','' @ ys"] by (simp add: starts_with_def)
  show "jsonExtract (beacon_text name ip ssid mdns mac) ''name'' n = Some (take (n - 1) name)"
    by (rule field_extract [OF keys(1) assms(1)], simp)
      (simp add: brace keys assms here del: strstr.simps append_Cons)
  show "jsonExtract (beacon_text name ip ssid mdns mac) ''ip'' n = Some (take (n - 1) ip)"
    by (rule field_extract [OF keys(2) assms(2)], simp)
      (simp add: brace extract_here keys assms here del: strstr.simps append_Cons)
  show "jsonExtract (beacon_text name ip ssid mdns mac) ''mdns'' n = Some (take (n - 1) (mdns @ ''.local''))"
    by (rule field_extract [OF keys(4,8)], simp)
      (simp add: brace extract_here keys assms here del: strstr.simps append_Cons)
  show "jsonExtract (beacon_text name ip ssid mdns mac) ''mac'' n = Some (take (n - 1) mac)"
    by (rule field_extract [OF keys(5) assms(5)], simp)
      (simp add: brace extract_here keys assms here del: strstr.simps append_Cons)
qed

text \<open>Texts that need no escapes, and the characters of an address.\<close>

definition plain_text :: "string \<Rightarrow> bool" where
  "plain_text s \<longleftrightarrow> list_all (\<lambda>c. c \<noteq> CHR 0x22 \<and> c \<noteq> CHR 0x5C \<and> 0x20 \<le> (of_char c :: nat)) s"

lemma plain_json:
  assumes "plain_text name" "length name + 3 < n"
  shows "jsonEsc n name = Inr name"
proof -
  have "json_esc_loop n dst name = dst @ name" if "length dst + length name + 3 < n" for dst
    using assms(1) that
  proof (induction name arbitrary: dst)
    case (Cons c name)
    have c: "c \<noteq> CHR 0x22" "c \<noteq> CHR 0x5C" "\<not> (of_char c :: nat) < 0x20" "plain_text name"
      using Cons.prems(1) by (simp_all add: plain_text_def list_all_iff)
    from c(3) have "c \<noteq> CHR 0x0A" "c \<noteq> CHR 0x0D" "c \<noteq> CHR 0x09" by auto
    with c have "json_piece n (length dst) c = [c]" by (simp add: json_piece_def)
    then show ?case using Cons.IH [OF c(4), of "dst @ [c]"] Cons.prems by simp
  qed simp
  from this [of "[]"] assms(2) show ?thesis by (simp add: jsonEsc_def Let_def)
qed

lemma unat_of_char: "unat (of_char c :: u8) = of_char c"
proof -
  have "unat (of_nat (of_char c) :: u8) = of_char c mod 256" by (subst unat_of_nat) simp
  then show ?thesis by (simp only: of_nat_of_char of_char_mod_256)
qed

lemma string_bytes_back: "map (\<lambda>b. char_of (unat b)) (string_bytes s) = s"
  by (simp add: string_bytes_def unat_of_char comp_def)

lemma strstr_found: "strstr (xs @ key @ ys) key \<noteq> None"
proof (induction xs)
  case Nil
  have "starts_with (key @ ys) key" by (simp add: starts_prefix)
  then show ?case by (cases "key @ ys") (simp_all split: if_splits)
qed (auto simp: starts_prefix)

lemma c_str_free: "CHR 0x00 \<notin> set s \<Longrightarrow> c_str s = s"
  by (auto simp: c_str_def takeWhile_eq_all_conv)

lemma plain_facts: "plain_text s \<Longrightarrow> quote_free s" "plain_text s \<Longrightarrow> CHR 0x00 \<notin> set s"
proof -
  show "quote_free s" if "plain_text s" using that by (auto simp: plain_text_def quote_free_def list_all_iff)
  have "\<not> 0x20 \<le> (of_char (CHR 0x00) :: nat)" by simp
  then show "CHR 0x00 \<notin> set s" if "plain_text s" using that unfolding plain_text_def list_all_iff by blast
qed

lemma plain_append [simp]: "plain_text (s @ t) \<longleftrightarrow> plain_text s \<and> plain_text t" "plain_text (CHR ''.'' # t) \<longleftrightarrow> plain_text t"
  by (simp_all add: plain_text_def)

lemma plain_dec: "plain_text (dec n)"
proof (induction n rule: dec.induct)
  case (1 n)
  have digit: "plain_text [''0123456789'' ! k]" if "k < 10" for k
    using that by (simp add: plain_text_def eval_nat_numeral less_Suc_eq) (elim disjE; simp)
  show ?case using 1 digit [of n] digit [of "n mod 10"] by (subst dec.simps) auto
qed

lemma plain_ipStr: "plain_text (ipStr ip)" "ipStr ip \<noteq> ''''" "length (ipStr ip) \<le> 15"
proof -
  obtain a b c d where ip: "le32 ip = [a, b, c, d]" by (simp add: le32_def)
  show "plain_text (ipStr ip)" by (simp add: ipStr_def ip plain_dec)
  show "ipStr ip \<noteq> ''''" by (simp add: ipStr_def ip)
  show "length (ipStr ip) \<le> 15"
    using length_dec_u8 [of a] length_dec_u8 [of b] length_dec_u8 [of c] length_dec_u8 [of d] by (simp add: ipStr_def ip)
qed

section \<open>From node to node\<close>

text \<open>A node that is connected, with the answers of its network, and a node that hears it.\<close>

definition announces :: "app \<Rightarrow> string \<Rightarrow> int \<Rightarrow> bool" where
  "announces a mac addr \<longleftrightarrow>
     (\<forall>cs. a_code (app_env a cs (Wifi Wifi_Status)) = WL_CONNECTED \<and> a_text (app_env a cs (Wifi Wifi_Mac)) = mac \<and>
        a_code (app_env a cs (Wifi Wifi_Local_Ip)) = addr) \<and>
     plain_text (nodeName a) \<and> nodeName a \<noteq> '''' \<and> length (nodeName a) < 40 \<and> plain_text (apSsid a) \<and> length (apSsid a) < 60 \<and>
     plain_text (mdnsName a) \<and> plain_text mac \<and> mac \<noteq> '''' \<and> length mac < 18 \<and>
     length (beacon_text (nodeName a) (ipStr (of_int addr)) (apSsid a) (mdnsName a) mac) < 240"

definition listens :: "app \<Rightarrow> string \<Rightarrow> int \<Rightarrow> bool" where
  "listens b mac addr \<longleftrightarrow>
     (\<forall>cs. a_code (app_env b cs (Net (Udp_Remote_Ip Discover))) = addr \<and> a_code (app_env b cs (Sem_Take 5)) \<noteq> 0 \<and>
        \<not> same_nocase mac (a_text (app_env b cs (Wifi Wifi_Mac)))) \<and>
     (length (peers b) < MAX_PEERS \<or> list_ex (\<lambda>p. same_nocase (pr_mac p) mac) (peers b))"

lemma plain_beacon:
  "plain_text name \<Longrightarrow> plain_text ip \<Longrightarrow> plain_text ssid \<Longrightarrow> plain_text mdns \<Longrightarrow> plain_text mac \<Longrightarrow> CHR 0x00 \<notin> set (beacon_text name ip ssid mdns mac)"
  using plain_facts(2) by (auto simp: beacon_text_def json_field_def quoted_def)

lemma beacon_product: "strstr (beacon_text name ip ssid mdns mac) ''vizzz.di'' \<noteq> None"
proof -
  have "beacon_text name ip ssid mdns mac = (''{'' @ json_field ''name'' name @ '','' @ json_field ''ip'' ip @ '','' @
     json_field ''ap_ssid'' ssid @ '','' @ json_field ''mdns'' (mdns @ ''.local'') @ '','' @
     json_field ''mac'' mac @ '','' @ quoted ''product'' @ '':'' @ [CHR 0x22]) @ ''vizzz.di'' @ [CHR 0x22] @ ''}''"
    by (simp add: beacon_text_def json_field_def [of "''product''"] quoted_def)
  then show ?thesis using strstr_found by metis
qed

lemma send_beacon:
  assumes "announces a mac addr"
  shows "\<exists>a' bcast. sendBeacon a = Inr ((), a') \<and> last (app_calls a') = Net (Udp_Send Discover bcast DISCOVERY_PORT
    (string_bytes (beacon_text (nodeName a) (ipStr (of_int addr)) (apSsid a) (mdnsName a) mac)))"
proof -
  let ?t = "beacon_text (nodeName a) (ipStr (of_int addr)) (apSsid a) (mdnsName a) mac"
  have esc: "jsonEsc 64 (nodeName a) = Inr (nodeName a)" "jsonEsc 64 (apSsid a) = Inr (apSsid a)"
    using assms by (auto intro!: plain_json simp: announces_def)
  have "CHR 0x00 \<notin> set ?t" using assms plain_ipStr(1) by (intro plain_beacon) (simp_all add: announces_def)
  then have t: "take 239 (c_str ?t) = ?t" using assms by (simp add: announces_def c_str_free)
  show ?thesis
    using assms esc t by (simp add: sendBeacon_def broadcast_ip_def announces_def call_simps lift_c_def Let_def)
qed

interpretation same_peers: app_invariant "\<lambda>s. peers s = ps"
  by unfold_locales simp

lemma hear_beacon:
  assumes "announces a mac addr" "listens b mac addr"
  shows "\<exists>b' now. beacon_packet junk (string_bytes (beacon_text (nodeName a) (ipStr (of_int addr)) (apSsid a) (mdnsName a) mac)) b = Inr ((), b') \<and>
    peers b' = update_peers (peer_entry (nodeName a) (ipStr (of_int addr)) (take 47 (mdnsName a @ ''.local'')) mac now)
      (ipStr (of_int addr)) mac (peers b)"
proof -
  let ?ip = "ipStr (of_int addr)"
  let ?t = "beacon_text (nodeName a) ?ip (apSsid a) (mdnsName a) mac"
  note a = assms(1) [unfolded announces_def] and b = assms(2) [unfolded listens_def]
  have "CHR 0x00 \<notin> set ?t" using a plain_ipStr(1) by (intro plain_beacon) simp_all
  then have buf: "c_str (map (\<lambda>b. char_of (unat b)) (string_bytes ?t)) = ?t" "string_bytes ?t \<noteq> []"
    by (simp_all add: string_bytes_back c_str_free) (simp add: string_bytes_def beacon_text_def)
  have fields: "jsonExtract ?t ''name'' 40 = Some (nodeName a)" "jsonExtract ?t ''ip'' 16 = Some ?ip"
    "jsonExtract ?t ''mdns'' 48 = Some (take 47 (mdnsName a @ ''.local''))" "jsonExtract ?t ''mac'' 18 = Some mac"
    using a plain_facts(1) plain_ipStr by (simp_all add: beacon_fields)
  obtain rest where product: "strstr ?t ''vizzz.di'' = Some rest" using beacon_product by blast
  let ?e = "\<lambda>now. peer_entry (nodeName a) ?ip (take 47 (mdnsName a @ ''.local'')) mac now"
  have beacon: "\<exists>s'. sendBeacon s = Inr ((), s') \<and> peers s' = peers s" for s
    using same_peers.runs_sendBeacon [of "peers s"] by (auto simp: runs_def)
  define b1 where "b1 = b\<lparr>app_calls := app_calls b @ [Net (Udp_Remote_Ip Discover), Wifi Wifi_Mac]\<rparr>"
  define now where "now = (of_int (a_code (app_env b (app_calls b1) Millis)) :: u32)"
  define b2 where "b2 = b1\<lparr>peers := update_peers (?e now) ?ip mac (peers b), app_calls := app_calls b1 @ [Millis, Sem_Take 5, Sem_Give]\<rparr>"
  have "beacon_packet junk (string_bytes ?t) b = sendBeacon b2"
    unfolding beacon_packet_def Let_def buf(1)
    using a b buf(2) product fields plain_ipStr(2)
    by (simp add: call_simps locked_def b2_def b1_def now_def)
  then show ?thesis using beacon [of b2] by (auto simp: b2_def)
qed

text \<open>
  C13. Nodes find each other. When a connected node with a plain name sends its beacon, the packet that it
  broadcasts makes every node that hears it, with room in its table or an entry for the sender, list the
  sender exactly once, with its name, host name and address as they are and the time of the beacon; no
  other entry for the same MAC address remains, in whatever case it was written.
\<close>

theorem beacon_lists_sender:
  assumes "announces a mac addr" "listens b mac addr" "wf_app b"
  shows "\<exists>a' bcast pkt b' now. sendBeacon a = Inr ((), a') \<and> last (app_calls a') = Net (Udp_Send Discover bcast DISCOVERY_PORT pkt) \<and>
    beacon_packet junk pkt b = Inr ((), b') \<and>
    filter (\<lambda>p. same_nocase (pr_mac p) mac) (peers b') = [\<lparr>pr_name = nodeName a, pr_ip = ipStr (of_int addr),
      pr_mdns = take 47 (mdnsName a @ ''.local''), pr_mac = mac, pr_lastSeenMs = now\<rparr>] \<and>
    length (peers b') \<le> MAX_PEERS"
proof -
  let ?ip = "ipStr (of_int addr)" and ?mdns = "take 47 (mdnsName a @ ''.local'')"
  obtain b' now where b': "beacon_packet junk (string_bytes (beacon_text (nodeName a) ?ip (apSsid a) (mdnsName a) mac)) b = Inr ((), b')"
    "peers b' = update_peers (peer_entry (nodeName a) ?ip ?mdns mac now) ?ip mac (peers b)"
    using hear_beacon [OF assms(1,2)] by blast
  have mac: "mac \<noteq> ''''" "length mac < 18" "length (nodeName a) < 40" using assms(1) by (simp_all add: announces_def)
  have entry: "peer_entry (nodeName a) ?ip ?mdns mac now =
      \<lparr>pr_name = nodeName a, pr_ip = ?ip, pr_mdns = ?mdns, pr_mac = mac, pr_lastSeenMs = now\<rparr>"
    using mac plain_ipStr(3) by (simp add: peer_entry_def strlcpy_def del: take_append)
  have "distinct_macs (peers b)" "length (peers b) \<le> MAX_PEERS" using assms(3) by (simp_all add: wf_defs)
  moreover have "peer_matches ?ip mac = (\<lambda>p. same_nocase (pr_mac p) mac)" using mac by (simp add: peer_matches_def fun_eq_iff)
  then have "length (peers b) < MAX_PEERS \<or> list_ex (peer_matches ?ip mac) (peers b)" using assms(2) by (simp add: listens_def)
  ultimately have "filter (\<lambda>p. same_nocase (pr_mac p) mac) (peers b') = [peer_entry (nodeName a) ?ip ?mdns mac now]"
    "length (peers b') \<le> MAX_PEERS"
    unfolding b'(2) using mac one_entry wf_peers by blast+
  then show ?thesis using send_beacon [OF assms(1)] b'(1) unfolding entry by blast
qed

definition beacon_node :: "string \<Rightarrow> app" where
  "beacon_node mac = (boot_app (\<lambda>cs c. Answer (if c = Wifi Wifi_Status then 3 else 0x0a000001) [] mac))\<lparr>mdnsName := ''left''\<rparr>"

theorem beacon_lists_sender_witness:
  "\<exists>a' bcast pkt b' now. sendBeacon (beacon_node ''AA:01'') = Inr ((), a') \<and>
     last (app_calls a') = Net (Udp_Send Discover bcast DISCOVERY_PORT pkt) \<and>
     beacon_packet '''' pkt (beacon_node ''AA:02'') = Inr ((), b') \<and>
     filter (\<lambda>p. same_nocase (pr_mac p) ''AA:01'') (peers b') = [\<lparr>pr_name = ''vizzz.di'', pr_ip = ipStr 0x0a000001,
       pr_mdns = ''left.local'', pr_mac = ''AA:01'', pr_lastSeenMs = now\<rparr>]"
proof -
  have "length (beacon_text ''vizzz.di'' (ipStr 0x0a000001) ''vizzz.di'' ''left'' ''AA:01'') < 240"
    using plain_ipStr(3) [of "0x0a000001"] by (simp add: beacon_text_def json_field_def quoted_def)
  then have a: "announces (beacon_node ''AA:01'') ''AA:01'' 0x0a000001"
    by (simp add: announces_def beacon_node_def boot_app_def PRODUCT_NAME_def AP_SSID_PREFIX_def plain_text_def)
  have b: "listens (beacon_node ''AA:02'') ''AA:01'' 0x0a000001"
    by (simp add: listens_def beacon_node_def boot_app_def same_nocase_def lower_case_def)
  have wf: "wf_app (beacon_node ''AA:02'')"
    using wf_boot [of "\<lambda>cs c. Answer (if c = Wifi Wifi_Status then 3 else 0x0a000001) [] ''AA:02''"]
    by (simp add: beacon_node_def wf_defs)
  have names: "nodeName (beacon_node m) = ''vizzz.di''" "take 47 (mdnsName (beacon_node m) @ ''.local'') = ''left.local''" for m
    by (simp_all add: beacon_node_def boot_app_def PRODUCT_NAME_def)
  from beacon_lists_sender [OF a b wf, of "''''"] show ?thesis unfolding names by auto
qed

end
