(* ===== verification/Spec2Isabelle.thy ===== *)
theory Spec2Isabelle
  imports Rdm_Responder Rdm_Discovery Vizzz_Wire Vizzz_Store Vizzz_Fleet
begin

text \<open>
  \<^bold>\<open>The program.\<close> \<^verbatim>\<open>vi_di_li\<close> is the firmware of an ESP32 node that turns web, Art-Net, sACN and OSC input
  into DMX512. It consists of the library \<^verbatim>\<open>lib/esp_dmx\<close>, a driver for DMX512 and RDM (\<^verbatim>\<open>dmx/\<close>, \<^verbatim>\<open>rdm/\<close> below
  are its directories under \<^verbatim>\<open>src/lib/esp_dmx/src\<close>), and of the application \<^verbatim>\<open>src/main.cpp\<close> with the helpers
  in \<^verbatim>\<open>include/vizzz_core.h\<close>. The application computes a frame of 512 levels every 23 milliseconds and calls
  \<^verbatim>\<open>dmx_write\<close>, \<^verbatim>\<open>dmx_send\<close> and \<^verbatim>\<open>dmx_wait_sent\<close>; the driver's interrupt handlers move the frame to the UART.
  The library is also an RDM responder and controller: packets are parsed and built by \<^verbatim>\<open>rdm/driver.c\<close>,
  requests are dispatched to handlers that read and write parameters, and a controller finds the
  devices on the bus by a binary search.

  \<^bold>\<open>How code becomes definitions.\<close> A function that changes state is a command, a function from a state to a fault
  or a result with the next state (\<open>Prelude\<close>). A fault is what C leaves undefined or traps: a failed
  assertion, a null pointer, an access outside of an object, a division by zero, a loop that does not
  end. Integers keep their width (\<open>u8\<close>, \<open>u16\<close>, \<open>u32\<close>) wherever they can wrap around. The library works on
  \<open>world\<close> (drivers, heap, timers), the application on \<open>app\<close>, whose fields are its file-scope variables.
  Vendor code (FreeRTOS, the UART, timers, non-volatile storage, WiFi, the web server, UDP) is not
  defined: a call of it is recorded in the state and answered by an environment, a function of the
  history of calls about which nothing is assumed unless a theorem says so. While a task of the library
  blocks, the environment may deliver interrupts, which run the modelled handlers.

  \<^bold>\<open>The library.\<close>
  \<^item> \<open>Rdm_Types\<close> (\<^verbatim>\<open>rdm/include/types.h\<close>, \<^verbatim>\<open>uid.h\<close>, \<^verbatim>\<open>dmx/include/types.h\<close>): constants, packed structs with their
    bytes in memory, UIDs as a linear order; the comparisons of UIDs are those of 48-bit numbers.
  \<^item> \<open>Rdm_Format\<close>, \<open>Rdm_Driver\<close> (\<^verbatim>\<open>rdm/driver.c\<close>): the format language of parameter data and its encoder; reading
    and writing packets. Round trips of formats, texts, packets and discovery responses; rejection of
    damaged packets and of bad headers; the defects of format validity.
  \<^item> \<open>Dmx_Service\<close>, \<open>Dmx_Parameter\<close>, \<open>Dmx_Hal\<close> (\<^verbatim>\<open>dmx/service.c\<close>, \<^verbatim>\<open>dmx/parameter.c\<close>, \<^verbatim>\<open>dmx/hal/\<close>): the state of a driver,
    the table of parameters with their data on the heap, storage, and the wrappers of the hardware. The
    table stays well-formed, adding and setting do what a map from PIDs to values would do, commit
    stores one staged value; the storage keys and an index off by one.
  \<^item> \<open>Dmx_Driver\<close>, \<open>Dmx_Io\<close>, \<open>Dmx_Isr\<close>, \<open>Dmx_Transfer\<close> (\<^verbatim>\<open>dmx/driver.c\<close>, \<^verbatim>\<open>dmx/sniffer.c\<close>, \<^verbatim>\<open>dmx/io.c\<close>, the handlers in
    \<^verbatim>\<open>dmx/hal/uart.c\<close>, \<^verbatim>\<open>timer.c\<close> and \<^verbatim>\<open>gpio.c\<close>): installation, sending, receiving and the interrupt handlers. \<open>tx_step\<close> is
    the state machine of sending: a prefix of the packet is on the wire in every reachable state, and
    with room in the FIFO the whole packet gets there. Receiving never faults and appends what arrives.
  \<^item> \<open>Rdm_Utils\<close>, \<open>Rdm_Queue\<close>, \<open>Rdm_Handlers\<close>, \<open>Rdm_Setup\<close>, \<open>Rdm_Sensor\<close>, \<open>Rdm_Product\<close>, \<open>Rdm_Info\<close>, \<open>Rdm_Responder\<close>
    (\<^verbatim>\<open>rdm/responder.c\<close>, \<^verbatim>\<open>rdm/responder/\<close>, \<^verbatim>\<open>dmx/device.c\<close>): the responder with its handlers. The queue refines a
    FIFO queue without duplicates, with the scan that does not end; the reported parameters are those
    of the table, except in the getter that gets stuck; a GET request is answered with the value of the
    parameter, a request for an unknown parameter is refused, and both responses can be read.
  \<^item> \<open>Rdm_Controller\<close>, \<open>Rdm_Discovery\<close> (\<^verbatim>\<open>rdm/controller/\<close>): requests and discovery. The search ends, within the
    stack of 49 branches, and finds every device on a bus that answers as the standard prescribes.

  \<^bold>\<open>The application\<close> (\<^verbatim>\<open>src/main.cpp\<close>).
  \<^item> \<open>Vizzz_Core\<close> (\<^verbatim>\<open>include/vizzz_core.h\<close>): universes, dimming and the slew limiter, which reaches its target.
  \<^item> \<open>Vizzz_State\<close>: constants, structs, the state, configuration and fixtures in the preferences store.
  \<^item> \<open>Vizzz_Show\<close>: scenes, fades, cues, effects, colour, the output. The safety ceiling and the slew limit
    hold for any sequence of frames; fades are monotone and end at their target; effects only dim; the
    level that is held after a loss of input decays.
  \<^item> \<open>Vizzz_Text\<close>, \<open>Vizzz_Net\<close>, \<open>Vizzz_Peers\<close>: JSON strings, the filter of peer commands, Art-Net, sACN, OSC,
    beacons and the table of peers. Escaped texts are read back; a command to a peer cannot be forged;
    what one node sends by Art-Net another one on the same universe reads.
  \<^item> \<open>Vizzz_Web\<close>, \<open>Vizzz_Report\<close>, \<open>Vizzz_Loop\<close>: the routes that change the state, the reports, start-up and the
    main loop. Which reports are always complete and which one can be cut.
  \<^item> \<open>Vizzz_Invariant\<close>: \<open>wf_app\<close> is kept by every event, and no event faults; start-up ends.
  \<^item> \<open>Vizzz_Flash\<close>, \<open>Vizzz_Store\<close>: persistence. The stored configuration is the running one between any two
    events, so that it survives a loss of power; a saved scene stays; what a factory reset forgets; the
    image of the fixtures is read back; what is lost when two tasks use the storage at once.
  \<^item> \<open>Vizzz_Fleet\<close>: the beacon of one node puts it, once, into the table of every node that hears it.
  \<^item> \<open>Vizzz_Wire\<close>: the two models together; a frame that the application computes reaches the UART.

  \<^bold>\<open>Interfaces.\<close> The locales state what a client relies on: the queue of PIDs (\<open>pid_queue\<close>), the parameter store of
  \<open>Dmx_Parameter\<close> (\<open>shared_cells\<close>), the receive handlers of \<open>Dmx_Transfer\<close> (\<open>receive_invariant\<close>), the commands of the
  application that only talk to libraries (\<open>app_invariant\<close>) and the events of a node with respect to its
  flash (\<open>storage\<close>); each is interpreted on the model. \<open>preferences\<close> is the contract of the storage library, which
  is not part of the sources: a read returns what the history of writes left. It is interpreted on the
  board that replays this history.

  \<^bold>\<open>Bounds and fuel.\<close> A C loop with a bound of its own is a recursion over that bound. The retries of discovery are
  three, as in the code; \<open>disc_loop\<close> is a partial function whose termination is a theorem. The
  wait for the WiFi connection takes its number of rounds as an argument; 101 rounds are enough when
  the clock runs, since every round delays 100 milliseconds and the code gives up after ten seconds.
  The counting loop of \<open>Rdm_Info\<close> has the number of entries and two rounds as fuel.

  \<^bold>\<open>Concurrency.\<close> The driver's critical sections and the application's lock are taken as such: an interrupt
  arrives between two sections or while a task blocks, a web request between two steps of the loop. Two
  handlers of the application that would interleave inside an unlocked section are not modelled, except
  for the calls of the storage library, where the effect of such an interleaving is shown.

  \<^bold>\<open>Not modelled.\<close> The console page (HTML and JavaScript), output to the serial port, the start of the web server,
  and the sweep of the radar effect, whose floating-point computation is an argument about which
  nothing is assumed. Header files that only declare functions have no definition of their own.
\<close>

end
